(* ===== verification/Prelude.thy ===== *)
theory Prelude
  imports Complex_Main "HOL-Library.Char_ord" "HOL-Library.List_Lexorder" "HOL-Library.AList"
    "HOL-Library.Word"
begin

text \<open>
  The shared base of the development: Go's values as HOL values, and the part of Go's standard
  library that the operator uses, as executable definitions.

  \<^item> A Go string is a byte string: \<open>string\<close>, a list of \<open>char\<close>, a \<open>char\<close> being one byte.
    Literals outside ASCII are written byte by byte.
  \<^item> A Go \<open>int\<close> is an \<open>int\<close>; \<open>int64_range\<close> says when it fits, and the parsers that can fail on
    the range check it.
  \<^item> A \<open>float64\<close> is a \<open>gofloat\<close>: NaN, the two infinities, or a rational. Signed zeros are one
    value: no code modelled here tells them apart.
  \<^item> A Go map is an association list (\<open>gomap\<close>) whose order is the order in which the runtime
    happens to iterate; \<open>distinct (map fst m)\<close> is its well-formedness.
  \<^item> A function that returns \<open>(T, error)\<close> returns \<open>string + T\<close>: \<open>Inl\<close> of the error's message, or
    \<open>Inr\<close> of the value.
\<close>

named_theorems str_simps "rewrite rules for the byte-string functions"
named_theorems map_simps "rewrite rules for Go maps"

subsection \<open>Results\<close>

type_synonym 'a result = "string + 'a"

definition is_ok :: "'e + 'a \<Rightarrow> bool" where
  "is_ok r = (case r of Inl _ \<Rightarrow> False | Inr _ \<Rightarrow> True)"

lemma is_ok_simps [simp]: "is_ok (Inl e) = False" "is_ok (Inr x) = True"
  by (simp_all add: is_ok_def)

lemma is_ok_iff: "is_ok r \<longleftrightarrow> (\<exists>x. r = Inr x)" "\<not> is_ok r \<longleftrightarrow> (\<exists>e. r = Inl e)"
  by (cases r; simp)+

lemma is_okE:
  assumes "is_ok r"
  obtains x where "r = Inr x"
  using assms by (cases r) simp_all

subsection \<open>Integers\<close>

definition int64_range :: "int \<Rightarrow> bool" where
  "int64_range n \<longleftrightarrow> - (2 ^ 63) \<le> n \<and> n < 2 ^ 63"

text \<open>The conversion \<open>int32(n)\<close> keeps the low 32 bits.\<close>

definition to_int32 :: "int \<Rightarrow> int" where
  "to_int32 n = (n + 2 ^ 31) mod 2 ^ 32 - 2 ^ 31"

lemma to_int32_id: "- (2 ^ 31) \<le> n \<Longrightarrow> n < 2 ^ 31 \<Longrightarrow> to_int32 n = n"
  by (simp add: to_int32_def)

lemma to_int32_bounds: "- (2 ^ 31) \<le> to_int32 n" "to_int32 n < 2 ^ 31"
  by (simp_all add: to_int32_def)

subsection \<open>Decimal integers: \<open>%d\<close>, \<open>strconv.Itoa\<close> and \<open>strconv.Atoi\<close>\<close>

definition digit_char :: "nat \<Rightarrow> char" where
  "digit_char d = char_of (48 + d)"

definition is_digit :: "char \<Rightarrow> bool" where
  "is_digit c \<longleftrightarrow> 48 \<le> (of_char c :: nat) \<and> (of_char c :: nat) \<le> 57"

definition digit_val :: "char \<Rightarrow> nat" where
  "digit_val c = of_char c - 48"

lemma digit_char [simp]:
  assumes "d < 10"
  shows "is_digit (digit_char d)" "digit_val (digit_char d) = d"
  using assms by (simp_all add: is_digit_def digit_val_def digit_char_def)

fun nat_str :: "nat \<Rightarrow> string" where
  "nat_str n = (if n < 10 then [digit_char n] else nat_str (n div 10) @ [digit_char (n mod 10)])"

declare nat_str.simps [simp del]

definition itoa :: "int \<Rightarrow> string" where
  "itoa n = (if n < 0 then CHR ''-'' # nat_str (nat (- n)) else nat_str (nat n))"

definition digits_val :: "string \<Rightarrow> nat" where
  "digits_val s = foldl (\<lambda>acc c. 10 * acc + digit_val c) 0 s"

definition parse_nat :: "string \<Rightarrow> nat option" where
  "parse_nat s = (if s \<noteq> [] \<and> list_all is_digit s then Some (digits_val s) else None)"

text \<open>\<open>strconv.Atoi\<close>: an optional sign, then decimal digits only, within the 64-bit range.\<close>

definition atoi :: "string \<Rightarrow> int option" where
  "atoi s =
     (let signed = (case s of c # t \<Rightarrow> c = CHR ''-'' \<or> c = CHR ''+'' | [] \<Rightarrow> False);
          neg = (case s of c # t \<Rightarrow> c = CHR ''-'' | [] \<Rightarrow> False);
          body = (if signed then tl s else s)
      in case parse_nat body of
           None \<Rightarrow> None
         | Some n \<Rightarrow>
             (let v = (if neg then - int n else int n)
              in if int64_range v then Some v else None))"

lemma nat_str_digits: "list_all is_digit (nat_str n)"
proof (induction n rule: nat_str.induct)
  case (1 n)
  then show ?case by (subst nat_str.simps) simp
qed

lemma nat_str_nonempty [simp]: "nat_str n \<noteq> []"
  by (subst nat_str.simps) simp

lemma digits_val_nat_str [simp]: "digits_val (nat_str n) = n"
proof (induction n rule: nat_str.induct)
  case (1 n)
  show ?case
  proof (cases "n < 10")
    case True
    then show ?thesis by (subst nat_str.simps) (simp add: digits_val_def)
  next
    case False
    with "1.IH" have "digits_val (nat_str (n div 10)) = n div 10" by simp
    with False show ?thesis by (subst nat_str.simps) (simp add: digits_val_def)
  qed
qed

lemma parse_nat_nat_str [simp]: "parse_nat (nat_str n) = Some n"
  by (simp add: parse_nat_def nat_str_digits)

lemma is_digit_not_sign: "is_digit c \<Longrightarrow> c \<noteq> CHR ''-'' \<and> c \<noteq> CHR ''+''"
  by (auto simp: is_digit_def)

lemma nat_str_head: "nat_str n = c # t \<Longrightarrow> is_digit c"
  using nat_str_digits [of n] by simp

lemma atoi_itoa:
  assumes "int64_range n"
  shows "atoi (itoa n) = Some n"
proof (cases "n < 0")
  case True
  with assms show ?thesis by (simp add: atoi_def itoa_def)
next
  case False
  obtain c t where ct: "nat_str (nat n) = c # t"
    using nat_str_nonempty [of "nat n"] by (cases "nat_str (nat n)") blast+
  then have "c \<noteq> CHR ''-''" "c \<noteq> CHR ''+''"
    using nat_str_head [OF ct] is_digit_not_sign by auto
  with False assms ct show ?thesis
    using parse_nat_nat_str [of "nat n"] by (simp add: atoi_def itoa_def)
qed

lemma itoa_inject: "int64_range m \<Longrightarrow> int64_range n \<Longrightarrow> itoa m = itoa n \<longleftrightarrow> m = n"
  by (metis atoi_itoa option.inject)

subsection \<open>Byte strings: package \<open>strings\<close>\<close>

fun has_prefix :: "string \<Rightarrow> string \<Rightarrow> bool" where
  "has_prefix s [] = True"
| "has_prefix [] (p # ps) = False"
| "has_prefix (c # cs) (p # ps) = (c = p \<and> has_prefix cs ps)"

definition has_suffix :: "string \<Rightarrow> string \<Rightarrow> bool" where
  "has_suffix s p = has_prefix (rev s) (rev p)"

definition trim_prefix :: "string \<Rightarrow> string \<Rightarrow> string" where
  "trim_prefix s p = (if has_prefix s p then drop (length p) s else s)"

definition trim_suffix :: "string \<Rightarrow> string \<Rightarrow> string" where
  "trim_suffix s p = (if has_suffix s p then take (length s - length p) s else s)"

text \<open>\<open>strings.Index\<close>: the first position where the pattern starts, if there is one.\<close>

fun index_from :: "nat \<Rightarrow> string \<Rightarrow> string \<Rightarrow> nat option" where
  "index_from i [] p = (if p = [] then Some i else None)"
| "index_from i (c # cs) p =
     (if has_prefix (c # cs) p then Some i else index_from (Suc i) cs p)"

definition str_index :: "string \<Rightarrow> string \<Rightarrow> nat option" where
  "str_index s p = index_from 0 s p"

definition str_contains :: "string \<Rightarrow> string \<Rightarrow> bool" where
  "str_contains s p = (str_index s p \<noteq> None)"

fun index_byte :: "string \<Rightarrow> char \<Rightarrow> nat option" where
  "index_byte [] c = None"
| "index_byte (x # xs) c = (if x = c then Some 0 else map_option Suc (index_byte xs c))"

fun last_index_byte :: "string \<Rightarrow> char \<Rightarrow> nat option" where
  "last_index_byte [] c = None"
| "last_index_byte (x # xs) c =
     (case last_index_byte xs c of
        Some i \<Rightarrow> Some (Suc i)
      | None \<Rightarrow> (if x = c then Some 0 else None))"

text \<open>\<open>strings.Split\<close> at a one-byte separator, and \<open>strings.Join\<close>.\<close>

fun split_byte :: "char \<Rightarrow> string \<Rightarrow> string list" where
  "split_byte c [] = [[]]"
| "split_byte c (x # xs) =
     (if x = c then [] # split_byte c xs
      else (case split_byte c xs of [] \<Rightarrow> [[x]] | w # ws \<Rightarrow> (x # w) # ws))"

fun join :: "string \<Rightarrow> string list \<Rightarrow> string" where
  "join sep [] = []"
| "join sep [w] = w"
| "join sep (w # v # ws) = w @ sep @ join sep (v # ws)"

text \<open>\<open>strings.ToLower\<close> on ASCII letters; bytes outside ASCII are kept.\<close>

definition lower_char :: "char \<Rightarrow> char" where
  "lower_char c =
     (let n = (of_char c :: nat) in if 65 \<le> n \<and> n \<le> 90 then char_of (n + 32) else c)"

definition to_lower :: "string \<Rightarrow> string" where
  "to_lower s = map lower_char s"

text \<open>
  \<open>strings.TrimSpace\<close> strips Unicode white space: the ASCII white space and the UTF-8 encodings
  of U+0085, U+00A0, U+1680, U+2000 to U+200A, U+2028, U+2029, U+202F, U+205F and U+3000.
\<close>

definition space_runes :: "string list" where
  "space_runes =
     [[CHR 0x09], [CHR 0x0A], [CHR 0x0B], [CHR 0x0C], [CHR 0x0D], [CHR 0x20],
      [CHR 0xC2, CHR 0x85], [CHR 0xC2, CHR 0xA0], [CHR 0xE1, CHR 0x9A, CHR 0x80]]
     @ map (\<lambda>n. [CHR 0xE2, CHR 0x80, char_of n]) ([0x80..<0x8B] @ [0xA8, 0xA9, 0xAF :: nat])
     @ [[CHR 0xE2, CHR 0x81, CHR 0x9F], [CHR 0xE3, CHR 0x80, CHR 0x80]]"

function strip_runes :: "string list \<Rightarrow> string \<Rightarrow> string" where
  "strip_runes ws s =
     (case find (\<lambda>w. w \<noteq> [] \<and> has_prefix s w) ws of
        None \<Rightarrow> s
      | Some w \<Rightarrow> strip_runes ws (drop (length w) s))"
  by pat_completeness auto
termination
proof (relation "measure (\<lambda>(ws, s). length s)")
  fix ws s w
  assume "find (\<lambda>w. w \<noteq> [] \<and> has_prefix s w) ws = Some w"
  then have w: "w \<noteq> []" "has_prefix s w" by (auto simp: find_Some_iff)
  then have "s \<noteq> []" by (cases s; cases w) auto
  with w show "((ws, drop (length w) s), (ws, s)) \<in> measure (\<lambda>(ws, s). length s)"
    by (cases s; cases w) auto
qed simp

declare strip_runes.simps [simp del]

definition trim_space :: "string \<Rightarrow> string" where
  "trim_space s =
     rev (strip_runes (map rev space_runes) (rev (strip_runes space_runes s)))"

text \<open>A byte that no white-space rune starts or ends with.\<close>

definition plain_char :: "char \<Rightarrow> bool" where
  "plain_char c \<longleftrightarrow> 32 < (of_char c :: nat) \<and> (of_char c :: nat) < 127"

lemma plain_not_space:
  assumes "plain_char c"
  shows "find (\<lambda>w. w \<noteq> [] \<and> has_prefix (c # s) w) space_runes = None"
    and "find (\<lambda>w. w \<noteq> [] \<and> has_prefix (c # s) w) (map rev space_runes) = None"
proof -
  have "list_all (\<lambda>w. \<not> plain_char (hd w) \<and> \<not> plain_char (last w)) space_runes"
    by code_simp
  then have "\<forall>w \<in> set space_runes. \<not> plain_char (hd w) \<and> \<not> plain_char (last w)"
    by (simp only: list_all_iff)
  then have a: "\<And>w. w \<in> set space_runes \<Longrightarrow> hd w \<noteq> c \<and> last w \<noteq> c"
    using assms by blast
  have p: "has_prefix (c # s) w \<Longrightarrow> w \<noteq> [] \<Longrightarrow> hd w = c" for w
    by (cases w) auto
  show "find (\<lambda>w. w \<noteq> [] \<and> has_prefix (c # s) w) space_runes = None"
    using a p by (auto simp: find_None_iff)
  show "find (\<lambda>w. w \<noteq> [] \<and> has_prefix (c # s) w) (map rev space_runes) = None"
    using a p by (force simp: find_None_iff hd_rev)
qed

lemma trim_space_plain:
  assumes "plain_char c" "plain_char d"
  shows "trim_space (c # s @ [d]) = c # s @ [d]" and "trim_space [c] = [c]"
proof -
  have l: "strip_runes space_runes (x # t) = x # t"
    and r: "strip_runes (map rev space_runes) (x # t) = x # t" if "plain_char x" for x t
    using plain_not_space [OF that] by (simp_all add: strip_runes.simps)
  show "trim_space (c # s @ [d]) = c # s @ [d]" "trim_space [c] = [c]"
    using l r assms by (simp_all add: trim_space_def)
qed

lemma trim_space_Nil [simp]: "trim_space [] = []"
proof -
  have "find (\<lambda>w. w \<noteq> [] \<and> has_prefix [] w) ws = None" for ws :: "string list"
    by (auto simp: find_None_iff neq_Nil_conv)
  then show ?thesis by (simp add: trim_space_def strip_runes.simps)
qed

subsection \<open>Lemmas on byte strings\<close>

lemma has_prefix_iff: "has_prefix s p \<longleftrightarrow> (\<exists>t. s = p @ t)"
  by (induction s p rule: has_prefix.induct) auto

lemma has_prefix_append [simp]: "has_prefix (p @ t) p"
  by (simp add: has_prefix_iff)

lemma has_suffix_iff: "has_suffix s p \<longleftrightarrow> (\<exists>t. s = t @ p)"
proof
  assume "has_suffix s p"
  then obtain t where "rev s = rev p @ t" by (auto simp: has_suffix_def has_prefix_iff)
  then have "s = rev t @ p" by (metis rev_append rev_rev_ident)
  then show "\<exists>t. s = t @ p" by blast
qed (auto simp: has_suffix_def)

lemma trim_prefix_append [simp]: "trim_prefix (p @ t) p = t"
  by (simp add: trim_prefix_def)

lemma trim_suffix_append [simp]: "trim_suffix (t @ p) p = t"
  by (simp add: trim_suffix_def has_suffix_iff)

subsection \<open>Go maps\<close>

type_synonym 'v gomap = "(string \<times> 'v) list"

definition gm_wf :: "'v gomap \<Rightarrow> bool" where
  "gm_wf m = distinct (map fst m)"

text \<open>\<open>m[k]\<close> with its presence flag, \<open>m[k] = v\<close> and \<open>delete(m, k)\<close>.\<close>

abbreviation gm_get :: "'v gomap \<Rightarrow> string \<Rightarrow> 'v option" where
  "gm_get m k \<equiv> map_of m k"

abbreviation gm_set :: "'v gomap \<Rightarrow> string \<Rightarrow> 'v \<Rightarrow> 'v gomap" where
  "gm_set m k v \<equiv> AList.update k v m"

abbreviation gm_del :: "'v gomap \<Rightarrow> string \<Rightarrow> 'v gomap" where
  "gm_del m k \<equiv> AList.delete k m"

lemma gm_get_set [simp, map_simps]: "gm_get (gm_set m k v) = (gm_get m)(k \<mapsto> v)"
  by (rule update_conv')

lemma gm_get_del [simp, map_simps]: "gm_get (gm_del m k) = (gm_get m)(k := None)"
  by (rule delete_conv')

lemma gm_wf_set [simp, intro]: "gm_wf m \<Longrightarrow> gm_wf (gm_set m k v)"
  by (simp add: gm_wf_def distinct_update)

lemma gm_wf_del [simp, intro]: "gm_wf m \<Longrightarrow> gm_wf (gm_del m k)"
  by (simp add: gm_wf_def distinct_delete)

lemma gm_wf_Nil [simp]: "gm_wf []"
  by (simp add: gm_wf_def)

lemma gm_keys_set [map_simps]: "fst ` set (gm_set m k v) = insert k (fst ` set m)"
  using dom_update [of k v m] by (simp add: dom_map_of_conv_image_fst [symmetric] del: gm_get_set)

lemma gm_get_wf: "gm_wf m \<Longrightarrow> (k, v) \<in> set m \<longleftrightarrow> gm_get m k = Some v"
  by (simp add: gm_wf_def)

text \<open>The first error of a checking loop.\<close>

fun first_error :: "('a \<Rightarrow> 'e option) \<Rightarrow> 'a list \<Rightarrow> 'e option" where
  "first_error f [] = None"
| "first_error f (x # xs) = (case f x of Some e \<Rightarrow> Some e | None \<Rightarrow> first_error f xs)"

lemma first_error_None_iff: "first_error f xs = None \<longleftrightarrow> (\<forall>x \<in> set xs. f x = None)"
  by (induction xs) (auto split: option.splits)

text \<open>A loop over a list that threads a state and stops at the first error.\<close>

fun fold_result :: "('s \<Rightarrow> 'a \<Rightarrow> 'e + 's) \<Rightarrow> 's \<Rightarrow> 'a list \<Rightarrow> 'e + 's" where
  "fold_result f s [] = Inr s"
| "fold_result f s (x # xs) = (case f s x of Inl e \<Rightarrow> Inl e | Inr s' \<Rightarrow> fold_result f s' xs)"

lemma fold_result_inv:
  assumes "fold_result f s xs = Inr s'" "P s"
    and "\<And>s x s'. x \<in> set xs \<Longrightarrow> P s \<Longrightarrow> f s x = Inr s' \<Longrightarrow> P s'"
  shows "P s'"
  using assms
proof (induction xs arbitrary: s)
  case Nil
  then show ?case by simp
next
  case (Cons x xs)
  from Cons.prems(1) obtain s1 where s1: "f s x = Inr s1" "fold_result f s1 xs = Inr s'"
    by (auto split: sum.splits)
  have "P s1" using Cons.prems(3) [of x s s1] Cons.prems(2) s1(1) by simp
  with s1(2) Cons.prems(3) show ?case by (intro Cons.IH) auto
qed

lemma fold_result_ok:
  assumes "P s" and "\<And>s x. x \<in> set xs \<Longrightarrow> P s \<Longrightarrow> \<exists>s'. f s x = Inr s' \<and> P s'"
  shows "\<exists>s'. fold_result f s xs = Inr s' \<and> P s'"
  using assms
proof (induction xs arbitrary: s)
  case Nil
  then show ?case by simp
next
  case (Cons x xs)
  from Cons.prems obtain s1 where s1: "f s x = Inr s1" "P s1" by force
  have "\<exists>s'. fold_result f s1 xs = Inr s' \<and> P s'"
    using s1(2) Cons.prems(2) by (intro Cons.IH) auto
  with s1 show ?case by simp
qed

text \<open>Exactly the elements that fail \<open>Q\<close> stop the loop.\<close>

lemma fold_result_iff:
  assumes "P s"
    and ok: "\<And>x s. x \<in> set xs \<Longrightarrow> P s \<Longrightarrow> Q x \<Longrightarrow> \<exists>s'. f s x = Inr s' \<and> P s'"
    and bad: "\<And>x s. x \<in> set xs \<Longrightarrow> P s \<Longrightarrow> \<not> Q x \<Longrightarrow> \<exists>e. f s x = Inl e"
  shows "(\<forall>x \<in> set xs. Q x) \<Longrightarrow> \<exists>s'. fold_result f s xs = Inr s' \<and> P s'"
    and "is_ok (fold_result f s xs) \<longleftrightarrow> (\<forall>x \<in> set xs. Q x)"
proof -
  show "(\<forall>x \<in> set xs. Q x) \<Longrightarrow> \<exists>s'. fold_result f s xs = Inr s' \<and> P s'"
    using assms by (intro fold_result_ok) auto
  show "is_ok (fold_result f s xs) \<longleftrightarrow> (\<forall>x \<in> set xs. Q x)"
    using assms
  proof (induction xs arbitrary: s)
    case Nil
    then show ?case by simp
  next
    case (Cons x xs)
    show ?case
    proof (cases "Q x")
      case True
      with Cons.prems obtain s1 where s1: "f s x = Inr s1" "P s1" by force
      have "is_ok (fold_result f s1 xs) \<longleftrightarrow> (\<forall>x \<in> set xs. Q x)"
        using s1(2) Cons.prems(2,3) by (intro Cons.IH) auto
      with s1(1) True show ?thesis by simp
    next
      case False
      with Cons.prems(1) Cons.prems(3) [of x s] obtain e where "f s x = Inl e" by auto
      with False show ?thesis by simp
    qed
  qed
qed

text \<open>Overwriting a present key keeps the order and changes that entry only.\<close>

lemma gm_set_present:
  assumes "gm_wf m" "k \<in> fst ` set m"
  shows "gm_set m k v = map (\<lambda>(k', v'). (k', if k' = k then v else v')) m"
  using assms
proof (induction m)
  case (Cons p m)
  have "map (\<lambda>(k', v'). (k', if k' = k then v else v')) m = m" if "k \<notin> fst ` set m"
    using that by (intro map_idI) force
  with Cons show ?case by (cases p) (auto simp: gm_wf_def)
qed simp

lemma gm_wf_map_values [simp]: "gm_wf (map (\<lambda>(k, v). (k, f k v)) m) = gm_wf m"
  by (simp add: gm_wf_def o_def case_prod_unfold)

lemma gm_get_map_values: "gm_get (map (\<lambda>(k, v). (k, f k v)) m) k = map_option (f k) (gm_get m k)"
  by (induction m) auto

lemma gm_get_None_iff: "gm_get m k = None \<longleftrightarrow> k \<notin> fst ` set m"
  by (simp add: map_of_eq_None_iff)

subsection \<open>Quoted strings\<close>

text \<open>
  The verb \<open>%q\<close>: exact on ASCII; a byte outside ASCII is kept, as Go does for the bytes of a
  printable rune.
\<close>

definition hex_digit :: "nat \<Rightarrow> char" where
  "hex_digit n = (if n < 10 then char_of (48 + n) else char_of (87 + n))"

definition quote_char :: "char \<Rightarrow> string" where
  "quote_char c =
     (let n = (of_char c :: nat)
      in if c = CHR 0x22 \<or> c = CHR 0x5C then [CHR 0x5C, c]
         else if n = 7 then [CHR 0x5C, CHR ''a'']
         else if n = 8 then [CHR 0x5C, CHR ''b'']
         else if n = 9 then [CHR 0x5C, CHR ''t'']
         else if n = 10 then [CHR 0x5C, CHR ''n'']
         else if n = 11 then [CHR 0x5C, CHR ''v'']
         else if n = 12 then [CHR 0x5C, CHR ''f'']
         else if n = 13 then [CHR 0x5C, CHR ''r'']
         else if n < 32 \<or> n = 127 then [CHR 0x5C, CHR ''x'', hex_digit (n div 16), hex_digit (n mod 16)]
         else [c])"

definition go_quote :: "string \<Rightarrow> string" where
  "go_quote s = CHR 0x22 # concat (map quote_char s) @ [CHR 0x22]"

text \<open>One line: the bytes followed by a line feed.\<close>

abbreviation ln :: "string \<Rightarrow> string" where
  "ln s \<equiv> s @ [CHR 0x0A]"

lemma atoi_digits:
  assumes "list_all is_digit ds" "ds \<noteq> []"
  shows "atoi ds = (if int64_range (int (digits_val ds)) then Some (int (digits_val ds)) else None)"
proof -
  obtain c t where ct: "ds = c # t" using assms(2) by (cases ds) auto
  then have "c \<noteq> CHR ''-''" "c \<noteq> CHR ''+''" using assms(1) is_digit_not_sign by auto
  with ct assms(1) show ?thesis by (simp add: atoi_def parse_nat_def)
qed

subsection \<open>Fallible steps over a state\<close>

text \<open>
  A step returns the new state and either an error or a value. \<open>and_then\<close> stops at the first error
  and keeps the state that the failed step left, as \<open>if err != nil { return err }\<close> does.
\<close>

definition and_then :: "'s \<times> 'a result \<Rightarrow> ('s \<Rightarrow> 'a \<Rightarrow> 's \<times> 'b result) \<Rightarrow> 's \<times> 'b result" where
  "and_then r f = (case r of (s, Inl e) \<Rightarrow> (s, Inl e) | (s, Inr x) \<Rightarrow> f s x)"

definition wrap_err :: "string \<Rightarrow> 's \<times> 'a result \<Rightarrow> 's \<times> 'a result" where
  "wrap_err pre r = (case r of (s, Inl e) \<Rightarrow> (s, Inl (pre @ e)) | (s, Inr x) \<Rightarrow> (s, Inr x))"

lemma and_then_simps [simp]:
  "and_then (s, Inl e) f = (s, Inl e)"
  "and_then (s, Inr x) f = f s x"
  by (simp_all add: and_then_def)

lemma wrap_err_simps [simp]:
  "wrap_err pre (s, Inl e) = (s, Inl (pre @ e))"
  "wrap_err pre (s, Inr x) = (s, Inr x)"
  by (simp_all add: wrap_err_def)

lemma and_then_Inr_iff:
  "and_then r f = (t, Inr y) \<longleftrightarrow> (\<exists>s x. r = (s, Inr x) \<and> f s x = (t, Inr y))"
  by (auto simp: and_then_def split: prod.splits sum.splits)

lemma wrap_err_Inr_iff: "wrap_err pre r = (t, Inr y) \<longleftrightarrow> r = (t, Inr y)"
  by (auto simp: wrap_err_def split: prod.splits sum.splits)

subsection \<open>Searching in a part of a string\<close>

lemma index_from_prefix: "has_prefix s p \<Longrightarrow> index_from n s p = Some n"
  by (cases s) (auto simp: has_prefix_iff)

lemma has_prefix_extend: "has_prefix s p \<Longrightarrow> has_prefix (s @ b) p"
  by (auto simp: has_prefix_iff)

lemma str_contains_infix:
  assumes "str_contains s p"
  shows "str_contains (a @ s @ b) p"
proof -
  have suffix: "index_from m (s @ b) p \<noteq> None" if "index_from n s p \<noteq> None" for n m
    using that
  proof (induction s arbitrary: n m)
    case Nil
    then show ?case by (auto split: if_splits simp: index_from_prefix)
  next
    case (Cons c s)
    then show ?case using has_prefix_extend [of "c # s" p b] by (auto split: if_splits)
  qed
  have "index_from m (a @ s @ b) p \<noteq> None" for m
  proof (induction a arbitrary: m)
    case Nil
    show ?case using suffix assms by (simp add: str_contains_def str_index_def)
  next
    case (Cons c a)
    then show ?case by (auto split: if_splits)
  qed
  then show ?thesis by (simp add: str_contains_def str_index_def)
qed

subsection \<open>Loops that keep something\<close>

text \<open>A relation between the states before and after a step; a loop of such steps is such a step.\<close>

locale frame =
  fixes R :: "'s \<Rightarrow> 's \<Rightarrow> bool"
  assumes frame_refl: "R a a"
    and frame_trans: "R a b \<Longrightarrow> R b c \<Longrightarrow> R a c"
begin

lemma frame_foldl:
  assumes "\<And>a x. x \<in> set xs \<Longrightarrow> R a (f a x)"
  shows "R a (foldl f a xs)"
  using assms
proof (induction xs arbitrary: a)
  case (Cons x xs)
  then have "R a (f a x)" "R (f a x) (foldl f (f a x) xs)" by simp_all
  then show ?case by (auto intro: frame_trans)
qed (simp add: frame_refl)

end

end
