(* ===== verification/GoFloat.thy ===== *)
theory GoFloat
  imports Prelude
begin

text \<open>
  Go's \<open>float64\<close>: the comparisons, the conversions from and to \<open>int\<close>, the rounding of an exact
  value to 53 bits, \<open>strconv.ParseFloat\<close> on decimal literals, infinities and NaN (hexadecimal
  literals are not accepted by the model's parser), and the fixed-point format \<open>%f\<close>.
\<close>

datatype gofloat = FNaN | FNegInf | Fin rat | FPosInf

fun flt :: "gofloat \<Rightarrow> gofloat \<Rightarrow> bool" where
  "flt FNaN y = False"
| "flt x FNaN = False"
| "flt (Fin a) (Fin b) = (a < b)"
| "flt FNegInf y = (y \<noteq> FNegInf)"
| "flt FPosInf y = False"
| "flt (Fin a) y = (y = FPosInf)"

definition feq :: "gofloat \<Rightarrow> gofloat \<Rightarrow> bool" where
  "feq x y \<longleftrightarrow> x \<noteq> FNaN \<and> x = y"

definition fle :: "gofloat \<Rightarrow> gofloat \<Rightarrow> bool" where
  "fle x y \<longleftrightarrow> flt x y \<or> feq x y"

lemma flt_NaN [simp]: "flt x FNaN = False"
  by (cases x) simp_all

lemma flt_PosInf [simp]: "flt x FPosInf \<longleftrightarrow> x \<noteq> FNaN \<and> x \<noteq> FPosInf"
  by (cases x) simp_all

lemma not_flt_PosInf_left [simp]: "\<not> flt FPosInf x"
  by (cases x) simp_all

lemma flt_irrefl [simp]: "\<not> flt x x"
  by (cases x) simp_all

lemma flt_trans: "flt x y \<Longrightarrow> flt y z \<Longrightarrow> flt x z"
  by (cases x; cases y; cases z) simp_all

lemma flt_not_NaN: "flt x y \<Longrightarrow> x \<noteq> FNaN \<and> y \<noteq> FNaN"
  by (cases x; cases y) simp_all

lemma fle_trans: "fle x y \<Longrightarrow> fle y z \<Longrightarrow> fle x z"
  by (auto simp: fle_def feq_def intro: flt_trans)

lemma fle_refl [simp]: "fle x x \<longleftrightarrow> x \<noteq> FNaN"
  by (simp add: fle_def feq_def)

lemma not_flt_fle: "x \<noteq> FNaN \<Longrightarrow> y \<noteq> FNaN \<Longrightarrow> \<not> flt x y \<longleftrightarrow> fle y x"
  by (cases x; cases y) (auto simp: fle_def feq_def)

lemma fle_flt_trans: "fle x y \<Longrightarrow> flt y z \<Longrightarrow> flt x z"
  by (auto simp: fle_def feq_def intro: flt_trans)

lemma flt_fle_trans: "flt x y \<Longrightarrow> fle y z \<Longrightarrow> flt x z"
  by (auto simp: fle_def feq_def intro: flt_trans)

subsection \<open>Rounding to 53 bits\<close>

fun nat_log2 :: "nat \<Rightarrow> nat" where
  "nat_log2 n = (if n < 2 then 0 else Suc (nat_log2 (n div 2)))"

declare nat_log2.simps [simp del]

definition pow2 :: "int \<Rightarrow> rat" where
  "pow2 e = (if 0 \<le> e then 2 ^ nat e else 1 / 2 ^ nat (- e))"

definition rat_log2 :: "rat \<Rightarrow> int" where
  "rat_log2 r =
     (let (a, b) = quotient_of r;
          e = int (nat_log2 (nat a)) - int (nat_log2 (nat b))
      in if pow2 e \<le> r then e else e - 1)"

definition round_half_even :: "rat \<Rightarrow> int" where
  "round_half_even r =
     (let f = \<lfloor>r\<rfloor>; d = r - of_int f
      in if d < 1 / 2 then f else if 1 / 2 < d then f + 1 else if even f then f else f + 1)"

definition f64_of_rat :: "rat \<Rightarrow> gofloat" where
  "f64_of_rat r =
     (if r = 0 then Fin 0
      else let a = \<bar>r\<bar>;
               e = max (rat_log2 a - 52) (- 1074);
               v = of_int (round_half_even (a / pow2 e)) * pow2 e
           in if 2 ^ 1024 \<le> v then (if r < 0 then FNegInf else FPosInf)
              else Fin (if r < 0 then - v else v))"

definition int_to_float :: "int \<Rightarrow> gofloat" where
  "int_to_float n = f64_of_rat (of_int n)"

text \<open>
  The conversion \<open>int(x)\<close> truncates towards zero. Outside the range of \<open>int\<close> Go leaves the result
  to the implementation; the value here is the one of amd64.
\<close>

definition float_to_int :: "gofloat \<Rightarrow> int" where
  "float_to_int x =
     (case x of
        Fin r \<Rightarrow> (let t = (if r < 0 then - \<lfloor>- r\<rfloor> else \<lfloor>r\<rfloor>)
                  in if int64_range t then t else - (2 ^ 63))
      | _ \<Rightarrow> - (2 ^ 63))"

lemma float_to_int_range: "int64_range (float_to_int x)"
  by (auto simp: float_to_int_def int64_range_def Let_def split: gofloat.splits)

subsection \<open>Fixed-point format\<close>

fun pad_left :: "nat \<Rightarrow> string \<Rightarrow> string" where
  "pad_left 0 s = s"
| "pad_left (Suc k) s = (if length s < Suc k then CHR ''0'' # pad_left k s else s)"

definition fixed_digits :: "nat \<Rightarrow> nat \<Rightarrow> string" where
  "fixed_digits p q =
     nat_str (q div 10 ^ p) @ CHR ''.'' # pad_left p (nat_str (q mod 10 ^ p))"

text \<open>\<open>fmt_fixed p\<close> is the verb \<open>%.<p>f\<close>; \<open>%f\<close> is \<open>fmt_fixed 6\<close>.\<close>

definition fmt_fixed :: "nat \<Rightarrow> gofloat \<Rightarrow> string" where
  "fmt_fixed p x =
     (case x of
        FNaN \<Rightarrow> ''NaN''
      | FPosInf \<Rightarrow> ''+Inf''
      | FNegInf \<Rightarrow> ''-Inf''
      | Fin r \<Rightarrow> (if r < 0 then ''-'' else '''')
                @ fixed_digits p (nat (round_half_even (\<bar>r\<bar> * 10 ^ p))))"

text \<open>The value that the digits of \<open>fmt_fixed p (Fin r)\<close> denote.\<close>

definition fixed_value :: "nat \<Rightarrow> rat \<Rightarrow> rat" where
  "fixed_value p r =
     (if r < 0 then -1 else 1) * of_nat (nat (round_half_even (\<bar>r\<bar> * 10 ^ p))) / 10 ^ p"

lemma round_half_even_close: "\<bar>of_int (round_half_even r) - r\<bar> \<le> 1 / 2"
proof -
  have "of_int \<lfloor>r\<rfloor> \<le> r" "r < of_int \<lfloor>r\<rfloor> + 1" by linarith+
  then show ?thesis by (auto simp: round_half_even_def Let_def abs_le_iff)
qed

lemma round_half_even_nonneg: "0 \<le> r \<Longrightarrow> 0 \<le> round_half_even r"
  by (auto simp: round_half_even_def Let_def)

lemma fixed_value_close: "\<bar>fixed_value p r - r\<bar> \<le> 1 / (2 * 10 ^ p)"
proof -
  let ?q = "of_int (round_half_even (\<bar>r\<bar> * 10 ^ p)) :: rat"
  have nn: "0 \<le> round_half_even (\<bar>r\<bar> * 10 ^ p)"
    by (simp add: round_half_even_nonneg)
  then have v: "fixed_value p r = (if r < 0 then -1 else 1) * ?q / 10 ^ p"
    by (simp add: fixed_value_def)
  have "\<bar>?q - \<bar>r\<bar> * 10 ^ p\<bar> \<le> 1 / 2" by (rule round_half_even_close)
  then have "\<bar>?q - \<bar>r\<bar> * 10 ^ p\<bar> / 10 ^ p \<le> (1 / 2) / 10 ^ p"
    by (rule divide_right_mono) simp
  moreover have "\<bar>?q - \<bar>r\<bar> * 10 ^ p\<bar> / 10 ^ p = \<bar>(?q - \<bar>r\<bar> * 10 ^ p) / 10 ^ p\<bar>"
    by (simp add: abs_divide)
  moreover have "(?q - \<bar>r\<bar> * 10 ^ p) / 10 ^ p = ?q / 10 ^ p - \<bar>r\<bar>"
    by (simp add: field_simps)
  moreover have "\<bar>fixed_value p r - r\<bar> = \<bar>?q / 10 ^ p - \<bar>r\<bar>\<bar>"
    unfolding v by (auto simp: abs_if)
  ultimately show ?thesis by simp
qed

subsection \<open>Decimal literals\<close>

definition split_digits :: "string \<Rightarrow> string \<times> string" where
  "split_digits s = (takeWhile is_digit s, dropWhile is_digit s)"

text \<open>An exponent part: empty, or \<open>e\<close>, an optional sign and at least one digit.\<close>

definition parse_exponent :: "string \<Rightarrow> int option" where
  "parse_exponent s =
     (case s of
        [] \<Rightarrow> Some 0
      | c # t \<Rightarrow>
          (if c = CHR ''e'' \<or> c = CHR ''E'' then
             (let signed = (case t of d # _ \<Rightarrow> d = CHR ''-'' \<or> d = CHR ''+'' | [] \<Rightarrow> False);
                  neg = (case t of d # _ \<Rightarrow> d = CHR ''-'' | [] \<Rightarrow> False)
              in map_option (\<lambda>n. if neg then - int n else int n)
                   (parse_nat (if signed then tl t else t)))
           else None))"

definition parse_decimal :: "string \<Rightarrow> rat option" where
  "parse_decimal s =
     (let (ip, rest) = split_digits s;
          (fp, rest') = (case rest of
                           c # t \<Rightarrow> (if c = CHR ''.'' then split_digits t else ([], rest))
                         | [] \<Rightarrow> ([], []))
      in if ip = [] \<and> fp = [] then None
         else map_option
                (\<lambda>e. of_nat (digits_val (ip @ fp)) / 10 ^ length fp
                     * (if 0 \<le> e then 10 ^ nat e else 1 / 10 ^ nat (- e)))
                (parse_exponent rest'))"

definition parse_float :: "string \<Rightarrow> gofloat option" where
  "parse_float s =
     (let signed = (case s of c # t \<Rightarrow> c = CHR ''-'' \<or> c = CHR ''+'' | [] \<Rightarrow> False);
          neg = (case s of c # t \<Rightarrow> c = CHR ''-'' | [] \<Rightarrow> False);
          body = (if signed then tl s else s);
          low = to_lower body
      in if low = ''inf'' \<or> low = ''infinity'' then Some (if neg then FNegInf else FPosInf)
         else if \<not> signed \<and> low = ''nan'' then Some FNaN
         else case parse_decimal body of
                None \<Rightarrow> None
              | Some r \<Rightarrow>
                  (case f64_of_rat (if neg then - r else r) of
                     Fin v \<Rightarrow> Some (Fin v)
                   | _ \<Rightarrow> None))"

subsection \<open>Computing the nearest float64\<close>

lemma pow2_powi: "pow2 e = 2 powi e"
  by (simp add: pow2_def power_int_def inverse_eq_divide power_one_over)

lemma nat_log2_bounds: "0 < n \<Longrightarrow> 2 ^ nat_log2 n \<le> n \<and> n < 2 ^ Suc (nat_log2 n)"
proof (induction n rule: nat_log2.induct)
  case (1 n)
  show ?case
  proof (cases "n < 2")
    case True
    with 1 show ?thesis by (subst (1 2) nat_log2.simps) simp
  next
    case False
    with 1 have h: "2 ^ nat_log2 (n div 2) \<le> n div 2" "n div 2 < 2 ^ Suc (nat_log2 (n div 2))"
      by auto
    have e: "nat_log2 n = Suc (nat_log2 (n div 2))" using False by (subst nat_log2.simps) simp
    have "2 * 2 ^ nat_log2 (n div 2) \<le> n" using h(1) by linarith
    moreover have "n < 2 * 2 ^ Suc (nat_log2 (n div 2))" using h(2) by linarith
    ultimately show ?thesis unfolding e by simp
  qed
qed

lemma rat_log2_spec:
  assumes "0 < r"
  shows "pow2 (rat_log2 r) \<le> r \<and> r < pow2 (rat_log2 r + 1)"
proof -
  obtain a b where q: "quotient_of r = (a, b)" by fastforce
  then have b: "0 < b" and r: "r = of_int a / of_int b"
    using quotient_of_denom_pos quotient_of_div by blast+
  with assms have a: "0 < a" by (simp add: zero_less_divide_iff)
  let ?la = "nat_log2 (nat a)" and ?lb = "nat_log2 (nat b)"
  have A: "(2::int) ^ ?la \<le> a" "a < 2 ^ Suc ?la"
    using nat_log2_bounds [of "nat a"] a by (simp_all add: nat_le_iff le_nat_iff nat_less_iff)
  have B: "(2::int) ^ ?lb \<le> b" "b < 2 ^ Suc ?lb"
    using nat_log2_bounds [of "nat b"] b by (simp_all add: nat_le_iff le_nat_iff nat_less_iff)
  have i: "(2::rat) ^ n \<le> of_int x" if "(2::int) ^ n \<le> x" for n x
    using that of_int_le_iff [where 'a = rat, of "2 ^ n" x] by simp
  have j: "of_int x < (2::rat) ^ n" if "x < (2::int) ^ n" for n x
    using that of_int_less_iff [where 'a = rat, of x "2 ^ n"] by simp
  note A' = i [OF A(1)] j [OF A(2)] and B' = i [OF B(1)] j [OF B(2)]
  let ?e = "int ?la - int ?lb"
  have p: "pow2 (?e + 1) = 2 ^ Suc ?la / 2 ^ ?lb" "pow2 (?e - 1) = 2 ^ ?la / 2 ^ Suc ?lb"
    "pow2 ?e = 2 ^ ?la / 2 ^ ?lb"
    by (simp_all add: pow2_powi power_int_add power_int_diff)
  have up: "r < pow2 (?e + 1)" unfolding p r
    by (rule frac_less) (use A' B' a b in auto)
  have lo: "pow2 (?e - 1) \<le> r" unfolding p r
    by (rule frac_le) (use A' B' a b in auto)
  have l: "rat_log2 r = (if pow2 ?e \<le> r then ?e else ?e - 1)"
    by (simp add: rat_log2_def q Let_def)
  show ?thesis using up lo unfolding l by auto
qed

lemma rat_log2_eqI:
  assumes "pow2 e \<le> r" "r < pow2 (e + 1)"
  shows "rat_log2 r = e"
proof -
  have pos: "0 < pow2 e" by (simp add: pow2_powi)
  then have "0 < r" using assms by linarith
  note s = rat_log2_spec [OF this]
  have m: "x < y + 1" if "pow2 x \<le> r" "r < pow2 (y + 1)" for x y
  proof (rule ccontr)
    assume "\<not> x < y + 1"
    then have "pow2 (y + 1) \<le> pow2 x" by (simp add: pow2_powi power_int_increasing)
    with that show False by linarith
  qed
  show ?thesis using m [of "rat_log2 r" e] m [of e "rat_log2 r"] s assms by linarith
qed

lemma f64_of_rat_eq:
  assumes "pow2 e \<le> r" "r < pow2 (e + 1)" "-1022 \<le> e" "e < 1023"
  shows "f64_of_rat r = Fin (of_int (round_half_even (r / pow2 (e - 52))) * pow2 (e - 52))"
proof -
  have pos: "0 < pow2 e" by (simp add: pow2_powi)
  then have r: "0 < r" using assms by linarith
  have l: "rat_log2 r = e" using assms(1,2) by (rule rat_log2_eqI)
  have m: "max (e - 52) (- 1074) = e - 52" using assms(3) by simp
  let ?x = "r / pow2 (e - 52)" and ?n = "round_half_even (r / pow2 (e - 52))"
  have p52: "0 < pow2 (e - 52)" by (simp add: pow2_powi)
  have "pow2 (e + 1) = 2 ^ 53 * pow2 (e - 52)"
    using power_int_add [of "2::rat" "e - 52" 53] by (simp add: pow2_powi algebra_simps)
  then have "?x < 2 ^ 53" using assms(2) p52 by (simp add: divide_less_eq)
  moreover have "of_int ?n - ?x \<le> 1 / 2" using round_half_even_close [of ?x] by (simp only: abs_le_iff)
  ultimately have "of_int ?n < (2 :: rat) ^ 53 + 1" by linarith
  then have "(of_int ?n :: rat) < of_int (2 ^ 53 + 1)" by simp
  then have "?n < 2 ^ 53 + 1" unfolding of_int_less_iff .
  then have "of_int ?n * pow2 (e - 52) \<le> 2 ^ 53 * pow2 (e - 52)" using p52
    using of_int_le_iff [where 'a = rat, of ?n "2 ^ 53"] by (intro mult_right_mono) simp_all
  also have "\<dots> = pow2 (e + 1)"
    using power_int_add [of "2::rat" "e - 52" 53] by (simp add: pow2_powi algebra_simps)
  also have "\<dots> \<le> pow2 1023" unfolding pow2_powi
    using assms(4) by (intro power_int_increasing) simp_all
  also have "\<dots> < 2 ^ 1024" by (simp add: pow2_def)
  finally show ?thesis using r by (simp add: f64_of_rat_def l m Let_def)
qed
text \<open>With the next rule, \<open>simp\<close> computes the nearest float64 of a literal.\<close>

lemma floor_rat_numeral [simp]:
  "\<lfloor>numeral a / numeral b :: rat\<rfloor> = numeral a div numeral b"
  using floor_divide_of_int_eq [of "numeral a" "numeral b", where 'a = rat] by simp

subsection \<open>Fixed-point digits read back\<close>

lemma foldl_digits: "foldl (\<lambda>acc c. 10 * acc + digit_val c) n s = n * 10 ^ length s + digits_val s"
proof (induction s arbitrary: n)
  case (Cons c s)
  from Cons [of "10 * n + digit_val c"] Cons [of "digit_val c"] show ?case
    by (simp add: digits_val_def algebra_simps)
qed (simp add: digits_val_def)

lemma digits_val_append: "digits_val (s @ t) = digits_val s * 10 ^ length t + digits_val t"
  using foldl_digits [of "digits_val s" t] by (simp add: digits_val_def)

lemma nat_str_length: "n < 10 ^ p \<Longrightarrow> 0 < p \<Longrightarrow> length (nat_str n) \<le> p"
proof (induction p arbitrary: n)
  case (Suc p)
  show ?case
  proof (cases "n < 10")
    case True
    then show ?thesis by (subst nat_str.simps) simp
  next
    case False
    then have "p \<noteq> 0" using Suc.prems(1) by (cases p) auto
    moreover have "n div 10 < 10 ^ p" using Suc.prems(1) by (simp add: div_less_iff_less_mult mult.commute)
    ultimately have "length (nat_str (n div 10)) \<le> p" using Suc.IH by simp
    with False show ?thesis by (subst nat_str.simps) simp
  qed
qed simp

lemma pad_left_digits:
  assumes "length s \<le> p" "list_all is_digit s"
  shows "length (pad_left p s) = p \<and> list_all is_digit (pad_left p s)
    \<and> digits_val (pad_left p s) = digits_val s"
  using assms
proof (induction p s rule: pad_left.induct)
  case (2 k s)
  have z: "digits_val (CHR ''0'' # t) = digits_val t" for t
    by (simp add: digits_val_def digit_val_def)
  show ?case
  proof (cases "length s < Suc k")
    case True
    with 2 show ?thesis by (simp add: z) (simp add: is_digit_def)
  next
    case False
    with 2 show ?thesis by simp
  qed
qed simp

lemma split_digits_append:
  assumes "list_all is_digit ds" "t = [] \<or> \<not> is_digit (hd t)"
  shows "split_digits (ds @ t) = (ds, t)"
proof -
  have "takeWhile is_digit t = []" "dropWhile is_digit t = t" using assms(2) by (cases t; auto)+
  with assms(1) show ?thesis
    by (simp add: split_digits_def list_all_iff takeWhile_append2 dropWhile_append2)
qed

lemma fixed_digits_parts:
  assumes "0 < p"
  obtains ip fp where "fixed_digits p q = ip @ CHR ''.'' # fp" "list_all is_digit ip" "ip \<noteq> []"
    "list_all is_digit fp" "length fp = p" "digits_val (ip @ fp) = q"
proof
  let ?ip = "nat_str (q div 10 ^ p)" and ?fp = "pad_left p (nat_str (q mod 10 ^ p))"
  have fp: "length ?fp = p \<and> list_all is_digit ?fp \<and> digits_val ?fp = digits_val (nat_str (q mod 10 ^ p))"
    by (rule pad_left_digits) (simp_all add: nat_str_length assms nat_str_digits)
  show "fixed_digits p q = ?ip @ CHR ''.'' # ?fp" by (simp add: fixed_digits_def)
  show "list_all is_digit ?ip" "?ip \<noteq> []" by (simp_all add: nat_str_digits)
  show "list_all is_digit ?fp" "length ?fp = p" using fp by simp_all
  have "digits_val ?fp = q mod 10 ^ p" "length ?fp = p" using fp by simp_all
  then show "digits_val (?ip @ ?fp) = q"
    by (simp only: digits_val_append digits_val_nat_str div_mult_mod_eq)
qed

lemma parse_decimal_fixed:
  assumes "0 < p"
  shows "parse_decimal (fixed_digits p q) = Some (of_nat q / 10 ^ p)"
proof -
  obtain ip fp where f: "fixed_digits p q = ip @ CHR ''.'' # fp" "list_all is_digit ip" "ip \<noteq> []"
    "list_all is_digit fp" "length fp = p" "digits_val (ip @ fp) = q"
    by (rule fixed_digits_parts [OF assms])
  have "split_digits (ip @ CHR ''.'' # fp) = (ip, CHR ''.'' # fp)"
    using f(2) by (intro split_digits_append) (simp_all add: is_digit_def)
  moreover have "split_digits fp = (fp, [])" using split_digits_append [OF f(4), of "[]"] by simp
  ultimately show ?thesis
    using f(3,5,6) by (simp add: parse_decimal_def f(1) parse_exponent_def)
qed

lemma to_lower_Cons: "to_lower (c # s) = lower_char c # to_lower s"
  by (simp add: to_lower_def)

lemma digit_head:
  assumes "is_digit c"
  shows "c \<noteq> CHR ''-''" "c \<noteq> CHR ''+''" "lower_char c \<noteq> CHR ''i''" "lower_char c \<noteq> CHR ''n''"
    "c \<noteq> CHR ''.''" "c \<noteq> CHR '' ''"
  using assms by (auto simp: is_digit_def lower_char_def)

text \<open>What \<open>ParseFloat\<close> makes of a fixed-point number: the nearest float64 of its digits.\<close>

lemma parse_float_fmt_fixed:
  assumes "0 < p"
  shows "parse_float (fmt_fixed p (Fin r))
    = (case f64_of_rat (fixed_value p r) of Fin v \<Rightarrow> Some (Fin v) | _ \<Rightarrow> None)"
proof -
  let ?q = "nat (round_half_even (\<bar>r\<bar> * 10 ^ p))"
  obtain ip fp where f: "fixed_digits p ?q = ip @ CHR ''.'' # fp" "list_all is_digit ip" "ip \<noteq> []"
    by (rule fixed_digits_parts [OF assms, of ?q])
  then obtain c t where c: "fixed_digits p ?q = c # t" "is_digit c" by (cases ip) auto
  note d = parse_decimal_fixed [OF assms, of ?q] digit_head [OF c(2)]
  show ?thesis
    using d by (simp add: parse_float_def fmt_fixed_def c(1) to_lower_Cons fixed_value_def Let_def)
qed

subsection \<open>Shortest format\<close>

text \<open>
  The verb \<open>%g\<close>: the fewest significant digits that round back to the value, in exponent form
  when the decimal exponent is below -4 or at least 6. Seventeen digits always suffice for a
  float64, and 400 steps reach the first non-zero digit of the smallest one.
\<close>

fun neg_exp10 :: "nat \<Rightarrow> int \<Rightarrow> int \<Rightarrow> nat" where
  "neg_exp10 0 n d = 0"
| "neg_exp10 (Suc fuel) n d = (if d \<le> n then 0 else Suc (neg_exp10 fuel (10 * n) d))"

definition rat_log10 :: "rat \<Rightarrow> int" where
  "rat_log10 a =
     (let (n, d) = quotient_of a
      in if d \<le> n then int (length (nat_str (nat (n div d)))) - 1
         else - int (neg_exp10 400 n d))"

definition pow10 :: "int \<Rightarrow> rat" where
  "pow10 e = (if 0 \<le> e then 10 ^ nat e else 1 / 10 ^ nat (- e))"

text \<open>The digits and the decimal exponent of the rounding to \<open>p\<close> significant digits.\<close>

definition round_digits :: "rat \<Rightarrow> nat \<Rightarrow> string \<times> int" where
  "round_digits a p =
     (let e = rat_log10 a; q = nat (round_half_even (a / pow10 (e - int p + 1)))
      in if q = 10 ^ p then (nat_str (10 ^ (p - 1)), e + 1) else (nat_str q, e))"

definition digits_value :: "string \<times> int \<Rightarrow> rat" where
  "digits_value de =
     (let (ds, e) = de in of_nat (digits_val ds) * pow10 (e - int (length ds) + 1))"

definition shortest_digits :: "rat \<Rightarrow> string \<times> int" where
  "shortest_digits a =
     (case find (\<lambda>p. f64_of_rat (digits_value (round_digits a p)) = Fin a) [1..<17] of
        Some p \<Rightarrow> round_digits a p
      | None \<Rightarrow> round_digits a 17)"

definition fmt_g :: "gofloat \<Rightarrow> string" where
  "fmt_g x =
     (case x of
        FNaN \<Rightarrow> ''NaN''
      | FPosInf \<Rightarrow> ''+Inf''
      | FNegInf \<Rightarrow> ''-Inf''
      | Fin r \<Rightarrow>
         (if r = 0 then ''0''
          else
            let (ds, e) = shortest_digits \<bar>r\<bar>;
                sign = (if r < 0 then ''-'' else [])
            in sign @
               (if e < -4 \<or> 6 \<le> e then
                  take 1 ds @ (if length ds = 1 then [] else CHR ''.'' # drop 1 ds)
                  @ ''e'' @ (if e < 0 then ''-'' else ''+'') @ pad_left 2 (nat_str (nat \<bar>e\<bar>))
                else if 0 \<le> e then
                  (let n = nat e + 1
                   in take n (ds @ replicate n (CHR ''0''))
                      @ (if length ds \<le> n then [] else CHR ''.'' # drop n ds))
                else ''0.'' @ replicate (nat (- e) - 1) (CHR ''0'') @ ds)))"

end
