(* ===== verification/SearchSpace.thy ===== *)
theory SearchSpace
  imports GoFloat
begin

text \<open>
  The search kernel of \<open>internal/search/search.go\<close>: the search space, the constructor
  \<open>NewSearcher\<close> with its validation, and \<open>Suggest\<close>, which replays the history into a study and
  asks it for one value per parameter. The optimiser (\<open>goptuna\<close>) and the generator of
  \<open>math/rand\<close> are not in this repository: they are the records \<open>goptuna\<close> and \<open>gorand\<close> of
  functions, and \<open>goptuna_ok\<close> and \<open>gorand_ok\<close> state what their documentation promises.
\<close>

subsection \<open>Data\<close>

record int_spec =
  is_low :: int
  is_high :: int
  is_step :: int

record float_spec =
  fs_low :: gofloat
  fs_high :: gofloat
  fs_log :: bool

record cat_spec =
  cs_choices :: "string list"

record space =
  sp_ints :: "int_spec gomap"
  sp_floats :: "float_spec gomap"
  sp_cats :: "cat_spec gomap"

text \<open>The dynamic types that a parameter value of type \<open>any\<close> can have in the code's type switches.\<close>

datatype goval =
    VInt int | VInt32 int | VInt64 int | VFloat gofloat | VFloat32 gofloat | VStr string
  | VOther string

record trial =
  tr_params :: "goval gomap"

record observation =
  ob_params :: "goval gomap"
  ob_eval_loss :: gofloat

record config =
  cf_sampler :: string
  cf_direction :: string
  cf_seed :: int
  cf_space :: space
  cf_warmup :: int

definition sampler_tpe :: string where "sampler_tpe = ''tpe''"
definition sampler_random :: string where "sampler_random = ''random''"
definition direction_minimize :: string where "direction_minimize = ''minimize''"
definition direction_maximize :: string where "direction_maximize = ''maximize''"

datatype search_error =
    EmptySpace
  | IntLowAboveHigh string int int
  | IntNegativeStep string int
  | FloatLowAboveHigh string gofloat gofloat
  | FloatLogLow string gofloat
  | NoChoices string
  | CreateStudyErr string
  | HistoricalTrialErr string
  | NotAnInt string goval
  | SetIntErr string string
  | NotAFloat string goval
  | SetFloatErr string string
  | NotAString string goval
  | NotInChoices string string
  | SetCatErr string string
  | SetValueErr string
  | SetStateErr string
  | NewTrialErr string
  | SuggestIntErr string string
  | SuggestFloatErr string string
  | IntnPanic string
  | ParamUnreachable string

subsection \<open>NewSearcher\<close>

definition check_int_spec :: "string \<times> int_spec \<Rightarrow> search_error option" where
  "check_int_spec p =
     (let (name, s) = p
      in if is_low s > is_high s then Some (IntLowAboveHigh name (is_low s) (is_high s))
         else if is_step s < 0 then Some (IntNegativeStep name (is_step s))
         else None)"

definition check_float_spec :: "string \<times> float_spec \<Rightarrow> search_error option" where
  "check_float_spec p =
     (let (name, s) = p
      in if flt (fs_high s) (fs_low s) then Some (FloatLowAboveHigh name (fs_low s) (fs_high s))
         else if fs_log s \<and> fle (fs_low s) (Fin 0) then Some (FloatLogLow name (fs_low s))
         else None)"

definition check_cat_spec :: "string \<times> cat_spec \<Rightarrow> search_error option" where
  "check_cat_spec p =
     (let (name, s) = p in if cs_choices s = [] then Some (NoChoices name) else None)"

definition space_empty :: "space \<Rightarrow> bool" where
  "space_empty sp \<longleftrightarrow> sp_ints sp = [] \<and> sp_floats sp = [] \<and> sp_cats sp = []"

definition new_searcher :: "config \<Rightarrow> search_error + config" where
  "new_searcher cfg0 =
     (let cfg = cfg0\<lparr>cf_sampler := if cf_sampler cfg0 = [] then sampler_tpe else cf_sampler cfg0,
                     cf_direction := if cf_direction cfg0 = [] then direction_minimize
                                     else cf_direction cfg0,
                     cf_warmup := if cf_warmup cfg0 < 0 then 0 else cf_warmup cfg0\<rparr>;
          sp = cf_space cfg
      in if space_empty sp then Inl EmptySpace
         else case first_error check_int_spec (sp_ints sp) of
           Some e \<Rightarrow> Inl e
         | None \<Rightarrow>
          (case first_error check_float_spec (sp_floats sp) of
             Some e \<Rightarrow> Inl e
           | None \<Rightarrow>
            (case first_error check_cat_spec (sp_cats sp) of
               Some e \<Rightarrow> Inl e
             | None \<Rightarrow> Inr cfg)))"

subsection \<open>Value conversions\<close>

definition to_int :: "goval \<Rightarrow> int option" where
  "to_int v =
     (case v of
        VInt n \<Rightarrow> Some n
      | VInt32 n \<Rightarrow> Some n
      | VInt64 n \<Rightarrow> Some n
      | VFloat x \<Rightarrow> (if feq x (int_to_float (float_to_int x)) then Some (float_to_int x) else None)
      | _ \<Rightarrow> None)"

definition to_float :: "goval \<Rightarrow> gofloat option" where
  "to_float v =
     (case v of
        VFloat x \<Rightarrow> Some x
      | VFloat32 x \<Rightarrow> Some x
      | VInt n \<Rightarrow> Some (int_to_float n)
      | VInt64 n \<Rightarrow> Some (int_to_float n)
      | _ \<Rightarrow> None)"

text \<open>\<open>sortedParamNames\<close>: the union of the three key lists, sorted; no duplicate is removed.\<close>

definition sorted_param_names :: "space \<Rightarrow> string list" where
  "sorted_param_names sp =
     sort (map fst (sp_ints sp) @ map fst (sp_floats sp) @ map fst (sp_cats sp))"

fun choice_index :: "string list \<Rightarrow> string \<Rightarrow> nat option" where
  "choice_index [] s = None"
| "choice_index (c # cs) s = (if c = s then Some 0 else map_option Suc (choice_index cs s))"

lemma choice_index_None [simp]: "choice_index cs s = None \<longleftrightarrow> s \<notin> set cs"
  by (induction cs) auto

lemma choice_index_Some:
  "choice_index cs s = Some i \<Longrightarrow> i < length cs \<and> cs ! i = s \<and> s \<in> set cs"
  by (induction cs arbitrary: i) (auto split: if_splits)

lemma set_sorted_param_names [simp]:
  "set (sorted_param_names sp)
     = fst ` set (sp_ints sp) \<union> fst ` set (sp_floats sp) \<union> fst ` set (sp_cats sp)"
  by (auto simp: sorted_param_names_def)

lemma sorted_sorted_param_names: "sorted (sorted_param_names sp)"
  by (simp add: sorted_param_names_def)

subsection \<open>The optimiser and the random generator\<close>

datatype distribution =
    StepIntUniform int int int
  | IntUniform int int
  | LogUniform gofloat gofloat
  | Uniform gofloat gofloat
  | Categorical "string list"

datatype sampler_kind = RandomSampler int | TPESampler int

record 'st goptuna =
  gp_create_study :: "sampler_kind \<Rightarrow> bool \<Rightarrow> string + 'st"
  gp_new_trial :: "'st \<Rightarrow> string + (nat \<times> 'st)"
  gp_set_param :: "'st \<Rightarrow> nat \<Rightarrow> string \<Rightarrow> gofloat \<Rightarrow> distribution \<Rightarrow> string + 'st"
  gp_set_value :: "'st \<Rightarrow> nat \<Rightarrow> gofloat \<Rightarrow> string + 'st"
  gp_set_complete :: "'st \<Rightarrow> nat \<Rightarrow> string + 'st"
  gp_suggest_int :: "'st \<Rightarrow> nat \<Rightarrow> string \<Rightarrow> int \<Rightarrow> int \<Rightarrow> string + (int \<times> 'st)"
  gp_suggest_step_int :: "'st \<Rightarrow> nat \<Rightarrow> string \<Rightarrow> int \<Rightarrow> int \<Rightarrow> int \<Rightarrow> string + (int \<times> 'st)"
  gp_suggest_float :: "'st \<Rightarrow> nat \<Rightarrow> string \<Rightarrow> gofloat \<Rightarrow> gofloat \<Rightarrow> string + (gofloat \<times> 'st)"
  gp_suggest_log_float :: "'st \<Rightarrow> nat \<Rightarrow> string \<Rightarrow> gofloat \<Rightarrow> gofloat \<Rightarrow> string + (gofloat \<times> 'st)"

text \<open>
  \<open>rd_int63 seed\<close> is the first \<open>Int63\<close> of a source with that seed; \<open>rd_intn seed bs n\<close> is the
  \<open>Intn(n)\<close> that follows the calls with the bounds \<open>bs\<close>.
\<close>

record gorand =
  rd_int63 :: "int \<Rightarrow> int"
  rd_intn :: "int \<Rightarrow> nat list \<Rightarrow> nat \<Rightarrow> nat"

text \<open>
  What the two packages document. \<open>live st t\<close>: trial \<open>t\<close> of the study is still running. A study is
  always created in memory, a fresh trial is live, a live trial accepts parameters, a value and
  its completion, and a suggestion for a non-empty range lies in the range (on the grid of its
  step). Completing one trial does not stop another.
\<close>

definition goptuna_ok :: "'st goptuna \<Rightarrow> ('st \<Rightarrow> nat \<Rightarrow> bool) \<Rightarrow> bool" where
  "goptuna_ok g live \<longleftrightarrow>
     (\<forall>k d. is_ok (gp_create_study g k d)) \<and>
     (\<forall>st. \<exists>t st'. gp_new_trial g st = Inr (t, st') \<and> live st' t) \<and>
     (\<forall>st t n x d. live st t \<longrightarrow> (\<exists>st'. gp_set_param g st t n x d = Inr st' \<and> live st' t)) \<and>
     (\<forall>st t x. live st t \<longrightarrow> (\<exists>st'. gp_set_value g st t x = Inr st' \<and> live st' t)) \<and>
     (\<forall>st t. live st t \<longrightarrow> is_ok (gp_set_complete g st t)) \<and>
     (\<forall>st t n lo hi. live st t \<longrightarrow> lo \<le> hi \<longrightarrow>
        (\<exists>v st'. gp_suggest_int g st t n lo hi = Inr (v, st') \<and> live st' t \<and> lo \<le> v \<and> v \<le> hi)) \<and>
     (\<forall>st t n lo hi s. live st t \<longrightarrow> lo \<le> hi \<longrightarrow> 0 < s \<longrightarrow>
        (\<exists>v st'. gp_suggest_step_int g st t n lo hi s = Inr (v, st') \<and> live st' t
                 \<and> lo \<le> v \<and> v \<le> hi \<and> (v - lo) mod s = 0)) \<and>
     (\<forall>st t n lo hi. live st t \<longrightarrow> fle lo hi \<longrightarrow>
        (\<exists>v st'. gp_suggest_float g st t n lo hi = Inr (v, st') \<and> live st' t
                 \<and> fle lo v \<and> fle v hi)) \<and>
     (\<forall>st t n lo hi. live st t \<longrightarrow> fle lo hi \<longrightarrow> flt (Fin 0) lo \<longrightarrow>
        (\<exists>v st'. gp_suggest_log_float g st t n lo hi = Inr (v, st') \<and> live st' t
                 \<and> fle lo v \<and> fle v hi))"

definition gorand_ok :: "gorand \<Rightarrow> bool" where
  "gorand_ok rd \<longleftrightarrow> (\<forall>seed bs n. 0 < n \<longrightarrow> rd_intn rd seed bs n < n)"

subsection \<open>Suggest\<close>

definition int_distribution :: "int_spec \<Rightarrow> distribution" where
  "int_distribution s =
     (if is_step s > 0 then StepIntUniform (is_low s) (is_high s) (is_step s)
      else IntUniform (is_low s) (is_high s))"

definition float_distribution :: "float_spec \<Rightarrow> distribution" where
  "float_distribution s =
     (if fs_log s then LogUniform (fs_low s) (fs_high s) else Uniform (fs_low s) (fs_high s))"

text \<open>One parameter of a past trial: the body of the loop of \<open>injectObservation\<close>.\<close>

definition inject_param ::
    "'st goptuna \<Rightarrow> space \<Rightarrow> observation \<Rightarrow> nat \<Rightarrow> 'st \<Rightarrow> string \<Rightarrow> search_error + 'st" where
  "inject_param g sp obs t st name =
     (case gm_get (ob_params obs) name of
        None \<Rightarrow> Inr st
      | Some val \<Rightarrow>
         (case gm_get (sp_ints sp) name of
            Some spec \<Rightarrow>
             (case to_int val of
                None \<Rightarrow> Inl (NotAnInt name val)
              | Some n \<Rightarrow>
                 (case gp_set_param g st t name (int_to_float n) (int_distribution spec) of
                    Inl e \<Rightarrow> Inl (SetIntErr name e) | Inr st' \<Rightarrow> Inr st'))
          | None \<Rightarrow>
         (case gm_get (sp_floats sp) name of
            Some spec \<Rightarrow>
             (case to_float val of
                None \<Rightarrow> Inl (NotAFloat name val)
              | Some x \<Rightarrow>
                 (case gp_set_param g st t name x (float_distribution spec) of
                    Inl e \<Rightarrow> Inl (SetFloatErr name e) | Inr st' \<Rightarrow> Inr st'))
          | None \<Rightarrow>
         (case gm_get (sp_cats sp) name of
            Some spec \<Rightarrow>
             (case val of
                VStr s \<Rightarrow>
                 (case choice_index (cs_choices spec) s of
                    None \<Rightarrow> Inl (NotInChoices name s)
                  | Some i \<Rightarrow>
                     (case gp_set_param g st t name (int_to_float (int i))
                             (Categorical (cs_choices spec)) of
                        Inl e \<Rightarrow> Inl (SetCatErr name e) | Inr st' \<Rightarrow> Inr st'))
              | _ \<Rightarrow> Inl (NotAString name val))
          | None \<Rightarrow> Inr st))))"

definition inject_observation ::
    "'st goptuna \<Rightarrow> space \<Rightarrow> string list \<Rightarrow> 'st \<Rightarrow> observation \<Rightarrow> search_error + 'st" where
  "inject_observation g sp names st obs =
     (case gp_new_trial g st of
        Inl e \<Rightarrow> Inl (HistoricalTrialErr e)
      | Inr (t, st1) \<Rightarrow>
         (case fold_result (inject_param g sp obs t) st1 names of
            Inl e \<Rightarrow> Inl e
          | Inr st2 \<Rightarrow>
             (case gp_set_value g st2 t (ob_eval_loss obs) of
                Inl e \<Rightarrow> Inl (SetValueErr e)
              | Inr st3 \<Rightarrow>
                 (case gp_set_complete g st3 t of
                    Inl e \<Rightarrow> Inl (SetStateErr e)
                  | Inr st4 \<Rightarrow> Inr st4))))"

definition suggest_int ::
    "'st goptuna \<Rightarrow> 'st \<Rightarrow> nat \<Rightarrow> string \<Rightarrow> int_spec \<Rightarrow> string + (int \<times> 'st)" where
  "suggest_int g st t name spec =
     (if is_step spec > 0
      then gp_suggest_step_int g st t name (is_low spec) (is_high spec) (is_step spec)
      else gp_suggest_int g st t name (is_low spec) (is_high spec))"

definition suggest_float ::
    "'st goptuna \<Rightarrow> 'st \<Rightarrow> nat \<Rightarrow> string \<Rightarrow> float_spec \<Rightarrow> string + (gofloat \<times> 'st)" where
  "suggest_float g st t name spec =
     (if fs_log spec then gp_suggest_log_float g st t name (fs_low spec) (fs_high spec)
      else gp_suggest_float g st t name (fs_low spec) (fs_high spec))"

text \<open>
  The state of the suggestion loop: the study, the bounds that \<open>catRng\<close> has been asked for so
  far, and the map \<open>out\<close>.
\<close>

record 'st sugg =
  sg_study :: 'st
  sg_draws :: "nat list"
  sg_out :: "goval gomap"

definition suggest_param ::
    "'st goptuna \<Rightarrow> gorand \<Rightarrow> int \<Rightarrow> space \<Rightarrow> nat \<Rightarrow> 'st sugg \<Rightarrow> string \<Rightarrow> search_error + 'st sugg" where
  "suggest_param g rd seed sp t s name =
     (case gm_get (sp_ints sp) name of
        Some spec \<Rightarrow>
         (case suggest_int g (sg_study s) t name spec of
            Inl e \<Rightarrow> Inl (SuggestIntErr name e)
          | Inr (v, st) \<Rightarrow> Inr (s\<lparr>sg_study := st, sg_out := gm_set (sg_out s) name (VInt v)\<rparr>))
      | None \<Rightarrow>
     (case gm_get (sp_floats sp) name of
        Some spec \<Rightarrow>
         (case suggest_float g (sg_study s) t name spec of
            Inl e \<Rightarrow> Inl (SuggestFloatErr name e)
          | Inr (v, st) \<Rightarrow> Inr (s\<lparr>sg_study := st, sg_out := gm_set (sg_out s) name (VFloat v)\<rparr>))
      | None \<Rightarrow>
     (case gm_get (sp_cats sp) name of
        Some spec \<Rightarrow>
         (if cs_choices spec = [] then Inl (IntnPanic name)
          else
            let n = length (cs_choices spec);
                idx = rd_intn rd seed (sg_draws s) n
            in (case gp_set_param g (sg_study s) t name (int_to_float (int idx))
                       (Categorical (cs_choices spec)) of
                  Inl e \<Rightarrow> Inl (SetCatErr name e)
                | Inr st \<Rightarrow>
                    Inr (s\<lparr>sg_study := st, sg_draws := sg_draws s @ [n],
                           sg_out := gm_set (sg_out s) name (VStr (cs_choices spec ! idx))\<rparr>)))
      | None \<Rightarrow> Inl (ParamUnreachable name))))"

definition pick_sampler :: "gorand \<Rightarrow> config \<Rightarrow> nat \<Rightarrow> int \<Rightarrow> sampler_kind" where
  "pick_sampler rd cfg n seed =
     (if int n < cf_warmup cfg \<or> cf_sampler cfg = sampler_random
      then RandomSampler (rd_int63 rd seed) else TPESampler (rd_int63 rd seed))"

definition suggest_seed :: "config \<Rightarrow> nat \<Rightarrow> int" where
  "suggest_seed cfg n = (if cf_seed cfg = 0 then int n * 9973 + 17 else cf_seed cfg)"

definition suggest ::
    "'st goptuna \<Rightarrow> gorand \<Rightarrow> config \<Rightarrow> observation list \<Rightarrow> search_error + trial" where
  "suggest g rd cfg history =
     (let seed = suggest_seed cfg (length history);
          sp = cf_space cfg;
          names = sorted_param_names sp
      in case gp_create_study g (pick_sampler rd cfg (length history) seed)
                (cf_direction cfg = direction_maximize) of
           Inl e \<Rightarrow> Inl (CreateStudyErr e)
         | Inr st0 \<Rightarrow>
          (case fold_result (inject_observation g sp names) st0 history of
             Inl e \<Rightarrow> Inl e
           | Inr st1 \<Rightarrow>
            (case gp_new_trial g st1 of
               Inl e \<Rightarrow> Inl (NewTrialErr e)
             | Inr (t, st2) \<Rightarrow>
              (case fold_result (suggest_param g rd seed sp t)
                      \<lparr>sg_study = st2, sg_draws = [], sg_out = []\<rparr> names of
                 Inl e \<Rightarrow> Inl e
               | Inr s \<Rightarrow> Inr \<lparr>tr_params = sg_out s\<rparr>))))"

subsection \<open>What NewSearcher accepts\<close>

text \<open>A space over which a value can be chosen for every parameter.\<close>

definition int_spec_ok :: "int_spec \<Rightarrow> bool" where
  "int_spec_ok s \<longleftrightarrow> is_low s \<le> is_high s \<and> 0 \<le> is_step s"

definition float_spec_ok :: "float_spec \<Rightarrow> bool" where
  "float_spec_ok s \<longleftrightarrow> fle (fs_low s) (fs_high s) \<and> (fs_log s \<longrightarrow> flt (Fin 0) (fs_low s))"

definition space_ok :: "space \<Rightarrow> bool" where
  "space_ok sp \<longleftrightarrow> \<not> space_empty sp
     \<and> (\<forall>(n, s) \<in> set (sp_ints sp). int_spec_ok s)
     \<and> (\<forall>(n, s) \<in> set (sp_floats sp). float_spec_ok s)
     \<and> (\<forall>(n, s) \<in> set (sp_cats sp). cs_choices s \<noteq> [])"

definition bounds_not_nan :: "space \<Rightarrow> bool" where
  "bounds_not_nan sp \<longleftrightarrow>
     (\<forall>(n, s) \<in> set (sp_floats sp). fs_low s \<noteq> FNaN \<and> fs_high s \<noteq> FNaN)"

lemma check_int_spec_None: "check_int_spec (n, s) = None \<longleftrightarrow> int_spec_ok s"
  by (auto simp: check_int_spec_def int_spec_ok_def)

lemma check_float_spec_None:
  assumes "fs_low s \<noteq> FNaN" "fs_high s \<noteq> FNaN"
  shows "check_float_spec (n, s) = None \<longleftrightarrow> float_spec_ok s"
  using assms not_flt_fle [of "fs_high s" "fs_low s"] not_flt_fle [of "Fin 0" "fs_low s"]
  by (auto simp: check_float_spec_def float_spec_ok_def)

lemma new_searcher_ok_iff:
  assumes "bounds_not_nan (cf_space cfg)"
  shows "is_ok (new_searcher cfg) \<longleftrightarrow> space_ok (cf_space cfg)"
proof -
  let ?sp = "cf_space cfg"
  have i: "first_error check_int_spec (sp_ints ?sp) = None
             \<longleftrightarrow> (\<forall>(n, s) \<in> set (sp_ints ?sp). int_spec_ok s)"
    by (auto simp: first_error_None_iff check_int_spec_None)
  have f: "first_error check_float_spec (sp_floats ?sp) = None
             \<longleftrightarrow> (\<forall>(n, s) \<in> set (sp_floats ?sp). float_spec_ok s)"
    using assms by (force simp: first_error_None_iff check_float_spec_None bounds_not_nan_def)
  have c: "first_error check_cat_spec (sp_cats ?sp) = None
             \<longleftrightarrow> (\<forall>(n, s) \<in> set (sp_cats ?sp). cs_choices s \<noteq> [])"
    by (auto simp: first_error_None_iff check_cat_spec_def)
  show ?thesis
    unfolding new_searcher_def space_ok_def i [symmetric] f [symmetric] c [symmetric]
    by (auto simp: Let_def split: option.splits)
qed

lemma new_searcher_space: "new_searcher cfg0 = Inr cfg \<Longrightarrow> cf_space cfg = cf_space cfg0"
  by (auto simp: new_searcher_def Let_def split: if_splits option.splits)

lemma space_okD:
  assumes "space_ok sp"
  shows "gm_get (sp_ints sp) n = Some i \<Longrightarrow> int_spec_ok i"
    and "gm_get (sp_floats sp) n = Some f \<Longrightarrow> float_spec_ok f"
    and "gm_get (sp_cats sp) n = Some c \<Longrightarrow> cs_choices c \<noteq> []"
  using assms by (auto simp: space_ok_def dest!: map_of_SomeD)

subsection \<open>When Suggest succeeds, and what it returns\<close>

definition value_fits :: "space \<Rightarrow> string \<Rightarrow> goval \<Rightarrow> bool" where
  "value_fits sp name v =
     (case gm_get (sp_ints sp) name of
        Some _ \<Rightarrow> to_int v \<noteq> None
      | None \<Rightarrow>
     (case gm_get (sp_floats sp) name of
        Some _ \<Rightarrow> to_float v \<noteq> None
      | None \<Rightarrow>
     (case gm_get (sp_cats sp) name of
        Some spec \<Rightarrow> (case v of VStr s \<Rightarrow> s \<in> set (cs_choices spec) | _ \<Rightarrow> False)
      | None \<Rightarrow> True)))"

definition observation_fits :: "space \<Rightarrow> observation \<Rightarrow> bool" where
  "observation_fits sp obs \<longleftrightarrow>
     (\<forall>name \<in> set (sorted_param_names sp).
        case gm_get (ob_params obs) name of None \<Rightarrow> True | Some v \<Rightarrow> value_fits sp name v)"

definition value_in_space :: "space \<Rightarrow> string \<Rightarrow> goval \<Rightarrow> bool" where
  "value_in_space sp name v =
     (case gm_get (sp_ints sp) name of
        Some s \<Rightarrow> (case v of
            VInt n \<Rightarrow> is_low s \<le> n \<and> n \<le> is_high s
                      \<and> (is_step s > 0 \<longrightarrow> (n - is_low s) mod is_step s = 0)
          | _ \<Rightarrow> False)
      | None \<Rightarrow>
     (case gm_get (sp_floats sp) name of
        Some s \<Rightarrow> (case v of VFloat x \<Rightarrow> fle (fs_low s) x \<and> fle x (fs_high s) | _ \<Rightarrow> False)
      | None \<Rightarrow>
     (case gm_get (sp_cats sp) name of
        Some s \<Rightarrow> (case v of VStr c \<Rightarrow> c \<in> set (cs_choices s) | _ \<Rightarrow> False)
      | None \<Rightarrow> False)))"

definition trial_in_space :: "space \<Rightarrow> trial \<Rightarrow> bool" where
  "trial_in_space sp t \<longleftrightarrow>
     fst ` set (tr_params t) = set (sorted_param_names sp)
     \<and> (\<forall>name v. gm_get (tr_params t) name = Some v \<longrightarrow> value_in_space sp name v)"

lemma goptuna_okD:
  assumes "goptuna_ok g live"
  shows "is_ok (gp_create_study g k d)"
    and "\<exists>t st'. gp_new_trial g st = Inr (t, st') \<and> live st' t"
    and "live st t \<Longrightarrow> \<exists>st'. gp_set_param g st t n x ds = Inr st' \<and> live st' t"
    and "live st t \<Longrightarrow> \<exists>st'. gp_set_value g st t x = Inr st' \<and> live st' t"
    and "live st t \<Longrightarrow> is_ok (gp_set_complete g st t)"
  using assms by (simp_all add: goptuna_ok_def)

lemma inject_param_cases:
  assumes g: "goptuna_ok g live" and l: "live st t"
  shows "(case gm_get (ob_params obs) name of None \<Rightarrow> True | Some v \<Rightarrow> value_fits sp name v) \<Longrightarrow>
           \<exists>st'. inject_param g sp obs t st name = Inr st' \<and> live st' t"
    and "\<not> (case gm_get (ob_params obs) name of None \<Rightarrow> True | Some v \<Rightarrow> value_fits sp name v) \<Longrightarrow>
           \<exists>e. inject_param g sp obs t st name = Inl e"
proof -
  have "\<forall>x ds. \<exists>st'. gp_set_param g st t name x ds = Inr st' \<and> live st' t"
    using goptuna_okD(3) [OF g l] by blast
  then obtain f where f: "\<And>x ds. gp_set_param g st t name x ds = Inr (f x ds)"
      "\<And>x ds. live (f x ds) t"
    by metis
  show "(case gm_get (ob_params obs) name of None \<Rightarrow> True | Some v \<Rightarrow> value_fits sp name v) \<Longrightarrow>
           \<exists>st'. inject_param g sp obs t st name = Inr st' \<and> live st' t"
    using l f(2)
    by (auto simp: inject_param_def value_fits_def f(1) split: option.splits goval.splits)
  show "\<not> (case gm_get (ob_params obs) name of None \<Rightarrow> True | Some v \<Rightarrow> value_fits sp name v) \<Longrightarrow>
           \<exists>e. inject_param g sp obs t st name = Inl e"
    by (auto simp: inject_param_def value_fits_def dest: choice_index_Some
        split: option.splits goval.splits sum.splits)
qed

lemma inject_observation_ok_iff:
  assumes g: "goptuna_ok g live"
  shows "is_ok (inject_observation g sp (sorted_param_names sp) st obs) \<longleftrightarrow> observation_fits sp obs"
proof -
  let ?Q = "\<lambda>name. case gm_get (ob_params obs) name of None \<Rightarrow> True | Some v \<Rightarrow> value_fits sp name v"
  obtain t st1 where t: "gp_new_trial g st = Inr (t, st1)" "live st1 t"
    using goptuna_okD(2) [OF g] by blast
  let ?r = "fold_result (inject_param g sp obs t) st1 (sorted_param_names sp)"
  have iff: "is_ok ?r \<longleftrightarrow> (\<forall>n \<in> set (sorted_param_names sp). ?Q n)"
    by (rule fold_result_iff(2) [where P = "\<lambda>s. live s t"])
      (use t inject_param_cases [OF g] in blast)+
  show ?thesis
  proof (cases "is_ok ?r")
    case True
    then have "\<forall>n \<in> set (sorted_param_names sp). ?Q n" using iff by simp
    then have "\<exists>s'. ?r = Inr s' \<and> live s' t"
      by (intro fold_result_iff(1) [where P = "\<lambda>s. live s t" and Q = ?Q])
        (use t inject_param_cases [OF g] in blast)+
    then obtain s2 where s2: "?r = Inr s2" "live s2 t" by blast
    obtain s3 where s3: "gp_set_value g s2 t (ob_eval_loss obs) = Inr s3" "live s3 t"
      using goptuna_okD(4) [OF g s2(2)] by blast
    obtain s4 where "gp_set_complete g s3 t = Inr s4"
      using goptuna_okD(5) [OF g s3(2)] by (rule is_okE)
    with t s2 s3 True iff show ?thesis
      by (simp add: inject_observation_def observation_fits_def)
  next
    case False
    then have "\<not> observation_fits sp obs" using iff by (simp add: observation_fits_def)
    moreover obtain e where "?r = Inl e" using False by (cases ?r) auto
    ultimately show ?thesis using t by (simp add: inject_observation_def)
  qed
qed

definition sugg_ok :: "space \<Rightarrow> ('st \<Rightarrow> nat \<Rightarrow> bool) \<Rightarrow> nat \<Rightarrow> 'st sugg \<Rightarrow> bool" where
  "sugg_ok sp live t s \<longleftrightarrow> live (sg_study s) t
     \<and> (\<forall>name v. gm_get (sg_out s) name = Some v \<longrightarrow> value_in_space sp name v)"

lemma suggest_param_ok:
  assumes g: "goptuna_ok g live" and rd: "gorand_ok rd" and sp: "space_ok sp"
    and s: "sugg_ok sp live t s" and n: "name \<in> set (sorted_param_names sp)"
  shows "\<exists>s'. suggest_param g rd seed sp t s name = Inr s' \<and> sugg_ok sp live t s'
           \<and> fst ` set (sg_out s') = insert name (fst ` set (sg_out s))"
proof -
  have l: "live (sg_study s) t" using s by (simp add: sugg_ok_def)
  show ?thesis
  proof (cases "gm_get (sp_ints sp) name")
    case (Some i)
    then have "int_spec_ok i" using space_okD(1) [OF sp] by blast
    then obtain v st' where "suggest_int g (sg_study s) t name i = Inr (v, st')" "live st' t"
      "is_low i \<le> v" "v \<le> is_high i" "is_step i > 0 \<longrightarrow> (v - is_low i) mod is_step i = 0"
      using g l unfolding goptuna_ok_def suggest_int_def int_spec_ok_def by (metis (full_types))
    with Some s show ?thesis
      by (simp add: suggest_param_def sugg_ok_def value_in_space_def gm_keys_set)
  next
    case ni: None
    show ?thesis
    proof (cases "gm_get (sp_floats sp) name")
      case (Some f)
      then have "float_spec_ok f" using space_okD(2) [OF sp] by blast
      then obtain v st' where "suggest_float g (sg_study s) t name f = Inr (v, st')" "live st' t"
        "fle (fs_low f) v" "fle v (fs_high f)"
        using g l unfolding goptuna_ok_def suggest_float_def float_spec_ok_def by (metis (full_types))
      with Some ni s show ?thesis
        by (simp add: suggest_param_def sugg_ok_def value_in_space_def gm_keys_set)
    next
      case nf: None
      then obtain c where c: "gm_get (sp_cats sp) name = Some c"
        using n ni by (auto simp: map_of_eq_None_iff) (metis not_Some_eq map_of_eq_None_iff image_eqI fst_conv)
      then have ne: "cs_choices c \<noteq> []" using space_okD(3) [OF sp] by blast
      let ?i = "rd_intn rd seed (sg_draws s) (length (cs_choices c))"
      have "?i < length (cs_choices c)" using rd ne by (simp add: gorand_ok_def)
      moreover obtain st' where "gp_set_param g (sg_study s) t name (int_to_float (int ?i))
          (Categorical (cs_choices c)) = Inr st'" "live st' t"
        using goptuna_okD(3) [OF g l] by blast
      ultimately show ?thesis using c ni nf ne s
        by (simp add: suggest_param_def sugg_ok_def value_in_space_def gm_keys_set Let_def)
    qed
  qed
qed

lemma suggest_ok_lemma:
  assumes g: "goptuna_ok g live" and rd: "gorand_ok rd"
    and cfg: "new_searcher cfg0 = Inr cfg" and nan: "bounds_not_nan (cf_space cfg0)"
  shows "is_ok (suggest g rd cfg history)
           \<longleftrightarrow> (\<forall>obs \<in> set history. observation_fits (cf_space cfg) obs)"
proof -
  let ?sp = "cf_space cfg" and ?seed = "suggest_seed cfg (length history)"
  let ?names = "sorted_param_names ?sp"
  have sp: "space_ok ?sp"
    using cfg nan new_searcher_ok_iff [OF nan] by (simp add: new_searcher_space)
  obtain st0 where st0: "gp_create_study g (pick_sampler rd cfg (length history) ?seed)
      (cf_direction cfg = direction_maximize) = Inr st0"
    using goptuna_okD(1) [OF g] by (rule is_okE)
  let ?h = "fold_result (inject_observation g ?sp ?names) st0 history"
  have iff: "is_ok ?h \<longleftrightarrow> (\<forall>obs \<in> set history. observation_fits ?sp obs)"
    using inject_observation_ok_iff [OF g]
    by (intro fold_result_iff(2) [where P = "\<lambda>_. True"]) (simp_all flip: is_ok_iff)
  have "is_ok (suggest g rd cfg history)" if h: "?h = Inr st1" for st1
  proof -
    obtain t st2 where t: "gp_new_trial g st1 = Inr (t, st2)" "live st2 t"
      using goptuna_okD(2) [OF g] by blast
    have "sugg_ok ?sp live t \<lparr>sg_study = st2, sg_draws = [], sg_out = []\<rparr>"
      using t(2) by (simp add: sugg_ok_def)
    then have "\<exists>s. fold_result (suggest_param g rd ?seed ?sp t)
        \<lparr>sg_study = st2, sg_draws = [], sg_out = []\<rparr> ?names = Inr s \<and> sugg_ok ?sp live t s"
      using suggest_param_ok [OF g rd sp] by (intro fold_result_ok) blast+
    with st0 h t show ?thesis by (auto simp: suggest_def Let_def)
  qed
  moreover have "\<not> is_ok (suggest g rd cfg history)" if "?h = Inl e" for e
    using st0 that by (simp add: suggest_def Let_def)
  ultimately show ?thesis using iff by (cases ?h) auto
qed

text \<open>
  C10: under the documented behaviour of the optimiser, a searcher that \<open>NewSearcher\<close> built (with
  bounds that are numbers) returns a suggestion exactly when every past observation fits the
  search space: each recorded value has the kind of its parameter, and a recorded choice is still
  one of the choices. An observation whose choice was pruned from the space makes \<open>Suggest\<close> fail.
\<close>

theorem suggest_ok_iff:
  assumes g: "goptuna_ok g live" and rd: "gorand_ok rd"
    and cfg: "new_searcher cfg0 = Inr cfg" and nan: "bounds_not_nan (cf_space cfg0)"
  shows "is_ok (suggest g rd cfg history)
           \<longleftrightarrow> (\<forall>obs \<in> set history. observation_fits (cf_space cfg) obs)"
  using assms by (rule suggest_ok_lemma)

lemma suggest_in_space_lemma:
  assumes g: "goptuna_ok g live" and rd: "gorand_ok rd"
    and cfg: "new_searcher cfg0 = Inr cfg" and nan: "bounds_not_nan (cf_space cfg0)"
    and t: "suggest g rd cfg history = Inr t"
  shows "trial_in_space (cf_space cfg) t"
proof -
  let ?sp = "cf_space cfg" and ?seed = "suggest_seed cfg (length history)"
  have sp: "space_ok ?sp"
    using cfg nan new_searcher_ok_iff [OF nan] by (simp add: new_searcher_space)
  from t obtain st1 tid st2 s where n: "gp_new_trial g st1 = Inr (tid, st2)"
    and f: "fold_result (suggest_param g rd ?seed ?sp tid)
       \<lparr>sg_study = st2, sg_draws = [], sg_out = []\<rparr> (sorted_param_names ?sp) = Inr s"
    and ts: "t = \<lparr>tr_params = sg_out s\<rparr>"
    by (auto simp: suggest_def Let_def split: sum.splits)
  have l: "live st2 tid" using goptuna_okD(2) [OF g, of st1] n by auto
  have keys: "fst ` set (sg_out s') = set ns \<union> fst ` set (sg_out s0) \<and> sugg_ok ?sp live tid s'"
    if "fold_result (suggest_param g rd ?seed ?sp tid) s0 ns = Inr s'"
      and "set ns \<subseteq> set (sorted_param_names ?sp)" and "sugg_ok ?sp live tid s0" for ns s0 s'
    using that
  proof (induction ns arbitrary: s0)
    case (Cons n ns)
    have "n \<in> set (sorted_param_names ?sp)" using Cons.prems(2) by simp
    then obtain s1 where s1: "suggest_param g rd ?seed ?sp tid s0 n = Inr s1"
      "sugg_ok ?sp live tid s1" "fst ` set (sg_out s1) = insert n (fst ` set (sg_out s0))"
      using suggest_param_ok [OF g rd sp Cons.prems(3)] by blast
    with Cons.prems have "fst ` set (sg_out s') = set ns \<union> fst ` set (sg_out s1)
        \<and> sugg_ok ?sp live tid s'"
      by (intro Cons.IH) simp_all
    with s1(3) show ?case by auto
  qed simp
  have "fst ` set (sg_out s) = set (sorted_param_names ?sp) \<and> sugg_ok ?sp live tid s"
    using keys [OF f] l by (simp add: sugg_ok_def)
  with ts show ?thesis by (simp add: trial_in_space_def sugg_ok_def)
qed

text \<open>
  C11: what \<open>Suggest\<close> returns is a complete point of the search space: exactly one value for every
  parameter, an integer within its bounds and on the grid of its step, a float within its bounds,
  or one of the choices.
\<close>

theorem suggest_in_space:
  assumes g: "goptuna_ok g live" and rd: "gorand_ok rd"
    and cfg: "new_searcher cfg0 = Inr cfg" and nan: "bounds_not_nan (cf_space cfg0)"
    and t: "suggest g rd cfg history = Inr t"
  shows "trial_in_space (cf_space cfg) t"
  using assms by (rule suggest_in_space_lemma)

subsection \<open>A concrete optimiser\<close>

text \<open>An optimiser that always answers the lower bound, to show that the laws can hold.\<close>

definition low_goptuna :: "nat goptuna" where
  "low_goptuna =
     \<lparr>gp_create_study = (\<lambda>_ _. Inr 0),
      gp_new_trial = (\<lambda>st. Inr (st, Suc st)),
      gp_set_param = (\<lambda>st _ _ _ _. Inr st),
      gp_set_value = (\<lambda>st _ _. Inr st),
      gp_set_complete = (\<lambda>st _. Inr st),
      gp_suggest_int = (\<lambda>st _ _ lo _. Inr (lo, st)),
      gp_suggest_step_int = (\<lambda>st _ _ lo _ _. Inr (lo, st)),
      gp_suggest_float = (\<lambda>st _ _ lo _. Inr (lo, st)),
      gp_suggest_log_float = (\<lambda>st _ _ lo _. Inr (lo, st))\<rparr>"

definition zero_rand :: gorand where
  "zero_rand = \<lparr>rd_int63 = (\<lambda>s. s), rd_intn = (\<lambda>_ _ _. 0)\<rparr>"

lemma low_goptuna_ok: "goptuna_ok low_goptuna (\<lambda>_ _. True)"
proof -
  have "fle lo lo" if "fle lo hi" for lo hi :: gofloat
    using that by (cases lo) (auto simp: fle_def feq_def)
  then show ?thesis by (simp add: goptuna_ok_def low_goptuna_def)
qed

lemma zero_rand_ok: "gorand_ok zero_rand"
  by (simp add: gorand_ok_def zero_rand_def)

text \<open>A small space, and a configuration over it, for the witnesses.\<close>

definition demo_space :: space where
  "demo_space =
     \<lparr>sp_ints = [(''rank'', \<lparr>is_low = 4, is_high = 64, is_step = 2\<rparr>)],
      sp_floats = [(''rate'', \<lparr>fs_low = Fin 1, fs_high = Fin 2, fs_log = True\<rparr>)],
      sp_cats = [(''offload'', \<lparr>cs_choices = [''none'', ''cpu'']\<rparr>)]\<rparr>"

definition demo_config :: config where
  "demo_config = \<lparr>cf_sampler = sampler_tpe, cf_direction = direction_minimize, cf_seed = 7,
                  cf_space = demo_space, cf_warmup = 5\<rparr>"

lemma demo_config_new: "new_searcher demo_config = Inr demo_config"
  by code_simp

lemma demo_bounds: "bounds_not_nan (cf_space demo_config)"
  by code_simp

lemma suggest_ok_iff_witness:
  "is_ok (suggest low_goptuna zero_rand demo_config
     [\<lparr>ob_params = [(''offload'', VStr ''disk'')], ob_eval_loss = Fin 1\<rparr>])
   \<longleftrightarrow> (\<forall>obs \<in> set [\<lparr>ob_params = [(''offload'', VStr ''disk'')], ob_eval_loss = Fin 1\<rparr>].
          observation_fits (cf_space demo_config) obs)"
  by (rule suggest_ok_iff [OF low_goptuna_ok zero_rand_ok demo_config_new demo_bounds])

lemma demo_suggest:
  "suggest low_goptuna zero_rand demo_config [] =
     Inr \<lparr>tr_params = [(''offload'', VStr ''none''), (''rank'', VInt 4), (''rate'', VFloat (Fin 1))]\<rparr>"
  by code_simp

lemma suggest_in_space_witness:
  "trial_in_space (cf_space demo_config)
     \<lparr>tr_params = [(''offload'', VStr ''none''), (''rank'', VInt 4), (''rate'', VFloat (Fin 1))]\<rparr>"
  by (rule suggest_in_space [OF low_goptuna_ok zero_rand_ok demo_config_new demo_bounds demo_suggest])

end
