(* ===== verification/Hypotheses.thy ===== *)
theory Hypotheses
  imports SearchSpace
begin

text \<open>
  The strategist's document, \<open>internal/search/hypotheses.go\<close>: extraction of the fenced YAML block,
  parsing (the YAML decoder of \<open>sigs.k8s.io/yaml\<close> is the parameter \<open>unmarshal\<close>), and the layering of
  its adjustments onto a search space. A notice has one constructor per message of the code.
\<close>

subsection \<open>Data\<close>

record adjustment =
  ad_low :: "gofloat option"
  ad_high :: "gofloat option"
  ad_step :: "int option"
  ad_log :: "bool option"
  ad_choices :: "string list"

record hypotheses =
  hy_generated_at :: string
  hy_after_round :: int
  hy_hypothesis :: string
  hy_adjust :: "adjustment gomap"
  hy_references :: "string list"

definition no_hypotheses :: hypotheses where
  "no_hypotheses = \<lparr>hy_generated_at = [], hy_after_round = 0, hy_hypothesis = [],
                    hy_adjust = [], hy_references = []\<rparr>"

datatype notice =
    IntLowClamped string int int
  | IntHighClamped string int int
  | IntReverted string int int
  | FloatLowClamped string gofloat gofloat
  | FloatHighClamped string gofloat gofloat
  | FloatLogRejected string gofloat
  | FloatReverted string gofloat gofloat
  | UnknownParam string

subsection \<open>The fenced block\<close>

definition fence :: string where "fence = ''```''"

definition try_fence :: "string \<Rightarrow> string \<Rightarrow> string \<Rightarrow> string option" where
  "try_fence lower s tag =
     (case str_index lower tag of
        None \<Rightarrow> None
      | Some idx \<Rightarrow>
         (case index_byte (drop idx s) (CHR 0x0A) of
            None \<Rightarrow> None
          | Some nl \<Rightarrow>
             (let start = idx + nl + 1
              in case str_index (drop start s) fence of
                   None \<Rightarrow> None
                 | Some e \<Rightarrow> Some (trim_space (take e (drop start s))))))"

fun first_fence :: "string \<Rightarrow> string \<Rightarrow> string list \<Rightarrow> string option" where
  "first_fence lower s [] = None"
| "first_fence lower s (tag # tags) =
     (case try_fence lower s tag of Some b \<Rightarrow> Some b | None \<Rightarrow> first_fence lower s tags)"

definition extract_yaml_block :: "string \<Rightarrow> string" where
  "extract_yaml_block s =
     (case first_fence (to_lower s) s [''```yaml'', ''```yml'', fence] of
        Some b \<Rightarrow> b
      | None \<Rightarrow> trim_space s)"

definition parse_hypotheses :: "(string \<Rightarrow> string + hypotheses) \<Rightarrow> string \<Rightarrow> string + hypotheses" where
  "parse_hypotheses unmarshal body =
     (if body = [] then Inr no_hypotheses
      else let y = extract_yaml_block body
           in if y = [] then Inr no_hypotheses
              else case unmarshal y of
                     Inl e \<Rightarrow> Inl (''ParseHypotheses: '' @ e)
                   | Inr h \<Rightarrow> Inr h)"

subsection \<open>Adjusting one parameter\<close>

definition apply_to_int :: "int_spec \<Rightarrow> adjustment \<Rightarrow> string \<Rightarrow> int_spec \<times> notice list" where
  "apply_to_int spec adj name =
     (let (lo, n1) = (case ad_low adj of
            None \<Rightarrow> (is_low spec, [])
          | Some x \<Rightarrow> (let v = float_to_int x
                      in if v < is_low spec
                         then (is_low spec, [IntLowClamped name v (is_low spec)]) else (v, [])));
          (hi, n2) = (case ad_high adj of
            None \<Rightarrow> (is_high spec, [])
          | Some x \<Rightarrow> (let v = float_to_int x
                      in if v > is_high spec
                         then (is_high spec, [IntHighClamped name v (is_high spec)]) else (v, [])));
          st = (case ad_step adj of
            None \<Rightarrow> is_step spec
          | Some s \<Rightarrow> (if 0 \<le> s then s else is_step spec))
      in if lo > hi then (spec, n1 @ n2 @ [IntReverted name lo hi])
         else (\<lparr>is_low = lo, is_high = hi, is_step = st\<rparr>, n1 @ n2))"

definition apply_to_float :: "float_spec \<Rightarrow> adjustment \<Rightarrow> string \<Rightarrow> float_spec \<times> notice list" where
  "apply_to_float spec adj name =
     (let (lo, n1) = (case ad_low adj of
            None \<Rightarrow> (fs_low spec, [])
          | Some x \<Rightarrow> (if flt x (fs_low spec)
                      then (fs_low spec, [FloatLowClamped name x (fs_low spec)]) else (x, [])));
          (hi, n2) = (case ad_high adj of
            None \<Rightarrow> (fs_high spec, [])
          | Some x \<Rightarrow> (if flt (fs_high spec) x
                      then (fs_high spec, [FloatHighClamped name x (fs_high spec)]) else (x, [])));
          lg = (case ad_log adj of None \<Rightarrow> fs_log spec | Some b \<Rightarrow> b)
      in if lg \<and> fle lo (Fin 0) then (spec, n1 @ n2 @ [FloatLogRejected name lo])
         else if flt hi lo then (spec, n1 @ n2 @ [FloatReverted name lo hi])
         else (\<lparr>fs_low = lo, fs_high = hi, fs_log = lg\<rparr>, n1 @ n2))"

definition apply_to_categorical :: "cat_spec \<Rightarrow> adjustment \<Rightarrow> string \<Rightarrow> cat_spec \<times> notice list" where
  "apply_to_categorical spec adj name =
     (if ad_choices adj = [] then (spec, []) else (\<lparr>cs_choices = ad_choices adj\<rparr>, []))"

subsection \<open>Apply\<close>

text \<open>One iteration of the loop over \<open>h.AdjustSearchSpace\<close>.\<close>

definition apply_adjustment ::
    "space \<times> notice list \<Rightarrow> string \<times> adjustment \<Rightarrow> space \<times> notice list" where
  "apply_adjustment acc entry =
     (let (sp, ns) = acc; (name, adj) = entry
      in case gm_get (sp_ints sp) name of
           Some spec \<Rightarrow> (let (spec', n) = apply_to_int spec adj name
                        in (sp\<lparr>sp_ints := gm_set (sp_ints sp) name spec'\<rparr>, ns @ n))
         | None \<Rightarrow>
        (case gm_get (sp_floats sp) name of
           Some spec \<Rightarrow> (let (spec', n) = apply_to_float spec adj name
                        in (sp\<lparr>sp_floats := gm_set (sp_floats sp) name spec'\<rparr>, ns @ n))
         | None \<Rightarrow>
        (case gm_get (sp_cats sp) name of
           Some spec \<Rightarrow> (let (spec', n) = apply_to_categorical spec adj name
                        in (sp\<lparr>sp_cats := gm_set (sp_cats sp) name spec'\<rparr>, ns @ n))
         | None \<Rightarrow> (sp, ns @ [UnknownParam name]))))"

definition apply_hypotheses :: "hypotheses \<Rightarrow> space \<Rightarrow> space \<times> notice list" where
  "apply_hypotheses h orig = foldl apply_adjustment (orig, []) (hy_adjust h)"

subsection \<open>A specification: every parameter adjusted on its own\<close>

definition adjust_with :: "('s \<Rightarrow> adjustment \<Rightarrow> string \<Rightarrow> 's \<times> notice list) \<Rightarrow>
    adjustment gomap \<Rightarrow> string \<Rightarrow> 's \<Rightarrow> 's" where
  "adjust_with f adjs name s = (case gm_get adjs name of None \<Rightarrow> s | Some a \<Rightarrow> fst (f s a name))"

definition adjust_map :: "('s \<Rightarrow> adjustment \<Rightarrow> string \<Rightarrow> 's \<times> notice list) \<Rightarrow> string set \<Rightarrow>
    adjustment gomap \<Rightarrow> 's gomap \<Rightarrow> 's gomap" where
  "adjust_map f shadow adjs m =
     map (\<lambda>(n, s). (n, if n \<in> shadow then s else adjust_with f adjs n s)) m"

definition adjusted_space :: "adjustment gomap \<Rightarrow> space \<Rightarrow> space" where
  "adjusted_space adjs sp =
     (let ints = fst ` set (sp_ints sp); floats = fst ` set (sp_floats sp)
      in \<lparr>sp_ints = adjust_map apply_to_int {} adjs (sp_ints sp),
          sp_floats = adjust_map apply_to_float ints adjs (sp_floats sp),
          sp_cats = adjust_map apply_to_categorical (ints \<union> floats) adjs (sp_cats sp)\<rparr>)"

definition space_wf :: "space \<Rightarrow> bool" where
  "space_wf sp \<longleftrightarrow> gm_wf (sp_ints sp) \<and> gm_wf (sp_floats sp) \<and> gm_wf (sp_cats sp)"

lemma adjust_map_keys [simp]: "fst ` set (adjust_map f X adjs m) = fst ` set m"
  by (force simp: adjust_map_def)

lemma adjust_map_wf [simp]: "gm_wf (adjust_map f X adjs m) = gm_wf m"
  by (simp add: adjust_map_def)

lemma adjust_map_Nil [simp]: "adjust_map f X [] m = m"
  by (auto simp: adjust_map_def adjust_with_def intro!: map_idI)

lemma adjust_map_get:
  "gm_get (adjust_map f X adjs m) n
     = map_option (\<lambda>s. if n \<in> X then s else adjust_with f adjs n s) (gm_get m n)"
  by (simp add: adjust_map_def gm_get_map_values)

lemma adjust_map_elem:
  "(n, s') \<in> set (adjust_map f X adjs m) \<Longrightarrow>
     \<exists>s. (n, s) \<in> set m \<and> (s' = s \<or> s' = adjust_with f adjs n s)"
  by (auto simp: adjust_map_def)

lemma adjust_map_skip: "n \<notin> fst ` set m \<or> n \<in> X \<Longrightarrow> adjust_map f X [(n, a)] m = m"
  unfolding adjust_map_def by (intro map_idI) (force simp: adjust_with_def)

lemma adjust_map_one:
  assumes "gm_wf m" "gm_get m n = Some s" "n \<notin> X"
  shows "adjust_map f X [(n, a)] m = gm_set m n (fst (f s a n))"
proof -
  have v: "v = s" if "(n, v) \<in> set m" for v
    using assms(1,2) that by (simp add: gm_wf_def)
  have n: "n \<in> fst ` set m" using assms(2) by (force dest: map_of_SomeD)
  show ?thesis unfolding adjust_map_def gm_set_present [OF assms(1) n]
  proof (rule map_cong [OF refl])
    fix p
    assume p: "p \<in> set m"
    obtain k x where kx: "p = (k, x)" by (cases p)
    show "(case p of (k, x) \<Rightarrow> (k, if k \<in> X then x else adjust_with f [(n, a)] k x))
        = (case p of (k, x) \<Rightarrow> (k, if k = n then fst (f s a n) else x))"
      using p kx v assms(3) by (cases "k = n") (auto simp: adjust_with_def)
  qed
qed

lemma adjust_map_Cons:
  assumes "n \<notin> fst ` set adjs"
  shows "adjust_map f X adjs (adjust_map f X [(n, a)] m) = adjust_map f X ((n, a) # adjs) m"
proof -
  have "gm_get adjs n = None" using assms by (simp add: gm_get_None_iff)
  then show ?thesis by (auto simp: adjust_map_def adjust_with_def split: option.split)
qed

lemma adjusted_space_wf [simp]: "space_wf (adjusted_space adjs sp) = space_wf sp"
  by (simp add: space_wf_def adjusted_space_def Let_def)

lemma adjusted_space_Cons:
  "n \<notin> fst ` set adjs \<Longrightarrow>
     adjusted_space adjs (adjusted_space [(n, a)] sp) = adjusted_space ((n, a) # adjs) sp"
  by (simp add: adjusted_space_def Let_def adjust_map_Cons)

text \<open>One iteration of the loop is the one-entry case of the specification.\<close>

lemma apply_adjustment_single:
  assumes "space_wf sp"
  shows "fst (apply_adjustment (sp, ns) (n, a)) = adjusted_space [(n, a)] sp"
proof -
  consider (i) s where "gm_get (sp_ints sp) n = Some s"
    | (f) s where "gm_get (sp_ints sp) n = None" "gm_get (sp_floats sp) n = Some s"
    | (c) s where "gm_get (sp_ints sp) n = None" "gm_get (sp_floats sp) n = None"
        "gm_get (sp_cats sp) n = Some s"
    | (u) "gm_get (sp_ints sp) n = None" "gm_get (sp_floats sp) n = None"
        "gm_get (sp_cats sp) n = None"
    by (meson not_None_eq)
  then show ?thesis
  proof cases
    case i
    then have "n \<in> fst ` set (sp_ints sp)" by (force dest: map_of_SomeD)
    with i assms show ?thesis
      by (simp add: apply_adjustment_def adjusted_space_def Let_def case_prod_unfold space_wf_def
          adjust_map_one adjust_map_skip)
  next
    case f
    then have "n \<notin> fst ` set (sp_ints sp)" "n \<in> fst ` set (sp_floats sp)"
      by (auto simp: gm_get_None_iff) (force dest: map_of_SomeD)
    with f assms show ?thesis
      by (simp add: apply_adjustment_def adjusted_space_def Let_def case_prod_unfold space_wf_def
          adjust_map_one adjust_map_skip)
  next
    case c
    then have "n \<notin> fst ` set (sp_ints sp)" "n \<notin> fst ` set (sp_floats sp)"
      by (auto simp: gm_get_None_iff)
    with c assms show ?thesis
      by (simp add: apply_adjustment_def adjusted_space_def Let_def case_prod_unfold space_wf_def
          adjust_map_one adjust_map_skip)
  next
    case u
    then have "n \<notin> fst ` set (sp_ints sp)" "n \<notin> fst ` set (sp_floats sp)"
      "n \<notin> fst ` set (sp_cats sp)" by (auto simp: gm_get_None_iff)
    with u show ?thesis
      by (simp add: apply_adjustment_def adjusted_space_def Let_def adjust_map_skip)
  qed
qed

lemma apply_loop_eq:
  assumes "space_wf sp" "gm_wf adjs"
  shows "fst (foldl apply_adjustment (sp, ns) adjs) = adjusted_space adjs sp"
  using assms
proof (induction adjs arbitrary: sp ns)
  case Nil
  then show ?case by (simp add: adjusted_space_def Let_def)
next
  case (Cons e adjs)
  obtain n a where e: "e = (n, a)" by (cases e)
  obtain sp1 ns1 where s1: "apply_adjustment (sp, ns) (n, a) = (sp1, ns1)" by fastforce
  then have "sp1 = adjusted_space [(n, a)] sp"
    using apply_adjustment_single [OF Cons.prems(1), of ns n a] by simp
  moreover have "n \<notin> fst ` set adjs" "gm_wf adjs" using Cons.prems(2) e by (auto simp: gm_wf_def)
  ultimately show ?case
    using Cons.IH [of sp1 ns1] Cons.prems(1) e s1 by (simp add: adjusted_space_Cons)
qed

text \<open>
  C13: layering the strategist's adjustments is the same as adjusting every parameter of the space
  on its own, by the entry of its name if there is one: the outcome of the loop does not depend on
  the order in which Go iterates over the map.
\<close>

theorem apply_hypotheses_pointwise:
  assumes "space_wf sp" "gm_wf (hy_adjust h)"
  shows "fst (apply_hypotheses h sp) = adjusted_space (hy_adjust h) sp"
  unfolding apply_hypotheses_def using assms by (rule apply_loop_eq)

subsection \<open>The adjusted space\<close>

definition adjustment_finite :: "adjustment \<Rightarrow> bool" where
  "adjustment_finite a \<longleftrightarrow> ad_low a \<noteq> Some FNaN \<and> ad_high a \<noteq> Some FNaN"

text \<open>The new space has the same parameters, each over a sub-range of its old range.\<close>

definition space_narrows :: "space \<Rightarrow> space \<Rightarrow> bool" where
  "space_narrows new old \<longleftrightarrow>
     map fst (sp_ints new) = map fst (sp_ints old)
     \<and> map fst (sp_floats new) = map fst (sp_floats old)
     \<and> map fst (sp_cats new) = map fst (sp_cats old)
     \<and> (\<forall>n s s'. gm_get (sp_ints old) n = Some s \<and> gm_get (sp_ints new) n = Some s' \<longrightarrow>
           is_low s \<le> is_low s' \<and> is_high s' \<le> is_high s)
     \<and> (\<forall>n s s'. gm_get (sp_floats old) n = Some s \<and> gm_get (sp_floats new) n = Some s' \<longrightarrow>
           fle (fs_low s) (fs_low s') \<and> fle (fs_high s') (fs_high s))"

lemma apply_to_int_ok:
  assumes "int_spec_ok s" "apply_to_int s a n = (s', ns)"
  shows "int_spec_ok s' \<and> is_low s \<le> is_low s' \<and> is_high s' \<le> is_high s"
  using assms
  by (auto simp: apply_to_int_def int_spec_ok_def Let_def split: if_splits option.splits prod.splits)

lemma apply_to_float_ok:
  assumes ok: "float_spec_ok s" and fin: "adjustment_finite a"
    and ap: "apply_to_float s a n = (s', ns)"
  shows "float_spec_ok s' \<and> fle (fs_low s) (fs_low s') \<and> fle (fs_high s') (fs_high s)"
proof -
  have nn: "fs_low s \<noteq> FNaN" "fs_high s \<noteq> FNaN"
    using ok by (auto simp: float_spec_ok_def fle_def feq_def dest: flt_not_NaN)
  define lo where "lo = (case ad_low a of None \<Rightarrow> fs_low s
                          | Some x \<Rightarrow> if flt x (fs_low s) then fs_low s else x)"
  define hi where "hi = (case ad_high a of None \<Rightarrow> fs_high s
                          | Some x \<Rightarrow> if flt (fs_high s) x then fs_high s else x)"
  define lg where "lg = (case ad_log a of None \<Rightarrow> fs_log s | Some b \<Rightarrow> b)"
  have lo: "fle (fs_low s) lo" "lo \<noteq> FNaN"
    using nn fin not_flt_fle by (auto simp: lo_def adjustment_finite_def split: option.split)
  have hi: "fle hi (fs_high s)" "hi \<noteq> FNaN"
    using nn fin not_flt_fle by (auto simp: hi_def adjustment_finite_def split: option.split)
  have "s' = (if lg \<and> fle lo (Fin 0) \<or> flt hi lo then s
              else \<lparr>fs_low = lo, fs_high = hi, fs_log = lg\<rparr>)"
    using ap by (auto simp: apply_to_float_def Let_def lo_def hi_def lg_def
        split: if_splits option.splits)
  moreover have "fle lo hi" if "\<not> flt hi lo" using that lo hi not_flt_fle by blast
  moreover have "flt (Fin 0) lo" if "\<not> fle lo (Fin 0)"
    using that lo not_flt_fle [of "Fin 0" lo] by auto
  ultimately show ?thesis using ok nn lo hi by (auto simp: float_spec_ok_def)
qed

lemma adjust_with_int_ok:
  "int_spec_ok s \<Longrightarrow> int_spec_ok (adjust_with apply_to_int adjs n s)
     \<and> is_low s \<le> is_low (adjust_with apply_to_int adjs n s)
     \<and> is_high (adjust_with apply_to_int adjs n s) \<le> is_high s"
  by (auto simp: adjust_with_def split: option.split)
    (metis apply_to_int_ok prod.collapse)+

lemma adjust_with_float_ok:
  assumes "float_spec_ok s" "\<forall>(k, a) \<in> set adjs. adjustment_finite a"
  shows "float_spec_ok (adjust_with apply_to_float adjs n s)
     \<and> fle (fs_low s) (fs_low (adjust_with apply_to_float adjs n s))
     \<and> fle (fs_high (adjust_with apply_to_float adjs n s)) (fs_high s)"
proof (cases "gm_get adjs n")
  case None
  with assms show ?thesis
    by (auto simp: adjust_with_def float_spec_ok_def fle_def feq_def dest: flt_not_NaN)
next
  case (Some a)
  then have "adjustment_finite a" using assms(2) by (auto dest: map_of_SomeD)
  with Some assms(1) show ?thesis
    using apply_to_float_ok [of s a n "fst (apply_to_float s a n)" "snd (apply_to_float s a n)"]
    by (simp add: adjust_with_def)
qed

lemma apply_loop_narrows:
  assumes ok: "space_ok sp" and wf: "space_wf sp" "gm_wf (hy_adjust h)"
    and fin: "\<forall>(k, a) \<in> set (hy_adjust h). adjustment_finite a"
  shows "space_ok (fst (apply_hypotheses h sp)) \<and> space_narrows (fst (apply_hypotheses h sp)) sp"
proof -
  let ?A = "hy_adjust h"
  have i: "int_spec_ok s" if "(n, s) \<in> set (sp_ints sp)" for n s
    using ok that by (auto simp: space_ok_def)
  have f: "float_spec_ok s" if "(n, s) \<in> set (sp_floats sp)" for n s
    using ok that by (auto simp: space_ok_def)
  have f': "fle (fs_low s) (fs_low s)" "fle (fs_high s) (fs_high s)" if "float_spec_ok s" for s
    using that by (auto simp: float_spec_ok_def fle_def feq_def dest: flt_not_NaN)
  have keys: "map fst (adjust_map g X ?A m) = map fst m" for g X and m :: "(string \<times> 's) list"
    by (simp add: adjust_map_def case_prod_unfold)
  have empty: "adjust_map g X ?A m = [] \<longleftrightarrow> m = []" for g X and m :: "(string \<times> 's) list"
    by (simp add: adjust_map_def)
  have "int_spec_ok s'" if "(n, s') \<in> set (adjust_map apply_to_int X ?A (sp_ints sp))" for n s' X
    using adjust_map_elem [OF that] i adjust_with_int_ok by blast
  moreover have "float_spec_ok s'"
    if "(n, s') \<in> set (adjust_map apply_to_float X ?A (sp_floats sp))" for n s' X
    using adjust_map_elem [OF that] f adjust_with_float_ok [OF _ fin] by blast
  moreover have "cs_choices s' \<noteq> []"
    if e: "(n, s') \<in> set (adjust_map apply_to_categorical X ?A (sp_cats sp))" for n s' X
  proof -
    obtain s where s: "(n, s) \<in> set (sp_cats sp)"
      "s' = s \<or> s' = adjust_with apply_to_categorical ?A n s"
      using adjust_map_elem [OF e] by blast
    then have "cs_choices s \<noteq> []" using ok by (auto simp: space_ok_def)
    with s(2) show ?thesis
      by (auto simp: adjust_with_def apply_to_categorical_def split: option.splits if_splits)
  qed
  ultimately have "space_ok (adjusted_space ?A sp)"
    using ok unfolding space_ok_def adjusted_space_def Let_def space_empty_def
    by (auto simp: empty)
  moreover have "space_narrows (adjusted_space ?A sp) sp"
    unfolding space_narrows_def adjusted_space_def Let_def
    using adjust_with_int_ok [OF space_okD(1) [OF ok]]
      adjust_with_float_ok [OF space_okD(2) [OF ok] fin] f' [OF space_okD(2) [OF ok]]
    by (auto simp: keys adjust_map_get)
  ultimately show ?thesis using apply_loop_eq [OF wf] by (simp add: apply_hypotheses_def)
qed

text \<open>
  Whatever finite numbers the strategist writes, the adjusted space is still one that
  \<open>NewSearcher\<close> accepts, it has the same parameters, and every numeric range is a sub-range of
  the operator's range.
\<close>

theorem apply_hypotheses_narrows:
  assumes "space_ok sp" "space_wf sp" "gm_wf (hy_adjust h)"
    and "\<forall>(k, a) \<in> set (hy_adjust h). adjustment_finite a"
  shows "space_ok (fst (apply_hypotheses h sp)) \<and> space_narrows (fst (apply_hypotheses h sp)) sp"
  using assms by (rule apply_loop_narrows)

definition demo_hypotheses :: hypotheses where
  "demo_hypotheses = no_hypotheses\<lparr>hy_adjust :=
     [(''rank'', \<lparr>ad_low = Some (Fin 2), ad_high = Some (Fin 16), ad_step = None, ad_log = None,
                  ad_choices = []\<rparr>),
      (''offload'', \<lparr>ad_low = None, ad_high = None, ad_step = None, ad_log = None,
                     ad_choices = [''disk'']\<rparr>)]\<rparr>"

lemma apply_hypotheses_pointwise_witness:
  "fst (apply_hypotheses demo_hypotheses demo_space)
     = adjusted_space (hy_adjust demo_hypotheses) demo_space"
proof -
  have "space_wf demo_space" "gm_wf (hy_adjust demo_hypotheses)" by code_simp+
  then show ?thesis by (rule apply_hypotheses_pointwise)
qed

lemma apply_hypotheses_narrows_witness:
  "space_ok (fst (apply_hypotheses demo_hypotheses demo_space))
     \<and> space_narrows (fst (apply_hypotheses demo_hypotheses demo_space)) demo_space"
proof -
  have "space_ok demo_space" "space_wf demo_space" "gm_wf (hy_adjust demo_hypotheses)"
    "\<forall>(k, a) \<in> set (hy_adjust demo_hypotheses). adjustment_finite a"
    by code_simp+
  then show ?thesis by (rule apply_hypotheses_narrows)
qed

end
