(* ===== verification/Stagnation.thy ===== *)
theory Stagnation
  imports Hypotheses
begin

text \<open>
  The stagnation count and the strategist's schedule, \<open>internal/search/stagnation.go\<close>.
\<close>

fun stagnation_loop :: "nat \<Rightarrow> gofloat \<Rightarrow> nat option \<Rightarrow> observation list \<Rightarrow> nat option" where
  "stagnation_loop i best lst [] = lst"
| "stagnation_loop i best lst (obs # rest) =
     (if flt (ob_eval_loss obs) best
      then stagnation_loop (Suc i) (ob_eval_loss obs) (Some i) rest
      else stagnation_loop (Suc i) best lst rest)"

definition stagnation_count :: "observation list \<Rightarrow> nat" where
  "stagnation_count history =
     (if history = [] then 0
      else case stagnation_loop 0 FPosInf None history of
             None \<Rightarrow> length history
           | Some i \<Rightarrow> length history - 1 - i)"

text \<open>\<open>StrategistDueReason\<close>: the empty string when no run is due.\<close>

definition strategist_due_reason :: "observation list \<Rightarrow> hypotheses \<Rightarrow> int \<Rightarrow> int \<Rightarrow> string" where
  "strategist_due_reason history h everyN stagN =
     (let current = int (length history);
          lastRan = hy_after_round h;
          stag = int (stagnation_count history)
      in if stagN > 0 \<and> stag \<ge> stagN \<and> current - lastRan \<ge> 1 then
           ''stagnation (no improvement in '' @ itoa stag
           @ '' rounds; last strategist run after round '' @ itoa lastRan @ '')''
         else if everyN > 0 \<and> current - lastRan \<ge> everyN then
           ''cadence (every '' @ itoa everyN @ '' rounds; last ran after round '' @ itoa lastRan
           @ '', currently at '' @ itoa current @ '' completed observations)''
         else [])"

subsection \<open>What the count means\<close>

definition no_number :: "gofloat \<Rightarrow> bool" where
  "no_number x \<longleftrightarrow> x = FNaN \<or> x = FPosInf"

text \<open>
  \<open>last_best hs i\<close>: entry \<open>i\<close> is strictly better than every entry before it, and no entry after it is
  strictly better.
\<close>

definition last_best :: "gofloat list \<Rightarrow> nat \<Rightarrow> bool" where
  "last_best xs i \<longleftrightarrow> i < length xs \<and> \<not> no_number (xs ! i)
     \<and> (\<forall>j < i. \<not> fle (xs ! j) (xs ! i))
     \<and> (\<forall>j. i < j \<and> j < length xs \<longrightarrow> \<not> flt (xs ! j) (xs ! i))"

text \<open>What the loop has established after a prefix of the history.\<close>

definition best_so_far :: "gofloat list \<Rightarrow> gofloat \<Rightarrow> nat option \<Rightarrow> bool" where
  "best_so_far xs best lst \<longleftrightarrow>
     (case lst of
        None \<Rightarrow> best = FPosInf \<and> (\<forall>x \<in> set xs. no_number x)
      | Some i \<Rightarrow> last_best xs i \<and> best = xs ! i)"

lemma not_flt_PosInf: "\<not> flt x FPosInf \<longleftrightarrow> no_number x"
  by (auto simp: no_number_def)

lemma best_so_far_step:
  assumes b: "best_so_far xs best lst"
  shows "if flt x best then best_so_far (xs @ [x]) x (Some (length xs))
         else best_so_far (xs @ [x]) best lst"
proof (cases lst)
  case None
  have "\<not> fle y x" if "no_number y" "flt x FPosInf" for y
    using that by (cases x; cases y) (auto simp: no_number_def fle_def feq_def)
  with None b show ?thesis
    by (auto simp: best_so_far_def last_best_def nth_append no_number_def)
next
  case (Some i)
  with b have i: "last_best xs i" "best = xs ! i" by (simp_all add: best_so_far_def)
  have not_le: "\<not> fle (xs ! j) x" if x: "flt x best" and j: "j < length xs" for j
  proof
    assume "fle (xs ! j) x"
    then have "flt (xs ! j) (xs ! i)" using x i(2) fle_flt_trans by blast
    moreover have "\<not> flt (xs ! j) (xs ! i)"
      using i(1) j by (cases j i rule: linorder_cases) (auto simp: last_best_def fle_def)
    ultimately show False by blast
  qed
  have num: "\<not> no_number x" if "flt x best"
    using that flt_not_NaN [OF that] by (auto simp: no_number_def)
  show ?thesis
    using Some i not_le num
    by (auto simp: best_so_far_def last_best_def nth_append less_Suc_eq)
qed

lemma stagnation_loop_spec:
  assumes "best_so_far (map ob_eval_loss pre) best lst"
  shows "\<exists>b. best_so_far (map ob_eval_loss (pre @ hs)) b
               (stagnation_loop (length pre) best lst hs)"
  using assms
proof (induction hs arbitrary: pre best lst)
  case Nil
  then show ?case by auto
next
  case (Cons obs hs)
  have "if flt (ob_eval_loss obs) best
        then best_so_far (map ob_eval_loss (pre @ [obs])) (ob_eval_loss obs) (Some (length pre))
        else best_so_far (map ob_eval_loss (pre @ [obs])) best lst"
    using best_so_far_step [OF Cons.prems, of "ob_eval_loss obs"]
    by (cases "flt (ob_eval_loss obs) best") simp_all
  then show ?case
    using Cons.IH [of "pre @ [obs]"] by (cases "flt (ob_eval_loss obs) best") simp_all
qed

text \<open>
  C14: for a non-empty history, either no loss is a number below infinity and the whole history
  counts as stagnant, or the count is the distance from the end to the entry that is strictly
  better than all before it and not beaten since.
\<close>

theorem stagnation_count_spec:
  assumes "history \<noteq> []"
  shows "(stagnation_count history = length history
            \<and> (\<forall>obs \<in> set history. no_number (ob_eval_loss obs)))
       \<or> (stagnation_count history < length history
            \<and> last_best (map ob_eval_loss history)
                (length history - 1 - stagnation_count history))"
proof -
  have "best_so_far (map ob_eval_loss []) FPosInf None" by (simp add: best_so_far_def)
  from stagnation_loop_spec [OF this, of history]
  obtain b where "best_so_far (map ob_eval_loss history) b (stagnation_loop 0 FPosInf None history)"
    by auto
  with assms show ?thesis
    by (cases "stagnation_loop 0 FPosInf None history")
      (auto simp: best_so_far_def last_best_def stagnation_count_def)
qed

lemma stagnation_count_spec_witness:
  defines "h \<equiv> map (\<lambda>x. \<lparr>ob_params = [], ob_eval_loss = Fin x\<rparr>) [10, 8, 7, 9, 8]"
  shows "stagnation_count h = 2 \<and> last_best (map ob_eval_loss h) 2"
proof -
  have c: "stagnation_count h = 2" "length h = 5" "h \<noteq> []"
    by (simp_all add: h_def stagnation_count_def)
  with stagnation_count_spec [OF c(3)] show ?thesis by simp
qed

subsection \<open>When the strategist runs\<close>

lemma strategist_due_iff:
  "strategist_due_reason history h everyN stagN \<noteq> [] \<longleftrightarrow>
     (stagN > 0 \<and> stagN \<le> int (stagnation_count history) \<and> hy_after_round h < int (length history))
     \<or> (everyN > 0 \<and> everyN \<le> int (length history) - hy_after_round h)"
  by (auto simp: strategist_due_reason_def Let_def)

fun loop_best :: "gofloat \<Rightarrow> observation list \<Rightarrow> gofloat" where
  "loop_best best [] = best"
| "loop_best best (obs # rest) =
     loop_best (if flt (ob_eval_loss obs) best then ob_eval_loss obs else best) rest"

lemma stagnation_loop_snoc:
  "stagnation_loop i best lst (hs @ [obs]) =
     (if flt (ob_eval_loss obs) (loop_best best hs) then Some (i + length hs)
      else stagnation_loop i best lst hs)"
  by (induction hs arbitrary: i best lst) auto

lemma loop_best_least:
  "(loop_best best hs = best \<or> flt (loop_best best hs) best)
     \<and> (\<forall>x \<in> set hs. \<not> flt (ob_eval_loss x) (loop_best best hs))"
proof (induction hs arbitrary: best)
  case (Cons x hs)
  let ?b = "if flt (ob_eval_loss x) best then ob_eval_loss x else best"
  have "?b = best \<or> flt ?b best" "\<not> flt (ob_eval_loss x) ?b" by auto
  with Cons.IH [of ?b] show ?case by (auto intro: flt_trans dest: flt_trans simp del: if_splits)
qed simp

lemma stagnation_count_append:
  assumes "history \<noteq> []" "b \<in> set history" "fle (ob_eval_loss b) (ob_eval_loss obs)"
  shows "stagnation_count (history @ [obs]) = Suc (stagnation_count history)"
proof -
  have "\<not> flt (ob_eval_loss b) (loop_best FPosInf history)"
    using loop_best_least assms(2) by blast
  then have nb: "\<not> flt (ob_eval_loss obs) (loop_best FPosInf history)"
    using assms(3) fle_flt_trans by blast
  have "case stagnation_loop 0 FPosInf None history of None \<Rightarrow> True | Some i \<Rightarrow> i < length history"
    using stagnation_loop_spec [of "[]" FPosInf None history]
    by (auto simp: best_so_far_def last_best_def split: option.splits)
  with nb assms(1) show ?thesis
    by (auto simp: stagnation_count_def stagnation_loop_snoc split: option.splits)
qed

text \<open>
  While the search stagnates, the strategist is due again after every further round. A
  strategist that ran after the last round does not silence the next one: if the following round
  brings no improvement, the stagnation reason holds once more.
\<close>

theorem strategist_due_every_stagnant_round:
  assumes "history \<noteq> []" "stagN > 0" "stagN \<le> int (stagnation_count history)"
    and ran: "hy_after_round h = int (length history)"
    and worse: "b \<in> set history" "fle (ob_eval_loss b) (ob_eval_loss obs)"
  shows "strategist_due_reason history h everyN stagN = []
     \<and> strategist_due_reason (history @ [obs]) h everyN stagN \<noteq> []"
proof -
  have now: "strategist_due_reason history h everyN stagN = []"
    using ran by (auto simp: strategist_due_reason_def Let_def)
  have "stagnation_count (history @ [obs]) = Suc (stagnation_count history)"
    using assms(1) worse by (rule stagnation_count_append)
  with assms have "strategist_due_reason (history @ [obs]) h everyN stagN \<noteq> []"
    by (simp add: strategist_due_iff)
  with now show ?thesis ..
qed

lemma strategist_due_every_stagnant_round_witness:
  defines "h \<equiv> map (\<lambda>x. \<lparr>ob_params = [], ob_eval_loss = Fin x\<rparr>) [1, 2, 3, 4]"
    and "d \<equiv> no_hypotheses\<lparr>hy_after_round := 4\<rparr>"
    and "obs \<equiv> \<lparr>ob_params = [], ob_eval_loss = Fin 5\<rparr>"
  shows "strategist_due_reason h d 5 3 = [] \<and> strategist_due_reason (h @ [obs]) d 5 3 \<noteq> []"
proof (rule strategist_due_every_stagnant_round [where b = "hd h"])
  show "h \<noteq> []" "hd h \<in> set h" "fle (ob_eval_loss (hd h)) (ob_eval_loss obs)"
    "3 \<le> int (stagnation_count h)" "hy_after_round d = int (length h)"
    by (simp_all add: h_def d_def obs_def fle_def stagnation_count_def)
qed simp

end
