(* ===== verification/ApiTypes.thy ===== *)
theory ApiTypes
  imports Stagnation
begin

text \<open>
  The custom resources of \<open>api/v1alpha1\<close> that the research loop reads and writes, with every field
  of the Go structs: \<open>autoresearchproject_types.go\<close> and \<open>knowledgebase_types.go\<close>. A pointer is an
  \<open>option\<close>, a map a \<open>gomap\<close>, a 32-bit integer an \<open>int\<close> (the API server admits no value outside
  the schema's bounds), a \<open>metav1.Time\<close> its count of nanoseconds.
\<close>

type_synonym gotime = int

text \<open>The metadata that the code reads. \<open>om_Controller\<close> is the UID in the controller owner reference.\<close>

record object_meta =
  om_Name :: string
  om_Namespace :: string
  om_UID :: string
  om_Generation :: int
  om_Labels :: "string gomap"
  om_Annotations :: "string gomap"
  om_DeletionTimestamp :: "gotime option"
  om_Finalizers :: "string list"
  om_Controller :: "string option"

subsection \<open>KnowledgeBase\<close>

record agent_gateway_ref =
  gwr_Name :: string

record knowledge_base_storage =
  kst_Size :: "string option"
  kst_StorageClassName :: string
  kst_AccessModes :: "string list"

record git_mirror =
  gm_URL :: string
  gm_Branch :: string
  gm_Cadence :: string
  gm_CredentialsSecretRef :: string
  gm_PushEnabled :: "bool option"

record knowledge_base_spec =
  kbs_DisplayName :: string
  kbs_Description :: string
  kbs_GatewayRef :: agent_gateway_ref
  kbs_Storage :: knowledge_base_storage
  kbs_GitMirror :: "git_mirror option"
  kbs_InitFromGit :: "git_mirror option"

record knowledge_base_condition =
  kbc_Type :: string
  kbc_Status :: string
  kbc_Reason :: string
  kbc_Message :: string
  kbc_LastTransitionTime :: gotime

record knowledge_base_status =
  kbst_PVCName :: string
  kbst_MountPath :: string
  kbst_BoundGateway :: string
  kbst_AgentCount :: int
  kbst_LastSyncTime :: "gotime option"
  kbst_Conditions :: "knowledge_base_condition list"

record knowledge_base =
  kb_meta :: object_meta
  kb_Spec :: knowledge_base_spec
  kb_Status :: knowledge_base_status

subsection \<open>AutoResearchProject\<close>

record experimenter =
  exp_Workstation :: string
  exp_PromptOverride :: string

record base_model =
  bm_HuggingfaceID :: string
  bm_Revision :: string

record training_data =
  td_HuggingfaceDataset :: string
  td_Split :: string
  td_SampleCount :: "int option"

record deep_benchmark =
  db_Tasks :: "string list"
  db_FewShot :: "int option"
  db_Limit :: "int option"

record eval_config =
  ev_Metric :: string
  ev_Direction :: string
  ev_MarginPct :: string
  ev_DeepBenchmark :: "deep_benchmark option"

record loop_config =
  lc_CadenceMinutes :: int
  lc_MaxExperimentsPerCycle :: int
  lc_MaxTotalExperiments :: int
  lc_MaxConcurrentRuns :: int
  lc_MaxRoundDurationMinutes :: int
  lc_MaxConsecutiveDrainFailures :: int

record trainer =
  trn_Image :: string
  trn_GPUCount :: int
  trn_PowerCapWatts :: int
  trn_OneTrainingPodPerNode :: "bool option"
  trn_OffloadStrategy :: string

record pipeline_ref =
  pr_Name :: string
  pr_Namespace :: string

record adapter_quay =
  aq_Repository :: string
  aq_Registry :: string
  aq_TagPattern :: string
  aq_BestTag :: string

record adapter_registry =
  amr_Name :: string
  amr_RegistryInstance :: string

record adapter_storage =
  as_Quay :: "adapter_quay option"
  as_ModelRegistry :: "adapter_registry option"

record project_spec =
  ps_DisplayName :: string
  ps_Description :: string
  ps_KnowledgeBase :: string
  ps_Experimenter :: experimenter
  ps_BaseModel :: base_model
  ps_TrainingData :: training_data
  ps_Eval :: eval_config
  ps_LoopConfig :: loop_config
  ps_Trainer :: trainer
  ps_PipelineRef :: pipeline_ref
  ps_ExperimentName :: string
  ps_ValidationMode :: bool
  ps_AdapterStorage :: "adapter_storage option"

record experiment_record =
  er_Round :: int
  er_RunID :: string
  er_Experimenter :: string
  er_ProposalPath :: string
  er_EvalLoss :: string
  er_MetricValue :: string
  er_Kept :: "bool option"
  er_AdapterArtifactURI :: string
  er_StartedAt :: "gotime option"
  er_CompletedAt :: "gotime option"

record project_condition =
  cnd_Type :: string
  cnd_Status :: string
  cnd_Reason :: string
  cnd_Message :: string
  cnd_LastTransitionTime :: gotime

record project_status =
  st_Phase :: string
  st_Round :: int
  st_ExperimentsRun :: int
  st_ExperimentsKept :: int
  st_BestEvalLoss :: string
  st_BestMetricValue :: string
  st_BestRunID :: string
  st_LastCycleTime :: "gotime option"
  st_OpenRuns :: "string gomap"
  st_OpenRunStartedAt :: "gotime gomap"
  st_ConsecutiveDrainFailures :: int
  st_RecentRuns :: "experiment_record list"
  st_Conditions :: "project_condition list"

record project =
  p_meta :: object_meta
  p_Spec :: project_spec
  p_Status :: project_status
end
