(* ===== verification/AgentTypes.thy ===== *)
theory AgentTypes
  imports ApiTypes
begin

text \<open>
  The AgentWorkstation resource of \<open>api/v1alpha1/agentworkstation_types.go\<close>, with every field of
  the Go structs, as in \<open>ApiTypes\<close>; the enumerations of strings are strings. Of the Kubernetes
  types it embeds, the fields the program uses.
\<close>

record resource_requirements =
  rr_Limits :: "string gomap"
  rr_Requests :: "string gomap"

record condition_entry =
  ce_Type :: string
  ce_Status :: string
  ce_ObservedGeneration :: int
  ce_LastTransitionTime :: gotime
  ce_Reason :: string
  ce_Message :: string

text \<open>\<open>CanonicalProviderID\<close>: the two OpenAI providers share one identifier.\<close>

definition canonical_provider_id :: "string \<Rightarrow> string" where
  "canonical_provider_id p = (if p = ''openai-codex'' then ''openai'' else p)"

record skill_ref =
  skr_Name :: string
  skr_Version :: string

record model_spec =
  ms_Provider :: string
  ms_ModelName :: string
  ms_ConnectionRef :: string
  ms_ModelRouterRef :: string

record office_position =
  op_X :: int
  op_Y :: int

record office_spec =
  os_Position :: "office_position option"

record mcp_server =
  mcp_Name :: string
  mcp_URL :: string
  mcp_Type :: string
  mcp_Headers :: "string gomap"
  mcp_EnvFromSecret :: string

record tools_spec =
  ts_Allow :: "string list"
  ts_MCPServers :: "mcp_server list"

record memory_module_ref =
  mmr_Name :: string

record memory_spec =
  mem_Modules :: "memory_module_ref list"
  mem_Overrides :: "string gomap"

record discord_channel =
  dch_URL :: string

record shared_runtime =
  shr_GatewayRef :: string
  shr_BrowserProfile :: string

record runtime_spec =
  rts_Dedicated :: "unit option"
  rts_Shared :: "shared_runtime option"

record channels_spec =
  chs_Discord :: "discord_channel option"

record knowledge_base_ref =
  kbr_Name :: string
  kbr_Role :: string

record agent_schedule =
  sch_Name :: string
  sch_Cron :: string
  sch_Message :: string
  sch_Description :: string

record workstation_spec =
  aws_DisplayName :: string
  aws_SystemPrompt :: string
  aws_SystemPromptAddons :: string
  aws_Model :: model_spec
  aws_Description :: string
  aws_Role :: string
  aws_Capabilities :: "string list"
  aws_Emoji :: string
  aws_Image :: string
  aws_APIKeySecretRef :: string
  aws_Tools :: "tools_spec option"
  aws_Memory :: "memory_spec option"
  aws_Team :: string
  aws_Office :: "office_spec option"
  aws_Channels :: "channels_spec option"
  aws_Runtime :: "runtime_spec option"
  aws_Resources :: "resource_requirements option"
  aws_KnowledgeBaseRefs :: "knowledge_base_ref list"
  aws_SkillRefs :: "skill_ref list"
  aws_Schedules :: "agent_schedule list"

record workstation_status =
  awst_Phase :: string
  awst_GatewayEndpoint :: string
  awst_Message :: string
  awst_LastActivity :: "gotime option"
  awst_Conditions :: "condition_entry list"
  awst_SkillSet :: "string list"
  awst_SessionEpoch :: int
  awst_GatewayRegistrations :: "string list"
  awst_Schedules :: "string list"
  awst_GatewayRegistrationsHash :: string

record workstation =
  aw_meta :: object_meta
  aw_Spec :: workstation_spec
  aw_Status :: workstation_status
end
