(* ===== verification/ConnectionTypes.thy ===== *)
theory ConnectionTypes
  imports AgentTypes
begin

text \<open>
  The resources of \<open>modelconnection_types.go\<close> and \<open>modelconnectionoffer_types.go\<close>: a connection to a
  model endpoint that an administrator publishes, and its projection into a tenant workspace.
\<close>

record model_catalog_entry =
  mce_ID :: string
  mce_Name :: string

text \<open>The values of \<open>ModelConnectionKind\<close>.\<close>

definition kind_subscription :: string where "kind_subscription = ''subscription''"
definition kind_api_key :: string where "kind_api_key = ''apiKey''"
definition kind_endpoint :: string where "kind_endpoint = ''endpoint''"

record connection_secret_ref =
  csr_Name :: string
  csr_Namespace :: string
  csr_Key :: string

record connection_access =
  acc_Groups :: "string list"
  acc_Users :: "string list"

record connection_spec =
  cns_DisplayName :: string
  cns_Description :: string
  cns_Kind :: string
  cns_Provider :: string
  cns_BaseURL :: string
  cns_API :: string
  cns_APIKeySecretRef :: "connection_secret_ref option"
  cns_Models :: "model_catalog_entry list"
  cns_KeyStrategy :: string
  cns_Access :: "connection_access option"

record connection_status =
  cnst_Conditions :: "condition_entry list"

record model_connection =
  mc_meta :: object_meta
  mc_Spec :: connection_spec
  mc_Status :: connection_status

subsection \<open>Offers\<close>

definition tenant_user_annotation :: string where
  "tenant_user_annotation = ''agentoffice.ai/user''"

definition tenant_groups_annotation :: string where
  "tenant_groups_annotation = ''agentoffice.ai/groups''"

definition offer_connection_label :: string where
  "offer_connection_label = ''agentoffice.ai/connection''"

record offer_spec =
  ofs_ConnectionRef :: string
  ofs_DisplayName :: string
  ofs_Description :: string
  ofs_Kind :: string
  ofs_Provider :: string
  ofs_Models :: "model_catalog_entry list"
  ofs_Access :: "connection_access option"
  ofs_OfferedTo :: string

record offer_status =
  ofst_ConnectionGeneration :: int

record model_offer =
  mo_meta :: object_meta
  mo_Spec :: offer_spec
  mo_Status :: offer_status

end
