(* ===== verification/Json.thy ===== *)
theory Json
  imports GoFloat
begin

text \<open>
  The part of \<open>encoding/json\<close> that the program relies on: values, the encoder \<open>json.Marshal\<close>, the
  parser, and the decoding of an object into the fields of a struct by \<open>json.Unmarshal\<close>. A number is
  kept as its text until a field asks for it. The nesting limit of 10000 of the Go parser is not
  modelled.
\<close>

datatype json =
    JNull
  | JBool bool
  | JNum string
  | JStr string
  | JArr "json list"
  | JObj "(string \<times> json) list"

subsection \<open>UTF-8\<close>

definition byte_in :: "nat \<Rightarrow> nat \<Rightarrow> char \<Rightarrow> bool" where
  "byte_in lo hi c \<longleftrightarrow> lo \<le> of_char c \<and> of_char c \<le> hi"

text \<open>The length of the well-formed rune that a string starts with, 0 when there is none.\<close>

definition rune_len :: "string \<Rightarrow> nat" where
  "rune_len s =
     (let cont = byte_in 0x80 0xBF in
      case s of
        [] \<Rightarrow> 0
      | c # r \<Rightarrow>
         (if byte_in 0 0x7F c then 1
          else case r of
            [] \<Rightarrow> 0
          | d # r1 \<Rightarrow>
             (if byte_in 0xC2 0xDF c then (if cont d then 2 else 0)
              else case r1 of
                [] \<Rightarrow> 0
              | e # r2 \<Rightarrow>
                 (if byte_in 0xE0 0xEF c then
                    (if (if of_char c = (0xE0 :: nat) then byte_in 0xA0 0xBF d
                         else if of_char c = (0xED :: nat) then byte_in 0x80 0x9F d else cont d) \<and> cont e
                     then 3 else 0)
                  else case r2 of
                    [] \<Rightarrow> 0
                  | f # _ \<Rightarrow>
                      (if byte_in 0xF0 0xF4 c
                          \<and> (if of_char c = (0xF0 :: nat) then byte_in 0x90 0xBF d
                             else if of_char c = (0xF4 :: nat) then byte_in 0x80 0x8F d else cont d)
                          \<and> cont e \<and> cont f
                       then 4 else 0)))))"

lemma rune_len_le: "rune_len s \<le> length s"
  by (auto simp: rune_len_def Let_def split: list.split)

text \<open>The rune U+FFFD that stands for a malformed byte.\<close>

definition replacement :: string where
  "replacement = [CHR 0xEF, CHR 0xBF, CHR 0xBD]"

function valid_utf8 :: "string \<Rightarrow> string" where
  "valid_utf8 s =
     (case s of
        [] \<Rightarrow> []
      | c # r \<Rightarrow>
          (if rune_len s = 0 then replacement @ valid_utf8 r
           else take (rune_len s) s @ valid_utf8 (drop (rune_len s) s)))"
  by pat_completeness auto
termination by (relation "measure length") auto

declare valid_utf8.simps [simp del]

definition encode_rune :: "nat \<Rightarrow> string" where
  "encode_rune n =
     (if n < 0x80 then [char_of n]
      else if n < 0x800 then [char_of (0xC0 + n div 64), char_of (0x80 + n mod 64)]
      else if 0xD800 \<le> n \<and> n < 0xE000 \<or> 0x10FFFF < n then replacement
      else if n < 0x10000 then
        [char_of (0xE0 + n div 4096), char_of (0x80 + n div 64 mod 64), char_of (0x80 + n mod 64)]
      else
        [char_of (0xF0 + n div 262144), char_of (0x80 + n div 4096 mod 64),
         char_of (0x80 + n div 64 mod 64), char_of (0x80 + n mod 64)])"

subsection \<open>Encoding\<close>

definition u_escape :: "nat \<Rightarrow> string" where
  "u_escape n = [CHR 0x5C, CHR ''u'', CHR ''0'', CHR ''0'', hex_digit (n div 16), hex_digit (n mod 16)]"

definition json_ascii :: "char \<Rightarrow> string" where
  "json_ascii c =
     (let n = (of_char c :: nat)
      in if c = CHR 0x22 \<or> c = CHR 0x5C then [CHR 0x5C, c]
         else if n = 8 then [CHR 0x5C, CHR ''b'']
         else if n = 12 then [CHR 0x5C, CHR ''f'']
         else if n = 10 then [CHR 0x5C, CHR ''n'']
         else if n = 13 then [CHR 0x5C, CHR ''r'']
         else if n = 9 then [CHR 0x5C, CHR ''t'']
         else if n < 32 \<or> c = CHR ''<'' \<or> c = CHR ''>'' \<or> c = CHR ''&'' then u_escape n
         else [c])"

function json_chars :: "string \<Rightarrow> string" where
  "json_chars s =
     (case s of
        [] \<Rightarrow> []
      | c # r \<Rightarrow>
          (if byte_in 0 0x7F c then json_ascii c @ json_chars r
           else if rune_len s = 0 then (CHR 0x5C # ''ufffd'') @ json_chars r
           else if take 3 s = [CHR 0xE2, CHR 0x80, CHR 0xA8] then (CHR 0x5C # ''u2028'') @ json_chars (drop 3 s)
           else if take 3 s = [CHR 0xE2, CHR 0x80, CHR 0xA9] then (CHR 0x5C # ''u2029'') @ json_chars (drop 3 s)
           else take (rune_len s) s @ json_chars (drop (rune_len s) s)))"
  by pat_completeness auto
termination by (relation "measure length") auto

declare json_chars.simps [simp del]

definition json_string :: "string \<Rightarrow> string" where
  "json_string s = CHR 0x22 # json_chars s @ [CHR 0x22]"

text \<open>A float64: the shortest digits, in exponent form below 1e-6 and from 1e21; NaN and the infinities are an error.\<close>

definition json_float :: "gofloat \<Rightarrow> string result" where
  "json_float x =
     (case x of
        Fin r \<Rightarrow> Inr
         (if r = 0 then ''0''
          else
            let (ds, e) = shortest_digits \<bar>r\<bar>;
                sign = (if r < 0 then ''-'' else [])
            in sign @
               (if e < -6 \<or> 21 \<le> e then
                  take 1 ds @ (if length ds = 1 then [] else CHR ''.'' # drop 1 ds)
                  @ ''e'' @ (if e < 0 then ''-'' else ''+'') @ nat_str (nat \<bar>e\<bar>)
                else if 0 \<le> e then
                  (let n = nat e + 1
                   in take n (ds @ replicate n (CHR ''0''))
                      @ (if length ds \<le> n then [] else CHR ''.'' # drop n ds))
                else ''0.'' @ replicate (nat (- e) - 1) (CHR ''0'') @ ds))
      | _ \<Rightarrow> Inl ''json: unsupported value'')"

fun json_print :: "json \<Rightarrow> string" where
  "json_print JNull = ''null''"
| "json_print (JBool b) = (if b then ''true'' else ''false'')"
| "json_print (JNum n) = n"
| "json_print (JStr s) = json_string s"
| "json_print (JArr vs) = CHR ''['' # join '','' (map json_print vs) @ '']''"
| "json_print (JObj kvs) =
     CHR 0x7B # join '','' (map (\<lambda>(k, v). json_string k @ '':'' @ json_print v) kvs) @ [CHR 0x7D]"

text \<open>A \<open>map[string]any\<close> is written with its keys in increasing order.\<close>

definition json_map :: "(string \<times> json) list \<Rightarrow> json" where
  "json_map kvs = JObj (sort_key fst kvs)"

definition json_int :: "int \<Rightarrow> json" where
  "json_int n = JNum (itoa n)"

subsection \<open>Parsing\<close>

definition json_space :: "char \<Rightarrow> bool" where
  "json_space c \<longleftrightarrow> c = CHR 0x20 \<or> c = CHR 0x09 \<or> c = CHR 0x0A \<or> c = CHR 0x0D"

definition skip_space :: "string \<Rightarrow> string" where
  "skip_space s = dropWhile json_space s"

definition hex_value :: "char \<Rightarrow> nat option" where
  "hex_value c =
     (let n = (of_char c :: nat)
      in if is_digit c then Some (n - 48)
         else if 97 \<le> n \<and> n \<le> 102 then Some (n - 87)
         else if 65 \<le> n \<and> n \<le> 70 then Some (n - 55) else None)"

definition hex4 :: "string \<Rightarrow> nat option" where
  "hex4 s =
     (case s of
        a # b # c # d # _ \<Rightarrow>
          (case (hex_value a, hex_value b, hex_value c, hex_value d) of
             (Some w, Some x, Some y, Some z) \<Rightarrow> Some (((w * 16 + x) * 16 + y) * 16 + z)
           | _ \<Rightarrow> None)
      | _ \<Rightarrow> None)"

definition escape_value :: "char \<Rightarrow> char option" where
  "escape_value c =
     (if c = CHR 0x22 \<or> c = CHR 0x5C \<or> c = CHR 0x2F then Some c
      else if c = CHR ''b'' then Some (CHR 0x08)
      else if c = CHR ''f'' then Some (CHR 0x0C)
      else if c = CHR ''n'' then Some (CHR 0x0A)
      else if c = CHR ''r'' then Some (CHR 0x0D)
      else if c = CHR ''t'' then Some (CHR 0x09) else None)"

text \<open>
  The literal after its opening quote: its value and the rest. An escaped surrogate pair is one
  rune, a lone surrogate is U+FFFD.
\<close>

function parse_chars :: "string \<Rightarrow> (string \<times> string) option" where
  "parse_chars s =
     (case s of
        [] \<Rightarrow> None
      | c # r \<Rightarrow>
         (if c = CHR 0x22 then Some ([], r)
          else if byte_in 0 31 c then None
          else if c = CHR 0x5C then
            (case r of
               [] \<Rightarrow> None
             | d # r1 \<Rightarrow>
                (if d = CHR ''u'' then
                   (case hex4 r1 of
                      None \<Rightarrow> None
                    | Some n \<Rightarrow>
                       (let r2 = drop 4 r1;
                            low = (if 0xD800 \<le> n \<and> n < 0xDC00 \<and> has_prefix r2 [CHR 0x5C, CHR ''u'']
                                   then (case hex4 (drop 2 r2) of
                                           Some m \<Rightarrow> (if 0xDC00 \<le> m \<and> m < 0xE000 then Some m else None)
                                         | None \<Rightarrow> None)
                                   else None)
                        in case low of
                             Some m \<Rightarrow> map_option (apfst (\<lambda>t. encode_rune (0x10000 + (n - 0xD800) * 1024 + (m - 0xDC00)) @ t))
                                         (parse_chars (drop 6 r2))
                           | None \<Rightarrow> map_option (apfst (\<lambda>t. encode_rune n @ t)) (parse_chars r2)))
                 else case escape_value d of
                   None \<Rightarrow> None
                 | Some x \<Rightarrow> map_option (apfst (\<lambda>t. x # t)) (parse_chars r1)))
          else map_option (apfst (\<lambda>t. c # t)) (parse_chars r)))"
  by pat_completeness auto
termination by (relation "measure length") auto

declare parse_chars.simps [simp del]

text \<open>The longest number of the JSON grammar at the head of a string, and the rest.\<close>

definition number_prefix :: "string \<Rightarrow> (string \<times> string) option" where
  "number_prefix s =
     (let (sign, s1) = (if has_prefix s ''-'' then (''-'', drop 1 s) else ([], s));
          digits = takeWhile is_digit s1;
          ip = (if has_prefix digits ''0'' then ''0'' else digits);
          s2 = drop (length ip) s1;
          (fp, s3) = (if has_prefix s2 ''.'' then (''.'' @ takeWhile is_digit (drop 1 s2), dropWhile is_digit (drop 1 s2))
                      else ([], s2));
          (ep, s4, edig) =
            (if has_prefix (to_lower s3) ''e'' then
               (let sg = takeWhile (\<lambda>c. c = CHR ''+'' \<or> c = CHR ''-'') (take 1 (drop 1 s3));
                    t = drop (1 + length sg) s3
                in (take 1 s3 @ sg @ takeWhile is_digit t, dropWhile is_digit t, takeWhile is_digit t \<noteq> []))
             else ([], s3, True))
      in if ip = [] \<or> fp = ''.'' \<or> \<not> edig then None else Some (sign @ ip @ fp @ ep, s4))"

fun parse_value :: "nat \<Rightarrow> string \<Rightarrow> (json \<times> string) option"
  and parse_elements :: "nat \<Rightarrow> string \<Rightarrow> (json list \<times> string) option"
  and parse_members :: "nat \<Rightarrow> string \<Rightarrow> ((string \<times> json) list \<times> string) option" where
  "parse_value 0 s = None"
| "parse_value (Suc n) s =
     (case skip_space s of
        [] \<Rightarrow> None
      | c # r \<Rightarrow>
         (if c = CHR 0x22 then map_option (apfst JStr) (parse_chars r)
          else if c = CHR 0x7B then
            (if has_prefix (skip_space r) [CHR 0x7D] then Some (JObj [], drop 1 (skip_space r))
             else map_option (apfst JObj) (parse_members n r))
          else if c = CHR ''['' then
            (if has_prefix (skip_space r) '']'' then Some (JArr [], drop 1 (skip_space r))
             else map_option (apfst JArr) (parse_elements n r))
          else if has_prefix (c # r) ''true'' then Some (JBool True, drop 3 r)
          else if has_prefix (c # r) ''false'' then Some (JBool False, drop 4 r)
          else if has_prefix (c # r) ''null'' then Some (JNull, drop 3 r)
          else map_option (apfst JNum) (number_prefix (c # r))))"
| "parse_elements 0 s = None"
| "parse_elements (Suc n) s =
     (case parse_value n s of
        None \<Rightarrow> None
      | Some (v, s1) \<Rightarrow>
         (case skip_space s1 of
            [] \<Rightarrow> None
          | c # r \<Rightarrow>
             (if c = CHR '']'' then Some ([v], r)
              else if c = CHR '','' then map_option (apfst (\<lambda>vs. v # vs)) (parse_elements n r)
              else None)))"
| "parse_members 0 s = None"
| "parse_members (Suc n) s =
     (case skip_space s of
        [] \<Rightarrow> None
      | q # r \<Rightarrow>
         (if q \<noteq> CHR 0x22 then None
          else case parse_chars r of
            None \<Rightarrow> None
          | Some (k, s1) \<Rightarrow>
             (if \<not> has_prefix (skip_space s1) '':'' then None
              else case parse_value n (drop 1 (skip_space s1)) of
                None \<Rightarrow> None
              | Some (v, s2) \<Rightarrow>
                 (case skip_space s2 of
                    [] \<Rightarrow> None
                  | c # r2 \<Rightarrow>
                     (if c = CHR 0x7D then Some ([(k, v)], r2)
                      else if c = CHR '','' then map_option (apfst (\<lambda>kvs. (k, v) # kvs)) (parse_members n r2)
                      else None)))))"

text \<open>
  Every call consumes a byte or descends one level that a byte opened, so twice the length of the
  text, plus two, is enough.
\<close>

definition json_parse :: "string \<Rightarrow> json option" where
  "json_parse s =
     (case parse_value (2 * length s + 2) s of
        None \<Rightarrow> None
      | Some (v, r) \<Rightarrow> (if skip_space r = [] then Some v else None))"

subsection \<open>Decoding into struct fields\<close>

text \<open>
  A member is stored in the field of its exact name, else in the one that equals it up to case
  (\<open>exact\<close> lists the names of the struct); \<open>null\<close> leaves the field alone and the last member wins.
  \<open>None\<close> stands for a member of the wrong type, which makes \<open>Unmarshal\<close> return an error.
\<close>

definition members_of :: "string \<Rightarrow> string list \<Rightarrow> (string \<times> json) list \<Rightarrow> json list" where
  "members_of name names kvs =
     map snd (filter (\<lambda>(k, v). v \<noteq> JNull
       \<and> (k = name \<or> (k \<notin> set names \<and> to_lower k = to_lower name))) kvs)"

definition field_str :: "string \<Rightarrow> string list \<Rightarrow> (string \<times> json) list \<Rightarrow> string option" where
  "field_str name names kvs =
     foldl (\<lambda>acc v. case (acc, v) of (Some _, JStr s) \<Rightarrow> Some (valid_utf8 s) | _ \<Rightarrow> None)
       (Some []) (members_of name names kvs)"

definition field_float :: "string \<Rightarrow> string list \<Rightarrow> (string \<times> json) list \<Rightarrow> gofloat option" where
  "field_float name names kvs =
     foldl (\<lambda>acc v. case (acc, v) of (Some _, JNum n) \<Rightarrow> parse_float n | _ \<Rightarrow> None)
       (Some (Fin 0)) (members_of name names kvs)"

text \<open>A slice of structs: \<open>null\<close> and a missing field are the empty slice.\<close>

definition field_list ::
    "(json \<Rightarrow> 'a option) \<Rightarrow> string \<Rightarrow> string list \<Rightarrow> (string \<times> json) list \<Rightarrow> 'a list option" where
  "field_list dec name names kvs =
     foldl (\<lambda>acc v. case (acc, v) of (Some _, JArr vs) \<Rightarrow> those (map dec vs) | _ \<Rightarrow> None)
       (Some []) (members_of name names kvs)"

text \<open>The members of an object; \<open>null\<close> decodes into the zero value of the struct.\<close>

definition object_members :: "json \<Rightarrow> (string \<times> json) list option" where
  "object_members v = (case v of JObj kvs \<Rightarrow> Some kvs | JNull \<Rightarrow> Some [] | _ \<Rightarrow> None)"

definition unmarshal :: "(json \<Rightarrow> 'a option) \<Rightarrow> string \<Rightarrow> 'a option" where
  "unmarshal dec s = (case json_parse s of None \<Rightarrow> None | Some v \<Rightarrow> dec v)"

end
