(* ===== verification/GatewayTypes.thy ===== *)
theory GatewayTypes
  imports ConnectionTypes Json
begin

text \<open>
  The AgentGateway resource of \<open>agentgateway_types.go\<close>, with every field of the Go structs, and the two
  foreign resources of the MCP gateway that the operator reads and writes without types: registrations
  of MCP servers and HTTP routes.
\<close>

record node_host_ref =
  nhr_Name :: string
  nhr_Namespace :: string

text \<open>The values of \<open>ModelAuthMode\<close>.\<close>

definition model_auth_mode_subscription :: string where
  "model_auth_mode_subscription = ''subscription''"

definition model_auth_mode_api_key :: string where
  "model_auth_mode_api_key = ''apiKey''"

record model_auth_spec =
  mas_Mode :: string
  mas_ProfileID :: string
  mas_Order :: "string list gomap"
  mas_Models :: "model_catalog_entry list"

record allowed_user =
  alu_Channel :: string
  alu_AccountID :: string
  alu_ID :: string

record hooks_token_ref =
  htr_Name :: string
  htr_Key :: string

record gateway_http_spec =
  ghs_ChatCompletions :: bool

record hooks_spec =
  hks_Enabled :: bool
  hks_TokenSecretRef :: "hooks_token_ref option"
  hks_Path :: string
  hks_AllowedAgentIDs :: "string list"
  hks_AllowRequestSessionKey :: bool

record gateway_spec =
  gws_DisplayName :: string
  gws_Description :: string
  gws_Image :: string
  gws_RuntimeClassName :: string
  gws_SkillsImage :: string
  gws_NodeHostRef :: "node_host_ref option"
  gws_SharedTokenSecretRef :: string
  gws_AutoApproveNodeHost :: "bool option"
  gws_Resources :: "resource_requirements option"
  gws_EnvFromSecretRef :: string
  gws_CodexCredentialsSecretRef :: string
  gws_ModelAuth :: "model_auth_spec option"
  gws_AllowedUsers :: "allowed_user list"
  gws_Hooks :: "hooks_spec option"
  gws_HTTP :: "gateway_http_spec option"

text \<open>The values of \<open>AgentGatewayPhase\<close>.\<close>

definition gateway_phase_pending :: string where "gateway_phase_pending = ''Pending''"
definition gateway_phase_provisioning :: string where "gateway_phase_provisioning = ''Provisioning''"
definition gateway_phase_ready :: string where "gateway_phase_ready = ''Ready''"
definition gateway_phase_error :: string where "gateway_phase_error = ''Error''"

record gateway_status =
  gwst_Phase :: string
  gwst_GatewayEndpoint :: string
  gwst_NodeHostPaired :: bool
  gwst_AgentCount :: int
  gwst_Message :: string
  gwst_Conditions :: "condition_entry list"

record agent_gateway =
  gw_meta :: object_meta
  gw_Spec :: gateway_spec
  gw_Status :: gateway_status

subsection \<open>Resources without types\<close>

record mcp_registration =
  reg_meta :: object_meta
  reg_spec :: "json gomap"
  reg_status :: "json gomap"

record http_route =
  rte_meta :: object_meta

end
