(* ===== verification/SkillTypes.thy ===== *)
theory SkillTypes
  imports AgentTypes
begin

text \<open>
  The resources of \<open>skill_types.go\<close> and \<open>skillbinding_types.go\<close>: a skill is a document that an agent
  reads, with where its text comes from; a binding grants a skill to workstations.
\<close>

record package_ref_source =
  prs_Ref :: string
  prs_Digest :: string
  prs_Registry :: string
  prs_PullSecretName :: string
  prs_InsecureSkipTLSVerify :: bool

record config_map_source =
  cms_Name :: string
  cms_Key :: string

record skill_source =
  sks_PackageRef :: "package_ref_source option"
  sks_ConfigMapRef :: "config_map_source option"
  sks_Inline :: string

record skill_invocation =
  ski_Tool :: string
  ski_PromptTemplate :: string

record skill_dependency =
  skd_Kind :: string
  skd_Name :: string
  skd_Optional :: bool

record skill_spec =
  sk_DisplayName :: string
  sk_Description :: string
  sk_Version :: string
  sk_Source :: skill_source
  sk_Invocation :: skill_invocation
  sk_Requires :: "string list"
  sk_Dependencies :: "skill_dependency list"

text \<open>\<open>SkillCondition\<close> and \<open>SkillBindingCondition\<close> have the fields of the condition of a project.\<close>

record skill_status =
  skst_ContentSHA256 :: string
  skst_ReferencedBy :: "string list"
  skst_Conditions :: "project_condition list"

record skill =
  skl_meta :: object_meta
  skl_Spec :: skill_spec
  skl_Status :: skill_status

subsection \<open>Bindings\<close>

record binding_subject =
  bsu_Kind :: string
  bsu_Name :: string

text \<open>A label selector: the operator of an expression is a string, as in the API.\<close>

record label_expression =
  lex_Key :: string
  lex_Operator :: string
  lex_Values :: "string list"

record label_selector =
  lse_MatchLabels :: "string gomap"
  lse_MatchExpressions :: "label_expression list"

record skill_overrides =
  sko_PromptAdditions :: string
  sko_InvocationParams :: "string gomap"

record binding_spec =
  skb_SkillRef :: skill_ref
  skb_Subjects :: "binding_subject list"
  skb_SubjectSelector :: "label_selector option"
  skb_Overrides :: "skill_overrides option"

record binding_conflict =
  bcf_AgentWorkstation :: string
  bcf_OverlapsWith :: "string list"

record binding_status =
  skbst_AppliedTo :: "string list"
  skbst_ResolvedSkillVersion :: string
  skbst_Conflicts :: "binding_conflict list"
  skbst_Conditions :: "project_condition list"

record skill_binding =
  sb_meta :: object_meta
  sb_Spec :: binding_spec
  sb_Status :: binding_status

end
