(* ===== verification/Kube.thy ===== *)
theory Kube
  imports GatewayTypes SkillTypes
begin

text \<open>
  The API server as the controllers see it: the stored objects of each kind, each identified by its
  namespace and name, and the calls that read and write them. The order of a list is the order in which
  the server returns the objects. Which calls fail is a parameter, and so are the order in which the
  runtime iterates over a map and the library that matches labels against a selector.
\<close>

record namespace =
  ns_meta :: object_meta

record secret =
  sec_meta :: object_meta
  sec_Data :: "string gomap"

record config_map =
  cm_meta :: object_meta
  cm_Data :: "string gomap"

record kube =
  ku_namespaces :: "namespace list"
  ku_secrets :: "secret list"
  ku_config_maps :: "config_map list"
  ku_workstations :: "workstation list"
  ku_knowledge_bases :: "knowledge_base list"
  ku_connections :: "model_connection list"
  ku_offers :: "model_offer list"
  ku_skills :: "skill list"
  ku_bindings :: "skill_binding list"
  ku_gateways :: "agent_gateway list"
  ku_registrations :: "mcp_registration list"
  ku_routes :: "http_route list"

datatype verb = Get | List | Create | Update | UpdateStatus | Delete

datatype kind = Namespaces | Secrets | ConfigMaps | Workstations | KnowledgeBases | Connections | Offers | Skills | Bindings
  | Gateways | Registrations | Routes

text \<open>A call: what is done, to which kind of object, in which namespace, under which name.\<close>

record api_call =
  ac_verb :: verb
  ac_kind :: kind
  ac_namespace :: string
  ac_name :: string

abbreviation call :: "verb \<Rightarrow> kind \<Rightarrow> string \<Rightarrow> string \<Rightarrow> api_call" where
  "call v k ns n \<equiv> \<lparr>ac_verb = v, ac_kind = k, ac_namespace = ns, ac_name = n\<rparr>"

record kube_env =
  ke_now :: gotime
  ke_fault :: "api_call \<Rightarrow> string option"
  ke_range :: "string list \<Rightarrow> string list"
  ke_selector :: "label_selector \<Rightarrow> (string gomap \<Rightarrow> bool) result"

text \<open>Iterating over a map visits every key once.\<close>

definition range_ok :: "kube_env \<Rightarrow> bool" where
  "range_ok env \<longleftrightarrow> (\<forall>ks. set (ke_range env ks) = set ks \<and> (distinct ks \<longrightarrow> distinct (ke_range env ks)))"

definition no_api_faults :: "kube_env \<Rightarrow> bool" where
  "no_api_faults env \<longleftrightarrow> (\<forall>c. ke_fault env c = None)"

lemma no_api_faultsD [simp]: "no_api_faults env \<Longrightarrow> ke_fault env c = None"
  by (simp add: no_api_faults_def)

lemma range_okD:
  assumes "range_ok env"
  shows "set (ke_range env ks) = set ks" "distinct ks \<Longrightarrow> distinct (ke_range env ks)"
  using assms by (auto simp: range_ok_def)

subsection \<open>Objects by namespace and name\<close>

definition obj_key :: "('o \<Rightarrow> object_meta) \<Rightarrow> 'o \<Rightarrow> string \<times> string" where
  "obj_key meta x = (om_Namespace (meta x), om_Name (meta x))"

definition obj_get :: "('o \<Rightarrow> object_meta) \<Rightarrow> 'o list \<Rightarrow> string \<times> string \<Rightarrow> 'o option" where
  "obj_get meta xs k = find (\<lambda>x. obj_key meta x = k) xs"

text \<open>Writing replaces the object of this key, or adds one.\<close>

fun obj_put :: "('o \<Rightarrow> object_meta) \<Rightarrow> 'o \<Rightarrow> 'o list \<Rightarrow> 'o list" where
  "obj_put meta x [] = [x]"
| "obj_put meta x (y # ys) = (if obj_key meta y = obj_key meta x then x # ys else y # obj_put meta x ys)"

definition obj_del :: "('o \<Rightarrow> object_meta) \<Rightarrow> string \<times> string \<Rightarrow> 'o list \<Rightarrow> 'o list" where
  "obj_del meta k xs = filter (\<lambda>x. obj_key meta x \<noteq> k) xs"

definition in_namespace :: "('o \<Rightarrow> object_meta) \<Rightarrow> string \<Rightarrow> 'o list \<Rightarrow> 'o list" where
  "in_namespace meta ns xs = filter (\<lambda>x. om_Namespace (meta x) = ns) xs"

definition with_label :: "('o \<Rightarrow> object_meta) \<Rightarrow> string \<Rightarrow> string \<Rightarrow> 'o list \<Rightarrow> 'o list" where
  "with_label meta l v xs = filter (\<lambda>x. gm_get (om_Labels (meta x)) l = Some v) xs"

definition obj_keys_ok :: "('o \<Rightarrow> object_meta) \<Rightarrow> 'o list \<Rightarrow> bool" where
  "obj_keys_ok meta xs \<longleftrightarrow> distinct (map (obj_key meta) xs)"

lemma find_SomeD: "find P xs = Some x \<Longrightarrow> x \<in> set xs \<and> P x"
  by (induction xs) (auto split: if_splits)

lemma obj_get_key: "obj_get meta xs k = Some x \<Longrightarrow> obj_key meta x = k \<and> x \<in> set xs"
  by (auto simp: obj_get_def find_Some_iff)

lemma obj_get_None: "obj_get meta xs k = None \<longleftrightarrow> k \<notin> obj_key meta ` set xs"
  by (auto simp: obj_get_def find_None_iff)

lemma obj_get_iff:
  "obj_keys_ok meta xs \<Longrightarrow> obj_get meta xs k = Some x \<longleftrightarrow> x \<in> set xs \<and> obj_key meta x = k"
  by (induction xs) (auto simp: obj_get_def obj_keys_ok_def)

lemma obj_get_put: "obj_get meta (obj_put meta x xs) k = (if obj_key meta x = k then Some x else obj_get meta xs k)"
  by (induction xs) (auto simp: obj_get_def)

lemma obj_get_del: "obj_get meta (obj_del meta k' xs) k = (if k = k' then None else obj_get meta xs k)"
  by (induction xs) (auto simp: obj_get_def obj_del_def)

lemma obj_put_keys: "obj_key meta ` set (obj_put meta x xs) = insert (obj_key meta x) (obj_key meta ` set xs)"
  by (induction xs) auto

lemma obj_put_same: "obj_get meta xs (obj_key meta x) = Some x \<Longrightarrow> obj_put meta x xs = xs"
  by (induction xs) (auto simp: obj_get_def split: if_splits)

lemma obj_keys_ok_put: "obj_keys_ok meta xs \<Longrightarrow> obj_keys_ok meta (obj_put meta x xs)"
  unfolding obj_keys_ok_def
proof (induction xs)
  case (Cons y ys)
  then show ?case using obj_put_keys [of meta x ys] by (auto simp: image_iff)
qed simp

lemma obj_keys_ok_del: "obj_keys_ok meta xs \<Longrightarrow> obj_keys_ok meta (obj_del meta k xs)"
  by (simp add: obj_keys_ok_def obj_del_def distinct_map_filter)

subsection \<open>What a store promises\<close>

text \<open>
  Lookup after writing and after deletion. The controllers that keep a set of objects up to date
  need no more: \<open>put_all\<close> and \<open>del_all\<close> are their two loops.
\<close>

locale object_store =
  fixes get :: "'s \<Rightarrow> 'k \<Rightarrow> 'o option"
    and put :: "'o \<Rightarrow> 's \<Rightarrow> 's"
    and del :: "'k \<Rightarrow> 's \<Rightarrow> 's"
    and key :: "'o \<Rightarrow> 'k"
  assumes get_put: "get (put x s) k = (if key x = k then Some x else get s k)"
    and get_del: "get (del k' s) k = (if k = k' then None else get s k)"
begin

lemma del_all: "get (foldl (\<lambda>s k. del k s) s ks) k = (if k \<in> set ks then None else get s k)"
  by (induction ks arbitrary: s) (auto simp: get_del)

text \<open>Every item puts the object computed from the one stored under its key.\<close>

lemma put_all:
  assumes "distinct (map g ks)" "\<And>k old. k \<in> set ks \<Longrightarrow> key (f k old) = g k"
  shows "get (foldl (\<lambda>s k. put (f k (get s (g k))) s) s ks) j
    = (case find (\<lambda>k. g k = j) ks of None \<Rightarrow> get s j | Some k \<Rightarrow> Some (f k (get s j)))"
  using assms
proof (induction ks arbitrary: s)
  case (Cons i ks)
  let ?s = "put (f i (get s (g i))) s"
  have IH: "get (foldl (\<lambda>s k. put (f k (get s (g k))) s) ?s ks) j
      = (case find (\<lambda>k. g k = j) ks of None \<Rightarrow> get ?s j | Some k \<Rightarrow> Some (f k (get ?s j)))"
    using Cons.prems by (intro Cons.IH) auto
  have get: "get ?s j = (if g i = j then Some (f i (get s j)) else get s j)"
    using Cons.prems(2) [of i "get s (g i)"] by (simp add: get_put)
  show ?case
  proof (cases "g i = j")
    case True
    then have "j \<notin> g ` set ks" using Cons.prems(1) by auto
    then have "find (\<lambda>k. g k = j) ks = None" unfolding find_None_iff by blast
    with IH get True show ?thesis by simp
  next
    case False
    with IH get show ?thesis by (simp split: option.split)
  qed
qed simp

end

interpretation objs: object_store "obj_get meta" "obj_put meta" "obj_del meta" "obj_key meta"
  for meta :: "'o \<Rightarrow> object_meta"
  by unfold_locales (simp_all add: obj_get_put obj_get_del)

subsection \<open>Calls\<close>

datatype 'o got = Found 'o | NotFound string | Failed string

definition resource_name :: "kind \<Rightarrow> string" where
  "resource_name k =
     (case k of Namespaces \<Rightarrow> ''namespaces'' | Secrets \<Rightarrow> ''secrets'' | ConfigMaps \<Rightarrow> ''configmaps''
      | Workstations \<Rightarrow> ''agentworkstations.agentoffice.ai'' | KnowledgeBases \<Rightarrow> ''knowledgebases.agentoffice.ai''
      | Connections \<Rightarrow> ''modelconnections.agentoffice.ai'' | Offers \<Rightarrow> ''modelconnectionoffers.agentoffice.ai''
      | Skills \<Rightarrow> ''skills.agentoffice.ai'' | Bindings \<Rightarrow> ''skillbindings.agentoffice.ai''
      | Gateways \<Rightarrow> ''agentgateways.agentoffice.ai'' | Registrations \<Rightarrow> ''mcpserverregistrations.mcp.kuadrant.io''
      | Routes \<Rightarrow> ''httproutes.gateway.networking.k8s.io'')"

definition api_get ::
    "kube_env \<Rightarrow> kind \<Rightarrow> ('o \<Rightarrow> object_meta) \<Rightarrow> 'o list \<Rightarrow> string \<Rightarrow> string \<Rightarrow> 'o got" where
  "api_get env k meta xs ns n =
     (case ke_fault env (call Get k ns n) of
        Some e \<Rightarrow> Failed e
      | None \<Rightarrow>
         (case obj_get meta xs (ns, n) of
            None \<Rightarrow> NotFound (resource_name k @ '' '' @ go_quote n @ '' not found'')
          | Some x \<Rightarrow> Found x))"

text \<open>Where the code does not ask why a read failed.\<close>

definition got_result :: "'o got \<Rightarrow> 'o result" where
  "got_result g = (case g of Found x \<Rightarrow> Inr x | NotFound e \<Rightarrow> Inl e | Failed e \<Rightarrow> Inl e)"

definition api_read ::
    "kube_env \<Rightarrow> kind \<Rightarrow> ('o \<Rightarrow> object_meta) \<Rightarrow> 'o list \<Rightarrow> string \<Rightarrow> string \<Rightarrow> 'o result" where
  "api_read env k meta xs ns n = got_result (api_get env k meta xs ns n)"

definition api_list :: "kube_env \<Rightarrow> kind \<Rightarrow> ('o \<Rightarrow> object_meta) \<Rightarrow> 'o list \<Rightarrow> string \<Rightarrow> 'o list result" where
  "api_list env k meta xs ns =
     (case ke_fault env (call List k ns []) of Some e \<Rightarrow> Inl e | None \<Rightarrow> Inr (in_namespace meta ns xs))"

text \<open>A list over all namespaces.\<close>

definition api_list_all :: "kube_env \<Rightarrow> kind \<Rightarrow> 'o list \<Rightarrow> 'o list result" where
  "api_list_all env k xs = (case ke_fault env (call List k [] []) of Some e \<Rightarrow> Inl e | None \<Rightarrow> Inr xs)"

text \<open>
  \<open>controllerutil.CreateOrUpdate\<close>: read the object, let \<open>mutate\<close> change it (or the empty one), then
  create it, leave it if nothing changed, or update it.
\<close>

definition create_or_update ::
    "kube_env \<Rightarrow> kind \<Rightarrow> ('o \<Rightarrow> object_meta) \<Rightarrow> ('o \<Rightarrow> 'o result) \<Rightarrow> 'o \<Rightarrow> 'o list \<Rightarrow> 'o list \<times> 'o result" where
  "create_or_update env k meta mutate fresh xs =
     (let (ns, n) = obj_key meta fresh;
          write = (\<lambda>v x. case ke_fault env (call v k ns n) of
                     Some e \<Rightarrow> (xs, Inl e) | None \<Rightarrow> (obj_put meta x xs, Inr x))
      in case api_get env k meta xs ns n of
        Failed e \<Rightarrow> (xs, Inl e)
      | NotFound _ \<Rightarrow> (case mutate fresh of Inl e \<Rightarrow> (xs, Inl e) | Inr x \<Rightarrow> write Create x)
      | Found old \<Rightarrow>
          (case mutate old of
             Inl e \<Rightarrow> (xs, Inl e)
           | Inr x \<Rightarrow> (if x = old then (xs, Inr x) else write Update x)))"

text \<open>Deletion: \<open>None\<close> when done or when the object was already gone.\<close>

definition api_delete ::
    "kube_env \<Rightarrow> kind \<Rightarrow> ('o \<Rightarrow> object_meta) \<Rightarrow> string \<Rightarrow> string \<Rightarrow> 'o list \<Rightarrow> 'o list \<times> string option" where
  "api_delete env k meta ns n xs =
     (case ke_fault env (call Delete k ns n) of Some e \<Rightarrow> (xs, Some e) | None \<Rightarrow> (obj_del meta (ns, n) xs, None))"

text \<open>\<open>SetControllerReference\<close>: an object has at most one controller.\<close>

definition set_controller :: "object_meta \<Rightarrow> object_meta \<Rightarrow> object_meta result" where
  "set_controller owner m =
     (case om_Controller m of
        Some u \<Rightarrow> (if u = om_UID owner then Inr m
                   else Inl (''Object '' @ om_Namespace m @ ''/'' @ om_Name m @ '' is already owned by another controller''))
      | None \<Rightarrow> Inr (m\<lparr>om_Controller := Some (om_UID owner)\<rparr>))"

lemma set_controller_key:
  "set_controller owner m = Inr m' \<Longrightarrow> om_Name m' = om_Name m \<and> om_Namespace m' = om_Namespace m
     \<and> om_Controller m' = Some (om_UID owner) \<and> om_Labels m' = om_Labels m"
  by (auto simp: set_controller_def split: option.splits if_splits)

lemma create_or_update_ok:
  assumes "no_api_faults env"
    and "mutate (case obj_get meta xs (obj_key meta fresh) of None \<Rightarrow> fresh | Some old \<Rightarrow> old) = Inr x"
    and "obj_key meta x = obj_key meta fresh"
  shows "\<exists>ys. create_or_update env k meta mutate fresh xs = (ys, Inr x)
    \<and> obj_get meta ys = (obj_get meta xs)(obj_key meta fresh \<mapsto> x) \<and> (obj_keys_ok meta xs \<longrightarrow> obj_keys_ok meta ys)"
proof -
  obtain ns n where k: "obj_key meta fresh = (ns, n)" by fastforce
  show ?thesis
  proof (cases "obj_get meta xs (ns, n)")
    case None
    with assms k show ?thesis
      by (auto simp: create_or_update_def api_get_def fun_eq_iff obj_get_put obj_keys_ok_put)
  next
    case (Some old)
    with assms k show ?thesis
      by (auto simp: create_or_update_def api_get_def fun_eq_iff obj_get_put obj_keys_ok_put)
  qed
qed

text \<open>Without faults the object is written, or was already as it should be.\<close>

lemma create_or_update_eq:
  assumes "no_api_faults env"
    and "mutate (case obj_get meta xs (obj_key meta fresh) of None \<Rightarrow> fresh | Some old \<Rightarrow> old) = Inr x"
    and "obj_key meta x = obj_key meta fresh"
  shows "create_or_update env k meta mutate fresh xs = (obj_put meta x xs, Inr x)"
proof -
  obtain ns n where k: "obj_key meta fresh = (ns, n)" by fastforce
  with assms show ?thesis
    using obj_put_same [of meta xs x]
    by (cases "obj_get meta xs (ns, n)") (auto simp: create_or_update_def api_get_def)
qed

lemma create_or_update_cases:
  assumes "create_or_update env k meta mutate fresh xs = (ys, Inr x)"
  obtains y where "mutate y = Inr x" "y = fresh \<or> obj_get meta xs (obj_key meta fresh) = Some y"
    "ys = obj_put meta x xs \<or> ys = xs \<and> obj_get meta xs (obj_key meta fresh) = Some x"
proof -
  obtain ns n where k: "obj_key meta fresh = (ns, n)" by fastforce
  show ?thesis
    using assms that k unfolding create_or_update_def api_get_def Let_def
    by (simp split: option.splits sum.splits if_splits)
qed

lemma create_or_update_Inr:
  assumes "create_or_update env k meta mutate fresh xs = (ys, Inr x)"
    and "\<And>y. mutate y = Inr x \<Longrightarrow> obj_key meta x = obj_key meta y"
  shows "obj_get meta ys (obj_key meta fresh) = Some x \<and> (\<exists>y. mutate y = Inr x)"
  using assms(1)
proof (cases rule: create_or_update_cases)
  case (1 y)
  then have "obj_key meta x = obj_key meta fresh" using assms(2) obj_get_key by metis
  with 1 show ?thesis by (auto simp: obj_get_put)
qed

subsection \<open>A concrete server\<close>

definition demo_meta :: "string \<Rightarrow> string \<Rightarrow> object_meta" where
  "demo_meta ns n = \<lparr>om_Name = n, om_Namespace = ns, om_UID = ''uid-'' @ n, om_Generation = 1, om_Labels = [],
     om_Annotations = [], om_DeletionTimestamp = None, om_Finalizers = [], om_Controller = None\<rparr>"

definition demo_kube_env :: kube_env where
  "demo_kube_env = \<lparr>ke_now = 100, ke_fault = (\<lambda>_. None), ke_range = (\<lambda>ks. ks),
     ke_selector = (\<lambda>s. Inr (\<lambda>ls. list_all (\<lambda>(k, v). gm_get ls k = Some v) (lse_MatchLabels s)))\<rparr>"

definition empty_kube :: kube where
  "empty_kube = \<lparr>ku_namespaces = [], ku_secrets = [], ku_config_maps = [], ku_workstations = [],
     ku_knowledge_bases = [], ku_connections = [], ku_offers = [], ku_skills = [], ku_bindings = [], ku_gateways = [], ku_registrations = [], ku_routes = []\<rparr>"

lemma demo_kube_env_ok [simp]: "no_api_faults demo_kube_env" "range_ok demo_kube_env"
  by (simp_all add: no_api_faults_def range_ok_def demo_kube_env_def)

end
