(* ===== verification/DspClient.thy ===== *)
theory DspClient
  imports Json Sha256 "HOL-Library.Monad_Syntax"
begin

text \<open>
  \<open>internal/dsp/client.go\<close>: the HTTP client of Data Science Pipelines. The server is a parameter: a
  transport \<open>he_do\<close> that answers a request and moves the state of the outside world, and the error
  that parsing a URL gives, if any. The text of a JSON error is not modelled, and the boundary of a
  multipart body is left out.
\<close>

subsection \<open>HTTP\<close>

datatype http_body = NoBody | BodyBytes string | FormFile string string string

record http_request =
  hr_Method :: string
  hr_URL :: string
  hr_Header :: "string gomap"
  hr_Body :: http_body

record http_response =
  hs_Status :: int
  hs_Header :: "string gomap"
  hs_Body :: "string result"

record 'w http_env =
  he_url_err :: "string \<Rightarrow> string option"
  he_do :: "http_request \<Rightarrow> 'w \<Rightarrow> 'w \<times> http_response result"

definition upper_hex :: "nat \<Rightarrow> char" where
  "upper_hex n = (if n < 10 then char_of (48 + n) else char_of (55 + n))"

definition percent :: "char \<Rightarrow> string" where
  "percent c = [CHR ''%'', upper_hex (of_char c div 16), upper_hex (of_char c mod 16)]"

definition unreserved :: "char \<Rightarrow> bool" where
  "unreserved c \<longleftrightarrow> (let n = (of_char c :: nat) in
     48 \<le> n \<and> n \<le> 57 \<or> 65 \<le> n \<and> n \<le> 90 \<or> 97 \<le> n \<and> n \<le> 122) \<or> c \<in> set ''-_.~''"

text \<open>\<open>url.QueryEscape\<close> and \<open>url.PathEscape\<close>.\<close>

definition url_encode :: "string \<Rightarrow> string" where
  "url_encode s = concat (map (\<lambda>c. if unreserved c then [c] else if c = CHR 0x20 then ''+'' else percent c) s)"

definition path_escape :: "string \<Rightarrow> string" where
  "path_escape s = concat (map (\<lambda>c. if unreserved c \<or> c \<in> set ''$&+=:@'' then [c] else percent c) s)"

text \<open>\<open>req.URL.Path\<close>: what follows the host, up to the query, with its escapes decoded.\<close>

fun percent_decode :: "string \<Rightarrow> string" where
  "percent_decode (c # a # b # r) =
     (if c = CHR ''%'' then
        (case (hex_value a, hex_value b) of
           (Some x, Some y) \<Rightarrow> char_of (x * 16 + y) # percent_decode r
         | _ \<Rightarrow> c # percent_decode (a # b # r))
      else c # percent_decode (a # b # r))"
| "percent_decode s = s"

definition url_path :: "string \<Rightarrow> string" where
  "url_path u =
     (let rest = (case str_index u ''://'' of None \<Rightarrow> u | Some i \<Rightarrow> drop (i + 3) u)
      in percent_decode (takeWhile (\<lambda>c. c \<noteq> CHR ''?'' \<and> c \<noteq> CHR ''#'') (dropWhile (\<lambda>c. c \<noteq> CHR ''/'') rest)))"

subsection \<open>The client\<close>

record dsp_client =
  dc_BaseURL :: string
  dc_Token :: string

definition trim_right :: "char \<Rightarrow> string \<Rightarrow> string" where
  "trim_right c s = rev (dropWhile (\<lambda>x. x = c) (rev s))"

definition new_client :: "string \<Rightarrow> string \<Rightarrow> dsp_client" where
  "new_client base_url token = \<lparr>dc_BaseURL = trim_right (CHR ''/'') base_url, dc_Token = token\<rparr>"

definition truncate_bytes :: "string \<Rightarrow> nat \<Rightarrow> string" where
  "truncate_bytes b n = (if length b \<le> n then b else take n b @ ''...(truncated)'')"

definition auth_headers :: "dsp_client \<Rightarrow> string gomap" where
  "auth_headers c =
     gm_set (if dc_Token c \<noteq> [] then gm_set [] ''Authorization'' (''Bearer '' @ dc_Token c) else [])
       ''Accept'' ''application/json''"

definition do_request :: "'w http_env \<Rightarrow> 'w \<Rightarrow> http_request \<Rightarrow> 'w \<times> string result" where
  "do_request he w req =
     and_then (wrap_err ''http: '' (he_do he req w)) (\<lambda>w resp.
       case hs_Body resp of
         Inl e \<Rightarrow> (w, Inl (''read body: '' @ e))
       | Inr body \<Rightarrow>
          (if hs_Status resp < 200 \<or> 300 \<le> hs_Status resp then
             (w, Inl (''DSP '' @ hr_Method req @ '' '' @ url_path (hr_URL req) @ '': HTTP ''
                      @ itoa (hs_Status resp) @ '' '' @ truncate_bytes body 400))
           else (w, Inr body)))"

text \<open>Building a request fails when its URL cannot be parsed.\<close>

definition send ::
    "'w http_env \<Rightarrow> 'w \<Rightarrow> string \<Rightarrow> string \<Rightarrow> string gomap \<Rightarrow> http_body \<Rightarrow> 'w \<times> string result" where
  "send he w meth url hdr body =
     (case he_url_err he url of
        Some e \<Rightarrow> (w, Inl e)
      | None \<Rightarrow> do_request he w \<lparr>hr_Method = meth, hr_URL = url, hr_Header = hdr, hr_Body = body\<rparr>)"

text \<open>A query of this client has at most one parameter, so the order of the Go map does not matter.\<close>

definition query_string :: "string gomap \<Rightarrow> string" where
  "query_string q =
     (if q = [] then []
      else CHR ''?'' # join ''&'' (map (\<lambda>(k, v). url_encode k @ ''='' @ url_encode v) q))"

definition do_get :: "'w http_env \<Rightarrow> dsp_client \<Rightarrow> 'w \<Rightarrow> string \<Rightarrow> string gomap \<Rightarrow> 'w \<times> string result" where
  "do_get he c w path query = send he w ''GET'' (dc_BaseURL c @ path @ query_string query) (auth_headers c) NoBody"

definition do_post :: "'w http_env \<Rightarrow> dsp_client \<Rightarrow> 'w \<Rightarrow> string \<Rightarrow> json \<Rightarrow> 'w \<times> string result" where
  "do_post he c w path body =
     send he w ''POST'' (dc_BaseURL c @ path)
       (gm_set (auth_headers c) ''Content-Type'' ''application/json'') (BodyBytes (json_print body))"

definition upload_file ::
    "'w http_env \<Rightarrow> dsp_client \<Rightarrow> 'w \<Rightarrow> string \<Rightarrow> string \<Rightarrow> 'w \<times> string result" where
  "upload_file he c w path ir_yaml =
     send he w ''POST'' (dc_BaseURL c @ path)
       (gm_set (auth_headers c) ''Content-Type'' ''multipart/form-data'')
       (FormFile ''uploadfile'' ''pipeline.yaml'' ir_yaml)"

definition decode_body :: "string \<Rightarrow> (json \<Rightarrow> 'a option) \<Rightarrow> bool \<Rightarrow> string \<Rightarrow> 'a result" where
  "decode_body what dec show_body body =
     (case unmarshal dec body of
        Some x \<Rightarrow> Inr x
      | None \<Rightarrow> Inl (''decode '' @ what @ '': invalid JSON''
                     @ (if show_body then '' (body='' @ truncate_bytes body 400 @ '')'' else [])))"

subsection \<open>Resources\<close>

record pipeline =
  pl_PipelineID :: string
  pl_DisplayName :: string
  pl_Description :: string

record pipeline_version =
  pv_PipelineID :: string
  pv_PipelineVersionID :: string
  pv_DisplayName :: string
  pv_Name :: string

record dsp_experiment =
  ex_ExperimentID :: string
  ex_DisplayName :: string

record pipeline_version_ref =
  pr_PipelineID :: string
  pr_PipelineVersionID :: string

record dsp_run =
  run_RunID :: string
  run_DisplayName :: string
  run_ExperimentID :: string
  run_State :: string
  run_StateHistory :: "(string \<times> string) list"
  run_CreatedAt :: string
  run_Parameters :: "(string \<times> json) list"
  run_Version :: pipeline_version_ref

definition decode_pipeline :: "json \<Rightarrow> pipeline option" where
  "decode_pipeline v =
     (let names = [''pipeline_id'', ''display_name'', ''description''] in
      do { kvs \<leftarrow> object_members v;
           i \<leftarrow> field_str ''pipeline_id'' names kvs;
           d \<leftarrow> field_str ''display_name'' names kvs;
           t \<leftarrow> field_str ''description'' names kvs;
           Some \<lparr>pl_PipelineID = i, pl_DisplayName = d, pl_Description = t\<rparr> })"

definition decode_version :: "json \<Rightarrow> pipeline_version option" where
  "decode_version v =
     (let names = [''pipeline_id'', ''pipeline_version_id'', ''display_name'', ''name''] in
      do { kvs \<leftarrow> object_members v;
           p \<leftarrow> field_str ''pipeline_id'' names kvs;
           i \<leftarrow> field_str ''pipeline_version_id'' names kvs;
           d \<leftarrow> field_str ''display_name'' names kvs;
           n \<leftarrow> field_str ''name'' names kvs;
           Some \<lparr>pv_PipelineID = p, pv_PipelineVersionID = i, pv_DisplayName = d, pv_Name = n\<rparr> })"

definition decode_experiment :: "json \<Rightarrow> dsp_experiment option" where
  "decode_experiment v =
     (let names = [''experiment_id'', ''display_name''] in
      do { kvs \<leftarrow> object_members v;
           i \<leftarrow> field_str ''experiment_id'' names kvs;
           d \<leftarrow> field_str ''display_name'' names kvs;
           Some \<lparr>ex_ExperimentID = i, ex_DisplayName = d\<rparr> })"

definition decode_list :: "string \<Rightarrow> (json \<Rightarrow> 'a option) \<Rightarrow> json \<Rightarrow> 'a list option" where
  "decode_list name dec v = do { kvs \<leftarrow> object_members v; field_list dec name [name] kvs }"

definition decode_state_entry :: "json \<Rightarrow> (string \<times> string) option" where
  "decode_state_entry v =
     (let names = [''update_time'', ''state''] in
      do { kvs \<leftarrow> object_members v;
           t \<leftarrow> field_str ''update_time'' names kvs;
           s \<leftarrow> field_str ''state'' names kvs;
           Some (t, s) })"

text \<open>The members of a nested struct; a repeated member is merged into it.\<close>

definition field_members ::
    "string \<Rightarrow> string list \<Rightarrow> (string \<times> json) list \<Rightarrow> (string \<times> json) list option" where
  "field_members name names kvs =
     foldl (\<lambda>acc v. case (acc, v) of (Some a, JObj k) \<Rightarrow> Some (a @ k) | _ \<Rightarrow> None)
       (Some []) (members_of name names kvs)"

definition decode_run :: "json \<Rightarrow> dsp_run option" where
  "decode_run v =
     (let names = [''run_id'', ''display_name'', ''experiment_id'', ''state'', ''state_history'',
                   ''created_at'', ''runtime_config'', ''pipeline_version_reference''];
          vnames = [''pipeline_id'', ''pipeline_version_id''] in
      do { kvs \<leftarrow> object_members v;
           i \<leftarrow> field_str ''run_id'' names kvs;
           d \<leftarrow> field_str ''display_name'' names kvs;
           x \<leftarrow> field_str ''experiment_id'' names kvs;
           s \<leftarrow> field_str ''state'' names kvs;
           h \<leftarrow> field_list decode_state_entry ''state_history'' names kvs;
           t \<leftarrow> field_str ''created_at'' names kvs;
           rc \<leftarrow> field_members ''runtime_config'' names kvs;
           ps \<leftarrow> field_members ''parameters'' [''parameters''] rc;
           vr \<leftarrow> field_members ''pipeline_version_reference'' names kvs;
           vp \<leftarrow> field_str ''pipeline_id'' vnames vr;
           vv \<leftarrow> field_str ''pipeline_version_id'' vnames vr;
           Some \<lparr>run_RunID = i, run_DisplayName = d, run_ExperimentID = x, run_State = s,
                 run_StateHistory = h, run_CreatedAt = t, run_Parameters = ps,
                 run_Version = \<lparr>pr_PipelineID = vp, pr_PipelineVersionID = vv\<rparr>\<rparr> })"

subsection \<open>Operations\<close>

definition name_filter :: "string \<Rightarrow> string gomap" where
  "name_filter n =
     [(''filter'', CHR 0x7B # go_quote ''predicates'' @ '':['' @ CHR 0x7B # go_quote ''operation'' @ '':''
        @ go_quote ''EQUALS'' @ '','' @ go_quote ''key'' @ '':'' @ go_quote ''name'' @ '',''
        @ go_quote ''stringValue'' @ '':'' @ go_quote n @ [CHR 0x7D] @ '']'' @ [CHR 0x7D])]"

definition find_pipeline :: "'w http_env \<Rightarrow> dsp_client \<Rightarrow> 'w \<Rightarrow> string \<Rightarrow> 'w \<times> pipeline option result" where
  "find_pipeline he c w name =
     and_then (do_get he c w ''/apis/v2beta1/pipelines'' (name_filter name)) (\<lambda>w body.
       (w, map_sum id (find (\<lambda>p. pl_DisplayName p = name))
             (decode_body ''pipelines'' (decode_list ''pipelines'' decode_pipeline) True body)))"

definition upload_pipeline ::
    "'w http_env \<Rightarrow> dsp_client \<Rightarrow> 'w \<Rightarrow> string \<Rightarrow> string \<Rightarrow> string \<Rightarrow> 'w \<times> pipeline result" where
  "upload_pipeline he c w name desc ir_yaml =
     and_then (upload_file he c w
         (''/apis/v2beta1/pipelines/upload?name='' @ url_encode name @ ''&description='' @ url_encode desc) ir_yaml)
       (\<lambda>w body. (w, decode_body ''upload response'' decode_pipeline True body))"

definition list_pipeline_versions ::
    "'w http_env \<Rightarrow> dsp_client \<Rightarrow> 'w \<Rightarrow> string \<Rightarrow> 'w \<times> pipeline_version list result" where
  "list_pipeline_versions he c w pid =
     and_then (do_get he c w (''/apis/v2beta1/pipelines/'' @ pid @ ''/versions'') []) (\<lambda>w body.
       (w, decode_body ''versions'' (decode_list ''pipeline_versions'' decode_version) True body))"

definition upload_pipeline_version ::
    "'w http_env \<Rightarrow> dsp_client \<Rightarrow> 'w \<Rightarrow> string \<Rightarrow> string \<Rightarrow> string \<Rightarrow> string \<Rightarrow> 'w \<times> pipeline_version result" where
  "upload_pipeline_version he c w pid vname desc ir_yaml =
     and_then (upload_file he c w
         (''/apis/v2beta1/pipelines/upload_version?name='' @ url_encode vname
          @ ''&description='' @ url_encode desc @ ''&pipelineid='' @ url_encode pid) ir_yaml)
       (\<lambda>w body. (w, decode_body ''version upload'' decode_version True body))"

definition pipeline_version_name :: "string \<Rightarrow> string" where
  "pipeline_version_name ir_yaml = ''content-'' @ take 12 (hex_encode (sha256 ir_yaml))"

definition find_or_create_pipeline ::
    "'w http_env \<Rightarrow> dsp_client \<Rightarrow> 'w \<Rightarrow> string \<Rightarrow> string \<Rightarrow> string \<Rightarrow> 'w \<times> (pipeline \<times> string) result" where
  "find_or_create_pipeline he c w name desc ir_yaml =
     (let vname = pipeline_version_name ir_yaml in
      and_then (find_pipeline he c w name) (\<lambda>w existing.
        case existing of
          None \<Rightarrow>
            and_then (upload_pipeline he c w name desc ir_yaml) (\<lambda>w p.
              case list_pipeline_versions he c w (pl_PipelineID p) of
                (w, Inr (v # _)) \<Rightarrow> (w, Inr (p, pv_PipelineVersionID v))
              | (w, _) \<Rightarrow> (w, Inr (p, [])))
        | Some p \<Rightarrow>
            and_then (wrap_err ''list pipeline versions: ''
                (list_pipeline_versions he c w (pl_PipelineID p))) (\<lambda>w vs.
              case find (\<lambda>v. pv_DisplayName v = vname \<or> pv_Name v = vname) vs of
                Some v \<Rightarrow> (w, Inr (p, pv_PipelineVersionID v))
              | None \<Rightarrow>
                  and_then (wrap_err (''upload pipeline version '' @ vname @ '': '')
                      (upload_pipeline_version he c w (pl_PipelineID p) vname
                        ''operator content-hash refresh'' ir_yaml))
                    (\<lambda>w v. (w, Inr (p, pv_PipelineVersionID v))))))"

definition delete_run :: "'w http_env \<Rightarrow> dsp_client \<Rightarrow> 'w \<Rightarrow> string \<Rightarrow> 'w \<times> string option" where
  "delete_run he c w rid =
     (case send he w ''DELETE'' (dc_BaseURL c @ ''/apis/v2beta1/runs/'' @ path_escape rid) (auth_headers c) NoBody of
        (w, Inl e) \<Rightarrow> (w, Some e) | (w, Inr _) \<Rightarrow> (w, None))"

definition find_or_create_experiment ::
    "'w http_env \<Rightarrow> dsp_client \<Rightarrow> 'w \<Rightarrow> string \<Rightarrow> string \<Rightarrow> 'w \<times> dsp_experiment result" where
  "find_or_create_experiment he c w name desc =
     and_then (do_get he c w ''/apis/v2beta1/experiments'' (name_filter name)) (\<lambda>w body.
       case decode_body ''experiments'' (decode_list ''experiments'' decode_experiment) False body of
         Inl e \<Rightarrow> (w, Inl e)
       | Inr xs \<Rightarrow>
          (case find (\<lambda>x. ex_DisplayName x = name) xs of
             Some x \<Rightarrow> (w, Inr x)
           | None \<Rightarrow>
              and_then (do_post he c w ''/apis/v2beta1/experiments''
                  (json_map [(''display_name'', JStr name), (''description'', JStr desc)]))
                (\<lambda>w body. (w, decode_body ''created experiment'' decode_experiment False body))))"

definition create_run ::
    "'w http_env \<Rightarrow> dsp_client \<Rightarrow> 'w \<Rightarrow> string \<Rightarrow> string \<Rightarrow> string \<Rightarrow> (string \<times> json) list \<Rightarrow> 'w \<times> dsp_run result" where
  "create_run he c w display_name experiment_id pipeline_id params =
     and_then (do_post he c w ''/apis/v2beta1/runs''
         (json_map [(''display_name'', JStr display_name), (''experiment_id'', JStr experiment_id),
                    (''pipeline_version_reference'', json_map [(''pipeline_id'', JStr pipeline_id)]),
                    (''runtime_config'', json_map [(''parameters'', json_map params)])]))
       (\<lambda>w body. (w, decode_body ''run'' decode_run True body))"

definition get_run :: "'w http_env \<Rightarrow> dsp_client \<Rightarrow> 'w \<Rightarrow> string \<Rightarrow> 'w \<times> dsp_run result" where
  "get_run he c w rid =
     and_then (do_get he c w (''/apis/v2beta1/runs/'' @ rid) []) (\<lambda>w body.
       (w, decode_body ''run'' decode_run False body))"

definition is_terminal :: "string \<Rightarrow> bool" where
  "is_terminal state \<longleftrightarrow> state \<in> {''SUCCEEDED'', ''FAILED'', ''SKIPPED'', ''CANCELED''}"

end
