(* ===== verification/History.thy ===== *)
theory History
  imports Stagnation
begin

text \<open>
  The history loader, \<open>internal/search/history.go\<close>: which rounds of a wiki are completed, and the
  observation of each. The wiki is reached through the Go interface \<open>FileLister\<close>: two functions,
  whose contract is the locale \<open>file_lister\<close>.
\<close>

subsection \<open>File names\<close>

text \<open>The pattern \<open>^round-(\d+)\.(yaml|md)$\<close>: the digits and the extension.\<close>

definition match_round :: "string \<Rightarrow> (string \<times> string) option" where
  "match_round f =
     (if has_prefix f ''round-'' then
        (let (ds, rest) = split_digits (drop 6 f)
         in if ds = [] then None
            else if rest = ''.yaml'' then Some (ds, ''yaml'')
            else if rest = ''.md'' then Some (ds, ''md'')
            else None)
      else None)"

definition round_file :: "int \<Rightarrow> string \<Rightarrow> string" where
  "round_file n ext = ''round-'' @ itoa n @ ''.'' @ ext"

text \<open>
  The loops over a directory listing: the round numbers of the files with the wanted extension,
  or an error for a number outside the range of \<open>int\<close>.
\<close>

fun round_numbers :: "string \<Rightarrow> string list \<Rightarrow> int list result" where
  "round_numbers ext [] = Inr []"
| "round_numbers ext (f # fs) =
     (case match_round f of
        None \<Rightarrow> round_numbers ext fs
      | Some (ds, e) \<Rightarrow>
         (if e \<noteq> ext then round_numbers ext fs
          else case atoi ds of
            None \<Rightarrow> Inl (''LoadWikiHistory: parse round number from '' @ go_quote f
                      @ '': strconv.Atoi: parsing '' @ go_quote ds @ '': value out of range'')
          | Some n \<Rightarrow>
             (case round_numbers ext fs of Inl e \<Rightarrow> Inl e | Inr ns \<Rightarrow> Inr (n # ns))))"

subsection \<open>The loss in a result page\<close>

text \<open>
  The leftmost match of \<open>(?i)\|\s*eval_loss\s*\|\s*([0-9eE.+-]+)\s*\|\<close>. The classes that follow
  each other are disjoint, so a greedy scan finds what the backtracking search finds. The case
  folding of Go makes \<open>s\<close> match U+017F as well.
\<close>

definition re_space :: "char \<Rightarrow> bool" where
  "re_space c \<longleftrightarrow> c \<in> {CHR 0x09, CHR 0x0A, CHR 0x0C, CHR 0x0D, CHR 0x20}"

definition number_char :: "char \<Rightarrow> bool" where
  "number_char c \<longleftrightarrow> is_digit c \<or> c \<in> {CHR ''e'', CHR ''E'', CHR ''.'', CHR ''+'', CHR ''-''}"

fun match_ci :: "string \<Rightarrow> string \<Rightarrow> string option" where
  "match_ci [] s = Some s"
| "match_ci (p # ps) [] = None"
| "match_ci (p # ps) (c # cs) =
     (if lower_char c = p then match_ci ps cs
      else if p = CHR ''s'' \<and> c = CHR 0xC5 \<and> cs \<noteq> [] \<and> hd cs = CHR 0xBF
      then match_ci ps (tl cs)
      else None)"

definition bar :: "string \<Rightarrow> string option" where
  "bar s = (case s of c # t \<Rightarrow> (if c = CHR ''|'' then Some t else None) | [] \<Rightarrow> None)"

definition eval_loss_at :: "string \<Rightarrow> string option" where
  "eval_loss_at s =
     (case bar s of None \<Rightarrow> None | Some s1 \<Rightarrow>
     (case match_ci ''eval_loss'' (dropWhile re_space s1) of None \<Rightarrow> None | Some s2 \<Rightarrow>
     (case bar (dropWhile re_space s2) of None \<Rightarrow> None | Some s3 \<Rightarrow>
        (let s4 = dropWhile re_space s3; num = takeWhile number_char s4
         in if num = [] then None
            else case bar (dropWhile re_space (dropWhile number_char s4)) of
                   None \<Rightarrow> None | Some _ \<Rightarrow> Some num))))"

fun find_eval_loss :: "string \<Rightarrow> string option" where
  "find_eval_loss [] = None"
| "find_eval_loss (c # cs) =
     (case eval_loss_at (c # cs) of Some m \<Rightarrow> Some m | None \<Rightarrow> find_eval_loss cs)"

definition parse_eval_loss :: "string \<Rightarrow> gofloat option" where
  "parse_eval_loss body =
     (case find_eval_loss body of None \<Rightarrow> None | Some m \<Rightarrow> parse_float (trim_space m))"

subsection \<open>The proposal\<close>

definition strip_quotes :: "string \<Rightarrow> string" where
  "strip_quotes v =
     (let v1 = trim_suffix (trim_prefix v [CHR 0x22]) [CHR 0x22]
      in trim_suffix (trim_prefix v1 [CHR 0x27]) [CHR 0x27])"

text \<open>One line of the flat YAML file.\<close>

definition parse_proposal_line :: "space \<Rightarrow> goval gomap \<Rightarrow> string \<Rightarrow> goval gomap result" where
  "parse_proposal_line schema params raw =
     (let line = trim_space raw
      in if line = [] \<or> has_prefix line ''#'' then Inr params
         else case index_byte line (CHR '':'') of
           None \<Rightarrow> Inr params
         | Some colon \<Rightarrow>
            (let key = trim_space (take colon line);
                 val = strip_quotes (trim_space (drop (colon + 1) line))
             in if has_prefix val ''['' then Inr params
                else case gm_get (sp_ints schema) key of
                  Some _ \<Rightarrow>
                   (case atoi val of
                      None \<Rightarrow> Inl (''param '' @ go_quote key @ '': not an int ('' @ go_quote val @ '')'')
                    | Some n \<Rightarrow> Inr (gm_set params key (VInt n)))
                | None \<Rightarrow>
                (case gm_get (sp_floats schema) key of
                  Some _ \<Rightarrow>
                   (case parse_float val of
                      None \<Rightarrow> Inl (''param '' @ go_quote key @ '': not a float ('' @ go_quote val @ '')'')
                    | Some x \<Rightarrow> Inr (gm_set params key (VFloat x)))
                | None \<Rightarrow>
                (case gm_get (sp_cats schema) key of
                  Some _ \<Rightarrow> Inr (gm_set params key (VStr val))
                | None \<Rightarrow> Inr params))))"

definition parse_proposal_yaml :: "string \<Rightarrow> space \<Rightarrow> goval gomap result" where
  "parse_proposal_yaml body schema =
     fold_result (parse_proposal_line schema) [] (split_byte (CHR 0x0A) body)"

subsection \<open>Loading\<close>

definition load_round ::
    "(string \<Rightarrow> string result) \<Rightarrow> int \<Rightarrow> space \<Rightarrow> observation option result" where
  "load_round fread n schema =
     (let prop_path = ''proposals/'' @ round_file n ''yaml'';
          res_path = ''results/'' @ round_file n ''md''
      in case fread prop_path of
           Inl e \<Rightarrow> Inl (''read '' @ prop_path @ '': '' @ e)
         | Inr prop \<Rightarrow>
        (if prop = [] then Inr None
         else case fread res_path of
           Inl e \<Rightarrow> Inl (''read '' @ res_path @ '': '' @ e)
         | Inr res \<Rightarrow>
        (if res = [] then Inr None
         else case parse_eval_loss res of
           None \<Rightarrow> Inr None
         | Some loss \<Rightarrow>
        (case parse_proposal_yaml prop schema of
           Inl e \<Rightarrow> Inl (''parse proposal '' @ prop_path @ '': '' @ e)
         | Inr params \<Rightarrow> Inr (Some \<lparr>ob_params = params, ob_eval_loss = loss\<rparr>)))))"

fun load_rounds ::
    "(string \<Rightarrow> string result) \<Rightarrow> space \<Rightarrow> int list \<Rightarrow> observation list result" where
  "load_rounds fread schema [] = Inr []"
| "load_rounds fread schema (n # ns) =
     (case load_round fread n schema of
        Inl e \<Rightarrow> Inl (''LoadWikiHistory: round '' @ itoa n @ '': '' @ e)
      | Inr obs \<Rightarrow>
         (case load_rounds fread schema ns of
            Inl e \<Rightarrow> Inl e
          | Inr rest \<Rightarrow> Inr ((case obs of None \<Rightarrow> [] | Some x \<Rightarrow> [x]) @ rest)))"

text \<open>The map \<open>completed\<close>, sorted: the rounds of the result files that also have a proposal.\<close>

definition completed_rounds :: "int list \<Rightarrow> int list \<Rightarrow> int list" where
  "completed_rounds rounds found = sort (remdups (filter (\<lambda>n. n \<in> set rounds) found))"

definition load_wiki_history ::
    "(string \<Rightarrow> string list result) \<Rightarrow> (string \<Rightarrow> string result) \<Rightarrow> space \<Rightarrow> observation list result" where
  "load_wiki_history flist fread schema =
     (case flist ''proposals'' of
        Inl _ \<Rightarrow> Inr []
      | Inr proposal_files \<Rightarrow>
     (case round_numbers ''yaml'' proposal_files of
        Inl e \<Rightarrow> Inl e
      | Inr rounds \<Rightarrow>
     (if rounds = [] then Inr []
      else case flist ''results'' of
        Inl _ \<Rightarrow> Inr []
      | Inr result_files \<Rightarrow>
     (if result_files = [] then Inr []
      else case round_numbers ''md'' result_files of
        Inl e \<Rightarrow> Inl e
      | Inr found \<Rightarrow> load_rounds fread schema (completed_rounds rounds found)))))"

subsection \<open>What the files of a wiki say\<close>

text \<open>The observation of one round, read off the files: the specification of the loader.\<close>

definition observed_round :: "string gomap \<Rightarrow> space \<Rightarrow> int \<Rightarrow> observation option" where
  "observed_round files schema n =
     (case (gm_get files (''proposals/'' @ round_file n ''yaml''),
            gm_get files (''results/'' @ round_file n ''md'')) of
        (Some prop, Some res) \<Rightarrow>
          (if n < 0 \<or> prop = [] \<or> res = [] then None
           else case (parse_eval_loss res, parse_proposal_yaml prop schema) of
                  (Some loss, Inr params) \<Rightarrow> Some \<lparr>ob_params = params, ob_eval_loss = loss\<rparr>
                | _ \<Rightarrow> None)
      | _ \<Rightarrow> None)"

definition dir_entries :: "string gomap \<Rightarrow> string \<Rightarrow> string set" where
  "dir_entries files d = {n. CHR ''/'' \<notin> set n \<and> gm_get files (d @ CHR ''/'' # n) \<noteq> None}"

lemma match_round_digits:
  assumes "match_round f = Some (ds, e)"
  shows "list_all is_digit ds \<and> ds \<noteq> []"
  using assms
  by (auto simp: match_round_def split_digits_def list_all_iff dest: set_takeWhileD
      split: if_splits)

lemma match_round_nonneg:
  assumes "match_round f = Some (ds, e)" "atoi ds = Some n"
  shows "0 \<le> n"
  using assms match_round_digits [OF assms(1)] atoi_digits [of ds] by (auto split: if_splits)

lemma takeWhile_digits:
  assumes "list_all is_digit ds" "\<not> is_digit c"
  shows "takeWhile is_digit (ds @ c # t) = ds" "dropWhile is_digit (ds @ c # t) = c # t"
  using assms by (simp_all add: list_all_iff takeWhile_append2 dropWhile_append2)

lemma match_round_file:
  assumes "0 \<le> n" "ext = ''yaml'' \<or> ext = ''md''"
  shows "match_round (round_file n ext) = Some (nat_str (nat n), ext)"
proof -
  have "\<not> is_digit (CHR ''.'')" by (simp add: is_digit_def)
  with assms show ?thesis
    using takeWhile_digits [OF nat_str_digits, of "CHR ''.''" "nat n" ext]
    by (auto simp: match_round_def round_file_def itoa_def split_digits_def)
qed

lemma round_file_no_slash:
  assumes "0 \<le> n" "ext = ''yaml'' \<or> ext = ''md''"
  shows "CHR ''/'' \<notin> set (round_file n ext)"
proof -
  have "CHR ''/'' \<notin> set (nat_str (nat n))"
    using nat_str_digits [of "nat n"] by (auto simp: list_all_iff is_digit_def)
  with assms show ?thesis by (auto simp: round_file_def itoa_def)
qed

lemma round_numbers_set:
  "round_numbers ext fs = Inr ns \<Longrightarrow>
     set ns = {n. \<exists>f \<in> set fs. \<exists>ds. match_round f = Some (ds, ext) \<and> atoi ds = Some n}
     \<and> (\<forall>f \<in> set fs. \<forall>ds. match_round f = Some (ds, ext) \<longrightarrow> atoi ds \<noteq> None)"
proof (induction fs arbitrary: ns)
  case (Cons f fs)
  then show ?case
    by (auto split: option.splits prod.splits if_splits sum.splits)
qed simp

lemma round_numbers_file:
  assumes "round_numbers ext fs = Inr ns" "round_file n ext \<in> set fs" "0 \<le> n"
    and "ext = ''yaml'' \<or> ext = ''md''"
  shows "n \<in> set ns"
proof -
  note m = match_round_file [OF assms(3,4)]
  have "atoi (nat_str (nat n)) \<noteq> None" using round_numbers_set [OF assms(1)] assms(2) m by blast
  then have "atoi (nat_str (nat n)) = Some n"
    using atoi_digits [OF nat_str_digits] assms(3) by (auto split: if_splits)
  with round_numbers_set [OF assms(1)] assms(2) m show ?thesis by blast
qed

subsection \<open>The interface\<close>

text \<open>
  What a wiki promises to the loader: \<open>List\<close> returns the names of the files directly under a
  directory and fails only where there are none, \<open>Read\<close> returns the contents of a file (nothing
  for a file that does not exist) unless it fails.
\<close>

locale file_lister =
  fixes flist :: "string \<Rightarrow> string list result"
    and fread :: "string \<Rightarrow> string result"
    and files :: "string gomap"
  assumes list_files: "d \<noteq> [] \<Longrightarrow> flist d = Inr ns \<Longrightarrow> set ns = dir_entries files d"
    and list_error: "d \<noteq> [] \<Longrightarrow> flist d = Inl e \<Longrightarrow> dir_entries files d = {}"
    and read_file: "fread p = Inr c \<Longrightarrow> c = (case gm_get files p of None \<Rightarrow> [] | Some x \<Rightarrow> x)"
begin

lemma load_round_observed:
  assumes "load_round fread n schema = Inr obs" "0 \<le> n"
  shows "obs = observed_round files schema n"
  using assms
  by (auto simp: load_round_def observed_round_def Let_def dest!: read_file
      split: option.splits if_splits sum.splits)

lemma load_rounds_observed:
  assumes "load_rounds fread schema ns = Inr obs" "\<forall>n \<in> set ns. 0 \<le> n"
  shows "obs = map (\<lambda>n. the (observed_round files schema n))
                 (filter (\<lambda>n. observed_round files schema n \<noteq> None) ns)"
  using assms
proof (induction ns arbitrary: obs)
  case (Cons n ns)
  then show ?case using load_round_observed [of n schema]
    by (force split: sum.splits option.splits)
qed simp

lemma observed_entries:
  assumes "observed_round files schema n \<noteq> None"
  shows "round_file n ''yaml'' \<in> dir_entries files ''proposals''
    \<and> round_file n ''md'' \<in> dir_entries files ''results'' \<and> 0 \<le> n"
proof -
  have "0 \<le> n" and "gm_get files (''proposals/'' @ round_file n ''yaml'') \<noteq> None"
    and "gm_get files (''results/'' @ round_file n ''md'') \<noteq> None"
    using assms by (auto simp: observed_round_def split: option.splits if_splits)
  with round_file_no_slash show ?thesis by (simp add: dir_entries_def)
qed

text \<open>The loader returns the observed rounds, each once, in increasing order.\<close>

lemma load_wiki_history_observed:
  assumes "load_wiki_history flist fread schema = Inr obs"
  shows "\<exists>ns. sorted ns \<and> distinct ns \<and> set ns = {n. observed_round files schema n \<noteq> None}
           \<and> obs = map (\<lambda>n. the (observed_round files schema n)) ns"
proof -
  have none: "\<exists>ns. sorted ns \<and> distinct ns \<and> set ns = {n. observed_round files schema n \<noteq> None}
           \<and> obs = map (\<lambda>n. the (observed_round files schema n)) ns"
    if "obs = []" "\<forall>n. observed_round files schema n = None"
    using that by (intro exI [of _ "[]"]) simp
  consider (noprop) e where "flist ''proposals'' = Inl e"
    | (nores) ps e where "flist ''proposals'' = Inr ps" "flist ''results'' = Inl e"
    | (both) ps rs where "flist ''proposals'' = Inr ps" "flist ''results'' = Inr rs"
    by (cases "flist ''proposals''"; cases "flist ''results''") blast+
  then show ?thesis
  proof cases
    case noprop
    then have "dir_entries files ''proposals'' = {}" using list_error by simp
    then have "\<forall>n. observed_round files schema n = None" using observed_entries by blast
    with noprop assms show ?thesis by (intro none) (simp_all add: load_wiki_history_def)
  next
    case nores
    then have "dir_entries files ''results'' = {}" using list_error by simp
    moreover have "obs = []" using nores assms
      by (auto simp: load_wiki_history_def split: sum.splits if_splits)
    moreover from this have "\<forall>n. observed_round files schema n = None" using observed_entries
      calculation by blast
    ultimately show ?thesis by (intro none)
  next
    case both
    then have es: "set ps = dir_entries files ''proposals''" "set rs = dir_entries files ''results''"
      using list_files by simp_all
    from assms both obtain rounds where rounds: "round_numbers ''yaml'' ps = Inr rounds"
      by (auto simp: load_wiki_history_def split: sum.splits)
    have observed: "n \<in> set rounds" if "observed_round files schema n \<noteq> None" for n
      using round_numbers_file [OF rounds] observed_entries [OF that] es by simp
    show ?thesis
    proof (cases "rounds = [] \<or> rs = []")
      case True
      then have "observed_round files schema n = None" for n
        using observed [of n] observed_entries [of schema n] es by fastforce
      moreover have "obs = []" using True assms both rounds
        by (auto simp: load_wiki_history_def split: if_splits)
      ultimately show ?thesis by (intro none) auto
    next
      case False
      with assms both rounds obtain found where found: "round_numbers ''md'' rs = Inr found"
        by (auto simp: load_wiki_history_def split: sum.splits)
      let ?c = "completed_rounds rounds found"
      have c: "set ?c = set rounds \<inter> set found" "sorted ?c" "distinct ?c"
        by (auto simp: completed_rounds_def)
      have "n \<in> set ?c" if "observed_round files schema n \<noteq> None" for n
        using round_numbers_file [OF found] observed_entries [OF that] observed [OF that] c es
        by simp
      moreover have "\<forall>n \<in> set ?c. 0 \<le> n"
        using round_numbers_set [OF found] c match_round_nonneg by blast
      moreover have "load_rounds fread schema ?c = Inr obs"
        using assms both rounds found False by (simp add: load_wiki_history_def)
      ultimately show ?thesis
        using load_rounds_observed c
        by (intro exI [of _ "filter (\<lambda>n. observed_round files schema n \<noteq> None) ?c"])
          (auto simp: sorted_wrt_filter)
    qed
  qed
qed

end

end
