(* ===== verification/Wiki.thy ===== *)
theory Wiki
  imports History ApiTypes
begin

text \<open>
  \<open>internal/wiki/transaction.go\<close>: one open clone of the git repository of a knowledge base. The
  clone is a record (\<open>wiki_tx\<close>) with the work tree, the index and the history of the checked-out
  branch; the remote repository is a map from full reference names to histories. The file system,
  the network and go-git can fail: \<open>wiki_env\<close> says for every call whether it does, so that each
  error return of the source is a branch of the model. An operation returns the new state of the
  transaction together with its error, because a step that fails half way leaves its traces.
  Paths are relative and lexically clean, as the source asks of its callers.
\<close>

subsection \<open>Trees of files\<close>

text \<open>A tree maps paths to contents; a directory is a proper prefix of a path (git keeps no empty one).\<close>

definition is_dir :: "string gomap \<Rightarrow> string \<Rightarrow> bool" where
  "is_dir tree d \<longleftrightarrow> d = [] \<or> list_ex (\<lambda>(p, _). has_prefix p (d @ ''/'')) tree"

definition under_file :: "string gomap \<Rightarrow> string \<Rightarrow> bool" where
  "under_file tree p \<longleftrightarrow> list_ex (\<lambda>(f, _). has_prefix p (f @ ''/'')) tree"

text \<open>The path of the entry of a directory, and the entries that are files.\<close>

definition entry_path :: "string \<Rightarrow> string \<Rightarrow> string" where
  "entry_path d n = (if d = [] then n else d @ CHR ''/'' # n)"

definition dir_files :: "string gomap \<Rightarrow> string \<Rightarrow> string list" where
  "dir_files tree d =
     (let pre = entry_path d []
      in sort (filter (\<lambda>n. CHR ''/'' \<notin> set n)
           (map (\<lambda>(p, _). drop (length pre) p)
             (filter (\<lambda>(p, _). has_prefix p pre) tree))))"

definition tree_eq :: "string gomap \<Rightarrow> string gomap \<Rightarrow> bool" where
  "tree_eq t u \<longleftrightarrow>
     list_all (\<lambda>(p, _). gm_get u p = gm_get t p) t \<and> list_all (\<lambda>(p, _). gm_get t p = gm_get u p) u"

lemma tree_eq_iff: "tree_eq t u \<longleftrightarrow> gm_get t = gm_get u"
proof
  assume e: "tree_eq t u"
  show "gm_get t = gm_get u"
  proof
    fix p
    show "gm_get t p = gm_get u p"
    proof (cases "p \<in> fst ` set t \<union> fst ` set u")
      case True
      with e show ?thesis by (auto simp: tree_eq_def list_all_iff)
    next
      case False
      then show ?thesis by (simp add: gm_get_None_iff [THEN iffD2])
    qed
  qed
qed (simp add: tree_eq_def list_all_iff)

subsection \<open>The state\<close>

record wiki_commit =
  wc_tree :: "string gomap"
  wc_msg :: string
  wc_name :: string
  wc_email :: string

text \<open>A branch is the list of its commits, the newest first.\<close>

type_synonym remote = "wiki_commit list gomap"

record git_auth =
  ga_username :: string
  ga_password :: string

record wiki_tx =
  tx_head_ref :: string
  tx_head :: "wiki_commit list"
  tx_tree :: "string gomap"
  tx_index :: "string gomap"
  tx_dir :: string
  tx_auth :: git_auth
  tx_branch :: string
  tx_name :: string
  tx_email :: string
  tx_closed :: bool

text \<open>Faults: the error of each external call, if it fails.\<close>

record wiki_env =
  we_mkdtemp :: "string result"
  we_clone_err :: "string option"
  we_read_err :: "string \<Rightarrow> string option"
  we_list_err :: "string \<Rightarrow> string option"
  we_mkdir_err :: "string \<Rightarrow> string option"
  we_write_err :: "string \<Rightarrow> string option"
  we_add_err :: "string \<Rightarrow> string option"
  we_worktree_err :: "string option"
  we_status_err :: "string option"
  we_commit_err :: "string option"
  we_head_err :: "string option"
  we_push_err :: "string option"
  we_remove_err :: "string option"

datatype wiki_error = ErrNoChange | ErrNothingToPush | WikiErr string

definition wiki_error_text :: "wiki_error \<Rightarrow> string" where
  "wiki_error_text e =
     (case e of
        ErrNoChange \<Rightarrow> ''wiki: no changes to commit''
      | ErrNothingToPush \<Rightarrow> ''wiki: nothing to push (already in sync)''
      | WikiErr s \<Rightarrow> s)"

definition default_committer_name :: string where
  "default_committer_name = ''autoresearch-operator''"

definition default_committer_email :: string where
  "default_committer_email = ''autoresearch@agent-office.local''"

definition branch_ref :: "string \<Rightarrow> string" where
  "branch_ref b = ''refs/heads/'' @ b"

definition tip_tree :: "wiki_commit list \<Rightarrow> string gomap" where
  "tip_tree h = (case h of [] \<Rightarrow> [] | c # _ \<Rightarrow> wc_tree c)"

subsection \<open>Begin\<close>

text \<open>
  The minter is a function value that may be nil (\<open>None\<close>); when called it returns an error or a
  pointer to the credentials. The clone checks out the tip of the branch.
\<close>

definition begin_tx ::
    "wiki_env \<Rightarrow> remote \<Rightarrow> knowledge_base option \<Rightarrow> git_auth option result option \<Rightarrow> wiki_tx result"
  where
  "begin_tx env remote kbo mint =
     (case kbo of
        None \<Rightarrow> Inl ''wiki.Begin: kb is nil''
      | Some kb \<Rightarrow>
     (let ns = om_Namespace (kb_meta kb); name = om_Name (kb_meta kb)
      in case kbs_GitMirror (kb_Spec kb) of
        None \<Rightarrow> Inl (''wiki.Begin: KnowledgeBase '' @ ns @ ''/'' @ name
                     @ '' has no spec.gitMirror (nil)'')
      | Some mirror \<Rightarrow>
     (if gm_URL mirror = [] then
        Inl (''wiki.Begin: KnowledgeBase '' @ ns @ ''/'' @ name @ '' has empty spec.gitMirror.url'')
      else case mint of
        None \<Rightarrow> Inl ''wiki.Begin: TokenMinter is nil''
      | Some (Inl e) \<Rightarrow> Inl (''wiki.Begin: mint App token for '' @ ns @ ''/'' @ name @ '': '' @ e)
      | Some (Inr None) \<Rightarrow>
          Inl (''wiki.Begin: TokenMinter returned empty auth for '' @ ns @ ''/'' @ name)
      | Some (Inr (Some auth)) \<Rightarrow>
     (if ga_password auth = [] then
        Inl (''wiki.Begin: TokenMinter returned empty auth for '' @ ns @ ''/'' @ name)
      else case we_mkdtemp env of
        Inl e \<Rightarrow> Inl (''wiki.Begin: mktemp: '' @ e)
      | Inr dir \<Rightarrow>
     (let branch = (if gm_Branch mirror = [] then ''main'' else gm_Branch mirror);
          failed = (\<lambda>e. Inl (''wiki.Begin: clone '' @ gm_URL mirror @ '' (branch '' @ branch
                               @ ''): '' @ e))
      in case we_clone_err env of
        Some e \<Rightarrow> failed e
      | None \<Rightarrow>
     (case gm_get remote (branch_ref branch) of
        None \<Rightarrow> failed ''reference not found''
      | Some h \<Rightarrow>
          Inr \<lparr>tx_head_ref = branch_ref branch, tx_head = h, tx_tree = tip_tree h,
               tx_index = tip_tree h, tx_dir = dir, tx_auth = auth, tx_branch = branch,
               tx_name = default_committer_name, tx_email = default_committer_email,
               tx_closed = False\<rparr>))))))"

subsection \<open>Read, List, Write\<close>

definition tx_read :: "wiki_env \<Rightarrow> wiki_tx \<Rightarrow> string \<Rightarrow> string result" where
  "tx_read env tx p =
     (case we_read_err env p of
        Some e \<Rightarrow> Inl (''wiki.Read '' @ p @ '': '' @ e)
      | None \<Rightarrow>
     (case gm_get (tx_tree tx) p of
        Some c \<Rightarrow> Inr c
      | None \<Rightarrow>
          (if is_dir (tx_tree tx) p then Inl (''wiki.Read '' @ p @ '': is a directory'')
           else if under_file (tx_tree tx) p then Inl (''wiki.Read '' @ p @ '': not a directory'')
           else Inr [])))"

definition tx_list :: "wiki_env \<Rightarrow> wiki_tx \<Rightarrow> string \<Rightarrow> string list result" where
  "tx_list env tx d =
     (case we_list_err env d of
        Some e \<Rightarrow> Inl (''wiki.List '' @ d @ '': '' @ e)
      | None \<Rightarrow>
          (if is_dir (tx_tree tx) d then Inr (dir_files (tx_tree tx) d)
           else if gm_get (tx_tree tx) d \<noteq> None \<or> under_file (tx_tree tx) d
           then Inl (''wiki.List '' @ d @ '': not a directory'')
           else Inr []))"

text \<open>\<open>filepath.Dir\<close> of a clean relative path.\<close>

definition path_dir :: "string \<Rightarrow> string" where
  "path_dir p = (case last_index_byte p (CHR ''/'') of None \<Rightarrow> ''.'' | Some i \<Rightarrow> take i p)"

text \<open>
  Writing fails where the file system cannot hold the file: a parent is a regular file, or the
  path is a directory.
\<close>

definition tx_write :: "wiki_env \<Rightarrow> wiki_tx \<Rightarrow> string \<Rightarrow> string \<Rightarrow> wiki_tx \<times> string option" where
  "tx_write env tx p content =
     (if p = [] then (tx, Some ''wiki.Write: relPath is empty'')
      else if has_prefix p ''/'' then
        (tx, Some (''wiki.Write: relPath '' @ go_quote p @ '' must be repo-relative''))
      else if under_file (tx_tree tx) p then
        (tx, Some (''wiki.Write: mkdir '' @ path_dir p @ '': not a directory''))
      else case we_mkdir_err env p of
        Some e \<Rightarrow> (tx, Some (''wiki.Write: mkdir '' @ path_dir p @ '': '' @ e))
      | None \<Rightarrow>
     (if is_dir (tx_tree tx) p then (tx, Some (''wiki.Write '' @ p @ '': is a directory''))
      else case we_write_err env p of
        Some e \<Rightarrow> (tx, Some (''wiki.Write '' @ p @ '': '' @ e))
      | None \<Rightarrow>
     (let tx1 = tx\<lparr>tx_tree := gm_set (tx_tree tx) p content\<rparr>
      in case we_worktree_err env of
        Some e \<Rightarrow> (tx1, Some (''wiki.Write: worktree: '' @ e))
      | None \<Rightarrow>
     (case we_add_err env p of
        Some e \<Rightarrow> (tx1, Some (''wiki.Write: stage '' @ p @ '': '' @ e))
      | None \<Rightarrow> (tx1\<lparr>tx_index := gm_set (tx_index tx1) p content\<rparr>, None)))))"

subsection \<open>Commit, Push, Close\<close>

definition tx_clean :: "wiki_tx \<Rightarrow> bool" where
  "tx_clean tx \<longleftrightarrow> tree_eq (tx_index tx) (tip_tree (tx_head tx)) \<and> tree_eq (tx_tree tx) (tx_index tx)"

definition tx_commit :: "wiki_env \<Rightarrow> wiki_tx \<Rightarrow> string \<Rightarrow> wiki_tx \<times> wiki_error option" where
  "tx_commit env tx msg =
     (if msg = [] then (tx, Some (WikiErr ''wiki.Commit: msg is empty''))
      else case we_worktree_err env of
        Some e \<Rightarrow> (tx, Some (WikiErr (''wiki.Commit: worktree: '' @ e)))
      | None \<Rightarrow>
     (case we_status_err env of
        Some e \<Rightarrow> (tx, Some (WikiErr (''wiki.Commit: status: '' @ e)))
      | None \<Rightarrow>
     (if tx_clean tx then (tx, Some ErrNoChange)
      else case we_commit_err env of
        Some e \<Rightarrow> (tx, Some (WikiErr (''wiki.Commit '' @ go_quote msg @ '': '' @ e)))
      | None \<Rightarrow>
          (tx\<lparr>tx_head := \<lparr>wc_tree = tx_index tx, wc_msg = msg, wc_name = tx_name tx,
                         wc_email = tx_email tx\<rparr> # tx_head tx\<rparr>, None))))"

definition ref_spec :: "string \<Rightarrow> string" where
  "ref_spec b = ''+'' @ b @ '':'' @ b"

text \<open>
  The refspec starts with a plus sign, so the push replaces the remote branch by the local one
  whatever it holds, unless it already holds the local one.
\<close>

definition tx_push :: "wiki_env \<Rightarrow> remote \<Rightarrow> wiki_tx \<Rightarrow> remote \<times> wiki_error option" where
  "tx_push env remote tx =
     (case we_head_err env of
        Some e \<Rightarrow> (remote, Some (WikiErr (''wiki.Push: read HEAD: '' @ e)))
      | None \<Rightarrow>
     (if \<not> has_prefix (tx_head_ref tx) ''refs/heads/'' then
        (remote, Some (WikiErr (''wiki.Push: HEAD is not a branch (got ''
                                @ go_quote (tx_head_ref tx) @ '')'')))
      else case we_push_err env of
        Some e \<Rightarrow> (remote, Some (WikiErr (''wiki.Push '' @ ref_spec (tx_head_ref tx) @ '': '' @ e)))
      | None \<Rightarrow>
          (if gm_get remote (tx_head_ref tx) = Some (tx_head tx) then (remote, Some ErrNothingToPush)
           else (gm_set remote (tx_head_ref tx) (tx_head tx), None))))"

definition commit_and_push ::
    "wiki_env \<Rightarrow> remote \<Rightarrow> wiki_tx \<Rightarrow> string \<Rightarrow> remote \<times> wiki_tx \<times> wiki_error option" where
  "commit_and_push env remote tx msg =
     (case tx_commit env tx msg of
        (tx1, Some e) \<Rightarrow> (remote, tx1, if e = ErrNoChange then None else Some e)
      | (tx1, None) \<Rightarrow>
         (case tx_push env remote tx1 of
            (remote1, Some e) \<Rightarrow> (remote1, tx1, if e = ErrNothingToPush then None else Some e)
          | (remote1, None) \<Rightarrow> (remote1, tx1, None)))"

text \<open>\<open>Close\<close>: the second component tells whether the directory was asked to be removed.\<close>

definition tx_close :: "wiki_env \<Rightarrow> wiki_tx \<Rightarrow> wiki_tx \<times> bool \<times> string option" where
  "tx_close env tx =
     (if tx_closed tx then (tx, False, None)
      else if tx_dir tx = [] then (tx\<lparr>tx_closed := True\<rparr>, False, None)
      else (tx\<lparr>tx_closed := True\<rparr>, True, we_remove_err env))"

subsection \<open>The file interface of the loader\<close>

definition no_faults :: wiki_env where
  "no_faults = \<lparr>we_mkdtemp = Inr ''/tmp/wiki-tx-1'', we_clone_err = None, we_read_err = (\<lambda>_. None),
     we_list_err = (\<lambda>_. None), we_mkdir_err = (\<lambda>_. None), we_write_err = (\<lambda>_. None),
     we_add_err = (\<lambda>_. None), we_worktree_err = None, we_status_err = None, we_commit_err = None,
     we_head_err = None, we_push_err = None, we_remove_err = None\<rparr>"

lemma no_faults_simps [simp]:
  "we_mkdtemp no_faults = Inr ''/tmp/wiki-tx-1''" "we_clone_err no_faults = None"
  "we_read_err no_faults p = None" "we_list_err no_faults p = None"
  "we_mkdir_err no_faults p = None" "we_write_err no_faults p = None"
  "we_add_err no_faults p = None" "we_worktree_err no_faults = None"
  "we_status_err no_faults = None" "we_commit_err no_faults = None"
  "we_head_err no_faults = None" "we_push_err no_faults = None"
  by (simp_all add: no_faults_def)

lemma set_dir_files:
  assumes "d \<noteq> []"
  shows "set (dir_files tree d) = dir_entries tree d"
proof -
  have "n \<in> set (dir_files tree d) \<longleftrightarrow> CHR ''/'' \<notin> set n \<and> (\<exists>c. (d @ CHR ''/'' # n, c) \<in> set tree)"
    for n
    using assms by (force simp: dir_files_def entry_path_def has_prefix_iff image_iff)
  then show ?thesis
    by (auto simp: dir_entries_def gm_get_None_iff) (metis fst_conv imageI)+
qed

lemma dir_entries_no_dir: "d \<noteq> [] \<Longrightarrow> \<not> is_dir tree d \<Longrightarrow> dir_entries tree d = {}"
  by (force simp: is_dir_def dir_entries_def list_ex_iff has_prefix_iff gm_get_None_iff)

interpretation wiki_files: file_lister "tx_list no_faults tx" "tx_read no_faults tx" "tx_tree tx"
  for tx
proof
  fix d ns e p c
  show "d \<noteq> [] \<Longrightarrow> tx_list no_faults tx d = Inr ns \<Longrightarrow> set ns = dir_entries (tx_tree tx) d"
    using dir_entries_no_dir [of d "tx_tree tx"]
    by (auto simp: tx_list_def set_dir_files split: if_splits)
  show "d \<noteq> [] \<Longrightarrow> tx_list no_faults tx d = Inl e \<Longrightarrow> dir_entries (tx_tree tx) d = {}"
    using dir_entries_no_dir [of d "tx_tree tx"] by (auto simp: tx_list_def split: if_splits)
  show "tx_read no_faults tx p = Inr c \<Longrightarrow>
      c = (case gm_get (tx_tree tx) p of None \<Rightarrow> [] | Some x \<Rightarrow> x)"
    by (auto simp: tx_read_def split: option.splits if_splits)
qed

text \<open>
  C9: on a wiki whose files can be read, the history that the loader returns is exactly the
  observed rounds of the work tree: each round with a proposal and a result that parse, once, in
  increasing order, and nothing else.
\<close>

theorem wiki_history_observed:
  assumes "load_wiki_history (tx_list no_faults tx) (tx_read no_faults tx) schema = Inr obs"
  shows "\<exists>ns. sorted ns \<and> distinct ns
           \<and> set ns = {n. observed_round (tx_tree tx) schema n \<noteq> None}
           \<and> obs = map (\<lambda>n. the (observed_round (tx_tree tx) schema n)) ns"
  using assms by (rule wiki_files.load_wiki_history_observed)

definition demo_tx :: "string gomap \<Rightarrow> wiki_tx" where
  "demo_tx tree = \<lparr>tx_head_ref = ''refs/heads/main'', tx_head = [], tx_tree = tree,
     tx_index = [], tx_dir = ''/tmp/wiki-tx-1'', tx_auth = \<lparr>ga_username = [], ga_password = ''t''\<rparr>,
     tx_branch = ''main'', tx_name = default_committer_name, tx_email = default_committer_email,
     tx_closed = False\<rparr>"

definition demo_wiki :: "string gomap" where
  "demo_wiki = [(''proposals/round-1.yaml'', ln ''rank: 8''), (''index.md'', ''# wiki''),
     (''results/round-1.md'', ln ''# no table'')]"

lemma demo_wiki_history:
  "load_wiki_history (tx_list no_faults (demo_tx demo_wiki)) (tx_read no_faults (demo_tx demo_wiki))
     schema = Inr []"
  by code_simp

lemma wiki_history_observed_witness:
  "\<exists>ns. sorted ns \<and> distinct ns
     \<and> set ns = {n. observed_round (tx_tree (demo_tx demo_wiki)) demo_space n \<noteq> None}
     \<and> [] = map (\<lambda>n. the (observed_round (tx_tree (demo_tx demo_wiki)) demo_space n)) ns"
  by (rule wiki_history_observed [OF demo_wiki_history [of demo_space]])

subsection \<open>What a transaction does to the files and to the remote\<close>

lemma tx_write_None:
  "tx_write env tx p c = (tx', None) \<Longrightarrow>
     tx' = tx\<lparr>tx_tree := gm_set (tx_tree tx) p c, tx_index := gm_set (tx_index tx) p c\<rparr>
     \<and> p \<noteq> [] \<and> \<not> under_file (tx_tree tx) p \<and> \<not> is_dir (tx_tree tx) p"
  by (auto simp: tx_write_def Let_def split: if_splits option.splits)

lemma tx_write_frame:
  "tx_write env tx p c = (tx', r) \<Longrightarrow>
     tx_head tx' = tx_head tx \<and> tx_head_ref tx' = tx_head_ref tx \<and> tx_name tx' = tx_name tx
     \<and> tx_email tx' = tx_email tx"
  by (auto simp: tx_write_def Let_def split: if_splits option.splits)

lemma list_ex_set: "list_ex (\<lambda>(f, _). P f) (gm_set t p c) \<longleftrightarrow> P p \<or> list_ex (\<lambda>(f, _). P f) t"
  for t :: "string gomap"
proof -
  have k: "list_ex (\<lambda>(f, _). P f) m \<longleftrightarrow> (\<exists>f \<in> fst ` set m. P f)" for m :: "string gomap"
    by (simp add: list_ex_iff case_prod_beta)
  show ?thesis unfolding k gm_keys_set by blast
qed

text \<open>A tree of files: no path twice, none empty, and none both a file and a directory.\<close>

definition tree_wf :: "string gomap \<Rightarrow> bool" where
  "tree_wf t \<longleftrightarrow> gm_wf t \<and> list_all (\<lambda>(p, _). p \<noteq> [] \<and> \<not> is_dir t p) t"

lemma tree_wf_iff:
  "tree_wf t \<longleftrightarrow> gm_wf t \<and> [] \<notin> fst ` set t
     \<and> (\<forall>p \<in> fst ` set t. \<forall>q \<in> fst ` set t. \<not> has_prefix q (p @ ''/''))"
  unfolding tree_wf_def list_all_iff is_dir_def list_ex_iff Ball_def Bex_def case_prod_beta
    image_iff by metis

lemma tree_wf_set:
  assumes "tree_wf t" "p \<noteq> []" "\<not> under_file t p" "\<not> is_dir t p"
  shows "tree_wf (gm_set t p c)"
proof -
  have "\<not> has_prefix p (p @ ''/'')" by (simp add: has_prefix_iff)
  with assms show ?thesis
    by (auto simp: tree_wf_iff gm_keys_set is_dir_def under_file_def list_ex_iff)
qed

text \<open>
  Staging a file keeps the tree a tree, whether the write succeeds or fails part way.
\<close>

theorem tx_write_keeps_tree:
  assumes "tree_wf (tx_tree tx)"
  shows "tree_wf (tx_tree (fst (tx_write env tx p c)))"
  using assms by (auto simp: tx_write_def Let_def tree_wf_set split: option.splits)

lemma tx_write_keeps_tree_witness:
  "tree_wf (tx_tree (fst (tx_write no_faults (demo_tx demo_wiki) ''proposals/round-2.yaml'' ''a'')))"
  by (rule tx_write_keeps_tree) code_simp

text \<open>
  After a write succeeded, that path reads back as what was written, and every other path that
  is neither above nor below it reads as before.
\<close>

theorem tx_read_write:
  assumes "tx_write env tx p c = (tx', None)"
    and "q = p \<or> (\<not> has_prefix p (q @ ''/'') \<and> \<not> has_prefix q (p @ ''/''))"
  shows "tx_read no_faults tx' q = (if q = p then Inr c else tx_read no_faults tx q)"
proof (cases "q = p")
  case True
  with tx_write_None [OF assms(1)] show ?thesis by (simp add: tx_read_def)
next
  case False
  have k: "list_ex (\<lambda>(f, _). P f) (gm_set t p c) \<longleftrightarrow> P p \<or> list_ex (\<lambda>(f, _). P f) t"
    for P and t :: "string gomap"
    by (rule list_ex_set)
  have "is_dir (tx_tree tx') q = is_dir (tx_tree tx) q"
    and "under_file (tx_tree tx') q = under_file (tx_tree tx) q"
    using False assms(2) tx_write_None [OF assms(1)] by (simp_all add: is_dir_def under_file_def k)
  with False tx_write_None [OF assms(1)] show ?thesis by (simp add: tx_read_def)
qed

lemma tx_read_write_witness:
  "tx_read no_faults (fst (tx_write no_faults (demo_tx demo_wiki) ''log.md'' ''x'')) ''index.md''
     = Inr ''# wiki''"
proof -
  let ?r = "tx_write no_faults (demo_tx demo_wiki) ''log.md'' ''x''"
  have "?r = (fst ?r, None)" by code_simp
  moreover have "(''index.md'' :: string) = ''log.md'' \<or> (\<not> has_prefix ''log.md'' (''index.md'' @ ''/'')
      \<and> \<not> has_prefix ''index.md'' (''log.md'' @ ''/''))" by code_simp
  ultimately have "tx_read no_faults (fst ?r) ''index.md''
      = (if (''index.md'' :: string) = ''log.md'' then Inr ''x''
         else tx_read no_faults (demo_tx demo_wiki) ''index.md'')"
    by (rule tx_read_write)
  moreover have "tx_read no_faults (demo_tx demo_wiki) ''index.md'' = Inr ''# wiki''" by code_simp
  ultimately show ?thesis by simp
qed

lemma tx_push_cases:
  "(\<exists>x. tx_push env remote tx = (remote, Some (WikiErr x)))
   \<or> (tx_push env remote tx = (remote, Some ErrNothingToPush)
      \<and> gm_get remote (tx_head_ref tx) = Some (tx_head tx))
   \<or> tx_push env remote tx = (gm_set remote (tx_head_ref tx) (tx_head tx), None)"
  by (simp add: tx_push_def split: option.split)

text \<open>What the three outcomes of \<open>commit_and_push\<close> mean for the remote.\<close>

lemma commit_and_push_cases:
  assumes "commit_and_push env remote tx msg = (remote', tx', e)"
  obtains (clean) "tx_clean tx" "remote' = remote" "tx' = tx" "e = None"
    | (failed) x where "remote' = remote" "e = Some x"
    | (pushed) c where "e = None" "\<not> tx_clean tx" "tx' = tx\<lparr>tx_head := c # tx_head tx\<rparr>"
        "c = \<lparr>wc_tree = tx_index tx, wc_msg = msg, wc_name = tx_name tx, wc_email = tx_email tx\<rparr>"
        "gm_get remote' = (gm_get remote)(tx_head_ref tx \<mapsto> c # tx_head tx)"
proof (cases "tx_commit env tx msg")
  case (Pair tx1 r)
  show thesis
  proof (cases r)
    case (Some x)
    then have "tx1 = tx" "x = ErrNoChange \<Longrightarrow> tx_clean tx"
      using Pair by (auto simp: tx_commit_def split: if_splits option.splits)
    with assms Pair Some show thesis
      by (cases "x = ErrNoChange") (auto simp: commit_and_push_def intro: clean failed)
  next
    case None
    let ?c = "\<lparr>wc_tree = tx_index tx, wc_msg = msg, wc_name = tx_name tx, wc_email = tx_email tx\<rparr>"
    have c: "\<not> tx_clean tx" "tx1 = tx\<lparr>tx_head := ?c # tx_head tx\<rparr>"
      using Pair None by (auto simp: tx_commit_def split: if_splits option.splits)
    consider (err) x where "tx_push env remote tx1 = (remote, Some (WikiErr x))"
      | (same) "tx_push env remote tx1 = (remote, Some ErrNothingToPush)"
          "gm_get remote (tx_head_ref tx1) = Some (tx_head tx1)"
      | (new) "tx_push env remote tx1 = (gm_set remote (tx_head_ref tx1) (tx_head tx1), None)"
      using tx_push_cases by blast
    then show thesis
    proof cases
      case err
      with assms Pair None show thesis by (auto simp: commit_and_push_def intro: failed)
    next
      case same
      with assms Pair None have "e = None" "remote' = remote" "tx' = tx1"
        by (auto simp: commit_and_push_def)
      with c same(2) show thesis by (intro pushed [of ?c]) (auto simp: fun_upd_idem)
    next
      case new
      with assms Pair None have "e = None" "tx' = tx1"
        "remote' = gm_set remote (tx_head_ref tx1) (tx_head tx1)"
        by (auto simp: commit_and_push_def)
      with c show thesis by (intro pushed [of ?c]) auto
    qed
  qed
qed

text \<open>
  C27: \<open>CommitAndPush\<close> either fails and leaves the remote as it was, or it succeeds; then, if the
  work tree differed from the checked-out commit, the remote branch is the checked-out history plus
  one commit holding the index, whatever the branch held meanwhile, and otherwise nothing changed.
\<close>

theorem commit_and_push_spec:
  "case commit_and_push env remote tx msg of
     (remote', tx', Some e) \<Rightarrow> remote' = remote
   | (remote', tx', None) \<Rightarrow>
       (if tx_clean tx then remote' = remote \<and> tx' = tx
        else tip_tree (tx_head tx') = tx_index tx \<and> tl (tx_head tx') = tx_head tx
          \<and> gm_get remote' = (gm_get remote)(tx_head_ref tx \<mapsto> tx_head tx'))"
proof -
  obtain remote' tx' e where r: "commit_and_push env remote tx msg = (remote', tx', e)"
    by (metis prod_cases3)
  then show ?thesis
    by (cases rule: commit_and_push_cases) (auto simp: r tip_tree_def split: option.split)
qed

lemma begin_tx_Inr:
  assumes "begin_tx env remote (Some kb) mint = Inr tx"
  obtains m h where "kbs_GitMirror (kb_Spec kb) = Some m"
    "tx_head_ref tx = branch_ref (if gm_Branch m = [] then ''main'' else gm_Branch m)"
    "gm_get remote (tx_head_ref tx) = Some h" "tx_head tx = h" "tx_tree tx = tip_tree h"
    "tx_index tx = tip_tree h"
  using assms by (auto simp: begin_tx_def Let_def split: option.splits if_splits sum.splits)

text \<open>Without faults, a write to a path that the tree can hold and a push both succeed.\<close>

lemma tx_write_succeeds:
  assumes "p \<noteq> []" "\<not> has_prefix p ''/''" "\<not> under_file (tx_tree tx) p" "\<not> is_dir (tx_tree tx) p"
  shows "tx_write no_faults tx p c =
    (tx\<lparr>tx_tree := gm_set (tx_tree tx) p c, tx_index := gm_set (tx_index tx) p c\<rparr>, None)"
  using assms by (simp add: tx_write_def Let_def)

lemma commit_and_push_succeeds:
  assumes "msg \<noteq> []" "has_prefix (tx_head_ref tx) ''refs/heads/''"
  shows "snd (snd (commit_and_push no_faults remote tx msg)) = None"
  using assms by (simp add: commit_and_push_def tx_commit_def tx_push_def)

lemma begin_tx_again:
  assumes "begin_tx no_faults remote (Some kb) mint = Inr tx"
    and "gm_get remote' (tx_head_ref tx) \<noteq> None"
  shows "is_ok (begin_tx no_faults remote' (Some kb) mint)"
  using assms by (auto simp: begin_tx_def Let_def split: option.splits if_splits sum.splits)

lemma commit_and_push_keeps_ref:
  assumes "commit_and_push env remote tx msg = (remote', tx', e)" "gm_get remote r \<noteq> None"
  shows "gm_get remote' r \<noteq> None"
  using assms(1) by (cases rule: commit_and_push_cases) (use assms(2) in simp_all)

text \<open>What a later transaction on the same knowledge base sees after a successful push.\<close>

lemma published_tree:
  assumes "begin_tx env1 remote (Some kb) mint1 = Inr tx0"
    and "tx_head tx = tx_head tx0" "tx_head_ref tx = tx_head_ref tx0"
    and "commit_and_push env2 remote tx msg = (remote', tx', None)"
    and "begin_tx env3 remote' (Some kb) mint2 = Inr tx3"
  shows "gm_get (tx_tree tx3) = gm_get (tx_index tx)"
proof -
  have tree: "gm_get (tip_tree h) = gm_get (tx_index tx)"
    if "gm_get remote' (tx_head_ref tx) = Some h" for h
    using assms(4)
  proof (cases rule: commit_and_push_cases)
    case clean
    then have "gm_get (tip_tree (tx_head tx)) = gm_get (tx_index tx)"
      by (simp add: tx_clean_def tree_eq_iff)
    with clean(2) that assms(1,2,3) show ?thesis by (elim begin_tx_Inr) simp
  next
    case (pushed x)
    with that show ?thesis by (auto simp: tip_tree_def)
  qed simp
  from assms(5) obtain m h where m: "kbs_GitMirror (kb_Spec kb) = Some m"
    "tx_head_ref tx3 = branch_ref (if gm_Branch m = [] then ''main'' else gm_Branch m)"
    "gm_get remote' (tx_head_ref tx3) = Some h" "tx_tree tx3 = tip_tree h"
    by (rule begin_tx_Inr)
  moreover have "tx_head_ref tx3 = tx_head_ref tx"
    using assms(1,3) m(1,2) by (elim begin_tx_Inr) simp
  ultimately show ?thesis using tree by simp
qed

text \<open>
  Once a write has been committed and pushed without an error, a transaction opened on the same
  knowledge base reads the new contents.
\<close>

theorem publish_then_read:
  assumes "begin_tx env1 remote (Some kb) mint1 = Inr tx"
    and "tx_write env2 tx p c = (tx1, None)"
    and "commit_and_push env3 remote tx1 msg = (remote2, tx2, None)"
    and "begin_tx env4 remote2 (Some kb) mint2 = Inr tx3"
  shows "tx_read no_faults tx3 p = Inr c"
proof -
  note w = tx_write_None [OF assms(2)]
  have "gm_get (tx_tree tx3) = gm_get (tx_index tx1)"
    using published_tree [OF assms(1) _ _ assms(3,4)] w by simp
  with w show ?thesis by (simp add: tx_read_def)
qed

text \<open>
  C29: two transactions opened on the same remote state: when the second one pushes after the first
  one has pushed, the commit of the first is no longer in the history of the branch.
\<close>

theorem push_discards_concurrent_commit:
  assumes "begin_tx env remote (Some kb) mint = Inr tx"
    and "tx_write env1 tx p c = (tx1, None)" and "tx_write env2 tx q d = (tx2, None)"
    and "commit_and_push env3 remote tx1 msg1 = (remote1, tx1', None)" and "\<not> tx_clean tx1"
    and "commit_and_push env4 remote1 tx2 msg2 = (remote2, tx2', None)" and "\<not> tx_clean tx2"
  shows "gm_get remote1 (tx_head_ref tx) = Some (tx_head tx1')
    \<and> gm_get remote2 (tx_head_ref tx) = Some (tx_head tx2')
    \<and> tl (tx_head tx1') = tx_head tx \<and> tl (tx_head tx2') = tx_head tx"
  using assms(4,6) tx_write_frame [OF assms(2)] tx_write_frame [OF assms(3)] assms(5,7)
  by (auto elim!: commit_and_push_cases)

definition demo_kb :: knowledge_base where
  "demo_kb = \<lparr>kb_meta = \<lparr>om_Name = ''kb'', om_Namespace = ''lab'', om_UID = [], om_Generation = 1,
       om_Labels = [], om_Annotations = [], om_DeletionTimestamp = None,
       om_Finalizers = [], om_Controller = None\<rparr>,
     kb_Spec = \<lparr>kbs_DisplayName = [], kbs_Description = [], kbs_GatewayRef = \<lparr>gwr_Name = ''gw''\<rparr>,
       kbs_Storage = \<lparr>kst_Size = None, kst_StorageClassName = [], kst_AccessModes = []\<rparr>,
       kbs_GitMirror = Some \<lparr>gm_URL = ''https://git/kb'', gm_Branch = [], gm_Cadence = [],
         gm_CredentialsSecretRef = [], gm_PushEnabled = None\<rparr>, kbs_InitFromGit = None\<rparr>,
     kb_Status = \<lparr>kbst_PVCName = [], kbst_MountPath = [], kbst_BoundGateway = [],
       kbst_AgentCount = 0, kbst_LastSyncTime = None, kbst_Conditions = []\<rparr>\<rparr>"

definition demo_mint :: "git_auth option result option" where
  "demo_mint = Some (Inr (Some \<lparr>ga_username = ''x-access-token'', ga_password = ''t''\<rparr>))"

definition demo_remote :: remote where
  "demo_remote = [(''refs/heads/main'',
     [\<lparr>wc_tree = demo_wiki, wc_msg = ''init'', wc_name = ''n'', wc_email = ''e''\<rparr>])]"

definition demo_begin :: "remote \<Rightarrow> wiki_tx" where
  "demo_begin r = (case begin_tx no_faults r (Some demo_kb) demo_mint of Inr tx \<Rightarrow> tx
                   | Inl _ \<Rightarrow> demo_tx [])"

text \<open>The wiki after one writer has staged \<open>c\<close> at \<open>p\<close>, and the outcome of its push to \<open>r\<close>.\<close>

definition demo_stage :: "string \<Rightarrow> wiki_tx" where
  "demo_stage p = fst (tx_write no_faults (demo_begin demo_remote) p ''body'')"

definition demo_push :: "remote \<Rightarrow> string \<Rightarrow> remote \<times> wiki_tx \<times> wiki_error option" where
  "demo_push r p = commit_and_push no_faults r (demo_stage p) ''m''"

lemma demo_begin_Inr: "begin_tx no_faults demo_remote (Some demo_kb) demo_mint = Inr (demo_begin demo_remote)"
  by code_simp

lemma demo_stage_None:
  "tx_write no_faults (demo_begin demo_remote) ''a.md'' ''body'' = (demo_stage ''a.md'', None)"
  "tx_write no_faults (demo_begin demo_remote) ''b.md'' ''body'' = (demo_stage ''b.md'', None)"
  by code_simp+

lemma publish_then_read_witness:
  "tx_read no_faults (demo_begin (fst (demo_push demo_remote ''a.md''))) ''a.md'' = Inr ''body''"
proof (rule publish_then_read [OF demo_begin_Inr demo_stage_None(1)])
  show "commit_and_push no_faults demo_remote (demo_stage ''a.md'') ''m''
      = (fst (demo_push demo_remote ''a.md''), fst (snd (demo_push demo_remote ''a.md'')), None)"
    by code_simp
  show "begin_tx no_faults (fst (demo_push demo_remote ''a.md'')) (Some demo_kb) demo_mint
      = Inr (demo_begin (fst (demo_push demo_remote ''a.md'')))"
    by code_simp
qed

lemma push_discards_concurrent_commit_witness:
  "gm_get (fst (demo_push demo_remote ''a.md'')) ''refs/heads/main''
       = Some (tx_head (fst (snd (demo_push demo_remote ''a.md''))))
   \<and> gm_get (fst (demo_push (fst (demo_push demo_remote ''a.md'')) ''b.md'')) ''refs/heads/main''
       = Some (tx_head (fst (snd (demo_push (fst (demo_push demo_remote ''a.md'')) ''b.md''))))"
proof -
  let ?r1 = "demo_push demo_remote ''a.md''"
  let ?r2 = "demo_push (fst ?r1) ''b.md''"
  have "commit_and_push no_faults demo_remote (demo_stage ''a.md'') ''m''
      = (fst ?r1, fst (snd ?r1), None)" by code_simp
  moreover have "\<not> tx_clean (demo_stage ''a.md'')" "\<not> tx_clean (demo_stage ''b.md'')" by code_simp+
  moreover have "commit_and_push no_faults (fst ?r1) (demo_stage ''b.md'') ''m''
      = (fst ?r2, fst (snd ?r2), None)" by code_simp
  moreover have "tx_head_ref (demo_begin demo_remote) = ''refs/heads/main''" by code_simp
  ultimately show ?thesis
    using push_discards_concurrent_commit [OF demo_begin_Inr demo_stage_None] by metis
qed

text \<open>
  Closing a transaction twice removes its directory at most once, and the second call does
  nothing.
\<close>

theorem tx_close_idempotent:
  "case tx_close env tx of (tx1, _, _) \<Rightarrow> tx_closed tx1 \<and> tx_close env' tx1 = (tx1, False, None)"
  by (simp add: tx_close_def)

end
