(* ===== verification/ProjectStatus.thy ===== *)
theory ProjectStatus
  imports ApiTypes
begin

text \<open>
  The status bookkeeping that every step of \<open>autoresearchproject_controller.go\<close> shares: merging of
  conditions, the bounded list of recent runs, cut-off messages, the decision whether a loss is an
  improvement, and the phase.
\<close>

subsection \<open>Small helpers\<close>

definition em_dash :: string where
  "em_dash = [CHR 0xE2, CHR 0x80, CHR 0x94]"

definition minutes :: "int \<Rightarrow> int" where
  "minutes n = n * 60 * 1000000000"

definition default_if_empty :: "string \<Rightarrow> string \<Rightarrow> string" where
  "default_if_empty s d = (if s = [] then d else s)"

definition deref :: "int option \<Rightarrow> int \<Rightarrow> int" where
  "deref p fallback = (case p of None \<Rightarrow> fallback | Some n \<Rightarrow> n)"

text \<open>\<open>maxLen\<close> is at least 3 in every call of the program; below that Go panics.\<close>

definition truncate_msg :: "string \<Rightarrow> int \<Rightarrow> string" where
  "truncate_msg s n = (if int (length s) \<le> n then s else take (nat (n - 3)) s @ ''...'')"

lemma truncate_msg_length: "3 \<le> n \<Longrightarrow> int (length (truncate_msg s n)) \<le> n"
  by (auto simp: truncate_msg_def)

subsection \<open>Conditions\<close>

definition condition :: "gotime \<Rightarrow> string \<Rightarrow> string \<Rightarrow> string \<Rightarrow> string \<Rightarrow> project_condition" where
  "condition now t s r m = \<lparr>cnd_Type = t, cnd_Status = s, cnd_Reason = r, cnd_Message = m,
                            cnd_LastTransitionTime = now\<rparr>"

definition merge_update ::
    "project_condition gomap \<Rightarrow> project_condition \<Rightarrow> project_condition gomap" where
  "merge_update m c =
     gm_set m (cnd_Type c)
       (case gm_get m (cnd_Type c) of
          Some old \<Rightarrow>
            (if cnd_Status old = cnd_Status c
             then c\<lparr>cnd_LastTransitionTime := cnd_LastTransitionTime old\<rparr> else c)
        | None \<Rightarrow> c)"

definition merge_conditions ::
    "project_condition list \<Rightarrow> project_condition list \<Rightarrow> project_condition list" where
  "merge_conditions existing updates =
     (let by_type = foldl (\<lambda>m c. gm_set m (cnd_Type c) c) [] existing;
          merged = foldl merge_update by_type updates
      in map snd (sort_key fst merged))"

text \<open>The condition of a type, and the invariant that the merge establishes.\<close>

definition cond_get :: "project_condition list \<Rightarrow> string \<Rightarrow> project_condition option" where
  "cond_get cs t = find (\<lambda>c. cnd_Type c = t) cs"

definition conds_wf :: "project_condition list \<Rightarrow> bool" where
  "conds_wf cs \<longleftrightarrow> sorted (map cnd_Type cs) \<and> distinct (map cnd_Type cs)"

definition typed_map :: "project_condition gomap \<Rightarrow> bool" where
  "typed_map m \<longleftrightarrow> gm_wf m \<and> (\<forall>(k, c) \<in> set m. cnd_Type c = k)"

lemma typed_map_set:
  assumes m: "typed_map m" and c: "cnd_Type c = k"
  shows "typed_map (gm_set m k c)"
proof -
  have wf: "gm_wf (gm_set m k c)" using m by (simp add: typed_map_def)
  have "cnd_Type v = j" if e: "(j, v) \<in> set (gm_set m k c)" for j v
  proof (cases "j = k")
    case True
    have "gm_get (gm_set m k c) j = Some v" using e by (simp only: gm_get_wf [OF wf])
    with True c show ?thesis by simp
  next
    case False
    have "gm_get (gm_set m k c) j = Some v" using e by (simp only: gm_get_wf [OF wf])
    with False have "(j, v) \<in> set m" by (simp add: map_of_SomeD)
    with m show ?thesis by (auto simp: typed_map_def)
  qed
  with wf show ?thesis by (auto simp: typed_map_def)
qed

lemma typed_map_merge: "typed_map m \<Longrightarrow> typed_map (merge_update m c)"
  unfolding merge_update_def by (rule typed_map_set) (auto split: option.split)

lemma typed_map_foldl:
  assumes "typed_map m" "\<And>m c. typed_map m \<Longrightarrow> typed_map (f m c)"
  shows "typed_map (foldl f m cs)"
  using assms by (induction cs arbitrary: m) simp_all

lemma typed_map_types:
  assumes "typed_map m"
  shows "map (cnd_Type \<circ> snd) m = map fst m"
  using assms by (auto simp: typed_map_def)

lemma sorted_conditions:
  assumes "typed_map m"
  shows "conds_wf (map snd (sort_key fst m))"
    and "cond_get (map snd (sort_key fst m)) t = gm_get m t"
proof -
  let ?s = "sort_key fst m"
  have s: "typed_map ?s" using assms
    by (simp add: typed_map_def gm_wf_def distinct_map)
  have types: "map cnd_Type (map snd ?s) = map fst ?s"
    using typed_map_types [OF s] by simp
  with s show "conds_wf (map snd ?s)"
    unfolding conds_wf_def types by (simp add: typed_map_def gm_wf_def)
  have "find (\<lambda>c. cnd_Type c = t) (map snd xs) = gm_get xs t"
    if "\<forall>(k, c) \<in> set xs. cnd_Type c = k" for xs :: "project_condition gomap"
    using that by (induction xs) auto
  then have "cond_get (map snd ?s) t = gm_get ?s t"
    using s by (simp add: cond_get_def typed_map_def)
  also have "gm_get ?s t = gm_get m t"
    using assms s map_of_inject_set [of ?s m] by (simp add: typed_map_def gm_wf_def)
  finally show "cond_get (map snd ?s) t = gm_get m t" .
qed

lemma load_conditions:
  assumes "distinct (map cnd_Type cs)"
  shows "gm_get (foldl (\<lambda>m c. gm_set m (cnd_Type c) c) [] cs) t = cond_get cs t"
proof -
  have "gm_get (foldl (\<lambda>m c. gm_set m (cnd_Type c) c) m cs) t
      = (case cond_get cs t of Some c \<Rightarrow> Some c | None \<Rightarrow> gm_get m t)" for m
    using assms
  proof (induction cs arbitrary: m)
    case (Cons c cs)
    have "cond_get cs (cnd_Type c) = None"
      using Cons.prems unfolding cond_get_def find_None_iff by (metis distinct.simps(2) image_eqI
          list.simps(9) list.set_map)
    with Cons show ?case by (auto simp: cond_get_def split: option.split)
  qed (simp add: cond_get_def)
  then show ?thesis by (simp split: option.split)
qed

text \<open>Merging in one condition, the way every caller does it.\<close>

lemma merge_one:
  "conds_wf (merge_conditions cs [c])"
  "distinct (map cnd_Type cs) \<Longrightarrow>
     cond_get (merge_conditions cs [c]) t
       = (if t = cnd_Type c then
            Some (case cond_get cs t of
                    Some old \<Rightarrow> (if cnd_Status old = cnd_Status c
                                 then c\<lparr>cnd_LastTransitionTime := cnd_LastTransitionTime old\<rparr> else c)
                  | None \<Rightarrow> c)
          else cond_get cs t)"
proof -
  let ?m = "foldl (\<lambda>m c. gm_set m (cnd_Type c) c) [] cs"
  have "typed_map ?m" by (rule typed_map_foldl) (simp_all add: typed_map_set typed_map_def [of "[]"])
  then have t: "typed_map (merge_update ?m c)" by (rule typed_map_merge)
  then show "conds_wf (merge_conditions cs [c])"
    using sorted_conditions(1) by (simp add: merge_conditions_def)
  show "distinct (map cnd_Type cs) \<Longrightarrow> cond_get (merge_conditions cs [c]) t
       = (if t = cnd_Type c then
            Some (case cond_get cs t of
                    Some old \<Rightarrow> (if cnd_Status old = cnd_Status c
                                 then c\<lparr>cnd_LastTransitionTime := cnd_LastTransitionTime old\<rparr> else c)
                  | None \<Rightarrow> c)
          else cond_get cs t)"
    using sorted_conditions(2) [OF t] load_conditions [of cs]
    by (auto simp: merge_conditions_def merge_update_def split: option.split)
qed

text \<open>
  Merging one condition leaves one condition per type, in the order of the types; the
  condition of that type is the new one, with the old transition time when the status is the same,
  and every other condition is kept.
\<close>

theorem merge_condition_spec:
  assumes "conds_wf cs"
  shows "conds_wf (merge_conditions cs [c]) \<and>
    cond_get (merge_conditions cs [c]) =
      (cond_get cs)(cnd_Type c \<mapsto>
         (case cond_get cs (cnd_Type c) of
            Some old \<Rightarrow> (if cnd_Status old = cnd_Status c
                         then c\<lparr>cnd_LastTransitionTime := cnd_LastTransitionTime old\<rparr> else c)
          | None \<Rightarrow> c))"
  using assms merge_one [of cs c] by (auto simp: conds_wf_def fun_eq_iff)

lemma merge_condition_spec_witness:
  "conds_wf (merge_conditions [condition 1 ''A'' ''True'' ''r'' ''m'', condition 2 ''B'' ''True'' ''r'' ''m'']
     [condition 9 ''A'' ''True'' ''s'' ''n''])"
  using merge_condition_spec [of "[condition 1 ''A'' ''True'' ''r'' ''m'', condition 2 ''B'' ''True'' ''r'' ''m'']"
      "condition 9 ''A'' ''True'' ''s'' ''n''"]
  by (simp add: conds_wf_def condition_def)

text \<open>An update of the status, and of one condition in it.\<close>

definition upd_status :: "(project_status \<Rightarrow> project_status) \<Rightarrow> project \<Rightarrow> project" where
  "upd_status f p = p\<lparr>p_Status := f (p_Status p)\<rparr>"

definition set_cond :: "project_condition \<Rightarrow> project \<Rightarrow> project" where
  "set_cond c = upd_status (\<lambda>s. s\<lparr>st_Conditions := merge_conditions (st_Conditions s) [c]\<rparr>)"

lemma upd_status_simps [simp]:
  "p_Status (upd_status f p) = f (p_Status p)" "p_Spec (upd_status f p) = p_Spec p"
  "p_meta (upd_status f p) = p_meta p"
  by (simp_all add: upd_status_def)

lemma set_cond_frame [simp]:
  "p_Spec (set_cond c p) = p_Spec p" "p_meta (set_cond c p) = p_meta p"
  "st_OpenRuns (p_Status (set_cond c p)) = st_OpenRuns (p_Status p)"
  "st_OpenRunStartedAt (p_Status (set_cond c p)) = st_OpenRunStartedAt (p_Status p)"
  "st_RecentRuns (p_Status (set_cond c p)) = st_RecentRuns (p_Status p)"
  "st_Round (p_Status (set_cond c p)) = st_Round (p_Status p)"
  "st_Phase (p_Status (set_cond c p)) = st_Phase (p_Status p)"
  "st_ExperimentsRun (p_Status (set_cond c p)) = st_ExperimentsRun (p_Status p)"
  "st_ExperimentsKept (p_Status (set_cond c p)) = st_ExperimentsKept (p_Status p)"
  "st_BestEvalLoss (p_Status (set_cond c p)) = st_BestEvalLoss (p_Status p)"
  "st_BestRunID (p_Status (set_cond c p)) = st_BestRunID (p_Status p)"
  "st_LastCycleTime (p_Status (set_cond c p)) = st_LastCycleTime (p_Status p)"
  "st_ConsecutiveDrainFailures (p_Status (set_cond c p)) = st_ConsecutiveDrainFailures (p_Status p)"
  by (simp_all add: set_cond_def)

lemma set_cond_wf [simp]: "conds_wf (st_Conditions (p_Status (set_cond c p)))"
  using merge_one(1) by (simp add: set_cond_def)

subsection \<open>Recent runs, phase\<close>

definition max_recent_runs_retained :: nat where
  "max_recent_runs_retained = 20"

definition prepend_record ::
    "experiment_record list \<Rightarrow> experiment_record \<Rightarrow> experiment_record list" where
  "prepend_record existing rec =
     (let out = rec # existing
      in if length out > max_recent_runs_retained then take max_recent_runs_retained out else out)"

lemma prepend_record_eq: "prepend_record rs r = take max_recent_runs_retained (r # rs)"
  by (simp add: prepend_record_def Let_def)

lemma prepend_record_length: "length (prepend_record rs r) \<le> max_recent_runs_retained"
  by (simp add: prepend_record_eq)

text \<open>\<open>markPhaseAndSave\<close>: the change to the status that it saves.\<close>

definition mark_phase :: "gotime \<Rightarrow> string \<Rightarrow> string \<Rightarrow> project \<Rightarrow> project" where
  "mark_phase now phase message p =
     set_cond
       (condition now ''Ready'' (if phase = ''Running'' \<or> phase = ''Completed'' then ''True'' else ''False'')
          phase message)
       (upd_status (\<lambda>s. s\<lparr>st_Phase := phase\<rparr>) p)"

subsection \<open>Improvement\<close>

text \<open>
  \<open>fmt.Sscanf(s, "%f", \&x)\<close>: blanks are skipped, then the longest token of the shape of a number
  is read and converted. Hexadecimal and underscored literals are not accepted by the model.
\<close>

definition accept :: "string \<Rightarrow> string \<times> string \<Rightarrow> string \<times> string" where
  "accept cs st =
     (case st of (tok, c # t) \<Rightarrow> (if c \<in> set cs then (tok @ [c], t) else st) | _ \<Rightarrow> st)"

definition accept_digits :: "string \<times> string \<Rightarrow> string \<times> string" where
  "accept_digits st = (let (tok, s) = st; (ds, r) = split_digits s in (tok @ ds, r))"

definition float_token :: "string \<Rightarrow> string" where
  "float_token s =
     (if length s \<ge> 3 \<and> to_lower (take 3 s) = ''nan'' then take 3 s
      else
        let (sg, r) = accept ''+-'' ([], s)
        in if length r \<ge> 3 \<and> to_lower (take 3 r) = ''inf'' then sg @ take 3 r
           else
             let (t1, r1) = accept_digits (sg, r);
                 (t2, r2) = (case accept ''.'' (t1, r1) of
                               (t, u) \<Rightarrow> if u = r1 then (t, u) else accept_digits (t, u));
                 (t3, r3) = (case accept ''eE'' (t2, r2) of
                               (t, u) \<Rightarrow> if u = r2 then (t, u) else accept_digits (accept ''+-'' (t, u)))
             in t3)"

definition scan_float :: "string \<Rightarrow> gofloat option" where
  "scan_float s = parse_float (float_token (dropWhile (\<lambda>c. c \<in> {CHR '' '', CHR 0x09, CHR 0x0D}) s))"

definition is_improvement :: "project \<Rightarrow> gofloat \<Rightarrow> bool" where
  "is_improvement p new_val =
     (if st_BestEvalLoss (p_Status p) = [] then True
      else case scan_float (st_BestEvalLoss (p_Status p)) of
        None \<Rightarrow> False
      | Some best \<Rightarrow>
         (let dir = (if ev_Direction (ps_Eval (p_Spec p)) = [] then ''minimize''
                     else ev_Direction (ps_Eval (p_Spec p)))
          in if dir = ''minimize'' then flt new_val best else flt best new_val))"

subsection \<open>A concrete project\<close>

definition empty_status :: project_status where
  "empty_status = \<lparr>st_Phase = [], st_Round = 0, st_ExperimentsRun = 0, st_ExperimentsKept = 0,
     st_BestEvalLoss = [], st_BestMetricValue = [], st_BestRunID = [], st_LastCycleTime = None,
     st_OpenRuns = [], st_OpenRunStartedAt = [], st_ConsecutiveDrainFailures = 0,
     st_RecentRuns = [], st_Conditions = []\<rparr>"

definition demo_spec :: project_spec where
  "demo_spec = \<lparr>ps_DisplayName = [], ps_Description = [], ps_KnowledgeBase = ''kb'',
     ps_Experimenter = \<lparr>exp_Workstation = ''karpathy'', exp_PromptOverride = []\<rparr>,
     ps_BaseModel = \<lparr>bm_HuggingfaceID = ''m'', bm_Revision = []\<rparr>,
     ps_TrainingData = \<lparr>td_HuggingfaceDataset = ''d'', td_Split = [], td_SampleCount = None\<rparr>,
     ps_Eval = \<lparr>ev_Metric = [], ev_Direction = [], ev_MarginPct = [], ev_DeepBenchmark = None\<rparr>,
     ps_LoopConfig = \<lparr>lc_CadenceMinutes = 30, lc_MaxExperimentsPerCycle = 1,
       lc_MaxTotalExperiments = 100, lc_MaxConcurrentRuns = 1, lc_MaxRoundDurationMinutes = 120,
       lc_MaxConsecutiveDrainFailures = 3\<rparr>,
     ps_Trainer = \<lparr>trn_Image = [], trn_GPUCount = 1, trn_PowerCapWatts = 250,
       trn_OneTrainingPodPerNode = None, trn_OffloadStrategy = []\<rparr>,
     ps_PipelineRef = \<lparr>pr_Name = ''n'', pr_Namespace = ''lab''\<rparr>, ps_ExperimentName = [],
     ps_ValidationMode = False, ps_AdapterStorage = None\<rparr>"

definition demo_project :: project where
  "demo_project = \<lparr>p_meta = \<lparr>om_Name = ''proj'', om_Namespace = ''lab'', om_UID = ''u1'',
       om_Generation = 1, om_Labels = [], om_Annotations = [], om_DeletionTimestamp = None,
       om_Finalizers = [], om_Controller = None\<rparr>,
     p_Spec = demo_spec, p_Status = empty_status\<rparr>"

end
