(* ===== verification/Qlora.thy ===== *)
theory Qlora
  imports ProjectStatus Hypotheses
begin

text \<open>
  The configuration that a round trains: \<open>QLoRAConfig\<close> of \<open>autoresearchproject_controller.go\<close>, the
  default search space, the mapping from a trial to a configuration, the page that describes a
  proposal, the seed of the search, and the sanity check of \<open>autoresearchproject_agent.go\<close>.
\<close>

record qlora =
  q_Round :: int
  q_LoraRank :: int
  q_LoraAlpha :: int
  q_LoraDropout :: gofloat
  q_TargetModules :: "string list"
  q_LearningRate :: gofloat
  q_NumTrainingSteps :: int
  q_PerDeviceBatch :: int
  q_GradAccum :: int
  q_MaxSeqLen :: int
  q_WarmupSteps :: int
  q_WeightDecay :: gofloat
  q_OffloadStrategy :: string
  q_Notes :: string

text \<open>A decimal literal of the source is the float64 nearest to it.\<close>

definition validation_qlora :: "int \<Rightarrow> qlora" where
  "validation_qlora rnd =
     \<lparr>q_Round = rnd, q_LoraRank = 4, q_LoraAlpha = 8, q_LoraDropout = f64_of_rat (5 / 100),
      q_TargetModules = [''q_proj'', ''v_proj''], q_LearningRate = f64_of_rat (2 / 10000),
      q_NumTrainingSteps = 10, q_PerDeviceBatch = 1, q_GradAccum = 1, q_MaxSeqLen = 256,
      q_WarmupSteps = 0, q_WeightDecay = Fin 0, q_OffloadStrategy = ''cpu'',
      q_Notes = ''VALIDATION mode (10 steps, batch 1, seq 256); loss meaningless''\<rparr>"

definition default_warmup_trials :: int where
  "default_warmup_trials = 5"

definition default_space :: space where
  "default_space =
     \<lparr>sp_ints =
        [(''lora_rank'', \<lparr>is_low = 4, is_high = 64, is_step = 2\<rparr>),
         (''lora_alpha'', \<lparr>is_low = 8, is_high = 128, is_step = 4\<rparr>),
         (''num_training_steps'', \<lparr>is_low = 100, is_high = 500, is_step = 20\<rparr>),
         (''per_device_batch_size'', \<lparr>is_low = 1, is_high = 8, is_step = 0\<rparr>),
         (''gradient_accumulation_steps'', \<lparr>is_low = 1, is_high = 8, is_step = 0\<rparr>),
         (''max_seq_length'', \<lparr>is_low = 512, is_high = 2048, is_step = 256\<rparr>),
         (''warmup_steps'', \<lparr>is_low = 0, is_high = 50, is_step = 5\<rparr>)],
      sp_floats =
        [(''lora_dropout'', \<lparr>fs_low = Fin 0, fs_high = f64_of_rat (2 / 10), fs_log = False\<rparr>),
         (''learning_rate'', \<lparr>fs_low = f64_of_rat (5 / 100000), fs_high = f64_of_rat (5 / 10000),
                              fs_log = True\<rparr>),
         (''weight_decay'', \<lparr>fs_low = Fin 0, fs_high = f64_of_rat (1 / 10), fs_log = False\<rparr>)],
      sp_cats = [(''offload_strategy'', \<lparr>cs_choices = [''none'', ''cpu'', ''disk'']\<rparr>)]\<rparr>"

subsection \<open>From a trial to a configuration\<close>

text \<open>A type assertion that fails yields the zero value.\<close>

definition as_int :: "trial \<Rightarrow> string \<Rightarrow> int" where
  "as_int t key = (case gm_get (tr_params t) key of Some (VInt n) \<Rightarrow> n | _ \<Rightarrow> 0)"

definition as_float :: "trial \<Rightarrow> string \<Rightarrow> gofloat" where
  "as_float t key = (case gm_get (tr_params t) key of Some (VFloat x) \<Rightarrow> x | _ \<Rightarrow> Fin 0)"

definition as_string :: "trial \<Rightarrow> string \<Rightarrow> string" where
  "as_string t key = (case gm_get (tr_params t) key of Some (VStr s) \<Rightarrow> s | _ \<Rightarrow> [])"

definition trial_to_qlora :: "int \<Rightarrow> trial \<Rightarrow> nat \<Rightarrow> qlora" where
  "trial_to_qlora rnd t observed =
     \<lparr>q_Round = rnd, q_LoraRank = as_int t ''lora_rank'', q_LoraAlpha = as_int t ''lora_alpha'',
      q_LoraDropout = as_float t ''lora_dropout'',
      q_TargetModules = [''q_proj'', ''v_proj'', ''k_proj'', ''o_proj''],
      q_LearningRate = as_float t ''learning_rate'',
      q_NumTrainingSteps = as_int t ''num_training_steps'',
      q_PerDeviceBatch = as_int t ''per_device_batch_size'',
      q_GradAccum = as_int t ''gradient_accumulation_steps'',
      q_MaxSeqLen = as_int t ''max_seq_length'', q_WarmupSteps = as_int t ''warmup_steps'',
      q_WeightDecay = as_float t ''weight_decay'',
      q_OffloadStrategy = as_string t ''offload_strategy'',
      q_Notes = ''searcher proposal (TPE; '' @ itoa (int observed) @ '' prior observations)''\<rparr>"

definition build_proposal_md :: "int \<Rightarrow> qlora \<Rightarrow> nat \<Rightarrow> string" where
  "build_proposal_md rnd cfg observed =
     (let mode = (if int observed < default_warmup_trials then ''Random (warmup)'' else ''TPE'')
      in ln (''# Round '' @ itoa rnd @ '' '' @ em_dash @ '' proposal'') @ ln []
       @ ln ''| Source | Value |''
       @ ln ''|--------|-------|''
       @ ln (''| Searcher | '' @ mode @ '' |'')
       @ ln (''| Observations seen | '' @ itoa (int observed) @ '' |'')
       @ ln ''| Decision | proposed by the deterministic kernel |''
       @ ln []
       @ ln (''**Config (machine-readable in `round-'' @ itoa rnd @ ''.yaml`):**'')
       @ ln []
       @ ln ''```yaml''
       @ ln (''lora_rank: '' @ itoa (q_LoraRank cfg))
       @ ln (''lora_alpha: '' @ itoa (q_LoraAlpha cfg))
       @ ln (''lora_dropout: '' @ fmt_g (q_LoraDropout cfg))
       @ ln (''target_modules: ['' @ join '', '' (q_TargetModules cfg) @ '']'')
       @ ln (''learning_rate: '' @ fmt_g (q_LearningRate cfg))
       @ ln (''num_training_steps: '' @ itoa (q_NumTrainingSteps cfg))
       @ ln (''per_device_batch_size: '' @ itoa (q_PerDeviceBatch cfg))
       @ ln (''gradient_accumulation_steps: '' @ itoa (q_GradAccum cfg))
       @ ln (''max_seq_length: '' @ itoa (q_MaxSeqLen cfg))
       @ ln (''warmup_steps: '' @ itoa (q_WarmupSteps cfg))
       @ ln (''weight_decay: '' @ fmt_g (q_WeightDecay cfg))
       @ ln (''offload_strategy: '' @ q_OffloadStrategy cfg)
       @ ln ''```'')"

text \<open>The check of a proposal by its first failing bound.\<close>

definition validate_qlora :: "qlora \<Rightarrow> string option" where
  "validate_qlora c =
     (if q_LoraRank c \<le> 0 \<or> q_LoraRank c > 64 then
        Some (''lora_rank='' @ itoa (q_LoraRank c) @ '' out of 1..64'')
      else if q_LoraAlpha c \<le> 0 \<or> q_LoraAlpha c > 256 then
        Some (''lora_alpha='' @ itoa (q_LoraAlpha c) @ '' out of 1..256'')
      else if fle (q_LearningRate c) (Fin 0) \<or> flt (f64_of_rat (1 / 100)) (q_LearningRate c) then
        Some (''learning_rate='' @ fmt_g (q_LearningRate c) @ '' out of (0, 0.01]'')
      else if q_NumTrainingSteps c < 10 \<or> q_NumTrainingSteps c > 2000 then
        Some (''num_training_steps='' @ itoa (q_NumTrainingSteps c) @ '' out of 10..2000'')
      else if q_TargetModules c = [] then Some ''target_modules cannot be empty''
      else None)"

subsection \<open>The seed\<close>

definition seed_sum :: "string \<Rightarrow> 64 word" where
  "seed_sum uid = foldl (\<lambda>sum b. sum * 131 + of_nat (of_char b)) 0 uid"

definition seed_from_uid :: "string \<Rightarrow> int" where
  "seed_from_uid uid =
     (let sum = seed_sum uid;
          sum1 = (if sum <s 0 then - sum else sum);
          sum2 = (if sum1 = 0 then 1 else sum1)
      in sint sum2)"

lemma sint_neg_64: "sint (- w :: 64 word) = (if sint w = - (2 ^ 63) then - (2 ^ 63) else - sint w)"
proof -
  have r: "- (2 ^ 63) \<le> sint w" "sint w < 2 ^ 63"
    using sint_range_size [of w] by (simp_all add: word_size)
  have e: "sint (- w) = signed_take_bit 63 (- sint w)"
    by (simp add: sint_word_ariths)
  show ?thesis
  proof (cases "sint w = - (2 ^ 63)")
    case True
    then show ?thesis unfolding e by (simp add: signed_take_bit_eq_take_bit_shift take_bit_eq_mod)
  next
    case False
    with r show ?thesis unfolding e by (subst signed_take_bit_int_eq_self) auto
  qed
qed

text \<open>
  The seed of a project is never 0, the value that would make the search depend on the clock;
  it is positive, except that the one sum without an absolute value in 64 bits stays negative.
\<close>

theorem seed_from_uid_range:
  "seed_from_uid uid \<noteq> 0 \<and> (seed_from_uid uid < 0 \<longleftrightarrow> sint (seed_sum uid) = - (2 ^ 63))"
proof -
  let ?w = "seed_sum uid"
  have z: "sint w = 0 \<longleftrightarrow> w = 0" for w :: "64 word" by (simp add: signed_eq_0_iff)
  have r: "sint w < 2 ^ 63" for w :: "64 word"
    using sint_range_size [of w] by (simp add: word_size)
  consider (zero) "?w = 0" | (pos) "0 < sint ?w" | (neg) "sint ?w < 0"
    using z [of ?w] by linarith
  then show ?thesis
  proof cases
    case zero
    then show ?thesis by (simp add: seed_from_uid_def)
  next
    case pos
    then have "?w \<noteq> 0" "\<not> ?w <s 0" using z by (auto simp: word_sless_alt)
    with pos show ?thesis by (simp add: seed_from_uid_def)
  next
    case neg
    then have "?w <s 0" "- ?w \<noteq> 0" using z by (auto simp: word_sless_alt)
    with neg show ?thesis by (simp add: seed_from_uid_def sint_neg_64 Let_def)
  qed
qed

end
