(* ===== verification/Pages.thy ===== *)
theory Pages
  imports Wiki ProjectStatus Qlora
begin

text \<open>
  The wiki writes of \<open>autoresearchproject_agent.go\<close>: the page of a result, the experiment log with
  its newest entry first, and the functions that commit them; and the proof that the history
  loader reads from a result page the loss that was written there.
\<close>

subsection \<open>Dates\<close>

text \<open>The civil date of a number of days since 1970-01-01, and the layout \<open>2006-01-02 15:04 UTC\<close>.\<close>

definition civil_date :: "int \<Rightarrow> int \<times> int \<times> int" where
  "civil_date days =
     (let z = days + 719468; era = z div 146097; doe = z mod 146097;
          yoe = (doe - doe div 1460 + doe div 36524 - doe div 146096) div 365;
          doy = doe - (365 * yoe + yoe div 4 - yoe div 100);
          mp = (5 * doy + 2) div 153;
          d = doy - (153 * mp + 2) div 5 + 1;
          m = (if mp < 10 then mp + 3 else mp - 9)
      in (yoe + era * 400 + (if m \<le> 2 then 1 else 0), m, d))"

definition pad2 :: "int \<Rightarrow> string" where
  "pad2 n = pad_left 2 (nat_str (nat n))"

definition utc_stamp :: "gotime \<Rightarrow> string" where
  "utc_stamp t =
     (let secs = t div 1000000000; (y, m, d) = civil_date (secs div 86400); s = secs mod 86400
      in pad_left 4 (nat_str (nat y)) @ ''-'' @ pad2 m @ ''-'' @ pad2 d @ '' ''
         @ pad2 (s div 3600) @ '':'' @ pad2 (s mod 3600 div 60) @ '' UTC'')"

subsection \<open>Pages\<close>

definition kept_str :: "bool \<Rightarrow> string" where
  "kept_str kept = (if kept then ''kept'' else ''reverted'')"

definition result_md :: "int \<Rightarrow> gofloat \<Rightarrow> bool \<Rightarrow> string \<Rightarrow> string" where
  "result_md rnd loss kept uri =
     ln (''# Round '' @ itoa rnd @ '' '' @ em_dash @ '' result'') @ ln []
     @ ln ''| Field | Value |''
     @ ln ''|-------|-------|''
     @ ln (''| eval_loss | '' @ fmt_fixed 6 loss @ '' |'')
     @ ln (''| Decision | **'' @ kept_str kept @ ''** |'')
     @ ln (''| Adapter URI | `'' @ uri @ ''` |'')
     @ ln []
     @ ln (''`oras pull '' @ uri @ ''` to fetch the LoRA weights locally.'')"

definition log_entry :: "gotime \<Rightarrow> int \<Rightarrow> gofloat \<Rightarrow> bool \<Rightarrow> string \<Rightarrow> string" where
  "log_entry now rnd loss kept uri =
     ln (''- **Round '' @ itoa rnd @ ''** ('' @ utc_stamp now @ '') '' @ em_dash @ '' eval_loss=''
         @ fmt_fixed 6 loss @ '', '' @ kept_str kept @ '', adapter=`'' @ uri @ ''`'')"

definition log_header :: string where
  "log_header = ln ''# Experiment Log'' @ ln []
     @ ln ''> Reverse-chronological. Newest entries at the top.'' @ ln []"

text \<open>The new contents of \<open>log/log.md\<close>.\<close>

definition merge_log :: "string \<Rightarrow> string \<Rightarrow> string" where
  "merge_log existing entry =
     (let e = trim_space existing
      in if has_prefix e ''# Experiment Log'' then
           (case str_index e [CHR 0x0A, CHR 0x0A] of
              None \<Rightarrow> log_header @ entry
            | Some idx \<Rightarrow>
                if idx = 0 then log_header @ entry
                else
                  let tail = trim_space (drop (idx + 2) e);
                      tail' = (if has_prefix tail ''>'' then
                                 (case index_byte tail (CHR 0x0A) of
                                    Some nl \<Rightarrow> (if nl > 0 then trim_space (drop (nl + 1) tail) else tail)
                                  | None \<Rightarrow> tail)
                               else tail)
                  in log_header @ entry @ tail' @ ln [])
         else if e \<noteq> [] then log_header @ entry @ e @ ln []
         else log_header @ entry)"

subsection \<open>Transactions of the controller\<close>

text \<open>What the wiki paths ask of the cluster: a knowledge base, and a token of the GitHub App.\<close>

record cluster =
  cl_get_kb :: "string \<Rightarrow> string \<Rightarrow> knowledge_base result"
  cl_mint :: "git_auth option result"

definition begin_wiki_tx :: "cluster \<Rightarrow> wiki_env \<Rightarrow> remote \<Rightarrow> project \<Rightarrow> wiki_tx result" where
  "begin_wiki_tx cl env remote p =
     (let ns = om_Namespace (p_meta p); name = ps_KnowledgeBase (p_Spec p)
      in if name = [] then
           Inl (''spec.knowledgeBase is empty '' @ em_dash @ '' no wiki to push to'')
         else case cl_get_kb cl ns name of
           Inl e \<Rightarrow> Inl (''get KnowledgeBase '' @ ns @ ''/'' @ name @ '': '' @ e)
         | Inr kb \<Rightarrow> begin_tx env remote (Some kb) (Some (cl_mint cl)))"

definition finish_push ::
    "remote \<times> wiki_tx \<times> wiki_error option \<Rightarrow> remote \<times> string option" where
  "finish_push r = (case r of (remote, _, e) \<Rightarrow> (remote, map_option wiki_error_text e))"

definition wiki_push_proposal ::
    "cluster \<Rightarrow> wiki_env \<Rightarrow> (qlora \<Rightarrow> string result) \<Rightarrow> remote \<Rightarrow> project \<Rightarrow> int \<Rightarrow> qlora \<Rightarrow> string
     \<Rightarrow> remote \<times> string option" where
  "wiki_push_proposal cl env marshal remote p rnd cfg reasoning =
     (case begin_wiki_tx cl env remote p of
        Inl e \<Rightarrow> (remote, Some e)
      | Inr tx \<Rightarrow>
     (case marshal cfg of
        Inl e \<Rightarrow> (remote, Some (''marshal proposal: '' @ e))
      | Inr cfg_yaml \<Rightarrow>
     (case tx_write env tx (''proposals/round-'' @ itoa rnd @ ''.yaml'') cfg_yaml of
        (_, Some e) \<Rightarrow> (remote, Some e)
      | (tx1, None) \<Rightarrow>
     (let md = ln (''# Round '' @ itoa rnd @ '' '' @ em_dash @ '' proposal'') @ ln []
               @ ln ''**Agent reasoning:**'' @ ln [] @ ln reasoning @ ln []
               @ ln (''**Config (also in `round-'' @ itoa rnd @ ''.yaml`):**'') @ ln []
               @ ln ''```yaml'' @ cfg_yaml @ ln ''```''
      in case tx_write env tx1 (''proposals/round-'' @ itoa rnd @ ''.md'') md of
        (_, Some e) \<Rightarrow> (remote, Some e)
      | (tx2, None) \<Rightarrow>
          finish_push (commit_and_push env remote tx2 (''propose: round '' @ itoa rnd))))))"

definition wiki_push_result ::
    "cluster \<Rightarrow> wiki_env \<Rightarrow> gotime \<Rightarrow> remote \<Rightarrow> project \<Rightarrow> int \<Rightarrow> gofloat \<Rightarrow> string \<Rightarrow> bool
     \<Rightarrow> remote \<times> string option" where
  "wiki_push_result cl env now remote p rnd loss uri kept =
     (case begin_wiki_tx cl env remote p of
        Inl e \<Rightarrow> (remote, Some e)
      | Inr tx \<Rightarrow>
     (case tx_write env tx (''results/round-'' @ itoa rnd @ ''.md'') (result_md rnd loss kept uri) of
        (_, Some e) \<Rightarrow> (remote, Some e)
      | (tx1, None) \<Rightarrow>
     (case tx_read env tx1 ''log/log.md'' of
        Inl e \<Rightarrow> (remote, Some (''read log/log.md: '' @ e))
      | Inr existing \<Rightarrow>
     (case tx_write env tx1 ''log/log.md'' (merge_log existing (log_entry now rnd loss kept uri)) of
        (_, Some e) \<Rightarrow> (remote, Some e)
      | (tx2, None) \<Rightarrow>
          finish_push (commit_and_push env remote tx2
            (''result: round '' @ itoa rnd @ '' (eval_loss='' @ fmt_fixed 4 loss @ '', ''
             @ kept_str kept @ '')''))))))"

definition read_wiki_log :: "cluster \<Rightarrow> wiki_env \<Rightarrow> remote \<Rightarrow> project \<Rightarrow> string result" where
  "read_wiki_log cl env remote p =
     (case begin_wiki_tx cl env remote p of
        Inl e \<Rightarrow> Inl e
      | Inr tx \<Rightarrow>
         (case tx_read env tx ''log/log.md'' of
            Inl e \<Rightarrow> Inl e
          | Inr raw \<Rightarrow>
             Inr (if gm_get (tx_tree tx) ''log/log.md'' = None then ''(no log entries yet)'' else raw)))"

subsection \<open>The loss is read back\<close>

lemma eval_loss_at_no_bar: "c \<noteq> CHR ''|'' \<Longrightarrow> eval_loss_at (c # s) = None"
  by (simp add: eval_loss_at_def bar_def)

lemma find_eval_loss_skip:
  "CHR ''|'' \<notin> set s \<Longrightarrow> find_eval_loss (s @ t) = find_eval_loss t"
  by (induction s) (auto simp: eval_loss_at_no_bar)

lemma digits_number_char: "list_all is_digit s \<Longrightarrow> \<forall>c \<in> set s. number_char c"
  by (simp add: list_all_iff number_char_def)

lemma fmt_fixed_number:
  assumes "0 < p"
  shows "(\<forall>c \<in> set (fmt_fixed p (Fin r)). number_char c) \<and> fmt_fixed p (Fin r) \<noteq> []"
proof -
  let ?q = "nat (round_half_even (\<bar>r\<bar> * 10 ^ p))"
  obtain ip fp where f: "fixed_digits p ?q = ip @ CHR ''.'' # fp" "list_all is_digit ip"
    "list_all is_digit fp" by (rule fixed_digits_parts [OF assms, of ?q])
  then show ?thesis
    using digits_number_char [OF f(2)] digits_number_char [OF f(3)]
    by (auto simp: fmt_fixed_def number_char_def)
qed

lemma number_char_plain:
  assumes "number_char c"
  shows "plain_char c" "\<not> re_space c" "c \<noteq> CHR ''|''"
  using assms by (auto simp: number_char_def is_digit_def plain_char_def re_space_def)

lemma trim_number:
  assumes "\<forall>c \<in> set s. number_char c"
  shows "trim_space s = s"
proof (cases s)
  case (Cons c t)
  show ?thesis
  proof (cases t rule: rev_cases)
    case Nil
    with Cons assms show ?thesis using trim_space_plain(2) [of c c] number_char_plain(1) by simp
  next
    case (snoc u d)
    with Cons assms show ?thesis using trim_space_plain(1) [of c d u] number_char_plain(1) by simp
  qed
qed simp

lemma eval_loss_row:
  assumes "\<forall>c \<in> set num. number_char c" "num \<noteq> []"
  shows "eval_loss_at (''| eval_loss | '' @ num @ '' |'' @ t) = Some num"
proof -
  have "dropWhile re_space (CHR '' '' # num @ '' |'' @ t) = num @ '' |'' @ t"
    using assms number_char_plain(2) by (cases num) (auto simp: re_space_def)
  moreover have "takeWhile number_char (num @ '' |'' @ t) = num"
    "dropWhile number_char (num @ '' |'' @ t) = '' |'' @ t"
    using assms(1) by (simp_all add: takeWhile_append2 dropWhile_append2 number_char_def is_digit_def)
  ultimately show ?thesis using assms(2)
    by (simp add: eval_loss_at_def bar_def re_space_def lower_char_def)
qed

lemma itoa_digits: "\<forall>c \<in> set (itoa n). is_digit c \<or> c = CHR ''-''"
  using nat_str_digits by (auto simp: itoa_def list_all_iff)

lemma itoa_no_bar: "CHR ''|'' \<notin> set (itoa n)"
  using itoa_digits [of n] by (auto simp: is_digit_def)

lemma result_page_loss:
  "parse_eval_loss (result_md rnd (Fin loss) kept uri)
     = (case f64_of_rat (fixed_value 6 loss) of Fin v \<Rightarrow> Some (Fin v) | _ \<Rightarrow> None)"
proof -
  note n = fmt_fixed_number [of 6 loss]
  let ?num = "fmt_fixed 6 (Fin loss)"
  let ?tail = "[CHR 0x0A] @ ln (''| Decision | **'' @ kept_str kept @ ''** |'')
     @ ln (''| Adapter URI | `'' @ uri @ ''` |'') @ ln []
     @ ln (''`oras pull '' @ uri @ ''` to fetch the LoRA weights locally.'')"
  have e: "result_md rnd (Fin loss) kept uri
      = (''# Round '' @ itoa rnd @ '' '' @ em_dash @ '' result'' @ [CHR 0x0A, CHR 0x0A])
        @ (''| Field | Value |'' @ [CHR 0x0A] @ ''|-------|-------|'' @ [CHR 0x0A])
        @ (''| eval_loss | '' @ ?num @ '' |'' @ ?tail)"
    by (simp add: result_md_def)
  have "find_eval_loss (result_md rnd (Fin loss) kept uri)
      = find_eval_loss ((''| Field | Value |'' @ [CHR 0x0A] @ ''|-------|-------|'' @ [CHR 0x0A])
        @ (''| eval_loss | '' @ ?num @ '' |'' @ ?tail))"
    unfolding e by (rule find_eval_loss_skip) (simp add: em_dash_def itoa_no_bar)
  also have "\<dots> = find_eval_loss (''| eval_loss | '' @ ?num @ '' |'' @ ?tail)"
    by (simp add: eval_loss_at_def bar_def re_space_def lower_char_def)
  also have "\<dots> = Some ?num"
    using eval_loss_row [of ?num ?tail] n by simp
  finally show ?thesis
    using trim_number [of ?num] n parse_float_fmt_fixed [of 6 loss] by (simp add: parse_eval_loss_def)
qed

text \<open>
  C15: the history loader reads from the page of a result the loss that was written there, rounded
  to six decimals and then to the nearest float64 (or nothing, if that overflows).
\<close>

theorem result_page_roundtrip:
  "parse_eval_loss (result_md rnd (Fin loss) kept uri)
     = (case f64_of_rat (fixed_value 6 loss) of Fin v \<Rightarrow> Some (Fin v) | _ \<Rightarrow> None)"
  by (rule result_page_loss)

subsection \<open>The log\<close>

text \<open>A page of entries, the newest first; an entry starts with a dash and ends with a back quote.\<close>

definition log_page :: "string list \<Rightarrow> string" where
  "log_page es = log_header @ concat es"

definition entry_ok :: "string \<Rightarrow> bool" where
  "entry_ok e \<longleftrightarrow> (\<exists>mid. e = CHR ''-'' # mid @ [CHR ''`'', CHR 0x0A])"

lemma log_entry_ok: "entry_ok (log_entry now rnd loss kept uri)"
  by (auto simp: entry_ok_def log_entry_def)

lemma strip_step:
  "find (\<lambda>w. w \<noteq> [] \<and> has_prefix s w) ws = Some w \<Longrightarrow>
     strip_runes ws s = strip_runes ws (drop (length w) s)"
  by (subst strip_runes.simps) simp

lemma strip_plain:
  assumes "plain_char c"
  shows "strip_runes space_runes (c # s) = c # s"
    and "strip_runes (map rev space_runes) (c # s) = c # s"
  using plain_not_space [OF assms] by (simp_all add: strip_runes.simps)

lemma find_newline:
  "find (\<lambda>w. w \<noteq> [] \<and> has_prefix (CHR 0x0A # s) w) space_runes = Some [CHR 0x0A]"
  "find (\<lambda>w. w \<noteq> [] \<and> has_prefix (CHR 0x0A # s) w) (map rev space_runes) = Some [CHR 0x0A]"
  by (simp_all add: space_runes_def)

lemma strip_newline:
  "strip_runes space_runes (CHR 0x0A # s) = strip_runes space_runes s"
  "strip_runes (map rev space_runes) (CHR 0x0A # s) = strip_runes (map rev space_runes) s"
  using strip_step [OF find_newline(1)] strip_step [OF find_newline(2)] by simp_all

lemma trim_lines:
  assumes "plain_char c" "plain_char d"
  shows "trim_space (c # s @ [d, CHR 0x0A]) = c # s @ [d]"
    and "trim_space (CHR 0x0A # c # s @ [d]) = c # s @ [d]"
    and "trim_space (c # s @ [d]) = c # s @ [d]"
  using assms by (simp_all add: trim_space_def strip_newline strip_plain)

lemma plain_chars: "plain_char (CHR ''-'')" "plain_char (CHR ''`'')" "plain_char (CHR ''#'')"
  "plain_char (CHR ''>'')"
  by (simp_all add: plain_char_def)

lemma entries_ends:
  assumes "es \<noteq> []" "\<forall>e \<in> set es. entry_ok e"
  shows "\<exists>mid. concat es = CHR ''-'' # mid @ [CHR ''`'', CHR 0x0A]"
  using assms
proof (induction es)
  case (Cons e es)
  obtain m where m: "e = CHR ''-'' # m @ [CHR ''`'', CHR 0x0A]"
    using Cons.prems(2) by (auto simp: entry_ok_def)
  show ?case
  proof (cases "es = []")
    case True
    with m show ?thesis by auto
  next
    case False
    with Cons obtain m' where "concat es = CHR ''-'' # m' @ [CHR ''`'', CHR 0x0A]" by auto
    with m show ?thesis
      by (intro exI [of _ "m @ [CHR ''`'', CHR 0x0A] @ CHR ''-'' # m'"]) simp
  qed
qed simp

text \<open>
  Recording a result puts its entry at the top of the log and keeps the header once and every
  earlier entry below it, in the same order.
\<close>

theorem merge_log_prepends:
  assumes "\<forall>e \<in> set es. entry_ok e"
  shows "merge_log (if es = [] then [] else log_page es) entry = log_page (entry # es)"
proof (cases "es = []")
  case True
  then show ?thesis by (simp add: merge_log_def log_page_def)
next
  case False
  then obtain mid where mid: "concat es = CHR ''-'' # mid @ [CHR ''`'', CHR 0x0A]"
    using entries_ends assms by blast
  let ?body = "CHR ''-'' # mid @ [CHR ''`'']"
  let ?quote = "''> Reverse-chronological. Newest entries at the top.''"
  let ?t = "?quote @ [CHR 0x0A, CHR 0x0A] @ ?body"
  have "log_page es = CHR ''#'' # ('' Experiment Log'' @ [CHR 0x0A, CHR 0x0A] @ ?quote
      @ [CHR 0x0A, CHR 0x0A] @ CHR ''-'' # mid) @ [CHR ''`'', CHR 0x0A]"
    by (simp add: log_page_def log_header_def mid)
  then have e: "trim_space (log_page es) = ''# Experiment Log'' @ [CHR 0x0A, CHR 0x0A] @ ?t"
    using trim_lines(1) [OF plain_chars(3,2), of "'' Experiment Log'' @ [CHR 0x0A, CHR 0x0A] @ ?quote
      @ [CHR 0x0A, CHR 0x0A] @ CHR ''-'' # mid"] by simp
  have t: "trim_space ?t = ?t"
    using trim_lines(3) [OF plain_chars(4,2),
        of "'' Reverse-chronological. Newest entries at the top.'' @ [CHR 0x0A, CHR 0x0A] @ CHR ''-'' # mid"]
    by simp
  have b: "trim_space (CHR 0x0A # ?body) = ?body"
    using trim_lines(2) [OF plain_chars(1,2), of mid] by simp
  have i: "str_index (''# Experiment Log'' @ [CHR 0x0A, CHR 0x0A] @ ?t) [CHR 0x0A, CHR 0x0A] = Some 16"
    by (simp add: str_index_def)
  have n: "index_byte ?t (CHR 0x0A) = Some 51" by simp
  have "merge_log (log_page es) entry = log_header @ entry @ ?body @ ln []"
    unfolding merge_log_def Let_def e i using t n b by simp
  with False mid show ?thesis by (simp add: log_page_def)
qed

definition demo_entries :: "string list" where
  "demo_entries = [log_entry 0 2 (Fin 1) True ''b'', log_entry 0 1 (Fin 2) False ''a'']"

lemma merge_log_prepends_witness:
  "merge_log (log_page demo_entries) (log_entry 0 3 (Fin 1) True ''c'')
     = log_page (log_entry 0 3 (Fin 1) True ''c'' # demo_entries)"
proof -
  have "\<forall>e \<in> set demo_entries. entry_ok e" by (simp add: demo_entries_def log_entry_ok)
  from merge_log_prepends [OF this] show ?thesis by (simp add: demo_entries_def)
qed

subsection \<open>A result that has been pushed\<close>

lemma finish_push_None:
  "finish_push r = (remote, None) \<longleftrightarrow> (\<exists>tx. r = (remote, tx, None))"
  by (auto simp: finish_push_def split: prod.splits)

lemma begin_wiki_tx_Inr:
  assumes "begin_wiki_tx cl env remote p = Inr tx"
  obtains kb where "cl_get_kb cl (om_Namespace (p_meta p)) (ps_KnowledgeBase (p_Spec p)) = Inr kb"
    "begin_tx env remote (Some kb) (Some (cl_mint cl)) = Inr tx"
  using assms by (auto simp: begin_wiki_tx_def Let_def split: if_splits sum.splits)

lemma finish_push_keeps_ref:
  assumes "finish_push (commit_and_push env remote tx msg) = (remote', e)" "gm_get remote r \<noteq> None"
  shows "gm_get remote' r \<noteq> None"
  using assms commit_and_push_keeps_ref [OF _ assms(2)]
  by (auto simp: finish_push_def split: prod.splits)

lemma wiki_push_result_keeps_ref:
  assumes "wiki_push_result cl env now remote p rnd loss uri kept = (remote', e)"
    and "gm_get remote r \<noteq> None"
  shows "gm_get remote' r \<noteq> None"
  using assms finish_push_keeps_ref [OF _ assms(2)]
  by (auto simp: wiki_push_result_def split: sum.splits prod.splits option.splits)

lemma begin_wiki_tx_again:
  assumes "begin_wiki_tx cl no_faults remote p = Inr tx" "gm_get remote' (tx_head_ref tx) \<noteq> None"
  shows "is_ok (begin_wiki_tx cl no_faults remote' p)"
  using assms begin_tx_again [OF _ assms(2)]
  by (auto simp: begin_wiki_tx_def Let_def split: if_splits sum.splits)

lemma pushed_pages:
  assumes "wiki_push_result cl env now remote p rnd loss uri kept = (remote', None)"
    and "begin_wiki_tx cl env' remote' p = Inr tx"
  shows "tx_read no_faults tx (''results/round-'' @ itoa rnd @ ''.md'')
      = Inr (result_md rnd loss kept uri)
    \<and> (\<exists>old. tx_read no_faults tx ''log/log.md'' = Inr (merge_log old (log_entry now rnd loss kept uri)))"
proof -
  let ?f = "''results/round-'' @ itoa rnd @ ''.md''"
  from assms(1) obtain tx0 tx1 old tx2 tx3 msg where b: "begin_wiki_tx cl env remote p = Inr tx0"
    and w1: "tx_write env tx0 ?f (result_md rnd loss kept uri) = (tx1, None)"
    and w2: "tx_write env tx1 ''log/log.md'' (merge_log old (log_entry now rnd loss kept uri))
       = (tx2, None)"
    and c: "commit_and_push env remote tx2 msg = (remote', tx3, None)"
    by (auto simp: wiki_push_result_def finish_push_None split: sum.splits prod.splits option.splits)
  obtain kb where kb: "cl_get_kb cl (om_Namespace (p_meta p)) (ps_KnowledgeBase (p_Spec p)) = Inr kb"
    "begin_tx env remote (Some kb) (Some (cl_mint cl)) = Inr tx0"
    using b by (rule begin_wiki_tx_Inr)
  have kb': "begin_tx env' remote' (Some kb) (Some (cl_mint cl)) = Inr tx"
    using assms(2) kb(1) by (elim begin_wiki_tx_Inr) simp
  note w = tx_write_None [OF w1] tx_write_None [OF w2]
  have "gm_get (tx_tree tx) = gm_get (tx_index tx2)"
    using published_tree [OF kb(2) _ _ c kb'] w by simp
  moreover have "?f \<noteq> ''log/log.md''" by simp
  ultimately show ?thesis using w by (auto simp: tx_read_def)
qed

text \<open>
  When \<open>wikiPushResult\<close> returns no error, a later transaction of the project reads the page of
  the result, and the log with the new entry merged in.
\<close>

theorem wiki_push_result_published:
  assumes "wiki_push_result cl env now remote p rnd loss uri kept = (remote', None)"
    and "begin_wiki_tx cl env' remote' p = Inr tx"
  shows "tx_read no_faults tx (''results/round-'' @ itoa rnd @ ''.md'')
      = Inr (result_md rnd loss kept uri)
    \<and> (\<exists>old. tx_read no_faults tx ''log/log.md'' = Inr (merge_log old (log_entry now rnd loss kept uri)))"
  by (rule pushed_pages [OF assms])

definition demo_cluster :: cluster where
  "demo_cluster = \<lparr>cl_get_kb = (\<lambda>_ _. Inr demo_kb),
     cl_mint = Inr (Some \<lparr>ga_username = ''x-access-token'', ga_password = ''t''\<rparr>)\<rparr>"

definition demo_result :: "remote \<times> string option" where
  "demo_result = wiki_push_result demo_cluster no_faults 0 demo_remote demo_project 1 (Fin 0) [] False"

lemma demo_files_ok:
  "\<not> under_file demo_wiki ''results/round-1.md''" "\<not> is_dir demo_wiki ''results/round-1.md''"
  "\<not> under_file demo_wiki ''log/log.md''" "\<not> is_dir demo_wiki ''log/log.md''"
  by code_simp+

lemma demo_begin_wiki:
  "begin_wiki_tx demo_cluster no_faults demo_remote demo_project = Inr (demo_begin demo_remote)"
  "tx_tree (demo_begin demo_remote) = demo_wiki" "tx_head_ref (demo_begin demo_remote) = ''refs/heads/main''"
  by code_simp+

lemma demo_result_pushed:
  "wiki_push_result demo_cluster no_faults 0 demo_remote demo_project 1 (Fin 0) [] False
     = (fst demo_result, None)"
proof -
  have r: "''results/round-'' @ itoa 1 @ ''.md'' = ''results/round-1.md''" by code_simp
  have g: "gm_get demo_wiki ''log/log.md'' = None" by code_simp
  have u: "\<not> under_file (gm_set demo_wiki ''results/round-1.md'' c) ''log/log.md''"
    "\<not> is_dir (gm_set demo_wiki ''results/round-1.md'' c) ''log/log.md''" for c
    using demo_files_ok(3,4) by (simp_all add: under_file_def is_dir_def list_ex_set)
  have "snd (wiki_push_result demo_cluster no_faults 0 demo_remote demo_project 1 (Fin 0) [] False)
      = None"
    unfolding wiki_push_result_def r
    by (simp add: demo_begin_wiki demo_files_ok tx_write_succeeds tx_read_def u g finish_push_def
        commit_and_push_succeeds case_prod_beta)
  then show ?thesis by (simp add: demo_result_def prod_eq_iff)
qed

lemma wiki_push_result_published_witness:
  "\<exists>tx. begin_wiki_tx demo_cluster no_faults (fst demo_result) demo_project = Inr tx
     \<and> tx_read no_faults tx (''results/round-'' @ itoa 1 @ ''.md'') = Inr (result_md 1 (Fin 0) False [])"
proof -
  have "gm_get demo_remote ''refs/heads/main'' \<noteq> None" by (simp add: demo_remote_def)
  then have "is_ok (begin_wiki_tx demo_cluster no_faults (fst demo_result) demo_project)"
    using wiki_push_result_keeps_ref [OF demo_result_pushed, of "''refs/heads/main''"]
    by (intro begin_wiki_tx_again [OF demo_begin_wiki(1)])
      (simp_all add: demo_begin_wiki)
  then obtain tx where "begin_wiki_tx demo_cluster no_faults (fst demo_result) demo_project = Inr tx"
    by (rule is_okE)
  with wiki_push_result_published [OF demo_result_pushed] show ?thesis by blast
qed

end
