(* ===== verification/MlmdTables.thy ===== *)
theory MlmdTables
  imports Prelude "HOL-Library.Multiset"
begin

text \<open>
  The metadata database of the pipeline server, as far as
  \<open>autoresearchproject_mlmd_cleanup.go\<close> uses it: the columns its statements name, and the statements
  themselves. A table is the list of its rows in the order in which the database visits them.
\<close>

record mlmd_execution =
  mx_id :: int
  mx_type_id :: int
  mx_last_known_state :: int
  mx_create_time :: int

record mlmd_context =
  mc_id :: int
  mc_name :: string
  mc_type_id :: int

record mlmd_association =
  ma_execution_id :: int
  ma_context_id :: int

record mlmd_event =
  mv_id :: int
  mv_execution_id :: int

text \<open>\<open>Type\<close> maps identifiers to names; a property row is its execution, an event path row its event.\<close>

record mlmd_db =
  db_Execution :: "mlmd_execution list"
  db_Association :: "mlmd_association list"
  db_Context :: "mlmd_context list"
  db_Type :: "(int \<times> string) list"
  db_Event :: "mlmd_event list"
  db_EventPath :: "int list"
  db_ExecutionProperty :: "int list"

definition mlmd_running :: int where "mlmd_running = 2"
definition mlmd_failed :: int where "mlmd_failed = 4"
definition mlmd_max_orphans :: nat where "mlmd_max_orphans = 500"
definition mlmd_failed_retention :: nat where "mlmd_failed_retention = 10"

definition mlmd_prunable_types :: "string list" where
  "mlmd_prunable_types = [''system.DAGExecution'', ''system.ContainerExecution'']"

subsection \<open>The statements\<close>

text \<open>The runs of an execution: the names of its contexts of type \<open>system.PipelineRun\<close>.\<close>

definition execution_runs :: "mlmd_db \<Rightarrow> mlmd_execution \<Rightarrow> string list" where
  "execution_runs db e =
     [mc_name c. a \<leftarrow> db_Association db, ma_execution_id a = mx_id e,
        c \<leftarrow> db_Context db, mc_id c = ma_context_id a,
        t \<leftarrow> db_Type db, fst t = mc_type_id c \<and> snd t = ''system.PipelineRun'']"

definition stuck_executions :: "mlmd_db \<Rightarrow> (int \<times> string) list" where
  "stuck_executions db =
     take mlmd_max_orphans
       [(mx_id e, r). e \<leftarrow> db_Execution db, mx_last_known_state e = mlmd_running, r \<leftarrow> execution_runs db e]"

text \<open>\<open>UPDATE Execution\<close>: the database counts the rows that change.\<close>

definition mark_failed :: "int list \<Rightarrow> mlmd_db \<Rightarrow> mlmd_db \<times> int" where
  "mark_failed ids db =
     (let hit = (\<lambda>e. mx_id e \<in> set ids) in
      (db\<lparr>db_Execution := map (\<lambda>e. if hit e then e\<lparr>mx_last_known_state := mlmd_failed\<rparr> else e) (db_Execution db)\<rparr>,
       int (length (filter (\<lambda>e. hit e \<and> mx_last_known_state e \<noteq> mlmd_failed) (db_Execution db)))))"

definition failed_of_type :: "mlmd_db \<Rightarrow> string \<Rightarrow> mlmd_execution list" where
  "failed_of_type db type_name =
     [e. e \<leftarrow> db_Execution db, t \<leftarrow> db_Type db,
         fst t = mx_type_id e \<and> snd t = type_name \<and> mx_last_known_state e = mlmd_failed]"

definition prune_ids :: "mlmd_db \<Rightarrow> string \<Rightarrow> int list" where
  "prune_ids db type_name =
     map mx_id (drop mlmd_failed_retention (sort_key (\<lambda>e. - mx_create_time e) (failed_of_type db type_name)))"

text \<open>The five deletes, children first.\<close>

definition delete_event_paths :: "int list \<Rightarrow> mlmd_db \<Rightarrow> mlmd_db" where
  "delete_event_paths ids db =
     db\<lparr>db_EventPath := filter (\<lambda>v. v \<notin> mv_id ` {e \<in> set (db_Event db). mv_execution_id e \<in> set ids}) (db_EventPath db)\<rparr>"

definition delete_events :: "int list \<Rightarrow> mlmd_db \<Rightarrow> mlmd_db" where
  "delete_events ids db = db\<lparr>db_Event := filter (\<lambda>e. mv_execution_id e \<notin> set ids) (db_Event db)\<rparr>"

definition delete_associations :: "int list \<Rightarrow> mlmd_db \<Rightarrow> mlmd_db" where
  "delete_associations ids db =
     db\<lparr>db_Association := filter (\<lambda>a. ma_execution_id a \<notin> set ids) (db_Association db)\<rparr>"

definition delete_properties :: "int list \<Rightarrow> mlmd_db \<Rightarrow> mlmd_db" where
  "delete_properties ids db =
     db\<lparr>db_ExecutionProperty := filter (\<lambda>x. x \<notin> set ids) (db_ExecutionProperty db)\<rparr>"

definition delete_executions :: "int list \<Rightarrow> mlmd_db \<Rightarrow> mlmd_db" where
  "delete_executions ids db = db\<lparr>db_Execution := filter (\<lambda>e. mx_id e \<notin> set ids) (db_Execution db)\<rparr>"

definition prune_deletes :: "(string \<times> (int list \<Rightarrow> mlmd_db \<Rightarrow> mlmd_db)) list" where
  "prune_deletes =
     [(''EventPath'', delete_event_paths), (''Event'', delete_events), (''Association'', delete_associations),
      (''ExecutionProperty'', delete_properties), (''Execution'', delete_executions)]"

subsection \<open>Keys\<close>

definition execution_ids :: "mlmd_db \<Rightarrow> int set" where
  "execution_ids db = mx_id ` set (db_Execution db)"

text \<open>Identifiers are unique, type names are unique, and every child row has its parent.\<close>

definition keys_ok :: "mlmd_db \<Rightarrow> bool" where
  "keys_ok db \<longleftrightarrow>
     distinct (map mx_id (db_Execution db)) \<and> distinct (map fst (db_Type db)) \<and> distinct (map mv_id (db_Event db))
     \<and> (\<forall>v \<in> set (db_Event db). mv_execution_id v \<in> execution_ids db)
     \<and> (\<forall>a \<in> set (db_Association db). ma_execution_id a \<in> execution_ids db)
     \<and> set (db_ExecutionProperty db) \<subseteq> execution_ids db
     \<and> set (db_EventPath db) \<subseteq> mv_id ` set (db_Event db)"

subsection \<open>A cascading delete keeps the keys\<close>

definition cascade :: "int list \<Rightarrow> mlmd_db \<Rightarrow> mlmd_db" where
  "cascade ids db = fold (\<lambda>(_, del). del ids) prune_deletes db"

lemmas delete_defs = delete_event_paths_def delete_events_def delete_associations_def delete_properties_def
  delete_executions_def

lemma cascade_simps [simp]:
  "db_Execution (cascade ids db) = filter (\<lambda>e. mx_id e \<notin> set ids) (db_Execution db)"
  "db_Type (cascade ids db) = db_Type db" "db_Context (cascade ids db) = db_Context db"
  "db_Event (cascade ids db) = filter (\<lambda>v. mv_execution_id v \<notin> set ids) (db_Event db)"
  "db_Association (cascade ids db) = filter (\<lambda>a. ma_execution_id a \<notin> set ids) (db_Association db)"
  "db_ExecutionProperty (cascade ids db) = filter (\<lambda>x. x \<notin> set ids) (db_ExecutionProperty db)"
  "db_EventPath (cascade ids db)
     = filter (\<lambda>v. v \<notin> mv_id ` {e \<in> set (db_Event db). mv_execution_id e \<in> set ids}) (db_EventPath db)"
  by (simp_all add: cascade_def prune_deletes_def delete_defs)

lemma cascade_nil [simp]: "cascade [] db = db"
  by (simp add: cascade_def prune_deletes_def delete_defs)

lemma cascade_keys:
  assumes "keys_ok db"
  shows "keys_ok (cascade ids db)"
  using assms unfolding keys_ok_def execution_ids_def cascade_simps by (auto simp: distinct_map_filter) blast

lemma mark_failed_simps [simp]:
  "db_Type (fst (mark_failed ids db)) = db_Type db" "db_Event (fst (mark_failed ids db)) = db_Event db"
  "db_Association (fst (mark_failed ids db)) = db_Association db"
  "db_EventPath (fst (mark_failed ids db)) = db_EventPath db"
  "db_ExecutionProperty (fst (mark_failed ids db)) = db_ExecutionProperty db"
  "map mx_id (db_Execution (fst (mark_failed ids db))) = map mx_id (db_Execution db)"
  by (simp_all add: mark_failed_def Let_def)

lemma mark_failed_keys: "keys_ok (fst (mark_failed ids db)) = keys_ok db"
proof -
  have "execution_ids (fst (mark_failed ids db)) = execution_ids db"
    unfolding execution_ids_def set_map [symmetric] by (simp del: set_map)
  then show ?thesis by (simp add: keys_ok_def)
qed

lemma mark_failed_frame:
  "e \<in> set (db_Execution db) \<Longrightarrow> mx_id e \<notin> set ids \<Longrightarrow> e \<in> set (db_Execution (fst (mark_failed ids db)))"
  by (force simp: mark_failed_def Let_def)

subsection \<open>What is pruned\<close>

lemma failed_of_type_filter:
  assumes "distinct (map fst (db_Type db))"
  shows "failed_of_type db ty = filter (\<lambda>e. mx_last_known_state e = mlmd_failed
      \<and> map_of (db_Type db) (mx_type_id e) = Some ty) (db_Execution db)"
proof -
  have one: "concat (map (\<lambda>t. if fst t = k \<and> snd t = ty \<and> P then [x] else []) ts)
      = (if P \<and> map_of ts k = Some ty then [x] else [])"
    if "distinct (map fst ts)" for ts :: "(int \<times> string) list" and k x P
    using that by (induction ts) (auto dest: map_of_SomeD simp: rev_image_eqI)
  have "concat (map (\<lambda>e. if Q e then [e] else []) es) = filter Q es" for Q and es :: "mlmd_execution list"
    by (induction es) auto
  then show ?thesis by (simp only: failed_of_type_def one [OF assms])
qed

lemma prune_ids_failed:
  assumes "i \<in> set (prune_ids db ty)" "keys_ok db" "e \<in> set (db_Execution db)" "mx_id e = i"
  shows "mx_last_known_state e = mlmd_failed"
proof -
  from assms(1) obtain e' where e': "e' \<in> set (failed_of_type db ty)" "mx_id e' = i"
    by (auto simp: prune_ids_def dest!: in_set_dropD)
  then have "e' \<in> set (db_Execution db)" "mx_last_known_state e' = mlmd_failed"
    by (auto simp: failed_of_type_def split: if_splits)
  moreover have "e = e'"
    using assms(2-4) e'(2) calculation(1) by (auto simp: keys_ok_def distinct_map inj_on_def)
  ultimately show ?thesis by simp
qed

text \<open>Sorted by an order, the first entries are kept and the others dropped.\<close>

lemma keep_first:
  fixes n :: nat
  assumes "distinct (map f xs)" "sorted (map g ys)" "mset ys = mset xs"
  defines "zs \<equiv> filter (\<lambda>x. f x \<notin> set (map f (drop n ys))) xs"
  shows "length zs = min n (length xs)" "set zs = set (take n ys)"
    "\<And>x z. x \<in> set xs - set zs \<Longrightarrow> z \<in> set zs \<Longrightarrow> g z \<le> g x"
proof -
  have "distinct (map f ys)" using assms(1,3) by (metis distinct_map mset_eq_imp_distinct_iff mset_eq_setD)
  then have d: "distinct ys" "inj_on f (set ys)" by (simp_all add: distinct_map)
  have s: "set ys = set xs" "length ys = length xs" using assms(3) by (metis mset_eq_setD, metis size_mset)
  have dj: "set (take n ys) \<inter> set (drop n ys) = {}" "set ys = set (take n ys) \<union> set (drop n ys)"
    using d(1) by (metis append_take_drop_id distinct_append) (metis append_take_drop_id set_append)
  have "f x \<in> f ` set (drop n ys) \<longleftrightarrow> x \<in> set (drop n ys)" if "x \<in> set ys" for x
    by (rule inj_on_image_mem_iff [OF d(2) that set_drop_subset])
  then have "set zs = set ys - set (drop n ys)" by (auto simp: zs_def s)
  with dj show z: "set zs = set (take n ys)" by blast
  have "distinct zs" using assms(1) by (simp add: zs_def distinct_map)
  then have "length zs = card (set (take n ys))" by (metis z distinct_card)
  also have "\<dots> = min n (length xs)" using d(1) s(2) by (simp add: distinct_card)
  finally show "length zs = min n (length xs)" .
  fix x z assume "x \<in> set xs - set zs" "z \<in> set zs"
  then have "x \<in> set (drop n ys)" "z \<in> set (take n ys)" using s(1) z dj(2) by auto
  moreover have "sorted (map g (take n ys) @ map g (drop n ys))"
    using assms(2) by (simp flip: map_append)
  ultimately show "g z \<le> g x" by (auto simp: sorted_append)
qed

text \<open>After the delete of one type, at most \<open>mlmd_failed_retention\<close> failed executions of it are left: the newest.\<close>

lemma cascade_type:
  fixes ty :: string
  assumes "keys_ok db"
  defines "db1 \<equiv> cascade (prune_ids db ty) db"
  shows "length (failed_of_type db1 ty) = min mlmd_failed_retention (length (failed_of_type db ty))"
    "set (failed_of_type db1 ty) \<subseteq> set (failed_of_type db ty)"
    "\<And>x k. x \<in> set (failed_of_type db ty) - set (failed_of_type db1 ty) \<Longrightarrow> k \<in> set (failed_of_type db1 ty)
       \<Longrightarrow> mx_create_time x \<le> mx_create_time k"
    "ty' \<noteq> ty \<Longrightarrow> failed_of_type db1 ty' = failed_of_type db ty'"
    "filter (\<lambda>e. mx_last_known_state e \<noteq> mlmd_failed) (db_Execution db1)
       = filter (\<lambda>e. mx_last_known_state e \<noteq> mlmd_failed) (db_Execution db)"
proof -
  let ?F = "failed_of_type db ty" and ?key = "\<lambda>e. - mx_create_time e"
  have dt: "distinct (map fst (db_Type db))" and de: "distinct (map mx_id (db_Execution db))"
    using assms(1) by (simp_all add: keys_ok_def)
  note flt = failed_of_type_filter [OF dt]
  have dt1: "distinct (map fst (db_Type db1))" using dt by (simp add: db1_def)
  have dF: "distinct (map mx_id ?F)" using de by (simp add: flt distinct_map_filter)
  have ids: "set (prune_ids db ty) = set (map mx_id (drop mlmd_failed_retention (sort_key ?key ?F)))"
    by (simp add: prune_ids_def)
  have F1: "failed_of_type db1 ty
      = filter (\<lambda>e. mx_id e \<notin> set (map mx_id (drop mlmd_failed_retention (sort_key ?key ?F)))) ?F"
    unfolding ids [symmetric] unfolding failed_of_type_filter [OF dt1] flt
    by (simp add: db1_def conj_ac)
  note k = keep_first [OF dF sorted_sort_key [of ?key ?F] mset_sort, where n = mlmd_failed_retention, folded F1]
  show "length (failed_of_type db1 ty) = min mlmd_failed_retention (length ?F)" by (rule k(1))
  show "set (failed_of_type db1 ty) \<subseteq> set ?F" unfolding F1 by (rule filter_is_subset)
  show "x \<in> set ?F - set (failed_of_type db1 ty) \<Longrightarrow> k \<in> set (failed_of_type db1 ty)
       \<Longrightarrow> mx_create_time x \<le> mx_create_time k" for x k
    using k(3) [of x k] by simp
  have gone: "mx_last_known_state e = mlmd_failed \<and> map_of (db_Type db) (mx_type_id e) = Some ty"
    if "e \<in> set (db_Execution db)" "mx_id e \<in> set (prune_ids db ty)" for e
  proof -
    from that(2) obtain e' where "e' \<in> set ?F" "mx_id e' = mx_id e"
      by (auto simp: prune_ids_def dest!: in_set_dropD)
    with that(1) de show ?thesis by (auto simp: flt distinct_map inj_on_def)
  qed
  show "ty' \<noteq> ty \<Longrightarrow> failed_of_type db1 ty' = failed_of_type db ty'"
    unfolding failed_of_type_filter [OF dt1] flt using gone
    by (auto simp: db1_def intro!: filter_cong)
  show "filter (\<lambda>e. mx_last_known_state e \<noteq> mlmd_failed) (db_Execution db1)
       = filter (\<lambda>e. mx_last_known_state e \<noteq> mlmd_failed) (db_Execution db)"
    using gone by (auto simp: db1_def intro!: filter_cong)
qed

end
