(* ===== verification/Operator.thy ===== *)
theory Operator
  imports DspClient Pages AgentTypes MlmdTables
begin

text \<open>
  What the research-project controller asks of its surroundings. The outside world (the API server
  of the cluster, the pipeline server, the container registry) is a state of any type; its answers
  are parameters. The controller's own state is the wiki remote, the cache of pipeline clients, the
  project as the API server stores it, the metadata databases of the pipeline servers by data source
  name, and the time of the last clean-up in each namespace. Running a command in a pod gives its two
  output streams and an error. \<open>oe_sql_fault\<close> says which steps of a database session fail.
  A reconcile pass reads the clock once (\<open>oe_now\<close>);
  \<open>oe_pipeline_yaml\<close> is the file that the build embeds.
\<close>

record pod =
  pod_Name :: string
  pod_Namespace :: string
  pod_Phase :: string
  pod_Conditions :: "(string \<times> string) list"
  pod_CreationTimestamp :: gotime

text \<open>The bytes that a log stream delivers and the read error that ends it, if it is not the end.\<close>

record log_stream =
  lg_data :: string
  lg_err :: "string option"

text \<open>The steps of a database session that can fail.\<close>

datatype sql_step =
    SqlOpen string | SelectStuck | IterateStuck | UpdateOrphans
  | SelectPrune string | ScanPrune string | BeginPrune string | DeleteFrom string string | CommitPrune string

record 'w op_env =
  oe_now :: gotime
  oe_http :: "'w http_env"
  oe_cluster :: cluster
  oe_wiki :: wiki_env
  oe_clientset :: "unit result"
  oe_list_pods :: "'w \<Rightarrow> string \<Rightarrow> string gomap \<Rightarrow> pod list result"
  oe_delete_pod :: "pod \<Rightarrow> 'w \<Rightarrow> 'w \<times> string option"
  oe_pod_log :: "'w \<Rightarrow> string \<Rightarrow> string \<Rightarrow> string \<Rightarrow> log_stream result"
  oe_get_service :: "'w \<Rightarrow> string \<Rightarrow> string \<Rightarrow> unit result"
  oe_get_secret :: "'w \<Rightarrow> string \<Rightarrow> string \<Rightarrow> string gomap result"
  oe_get_config_map :: "'w \<Rightarrow> string \<Rightarrow> string \<Rightarrow> string gomap result"
  oe_read_token :: "'w \<Rightarrow> string result"
  oe_getenv :: "string \<Rightarrow> string"
  oe_pipeline_yaml :: string
  oe_list_workflows :: "'w \<Rightarrow> string \<Rightarrow> string gomap \<Rightarrow> string list"
  oe_delete_workflow :: "string \<Rightarrow> string \<Rightarrow> 'w \<Rightarrow> 'w"
  oe_get_workstation :: "'w \<Rightarrow> string \<Rightarrow> string \<Rightarrow> workstation result"
  oe_executor :: "unit result"
  oe_exec :: "pod \<Rightarrow> string \<Rightarrow> string list \<Rightarrow> 'w \<Rightarrow> 'w \<times> string \<times> string \<times> string option"
  oe_get_project_err :: "'w \<Rightarrow> string option"
  oe_update_err :: "project \<Rightarrow> 'w \<Rightarrow> string option"
  oe_sql_fault :: "sql_step \<Rightarrow> 'w \<Rightarrow> string option"

record 'w op_state =
  op_world :: 'w
  op_remote :: remote
  op_dsp :: "dsp_client gomap"
  op_saved :: "project option"
  op_mlmd :: "mlmd_db gomap"
  op_cleanups :: "gotime gomap"

text \<open>\<open>Status().Update\<close>: the stored project gets the status, or the update fails.\<close>

definition update_status :: "'w op_env \<Rightarrow> 'w op_state \<Rightarrow> project \<Rightarrow> 'w op_state \<times> string option" where
  "update_status env st p =
     (case oe_update_err env p (op_world st) of
        Some e \<Rightarrow> (st, Some e)
      | None \<Rightarrow> (st\<lparr>op_saved := map_option (\<lambda>q. q\<lparr>p_Status := p_Status p\<rparr>) (op_saved st)\<rparr>, None))"

subsection \<open>The pipeline client of a namespace\<close>

definition dspa_name :: string where
  "dspa_name = ''dspa''"

definition dsp_client_for ::
    "'w op_env \<Rightarrow> 'w op_state \<Rightarrow> string \<Rightarrow> 'w op_state \<times> dsp_client result" where
  "dsp_client_for env st ns =
     (let key = ns @ ''/'' @ dspa_name;
          cached = (case gm_get (op_dsp st) key of
                      Some c \<Rightarrow> (if dc_Token c \<noteq> [] then Some c else None)
                    | None \<Rightarrow> None)
      in case cached of
        Some c \<Rightarrow> (st, Inr c)
      | None \<Rightarrow>
     (case oe_get_service env (op_world st) ns (''ds-pipeline-'' @ dspa_name) of
        Inl e \<Rightarrow> (st, Inl (''DSP API server Service ds-pipeline-'' @ dspa_name @ '' not found in '' @ ns
                   @ '' (is the DataSciencePipelinesApplication deployed?): '' @ e))
      | Inr _ \<Rightarrow>
     (case oe_read_token env (op_world st) of
        Inl e \<Rightarrow> (st, Inl (''read SA token: '' @ e))
      | Inr tok \<Rightarrow>
         (let c = new_client (''https://ds-pipeline-'' @ dspa_name @ ''.'' @ ns @ ''.svc.cluster.local:8443'')
                    (trim_space tok)
          in (st\<lparr>op_dsp := gm_set (op_dsp st) key c\<rparr>, Inr c)))))"

text \<open>A client that was built with a token is used for ever, whatever the token file holds later.\<close>

lemma dsp_client_cached:
  assumes "gm_get (op_dsp st) (ns @ ''/'' @ dspa_name) = Some c" "dc_Token c \<noteq> []"
  shows "dsp_client_for env st ns = (st, Inr c)"
  using assms by (simp add: dsp_client_for_def)

lemma dsp_client_for_fresh:
  assumes "dsp_client_for env st ns = (st', Inr c)"
  shows "op_world st' = op_world st" "op_remote st' = op_remote st"
    "gm_get (op_dsp st') (ns @ ''/'' @ dspa_name) = Some c"
  using assms by (auto simp: dsp_client_for_def Let_def split: option.splits if_splits sum.splits)

text \<open>
  The client of a namespace keeps the token with which it was first built. Once a client with a
  token was made, every later call returns this client and its token, whatever the token file, the
  Service or the rest of the world have become in the meantime.
\<close>

theorem dsp_client_keeps_token:
  assumes "dsp_client_for env st ns = (st1, Inr c)" "dc_Token c \<noteq> []"
  shows "dsp_client_for env' (st1\<lparr>op_world := w, op_remote := r\<rparr>) ns
       = (st1\<lparr>op_world := w, op_remote := r\<rparr>, Inr c)"
  by (rule dsp_client_cached) (use dsp_client_for_fresh [OF assms(1)] assms(2) in simp_all)

end
