(* ===== verification/Trainer.thy ===== *)
theory Trainer
  imports Operator
begin

text \<open>
  What the controller learns from a finished training run: the result line in the logs of the
  trainer pod, and whether the adapter that the trainer reports is in the registry
  (\<open>autoresearchproject_controller.go\<close>, \<open>autoresearchproject_dsp.go\<close>).
\<close>

subsection \<open>The result line\<close>

text \<open>
  \<open>bufio.Scanner\<close> with the line splitter: the lines without their line end, up to the first one that
  does not fit the buffer of 8 MiB.
\<close>

definition max_line :: nat where
  "max_line = 8 * 1024 * 1024"

definition drop_cr :: "string \<Rightarrow> string" where
  "drop_cr l = (if l \<noteq> [] \<and> last l = CHR 0x0D then butlast l else l)"

definition raw_lines :: "string \<Rightarrow> string list" where
  "raw_lines s =
     (let ls = split_byte (CHR 0x0A) s in if last ls = [] then butlast ls else ls)"

definition scan_lines :: "string \<Rightarrow> string list \<times> bool" where
  "scan_lines s =
     (let ls = raw_lines s; ok = takeWhile (\<lambda>l. length l < max_line) ls
      in (map drop_cr ok, length ok < length ls))"

definition result_marker :: string where
  "result_marker = ''AUTORESEARCH_RESULT=''"

text \<open>The text after the marker in the last line that has it; empty when there is none.\<close>

definition result_payload :: "string \<Rightarrow> string option" where
  "result_payload line = map_option (\<lambda>i. drop (i + length result_marker) line) (str_index line result_marker)"

definition last_result :: "string list \<Rightarrow> string" where
  "last_result ls = foldl (\<lambda>acc l. case result_payload l of Some t \<Rightarrow> t | None \<Rightarrow> acc) [] ls"

record autoresearch_result =
  ar_Status :: string
  ar_EvalLoss :: gofloat
  ar_Error :: string
  ar_AdapterURI :: string
  ar_ModelVersionID :: string

definition decode_result :: "json \<Rightarrow> autoresearch_result option" where
  "decode_result v =
     (let names = [''status'', ''eval_loss'', ''error'', ''adapter_uri'', ''model_version_id''] in
      do { kvs \<leftarrow> object_members v;
           s \<leftarrow> field_str ''status'' names kvs;
           l \<leftarrow> field_float ''eval_loss'' names kvs;
           e \<leftarrow> field_str ''error'' names kvs;
           a \<leftarrow> field_str ''adapter_uri'' names kvs;
           m \<leftarrow> field_str ''model_version_id'' names kvs;
           Some \<lparr>ar_Status = s, ar_EvalLoss = l, ar_Error = e, ar_AdapterURI = a, ar_ModelVersionID = m\<rparr> })"

definition parse_autoresearch_result :: "string \<Rightarrow> autoresearch_result result" where
  "parse_autoresearch_result payload =
     (case unmarshal decode_result payload of
        None \<Rightarrow> Inl ''invalid JSON''
      | Some res \<Rightarrow>
          (if ar_Status res \<noteq> ''ok'' then Inl (''trainer error: '' @ ar_Error res) else Inr res))"

subsection \<open>Reading the logs of a pod\<close>

definition parse_result_full_by_pod_name ::
    "'w op_env \<Rightarrow> 'w \<Rightarrow> string \<Rightarrow> string \<Rightarrow> autoresearch_result result" where
  "parse_result_full_by_pod_name env w ns name =
     (case oe_clientset env of
        Inl e \<Rightarrow> Inl e
      | Inr _ \<Rightarrow>
     (case oe_pod_log env w ns name ''main'' of
        Inl e \<Rightarrow> Inl e
      | Inr lg \<Rightarrow>
         (let r = last_result (fst (scan_lines (lg_data lg)))
          in if r = [] then Inl ''no AUTORESEARCH_RESULT= line'' else parse_autoresearch_result r)))"

definition parse_result_by_pod_name :: "'w op_env \<Rightarrow> 'w \<Rightarrow> string \<Rightarrow> string \<Rightarrow> gofloat result" where
  "parse_result_by_pod_name env w ns name =
     (case oe_clientset env of
        Inl e \<Rightarrow> Inl e
      | Inr _ \<Rightarrow>
     (case oe_pod_log env w ns name ''main'' of
        Inl e \<Rightarrow> Inl e
      | Inr lg \<Rightarrow>
         (let r = last_result (fst (scan_lines (lg_data lg)))
          in if r = [] then Inl ''no AUTORESEARCH_RESULT= line''
             else map_sum id ar_EvalLoss (parse_autoresearch_result r))))"

text \<open>The Job-based reader: the newest pod of the Job, its container \<open>trainer\<close>.\<close>

definition newest_pod :: "pod list \<Rightarrow> pod" where
  "newest_pod ps =
     foldl (\<lambda>best p. if pod_CreationTimestamp p > pod_CreationTimestamp best then p else best) (hd ps) ps"

definition decode_job_result :: "json \<Rightarrow> (string \<times> gofloat \<times> string \<times> string) option" where
  "decode_job_result v =
     (let names = [''status'', ''eval_loss'', ''error'', ''stage''] in
      do { kvs \<leftarrow> object_members v;
           s \<leftarrow> field_str ''status'' names kvs;
           l \<leftarrow> field_float ''eval_loss'' names kvs;
           e \<leftarrow> field_str ''error'' names kvs;
           g \<leftarrow> field_str ''stage'' names kvs;
           Some (s, l, e, g) })"

definition experiment_label :: string where
  "experiment_label = ''agentoffice.ai/autoresearch-experiment''"

definition parse_trainer_result :: "'w op_env \<Rightarrow> 'w \<Rightarrow> string \<Rightarrow> string \<Rightarrow> gofloat result" where
  "parse_trainer_result env w ns job =
     (case oe_clientset env of
        Inl e \<Rightarrow> Inl (''kubernetes client: '' @ e)
      | Inr _ \<Rightarrow>
     (case oe_list_pods env w ns [(experiment_label, job)] of
        Inl e \<Rightarrow> Inl (''list job pods: '' @ e)
      | Inr [] \<Rightarrow> Inl (''no pods found for job '' @ job)
      | Inr ps \<Rightarrow>
     (let p = newest_pod ps
      in case oe_pod_log env w (pod_Namespace p) (pod_Name p) ''trainer'' of
        Inl e \<Rightarrow> Inl (''open pod log stream: '' @ e)
      | Inr lg \<Rightarrow>
     (let (ls, too_long) = scan_lines (lg_data lg); r = last_result ls
      in if too_long then Inl ''scan logs: bufio.Scanner: token too long''
         else case lg_err lg of
           Some e \<Rightarrow> Inl (''scan logs: '' @ e)
         | None \<Rightarrow>
          (if r = [] then Inl ''no AUTORESEARCH_RESULT= line in trainer logs''
           else case unmarshal decode_job_result r of
             None \<Rightarrow> Inl (''decode result JSON: invalid JSON (line='' @ go_quote r @ '')'')
           | Some (s, l, e, g) \<Rightarrow>
              (if s \<noteq> ''ok'' then Inl (''trainer reported error (stage='' @ g @ ''): '' @ e)
               else Inr l))))))"

subsection \<open>The result of a pipeline run\<close>

definition is_run_terminal :: "string \<Rightarrow> bool" where
  "is_run_terminal state \<longleftrightarrow> state \<in> {''SUCCEEDED'', ''FAILED'', ''SKIPPED'', ''CANCELED''}"

definition trainer_pod :: "pod \<Rightarrow> bool" where
  "trainer_pod p = str_contains (pod_Name p) ''container-impl''"

definition run_pods :: "'w op_env \<Rightarrow> 'w \<Rightarrow> string \<Rightarrow> string \<Rightarrow> pod list result" where
  "run_pods env w ns run_id = oe_list_pods env w ns [(''pipeline/runid'', run_id)]"

definition read_full_result ::
    "'w op_env \<Rightarrow> 'w \<Rightarrow> string \<Rightarrow> string \<Rightarrow> autoresearch_result option" where
  "read_full_result env w ns run_id =
     (case run_pods env w ns run_id of
        Inl _ \<Rightarrow> None
      | Inr ps \<Rightarrow>
         (let rs = map (\<lambda>p. parse_result_full_by_pod_name env w (pod_Namespace p) (pod_Name p))
                     (filter trainer_pod ps)
          in case find is_ok rs of Some (Inr res) \<Rightarrow> Some res | _ \<Rightarrow> None))"

definition read_eval_loss :: "'w op_env \<Rightarrow> 'w \<Rightarrow> string \<Rightarrow> string \<Rightarrow> gofloat" where
  "read_eval_loss env w ns run_id =
     (case run_pods env w ns run_id of
        Inl _ \<Rightarrow> Fin 0
      | Inr ps \<Rightarrow>
         (let rs = map (\<lambda>p. parse_result_by_pod_name env w (pod_Namespace p) (pod_Name p))
                     (filter trainer_pod ps)
          in case find is_ok rs of Some (Inr l) \<Rightarrow> l | _ \<Rightarrow> Fin 0))"

text \<open>The watchdog deletes the trainer pods of a run; errors are only logged.\<close>

definition kill_trainer_pods :: "'w op_env \<Rightarrow> 'w \<Rightarrow> string \<Rightarrow> string \<Rightarrow> 'w" where
  "kill_trainer_pods env w ns run_id =
     (case run_pods env w ns run_id of
        Inl _ \<Rightarrow> w
      | Inr ps \<Rightarrow> foldl (\<lambda>w p. fst (oe_delete_pod env p w)) w (filter trainer_pod ps))"

subsection \<open>The adapter in the registry\<close>

definition split_oci_uri :: "string \<Rightarrow> (string \<times> string \<times> string) result" where
  "split_oci_uri uri =
     (case last_index_byte uri (CHR '':'') of
        None \<Rightarrow> Inl ''no :tag suffix''
      | Some colon \<Rightarrow>
         (let tag = drop (colon + 1) uri; body = take colon uri
          in case index_byte body (CHR ''/'') of
               None \<Rightarrow> Inl ''no registry/repo separator''
             | Some slash \<Rightarrow>
                (let registry = take slash body; repo = drop (slash + 1) body
                 in if registry = [] \<or> repo = [] \<or> tag = [] then Inl ''empty registry, repo, or tag''
                    else Inr (registry, repo, tag))))"

text \<open>
  The bearer challenge. A value that holds a comma is cut there, and a header that is not a bearer
  challenge gives three empty strings.
\<close>

definition trim_char :: "char \<Rightarrow> string \<Rightarrow> string" where
  "trim_char c s = trim_right c (dropWhile (\<lambda>x. x = c) s)"

definition challenge_part :: "string \<times> string \<times> string \<Rightarrow> string \<Rightarrow> string \<times> string \<times> string" where
  "challenge_part acc part =
     (case acc of (realm, service, scope) \<Rightarrow>
       (let kv = trim_space part
        in case index_byte kv (CHR ''='') of
             None \<Rightarrow> acc
           | Some i \<Rightarrow>
              (let k = to_lower (take i kv); val = trim_char (CHR 0x22) (drop (i + 1) kv)
               in if k = ''realm'' then (val, service, scope)
                  else if k = ''service'' then (realm, val, scope)
                  else if k = ''scope'' then (realm, service, val)
                  else acc)))"

definition parse_bearer_challenge :: "string \<Rightarrow> string \<times> string \<times> string" where
  "parse_bearer_challenge header =
     (let h = trim_space header
      in if \<not> has_prefix (to_lower h) ''bearer '' then ([], [], [])
         else foldl challenge_part ([], [], []) (split_byte (CHR '','') (drop 7 h)))"

text \<open>
  The credentials of \<open>quay-push-secret\<close>: an entry of the Docker configuration that names the
  registry. \<open>auths\<close> is a Go map; the list is one order of its entries.
\<close>

definition decode_auths :: "json \<Rightarrow> string gomap option" where
  "decode_auths v =
     do { kvs \<leftarrow> object_members v;
          ms \<leftarrow> field_members ''auths'' [''auths''] kvs;
          vs \<leftarrow> those (map (\<lambda>(k, x). do { o' \<leftarrow> object_members x; field_str ''auth'' [''auth''] o' }) ms);
          Some (foldl (\<lambda>m (k, a). gm_set m (valid_utf8 k) a) [] (zip (map fst ms) vs)) }"

definition read_quay_basic_auth :: "'w op_env \<Rightarrow> 'w \<Rightarrow> string \<Rightarrow> string \<Rightarrow> string" where
  "read_quay_basic_auth env w ns registry =
     (case oe_get_secret env w ns ''quay-push-secret'' of
        Inl _ \<Rightarrow> []
      | Inr sec \<Rightarrow>
     (case gm_get sec ''.dockerconfigjson'' of
        None \<Rightarrow> []
      | Some raw \<Rightarrow>
     (case unmarshal decode_auths raw of
        None \<Rightarrow> []
      | Some auths \<Rightarrow>
         (case find (\<lambda>(k, a). a \<noteq> [] \<and> (k = registry \<or> str_contains k registry)) auths of
            None \<Rightarrow> [] | Some (k, a) \<Rightarrow> ''Basic '' @ a))))"

definition registry_request ::
    "'w http_env \<Rightarrow> 'w \<Rightarrow> string \<Rightarrow> string \<Rightarrow> string gomap \<Rightarrow> 'w \<times> http_response result" where
  "registry_request he w meth url hdr =
     (case he_url_err he url of
        Some e \<Rightarrow> (w, Inl e)
      | None \<Rightarrow> he_do he \<lparr>hr_Method = meth, hr_URL = url, hr_Header = hdr, hr_Body = NoBody\<rparr> w)"

definition manifest_accept :: string where
  "manifest_accept = ''application/vnd.oci.image.manifest.v1+json, ''
     @ ''application/vnd.oci.image.index.v1+json, ''
     @ ''application/vnd.docker.distribution.manifest.v2+json''"

definition do_manifest_head ::
    "'w http_env \<Rightarrow> 'w \<Rightarrow> string \<Rightarrow> string \<Rightarrow> 'w \<times> http_response result" where
  "do_manifest_head he w url auth =
     registry_request he w ''HEAD'' url
       (gm_set (if auth \<noteq> [] then gm_set [] ''Authorization'' auth else []) ''Accept'' manifest_accept)"

text \<open>\<open>url.Values.Encode\<close> writes the keys in order: \<open>scope\<close> before \<open>service\<close>.\<close>

definition decode_token :: "json \<Rightarrow> (string \<times> string) option" where
  "decode_token v =
     (let names = [''token'', ''access_token''] in
      do { kvs \<leftarrow> object_members v;
           t \<leftarrow> field_str ''token'' names kvs;
           a \<leftarrow> field_str ''access_token'' names kvs;
           Some (t, a) })"

definition exchange_for_bearer_token ::
    "'w http_env \<Rightarrow> 'w \<Rightarrow> string \<Rightarrow> string \<Rightarrow> string \<Rightarrow> string \<Rightarrow> 'w \<times> string result" where
  "exchange_for_bearer_token he w realm service scope basic =
     (let q = (if scope \<noteq> [] then [(''scope'', scope)] else [])
              @ (if service \<noteq> [] then [(''service'', service)] else [])
      in and_then (registry_request he w ''GET'' (realm @ query_string q) [(''Authorization'', basic)])
           (\<lambda>w resp.
             if hs_Status resp \<noteq> 200 then
               (w, Inl (''realm '' @ realm @ '' returned HTTP '' @ itoa (hs_Status resp)))
             else case hs_Body resp of
               Inl e \<Rightarrow> (w, Inl e)
             | Inr body \<Rightarrow>
                (case unmarshal decode_token body of
                   None \<Rightarrow> (w, Inl ''decode token response: invalid JSON'')
                 | Some (t, a) \<Rightarrow> (w, Inr (if t \<noteq> [] then t else a)))))"

text \<open>The verdict on the final answer of the registry.\<close>

definition manifest_verdict :: "string \<Rightarrow> int \<Rightarrow> string \<times> string" where
  "manifest_verdict uri code =
     (if code = 200 then (''OK'', ''manifest present at '' @ uri)
      else if code = 404 then
        (''Missing'', ''registry returned 404 for '' @ uri @ '' '' @ em_dash
           @ '' trainer reported push success but the manifest isn't there'')
      else if code = 401 \<or> code = 403 then
        (''Unknown'', ''registry returned '' @ itoa code @ '' for '' @ uri @ '' '' @ em_dash
           @ '' operator can't see this repo (auth issue); persistence may still be working'')
      else (''Unknown'', ''registry returned HTTP '' @ itoa code @ '' for '' @ uri))"

definition header_get :: "http_response \<Rightarrow> string \<Rightarrow> string" where
  "header_get resp k = (case gm_get (hs_Header resp) k of Some v \<Rightarrow> v | None \<Rightarrow> [])"

definition verify_adapter_artifact ::
    "'w op_env \<Rightarrow> 'w \<Rightarrow> project \<Rightarrow> string \<Rightarrow> 'w \<times> string \<times> string" where
  "verify_adapter_artifact env w p uri =
     (case split_oci_uri uri of
        Inl e \<Rightarrow> (w, ''Unknown'', ''malformed adapter URI '' @ go_quote uri @ '': '' @ e)
      | Inr (registry, repo, tag) \<Rightarrow>
     (let basic = read_quay_basic_auth env w (om_Namespace (p_meta p)) registry;
          url = ''https://'' @ registry @ ''/v2/'' @ repo @ ''/manifests/'' @ tag;
          he = oe_http env
      in case do_manifest_head he w url [] of
        (w, Inl e) \<Rightarrow> (w, ''Unknown'', ''HEAD '' @ url @ '' failed: '' @ e)
      | (w, Inr resp) \<Rightarrow>
         (let (realm, service, scope) = parse_bearer_challenge (header_get resp ''Www-Authenticate'')
          in if hs_Status resp = 401 \<and> basic \<noteq> [] \<and> realm \<noteq> [] then
               (case exchange_for_bearer_token he w realm service scope basic of
                  (w, Inl e) \<Rightarrow>
                    (w, ''Unknown'', ''registry challenged with bearer realm '' @ realm
                       @ '' but token exchange failed: '' @ e)
                | (w, Inr tok) \<Rightarrow>
                    (if tok = [] then (w, manifest_verdict uri (hs_Status resp))
                     else case do_manifest_head he w url (''Bearer '' @ tok) of
                       (w, Inl e) \<Rightarrow> (w, ''Unknown'', ''bearer-authed HEAD '' @ url @ '' failed: '' @ e)
                     | (w, Inr resp') \<Rightarrow> (w, manifest_verdict uri (hs_Status resp'))))
             else (w, manifest_verdict uri (hs_Status resp)))))"

end
