(* ===== verification/Dsp.thy ===== *)
theory Dsp
  imports Trainer
begin

text \<open>
  \<open>autoresearchproject_dsp.go\<close>: the rendering of the pipeline, the registration of pipeline and
  experiment, the submission of a run, and the culling of runs of an older pipeline version.
\<close>

subsection \<open>Names and destinations\<close>

text \<open>\<open>strings.ReplaceAll\<close> of a non-empty text.\<close>

function replace_all :: "string \<Rightarrow> string \<Rightarrow> string \<Rightarrow> string" where
  "replace_all s old new =
     (case s of
        [] \<Rightarrow> []
      | c # r \<Rightarrow>
          (if old \<noteq> [] \<and> has_prefix s old then new @ replace_all (drop (length old) s) old new
           else c # replace_all r old new))"
  by pat_completeness auto
termination by (relation "measure (\<lambda>(s, old, new). length s)") (auto simp: has_prefix_iff)

declare replace_all.simps [simp del]

text \<open>The round of a run identifier; 0 when it has another form.\<close>

definition extract_round_from_run_id :: "string \<Rightarrow> string \<Rightarrow> int" where
  "extract_round_from_run_id run_id project_name =
     (let prefix = project_name @ ''-round-''
      in if \<not> has_prefix run_id prefix then 0
         else case atoi (trim_prefix run_id prefix) of None \<Rightarrow> 0 | Some n \<Rightarrow> to_int32 n)"

definition round_tag :: string where
  "round_tag = [CHR 0x7B, CHR 0x7B] @ ''.Round'' @ [CHR 0x7D, CHR 0x7D]"

definition derive_quay_push_destination :: "project \<Rightarrow> int \<Rightarrow> string" where
  "derive_quay_push_destination p rnd =
     (let registry = ''quay-quay-quay-test.apps.salamander.aimlworkbench.com'';
          repo = ''deanpeterson/'' @ om_Namespace (p_meta p) @ ''-'' @ om_Name (p_meta p);
          tag = ''round-'' @ itoa rnd;
          quay = (case ps_AdapterStorage (p_Spec p) of None \<Rightarrow> None | Some a \<Rightarrow> as_Quay a)
      in case quay of
           None \<Rightarrow> registry @ ''/'' @ repo @ '':'' @ tag
         | Some q \<Rightarrow>
             default_if_empty (aq_Registry q) registry @ ''/'' @ default_if_empty (aq_Repository q) repo @ '':''
             @ (if aq_TagPattern q \<noteq> [] then replace_all (aq_TagPattern q) round_tag (itoa rnd) else tag))"

definition registry_namespace :: string where
  "registry_namespace = ''rhoai-model-registries''"

definition derive_model_registry_target ::
    "'w op_env \<Rightarrow> 'w \<Rightarrow> project \<Rightarrow> string \<times> string \<times> string" where
  "derive_model_registry_target env w p =
     (let mr = (case ps_AdapterStorage (p_Spec p) of None \<Rightarrow> None | Some a \<Rightarrow> as_ModelRegistry a);
          inst = (case mr of None \<Rightarrow> ''default-modelregistry''
                  | Some m \<Rightarrow> default_if_empty (amr_RegistryInstance m) ''default-modelregistry'');
          reg_name = (case mr of None \<Rightarrow> om_Name (p_meta p)
                      | Some m \<Rightarrow> default_if_empty (amr_Name m) (om_Name (p_meta p)));
          candidates = [(inst, 8080 :: int), (inst @ ''-rest'', 8443)]
      in case find (\<lambda>(n, port). is_ok (oe_get_service env w registry_namespace n)) candidates of
           Some (n, port) \<Rightarrow>
             (''https://'' @ n @ ''.'' @ registry_namespace @ ''.svc.cluster.local:'' @ itoa port, reg_name, [])
         | None \<Rightarrow>
             ([], reg_name, ''Service '' @ registry_namespace @ ''/'' @ inst @ '' (and '' @ inst
                @ ''-rest) both missing '' @ em_dash @ '' is a ModelRegistry instance created in this cluster?''))"

subsection \<open>The pipeline\<close>

definition trainer_image_placeholder :: string where
  "trainer_image_placeholder = [CHR 0x7B, CHR 0x7B] @ ''TRAINER_IMAGE'' @ [CHR 0x7D, CHR 0x7D]"

definition env_or :: "'w op_env \<Rightarrow> string \<Rightarrow> string \<Rightarrow> string" where
  "env_or env key fallback = default_if_empty (oe_getenv env key) fallback"

definition default_trainer_image :: "'w op_env \<Rightarrow> string" where
  "default_trainer_image env = env_or env ''TRAINER_IMAGE'' ''quay.io/dpeterso/autoresearch-trainer:v0.0.13''"

definition resolve_trainer_image :: "'w op_env \<Rightarrow> 'w \<Rightarrow> project \<Rightarrow> string" where
  "resolve_trainer_image env w p =
     (if trn_Image (ps_Trainer (p_Spec p)) \<noteq> [] then trn_Image (ps_Trainer (p_Spec p))
      else case oe_get_config_map env w (om_Namespace (p_meta p)) ''autoresearch-defaults'' of
        Inl _ \<Rightarrow> default_trainer_image env
      | Inr data \<Rightarrow>
         (case gm_get data ''trainerImage'' of
            None \<Rightarrow> default_trainer_image env
          | Some v \<Rightarrow> (if trim_space v \<noteq> [] then trim_space v else default_trainer_image env)))"

definition render_pipeline_yaml :: "'w op_env \<Rightarrow> 'w \<Rightarrow> project \<Rightarrow> string result" where
  "render_pipeline_yaml env w p =
     (if \<not> str_contains (oe_pipeline_yaml env) trainer_image_placeholder then
        Inl (''embedded pipeline.yaml missing '' @ trainer_image_placeholder @ '' placeholder '' @ em_dash
             @ '' someone reverted the templating in pipeline.yaml'')
      else
        let rendered = replace_all (oe_pipeline_yaml env) trainer_image_placeholder (resolve_trainer_image env w p)
        in if str_contains rendered trainer_image_placeholder then
             Inl (''renderPipelineYAML: '' @ trainer_image_placeholder @ '' placeholder survived substitution ''
                  @ em_dash @ '' this means the template has a form ReplaceAll can't handle; refusing to upload'')
           else Inr rendered)"

definition dsp_pipeline_name :: string where
  "dsp_pipeline_name = ''autoresearch-qlora-train-eval''"

definition dsp_pipeline_description :: string where
  "dsp_pipeline_description = ''Karpathy-style AutoResearch QLoRA fine-tune + eval cycle. ''
     @ ''Operator submits one Run per AutoResearchProject cycle; eval_loss feeds keep/revert.''"

text \<open>A step over the world, inside a step over the state of the operator.\<close>

definition at_world :: "'w op_state \<Rightarrow> 'w \<times> 'a \<Rightarrow> 'w op_state \<times> 'a" where
  "at_world st r = (st\<lparr>op_world := fst r\<rparr>, snd r)"

definition ensure_dsp_registration ::
    "'w op_env \<Rightarrow> 'w op_state \<Rightarrow> project \<Rightarrow> 'w op_state \<times> (string \<times> string \<times> string) result" where
  "ensure_dsp_registration env st p =
     and_then (dsp_client_for env st (om_Namespace (p_meta p))) (\<lambda>st c.
       case render_pipeline_yaml env (op_world st) p of
         Inl e \<Rightarrow> (st, Inl (''render pipeline: '' @ e))
       | Inr yaml \<Rightarrow>
           and_then (wrap_err ''ensure pipeline: '' (at_world st
               (find_or_create_pipeline (oe_http env) c (op_world st) dsp_pipeline_name
                  dsp_pipeline_description yaml))) (\<lambda>st (pipe, version_id).
             let name = default_if_empty (ps_ExperimentName (p_Spec p)) (om_Name (p_meta p)) in
             and_then (wrap_err ''ensure experiment: '' (at_world st
                 (find_or_create_experiment (oe_http env) c (op_world st) name
                    (''AutoResearchProject '' @ om_Namespace (p_meta p) @ ''/'' @ om_Name (p_meta p)
                     @ '' '' @ em_dash @ '' autonomous QLoRA loop.'')))) (\<lambda>st x.
               (st, Inr (pl_PipelineID pipe, version_id, ex_ExperimentID x)))))"

subsection \<open>Submission\<close>

text \<open>\<open>json.Marshal\<close> of a configuration; a list of target modules that is empty is taken as nil.\<close>

definition qlora_json :: "qlora \<Rightarrow> json result" where
  "qlora_json c =
     (case (json_float (q_LoraDropout c), json_float (q_LearningRate c), json_float (q_WeightDecay c)) of
        (Inr d, Inr lr, Inr wd) \<Rightarrow>
          Inr (JObj
            ([(''round'', json_int (q_Round c)), (''lora_rank'', json_int (q_LoraRank c)),
              (''lora_alpha'', json_int (q_LoraAlpha c)), (''lora_dropout'', JNum d),
              (''target_modules'', if q_TargetModules c = [] then JNull else JArr (map JStr (q_TargetModules c))),
              (''learning_rate'', JNum lr), (''num_training_steps'', json_int (q_NumTrainingSteps c)),
              (''per_device_batch_size'', json_int (q_PerDeviceBatch c)),
              (''gradient_accumulation_steps'', json_int (q_GradAccum c)),
              (''max_seq_length'', json_int (q_MaxSeqLen c)), (''warmup_steps'', json_int (q_WarmupSteps c)),
              (''weight_decay'', JNum wd)]
             @ (if q_OffloadStrategy c = [] then [] else [(''offload_strategy'', JStr (q_OffloadStrategy c))])
             @ (if q_Notes c = [] then [] else [(''notes'', JStr (q_Notes c))])))
      | (Inl e, _, _) \<Rightarrow> Inl e
      | (_, Inl e, _) \<Rightarrow> Inl e
      | (_, _, Inl e) \<Rightarrow> Inl e)"

definition sample_count :: "project \<Rightarrow> int" where
  "sample_count p =
     (let n = deref (td_SampleCount (ps_TrainingData (p_Spec p))) 2000
      in if ps_ValidationMode (p_Spec p) \<and> n > 200 then 200 else n)"

definition run_parameters ::
    "project \<Rightarrow> string \<Rightarrow> int \<Rightarrow> json \<Rightarrow> string \<Rightarrow> string \<Rightarrow> (string \<times> json) list" where
  "run_parameters p run_id rnd cfg mr_url mr_name =
     (let s = p_Spec p in
      [(''base_model'', JStr (bm_HuggingfaceID (ps_BaseModel s))),
       (''base_model_revision'', JStr (default_if_empty (bm_Revision (ps_BaseModel s)) ''main'')),
       (''training_data'', JStr (td_HuggingfaceDataset (ps_TrainingData s))),
       (''training_split'', JStr (default_if_empty (td_Split (ps_TrainingData s)) ''train'')),
       (''training_sample_count'', json_int (sample_count p)),
       (''qlora_config_json'', JStr (json_print cfg)),
       (''eval_metric'', JStr (default_if_empty (ev_Metric (ps_Eval s)) ''eval_loss'')),
       (''eval_direction'', JStr (default_if_empty (ev_Direction (ps_Eval s)) ''minimize'')),
       (''autoresearch_project'', JStr (om_Name (p_meta p))),
       (''autoresearch_round'', json_int rnd),
       (''autoresearch_run_id'', JStr run_id),
       (''adapter_push_destination'', JStr (derive_quay_push_destination p rnd)),
       (''model_registry_url'', JStr mr_url),
       (''model_registry_name'', JStr mr_name)])"

definition registry_condition :: "gotime \<Rightarrow> string \<times> string \<times> string \<Rightarrow> project_condition" where
  "registry_condition now target =
     (case target of (url, name, reason) \<Rightarrow>
        if url \<noteq> [] then
          condition now ''ModelRegistryAvailable'' ''True'' ''Discovered''
            (''registering ModelVersion in '' @ url @ '' as '' @ go_quote name)
        else condition now ''ModelRegistryAvailable'' ''False'' ''ServiceMissing'' reason)"

text \<open>The project comes back with its registry condition, also when creating the run fails.\<close>

definition submit_dsp_run ::
    "'w op_env \<Rightarrow> 'w op_state \<Rightarrow> project \<Rightarrow> string \<Rightarrow> int \<Rightarrow> qlora
     \<Rightarrow> 'w op_state \<times> project \<times> dsp_run result" where
  "submit_dsp_run env st p run_id rnd cfg =
     (case dsp_client_for env st (om_Namespace (p_meta p)) of
        (st, Inl e) \<Rightarrow> (st, p, Inl e)
      | (st, Inr c) \<Rightarrow>
     (case ensure_dsp_registration env st p of
        (st, Inl e) \<Rightarrow> (st, p, Inl e)
      | (st, Inr (pipeline_id, _, experiment_id)) \<Rightarrow>
     (case qlora_json cfg of
        Inl e \<Rightarrow> (st, p, Inl (''marshal config: '' @ e))
      | Inr j \<Rightarrow>
         (let target = derive_model_registry_target env (op_world st) p;
              p1 = set_cond (registry_condition (oe_now env) target) p
          in case target of (mr_url, mr_name, _) \<Rightarrow>
             (case wrap_err ''create DSP run: '' (at_world st
                 (create_run (oe_http env) c (op_world st) run_id experiment_id pipeline_id
                   (run_parameters p run_id rnd j mr_url mr_name))) of
                (st, r) \<Rightarrow> (st, p1, r))))))"

subsection \<open>Culling\<close>

text \<open>\<open>time.Parse(time.RFC3339, s)\<close> on texts whose hour has two digits.\<close>

definition days_in_month :: "nat \<Rightarrow> nat \<Rightarrow> nat" where
  "days_in_month y m =
     (if m = 2 then (if 4 dvd y \<and> (\<not> 100 dvd y \<or> 400 dvd y) then 29 else 28)
      else if m \<in> {4, 6, 9, 11} then 30 else 31)"

definition days_from_civil :: "int \<Rightarrow> int \<Rightarrow> int \<Rightarrow> int" where
  "days_from_civil y m d =
     (let y' = (if m \<le> 2 then y - 1 else y); era = y' div 400; yoe = y' - era * 400;
          doy = (153 * (if m > 2 then m - 3 else m + 9) + 2) div 5 + d - 1;
          doe = yoe * 365 + yoe div 4 - yoe div 100 + doy
      in era * 146097 + doe - 719468)"

definition parse_zone :: "string \<Rightarrow> int option" where
  "parse_zone z =
     (if z = ''Z'' then Some 0
      else case z of
        [s, a, b, c, d, e] \<Rightarrow>
          (if (s = CHR ''+'' \<or> s = CHR ''-'') \<and> c = CHR '':'' then
             (case (parse_nat [a, b], parse_nat [d, e]) of
                (Some h, Some m) \<Rightarrow>
                  (if h \<le> 24 \<and> m \<le> 60
                   then Some ((if s = CHR ''-'' then -1 else 1) * (int h * 3600 + int m * 60)) else None)
              | _ \<Rightarrow> None)
           else None)
      | _ \<Rightarrow> None)"

definition parse_rfc3339 :: "string \<Rightarrow> gotime option" where
  "parse_rfc3339 s =
     (let num = (\<lambda>i n. parse_nat (take n (drop i s)));
          seps = map (\<lambda>i. if i < length s then s ! i else CHR 0x00) [4, 7, 10, 13, 16]
      in if length s < 20 \<or> seps \<noteq> ''--T::'' then None
         else case (num 0 4, num 5 2, num 8 2, num 11 2, num 14 2, num 17 2) of
           (Some y, Some mo, Some d, Some h, Some mi, Some sec) \<Rightarrow>
             (let r = drop 19 s;
                  frac = (if has_prefix r ''.'' \<or> has_prefix r '','' then takeWhile is_digit (drop 1 r) else []);
                  ok = (mo \<in> {1..12} \<and> 1 \<le> d \<and> d \<le> days_in_month y mo \<and> h < 24 \<and> mi < 60 \<and> sec < 60);
                  ns = digits_val (take 9 (frac @ replicate 9 (CHR ''0'')))
              in if \<not> ok then None
                 else case parse_zone (if frac = [] then r else drop (1 + length frac) r) of
                   None \<Rightarrow> None
                 | Some off \<Rightarrow>
                     Some ((days_from_civil (int y) (int mo) (int d) * 86400
                            + int h * 3600 + int mi * 60 + int sec - off) * 1000000000 + int ns))
         | _ \<Rightarrow> None)"

definition stale_run :: "string \<Rightarrow> dsp_run \<Rightarrow> bool" where
  "stale_run current run \<longleftrightarrow>
     pr_PipelineVersionID (run_Version run) \<notin> {[], current}"

definition superseded_record :: "gotime \<Rightarrow> project \<Rightarrow> string \<Rightarrow> dsp_run \<Rightarrow> experiment_record" where
  "superseded_record now p display_id run =
     (let rnd = extract_round_from_run_id display_id (om_Name (p_meta p)) in
      \<lparr>er_Round = rnd, er_RunID = display_id, er_Experimenter = exp_Workstation (ps_Experimenter (p_Spec p)),
       er_ProposalPath = ''proposals/round-'' @ itoa rnd @ ''.yaml'', er_EvalLoss = ''superseded'',
       er_MetricValue = [], er_Kept = Some False, er_AdapterArtifactURI = [],
       er_StartedAt = parse_rfc3339 (run_CreatedAt run), er_CompletedAt = Some now\<rparr>)"

definition cull_run ::
    "'w op_env \<Rightarrow> dsp_client \<Rightarrow> string \<Rightarrow> 'w op_state \<times> project \<times> nat \<Rightarrow> string \<times> string
     \<Rightarrow> 'w op_state \<times> project \<times> nat" where
  "cull_run env c current acc entry =
     (case (acc, entry) of ((st, p, culled), (display_id, dsp_run_id)) \<Rightarrow>
       (case get_run (oe_http env) c (op_world st) dsp_run_id of
          (w, Inl _) \<Rightarrow> (st\<lparr>op_world := w\<rparr>, p, culled)
        | (w, Inr run) \<Rightarrow>
           (if \<not> stale_run current run then (st\<lparr>op_world := w\<rparr>, p, culled)
            else
              let ns = om_Namespace (p_meta p);
                  w1 = foldl (\<lambda>w n. oe_delete_workflow env ns n w) w
                         (oe_list_workflows env w ns [(''pipeline/runid'', dsp_run_id)]);
                  w2 = fst (delete_run (oe_http env) c w1 dsp_run_id)
              in (st\<lparr>op_world := w2\<rparr>,
                  upd_status (\<lambda>s. s\<lparr>st_OpenRuns := gm_del (st_OpenRuns s) display_id,
                     st_RecentRuns := st_RecentRuns s @ [superseded_record (oe_now env) p display_id run]\<rparr>) p,
                  Suc culled))))"

definition cull_stale_open_runs ::
    "'w op_env \<Rightarrow> 'w op_state \<Rightarrow> project \<Rightarrow> string \<Rightarrow> 'w op_state \<times> project \<times> nat result" where
  "cull_stale_open_runs env st p current =
     (let open_runs = st_OpenRuns (p_Status p) in
      if current = [] \<or> open_runs = [] then (st, p, Inr 0)
      else case dsp_client_for env st (om_Namespace (p_meta p)) of
        (st, Inl e) \<Rightarrow> (st, p, Inl e)
      | (st, Inr c) \<Rightarrow>
         (case foldl (cull_run env c current) (st, p, 0) open_runs of
            (st, p, culled) \<Rightarrow> (st, p, Inr culled)))"

end
