(* ===== verification/Drain.thy ===== *)
theory Drain
  imports Dsp
begin

text \<open>
  \<open>drainOpenJobs\<close> of \<open>autoresearchproject_controller.go\<close>: every open run is polled; a run that has
  ended, or that has outlived its budget, is taken off the open runs and booked into the status.
\<close>

subsection \<open>Booking a run\<close>

text \<open>The condition \<open>AdapterPushOK\<close> after a successful run.\<close>

definition adapter_condition :: "gotime \<Rightarrow> string \<times> string \<Rightarrow> project_condition" where
  "adapter_condition now verdict =
     (case verdict of (status, detail) \<Rightarrow>
        if status = ''Missing'' then condition now ''AdapterPushOK'' ''False'' ''ManifestMissing'' detail
        else if status = ''Unknown'' then condition now ''AdapterPushOK'' ''Unknown'' ''VerifyInconclusive'' detail
        else condition now ''AdapterPushOK'' ''True'' ''Verified'' detail)"

definition empty_uri_condition :: "gotime \<Rightarrow> project_condition" where
  "empty_uri_condition now = condition now ''AdapterPushOK'' ''False'' ''EmptyURI''
     (''spec.adapterStorage is configured but trainer reported an ''
      @ ''empty adapter_uri '' @ em_dash @ '' the push step in run.py likely failed ''
      @ ''silently (check the round's pod logs for a [autoresearch] ''
      @ ''WARN line)'')"

definition check_adapter ::
    "'w op_env \<Rightarrow> 'w op_state \<Rightarrow> project \<Rightarrow> string \<Rightarrow> 'w op_state \<times> project" where
  "check_adapter env st p uri =
     (if uri \<noteq> [] then
        (case verify_adapter_artifact env (op_world st) p uri of
           (w, verdict) \<Rightarrow> (st\<lparr>op_world := w\<rparr>, set_cond (adapter_condition (oe_now env) verdict) p))
      else if ps_AdapterStorage (p_Spec p) \<noteq> None then (st, set_cond (empty_uri_condition (oe_now env)) p)
      else (st, p))"

text \<open>The result page is pushed for every run that succeeded, with the loss 0 when none was found.\<close>

definition push_result ::
    "'w op_env \<Rightarrow> 'w op_state \<Rightarrow> project \<Rightarrow> string \<Rightarrow> gofloat \<Rightarrow> string \<Rightarrow> bool
     \<Rightarrow> 'w op_state \<times> project" where
  "push_result env st p display_id loss uri kept =
     (let rnd = extract_round_from_run_id display_id (om_Name (p_meta p)); now = oe_now env in
      case wiki_push_result (oe_cluster env) (oe_wiki env) now (op_remote st) p rnd loss uri kept of
        (remote, Some e) \<Rightarrow>
          (st\<lparr>op_remote := remote\<rparr>,
           set_cond (condition now ''WikiSyncOK'' ''False'' ''ResultPushFailed'' (truncate_msg e 256)) p)
      | (remote, None) \<Rightarrow>
          (st\<lparr>op_remote := remote\<rparr>,
           set_cond (condition now ''WikiSyncOK'' ''True'' ''ResultPushed''
             (''results/round-'' @ itoa rnd @ ''.md + log/log.md committed to wiki'')) p))"

text \<open>What is learnt from a run that succeeded: loss, adapter, kept, and whether there was a result.\<close>

record drained =
  dr_loss :: gofloat
  dr_uri :: string
  dr_kept :: bool
  dr_ok :: bool

definition failed_drain :: drained where
  "failed_drain = \<lparr>dr_loss = Fin 0, dr_uri = [], dr_kept = False, dr_ok = False\<rparr>"

definition read_drain :: "'w op_env \<Rightarrow> 'w \<Rightarrow> project \<Rightarrow> dsp_run \<Rightarrow> drained" where
  "read_drain env w p run =
     (if run_State run \<noteq> ''SUCCEEDED'' then failed_drain
      else case read_full_result env w (om_Namespace (p_meta p)) (run_RunID run) of
        None \<Rightarrow> failed_drain
      | Some full \<Rightarrow>
          \<lparr>dr_loss = ar_EvalLoss full, dr_uri = ar_AdapterURI full,
           dr_kept = is_improvement p (ar_EvalLoss full), dr_ok = True\<rparr>)"

text \<open>The first record of the run in \<open>RecentRuns\<close> is completed.\<close>

definition complete_record :: "gotime \<Rightarrow> drained \<Rightarrow> experiment_record \<Rightarrow> experiment_record" where
  "complete_record now d r =
     (let r1 = (if dr_ok d then
                  r\<lparr>er_EvalLoss := fmt_fixed 6 (dr_loss d), er_Kept := Some (dr_kept d),
                    er_AdapterArtifactURI := (if dr_uri d \<noteq> [] then dr_uri d else er_AdapterArtifactURI r)\<rparr>
                else r\<lparr>er_Kept := Some False\<rparr>)
      in r1\<lparr>er_CompletedAt := Some now\<rparr>)"

fun complete_first :: "gotime \<Rightarrow> string \<Rightarrow> drained \<Rightarrow> experiment_record list \<Rightarrow> experiment_record list" where
  "complete_first now display_id d [] = []"
| "complete_first now display_id d (r # rs) =
     (if er_RunID r = display_id then complete_record now d r # rs
      else r # complete_first now display_id d rs)"

definition to_int32_inc :: "int \<Rightarrow> int" where
  "to_int32_inc n = to_int32 (n + 1)"

definition book_run :: "gotime \<Rightarrow> string \<Rightarrow> drained \<Rightarrow> project_status \<Rightarrow> project_status" where
  "book_run now display_id d s =
     (let s1 = s\<lparr>st_RecentRuns := complete_first now display_id d (st_RecentRuns s),
                 st_ExperimentsRun := to_int32_inc (st_ExperimentsRun s)\<rparr>;
          s2 = (if dr_kept d then
                  s1\<lparr>st_ExperimentsKept := to_int32_inc (st_ExperimentsKept s1),
                     st_BestEvalLoss := fmt_fixed 6 (dr_loss d), st_BestRunID := display_id\<rparr>
                else s1);
          s3 = s2\<lparr>st_ConsecutiveDrainFailures :=
                    (if dr_ok d then 0 else to_int32_inc (st_ConsecutiveDrainFailures s2))\<rparr>
      in s3\<lparr>st_OpenRuns := gm_del (st_OpenRuns s3) display_id,
            st_OpenRunStartedAt := gm_del (st_OpenRunStartedAt s3) display_id\<rparr>)"

definition finish_run ::
    "'w op_env \<Rightarrow> 'w op_state \<Rightarrow> project \<Rightarrow> string \<Rightarrow> dsp_run \<Rightarrow> 'w op_state \<times> project" where
  "finish_run env st p display_id run =
     (let d = read_drain env (op_world st) p run;
          (st1, p1) = (if run_State run = ''SUCCEEDED'' then
                         (case check_adapter env st p (dr_uri d) of
                            (st, p) \<Rightarrow> push_result env st p display_id (dr_loss d) (dr_uri d) (dr_kept d))
                       else (st, p))
      in (st1, upd_status (book_run (oe_now env) display_id d) p1))"

subsection \<open>The loop\<close>

definition max_round_duration :: "project \<Rightarrow> int" where
  "max_round_duration p =
     (let d = minutes (lc_MaxRoundDurationMinutes (ps_LoopConfig (p_Spec p)))
      in if d \<le> 0 then minutes 120 else d)"

text \<open>The fate of a run that was polled: it has ended, has outlived its budget, or goes on.\<close>

datatype fate = Ended | TimedOut | GoesOn

definition run_fate :: "gotime \<Rightarrow> project \<Rightarrow> string \<Rightarrow> dsp_run \<Rightarrow> fate" where
  "run_fate now p display_id run =
     (if is_run_terminal (run_State run) then Ended
      else case gm_get (st_OpenRunStartedAt (p_Status p)) display_id of
        Some t \<Rightarrow> (if now - t > max_round_duration p then TimedOut else GoesOn)
      | None \<Rightarrow> GoesOn)"

definition drain_run ::
    "'w op_env \<Rightarrow> dsp_client \<Rightarrow> 'w op_state \<times> project \<times> bool \<Rightarrow> string \<times> string
     \<Rightarrow> 'w op_state \<times> project \<times> bool" where
  "drain_run env c acc entry =
     (case (acc, entry) of ((st, p, completed), (display_id, dsp_run_id)) \<Rightarrow>
       (case get_run (oe_http env) c (op_world st) dsp_run_id of
          (w, Inl _) \<Rightarrow> (st\<lparr>op_world := w\<rparr>, p, completed)
        | (w, Inr run) \<Rightarrow>
           (case run_fate (oe_now env) p display_id run of
              GoesOn \<Rightarrow> (st\<lparr>op_world := w\<rparr>, p, completed)
            | Ended \<Rightarrow>
                (case finish_run env (st\<lparr>op_world := w\<rparr>) p display_id run of (st, p) \<Rightarrow> (st, p, True))
            | TimedOut \<Rightarrow>
                (case finish_run env
                   (st\<lparr>op_world := kill_trainer_pods env w (om_Namespace (p_meta p)) (run_RunID run)\<rparr>) p
                   display_id (run\<lparr>run_State := ''FAILED''\<rparr>) of (st, p) \<Rightarrow> (st, p, True)))))"

definition drain_open_jobs ::
    "'w op_env \<Rightarrow> 'w op_state \<Rightarrow> project \<Rightarrow> 'w op_state \<times> project \<times> bool result" where
  "drain_open_jobs env st p =
     (let open_runs = st_OpenRuns (p_Status p) in
      if open_runs = [] then (st, p, Inr False)
      else case dsp_client_for env st (om_Namespace (p_meta p)) of
        (st, Inl e) \<Rightarrow> (st, p, Inl (''dspClientFor: '' @ e))
      | (st, Inr c) \<Rightarrow>
         (case foldl (drain_run env c) (st, p, False) open_runs of
            (st, p, completed) \<Rightarrow> (st, p, Inr completed)))"

subsection \<open>One step of the loop\<close>

text \<open>The runs that a drain takes off, given what the pipeline server answers.\<close>

definition finished :: "gotime \<Rightarrow> project \<Rightarrow> string \<Rightarrow> dsp_run result \<Rightarrow> bool" where
  "finished now p display_id answer =
     (case answer of Inl _ \<Rightarrow> False | Inr run \<Rightarrow> run_fate now p display_id run \<noteq> GoesOn)"

text \<open>Booking a run touches the fields below and no other.\<close>

lemma book_run_simps [simp]:
  "st_OpenRuns (book_run now k d s) = gm_del (st_OpenRuns s) k"
  "st_OpenRunStartedAt (book_run now k d s) = gm_del (st_OpenRunStartedAt s) k"
  "st_ExperimentsRun (book_run now k d s) = to_int32 (st_ExperimentsRun s + 1)"
  "st_ConsecutiveDrainFailures (book_run now k d s)
     = (if dr_ok d then 0 else to_int32 (st_ConsecutiveDrainFailures s + 1))"
  "st_RecentRuns (book_run now k d s) = complete_first now k d (st_RecentRuns s)"
  "st_Round (book_run now k d s) = st_Round s"
  "st_Phase (book_run now k d s) = st_Phase s"
  "st_LastCycleTime (book_run now k d s) = st_LastCycleTime s"
  "st_Conditions (book_run now k d s) = st_Conditions s"
  by (simp_all add: book_run_def Let_def to_int32_inc_def)

lemma check_adapter_project:
  "snd (check_adapter env st p uri) = p \<or> (\<exists>c. snd (check_adapter env st p uri) = set_cond c p)"
  by (auto simp: check_adapter_def split: prod.splits)

lemma push_result_project:
  "\<exists>c. snd (push_result env st p k loss uri kept) = set_cond c p"
  by (auto simp: push_result_def Let_def split: prod.splits option.splits)

text \<open>What a drain may change besides the booking: the conditions.\<close>

definition same_but_conditions :: "project \<Rightarrow> project \<Rightarrow> bool" where
  "same_but_conditions p q \<longleftrightarrow>
     p_Spec q = p_Spec p \<and> p_meta q = p_meta p
     \<and> (p_Status q)\<lparr>st_Conditions := []\<rparr> = (p_Status p)\<lparr>st_Conditions := []\<rparr>"

lemma same_but_conditions_refl [simp]: "same_but_conditions p p"
  by (simp add: same_but_conditions_def)

lemma same_but_conditions_set [simp]: "same_but_conditions p (set_cond c q) = same_but_conditions p q"
  by (simp add: same_but_conditions_def set_cond_def)

lemma same_but_conditionsD:
  assumes "same_but_conditions p q"
  shows "p_Spec q = p_Spec p" "p_meta q = p_meta p"
    "st_OpenRuns (p_Status q) = st_OpenRuns (p_Status p)"
    "st_OpenRunStartedAt (p_Status q) = st_OpenRunStartedAt (p_Status p)"
    "st_ExperimentsRun (p_Status q) = st_ExperimentsRun (p_Status p)"
    "st_ConsecutiveDrainFailures (p_Status q) = st_ConsecutiveDrainFailures (p_Status p)"
    "st_RecentRuns (p_Status q) = st_RecentRuns (p_Status p)"
    "st_Round (p_Status q) = st_Round (p_Status p)"
    "st_Phase (p_Status q) = st_Phase (p_Status p)"
    "st_LastCycleTime (p_Status q) = st_LastCycleTime (p_Status p)"
    "st_ExperimentsKept (p_Status q) = st_ExperimentsKept (p_Status p)"
    "st_BestEvalLoss (p_Status q) = st_BestEvalLoss (p_Status p)"
    "st_BestRunID (p_Status q) = st_BestRunID (p_Status p)"
  using assms unfolding same_but_conditions_def
  by (cases "p_Status p"; cases "p_Status q"; simp)+

lemma finish_run_project:
  "\<exists>q. same_but_conditions p q
     \<and> snd (finish_run env st p k run)
         = upd_status (book_run (oe_now env) k (read_drain env (op_world st) p run)) q"
proof (cases "run_State run = ''SUCCEEDED''")
  case True
  let ?d = "read_drain env (op_world st) p run"
  obtain st1 p1 where c: "check_adapter env st p (dr_uri ?d) = (st1, p1)" by fastforce
  then have p1: "same_but_conditions p p1"
    using check_adapter_project [of env st p "dr_uri ?d"] by auto
  obtain c' where "snd (push_result env st1 p1 k (dr_loss ?d) (dr_uri ?d) (dr_kept ?d)) = set_cond c' p1"
    using push_result_project by blast
  with True c p1 show ?thesis
    by (intro exI [of _ "set_cond c' p1"]) (simp add: finish_run_def Let_def split_beta)
next
  case False
  then show ?thesis by (intro exI [of _ p]) (simp add: finish_run_def Let_def)
qed

lemma drain_run_project:
  assumes "snd (get_run (oe_http env) c (op_world st) dsp_id) = answer"
    "drain_run env c (st, p, b) (k, dsp_id) = (st', p', b')"
  shows "if finished (oe_now env) p k answer
         then b' \<and> (\<exists>q d. same_but_conditions p q \<and> p' = upd_status (book_run (oe_now env) k d) q
                      \<and> (dr_ok d \<or> dr_kept d \<longrightarrow> (\<exists>run. answer = Inr run \<and> run_State run = ''SUCCEEDED'')))
         else b' = b \<and> p' = p"
proof (cases answer)
  case (Inl e)
  with assms show ?thesis by (auto simp: drain_run_def finished_def split: prod.splits)
next
  case (Inr run)
  obtain w where w: "get_run (oe_http env) c (op_world st) dsp_id = (w, Inr run)"
    using assms(1) Inr by (metis prod.collapse)
  have ok: "dr_ok (read_drain env v p r) \<or> dr_kept (read_drain env v p r) \<Longrightarrow> run_State r = ''SUCCEEDED''" for v r
    by (simp add: read_drain_def failed_drain_def split: if_splits)
  have fin: "\<exists>q d. same_but_conditions p q \<and> p' = upd_status (book_run (oe_now env) k d) q
      \<and> (dr_ok d \<or> dr_kept d \<longrightarrow> run_State r = ''SUCCEEDED'')"
    if "finish_run env s p k r = (st', p')" for s r
    using finish_run_project [of p env s k r] ok that by (metis snd_conv)
  show ?thesis
  proof (cases "run_fate (oe_now env) p k run")
    case GoesOn
    then show ?thesis using assms(2) w Inr by (auto simp: drain_run_def finished_def)
  next
    case Ended
    then have "finish_run env (st\<lparr>op_world := w\<rparr>) p k run = (st', p')" "b'"
      using assms(2) w by (auto simp: drain_run_def split: prod.splits)
    with fin Ended Inr show ?thesis by (fastforce simp: finished_def)
  next
    case TimedOut
    then have "finish_run env (st\<lparr>op_world := kill_trainer_pods env w (om_Namespace (p_meta p)) (run_RunID run)\<rparr>)
        p k (run\<lparr>run_State := ''FAILED''\<rparr>) = (st', p')" "b'"
      using assms(2) w by (auto simp: drain_run_def split: prod.splits)
    with fin TimedOut Inr show ?thesis by (fastforce simp: finished_def)
  qed
qed

subsection \<open>The whole pass\<close>

lemma max_round_duration_frame: "p_Spec q = p_Spec p \<Longrightarrow> max_round_duration q = max_round_duration p"
  by (simp add: max_round_duration_def)

lemma run_fate_frame:
  assumes "same_but_conditions p q" "j \<noteq> k"
  shows "run_fate now (upd_status (book_run now' k d) q) j run = run_fate now p j run"
  using assms(2) same_but_conditionsD [OF assms(1)]
    max_round_duration_frame [of "upd_status (book_run now' k d) q" p]
  by (simp add: run_fate_def delete_conv' split: option.split)

lemma finished_frame:
  assumes "same_but_conditions p q" "j \<noteq> k"
  shows "finished now (upd_status (book_run now' k d) q) j a = finished now p j a"
  using run_fate_frame [OF assms] by (simp add: finished_def split: sum.split)

lemma finished_frame_list:
  assumes "same_but_conditions p q" "k \<notin> fst ` set runs"
  shows "filter (\<lambda>(j, i). finished now (upd_status (book_run now' k d) q) j (answer i)) runs
      = filter (\<lambda>(j, i). finished now p j (answer i)) runs"
proof (intro filter_cong refl)
  fix x assume "x \<in> set runs"
  with assms(2) have "fst x \<noteq> k" by (metis image_eqI)
  then show "(case x of (j, i) \<Rightarrow> finished now (upd_status (book_run now' k d) q) j (answer i))
      = (case x of (j, i) \<Rightarrow> finished now p j (answer i))"
    using finished_frame [OF assms(1)] by (simp add: case_prod_unfold)
qed

lemma filter_del: "filter (\<lambda>(j, v). j \<notin> S) (gm_del m k) = filter (\<lambda>(j, v). j \<notin> insert k S) m"
  by (induction m) (auto simp: AList.delete_eq)

lemma to_int32_add: "to_int32 (to_int32 (n + 1) + m) = to_int32 (n + (1 + m))"
  by (simp add: to_int32_def mod_simps algebra_simps)

lemma drain_loop:
  assumes ans: "\<And>w dsp_id. snd (get_run (oe_http env) c w dsp_id) = answer dsp_id"
    and d: "distinct (map fst runs)"
    and f: "foldl (drain_run env c) (st, p, b) runs = (st', p', b')"
  defines "ks \<equiv> map fst (filter (\<lambda>(k, dsp_id). finished (oe_now env) p k (answer dsp_id)) runs)"
  shows "st_OpenRuns (p_Status p') = filter (\<lambda>(k, v). k \<notin> set ks) (st_OpenRuns (p_Status p))
    \<and> st_OpenRunStartedAt (p_Status p') = filter (\<lambda>(k, v). k \<notin> set ks) (st_OpenRunStartedAt (p_Status p))
    \<and> st_ExperimentsRun (p_Status p') = (if ks = [] then st_ExperimentsRun (p_Status p)
         else to_int32 (st_ExperimentsRun (p_Status p) + int (length ks)))
    \<and> b' = (b \<or> ks \<noteq> [])
    \<and> p_Spec p' = p_Spec p \<and> p_meta p' = p_meta p \<and> st_Round (p_Status p') = st_Round (p_Status p)
    \<and> st_LastCycleTime (p_Status p') = st_LastCycleTime (p_Status p)"
  using d f unfolding ks_def
proof (induction runs arbitrary: st p b)
  case Nil
  then show ?case by (simp add: case_prod_unfold)
next
  case (Cons e runs)
  obtain k dsp_id where e: "e = (k, dsp_id)" by fastforce
  obtain st1 p1 b1 where s: "drain_run env c (st, p, b) (k, dsp_id) = (st1, p1, b1)"
    by (metis prod_cases3)
  note step = drain_run_project [OF ans s]
  from Cons.prems e s have d: "distinct (map fst runs)" and k: "k \<notin> fst ` set runs"
    and f: "foldl (drain_run env c) (st1, p1, b1) runs = (st', p', b')" by auto
  note IH = Cons.IH [OF d f]
  show ?case
  proof (cases "finished (oe_now env) p k (answer dsp_id)")
    case False
    with step have "p1 = p" "b1 = b" by auto
    with IH False e show ?thesis by simp
  next
    case True
    with step obtain q dr where q: "same_but_conditions p q" "b1"
      "p1 = upd_status (book_run (oe_now env) k dr) q" by auto
    have fin: "filter (\<lambda>(j, i). finished (oe_now env) p1 j (answer i)) runs
        = filter (\<lambda>(j, i). finished (oe_now env) p j (answer i)) runs"
      unfolding q(3) by (rule finished_frame_list [OF q(1) k])
    note sD = same_but_conditionsD [OF q(1)]
    let ?ks = "map fst (filter (\<lambda>(j, i). finished (oe_now env) p j (answer i)) runs)"
    have ks: "map fst (filter (\<lambda>(j, i). finished (oe_now env) p j (answer i)) (e # runs)) = k # ?ks"
      using True e by simp
    have m: "to_int32 (st_ExperimentsRun (p_Status p) + int (length (k # ?ks)))
        = (if ?ks = [] then to_int32 (st_ExperimentsRun (p_Status p) + 1)
           else to_int32 (to_int32 (st_ExperimentsRun (p_Status p) + 1) + int (length ?ks)))"
      by (simp only: to_int32_add) simp
    show ?thesis
      unfolding ks using IH [unfolded fin] q(2) sD m
      by (simp only: q(3) upd_status_simps book_run_simps filter_del list.set list.simps refl simp_thms if_False)
  qed
qed

lemma drain_finished:
  assumes "dsp_client_for env st (om_Namespace (p_meta p)) = (st0, Inr c)"
    and "\<And>w dsp_id. snd (get_run (oe_http env) c w dsp_id) = answer dsp_id"
    and "gm_wf (st_OpenRuns (p_Status p))"
    and "drain_open_jobs env st p = (st', p', r)"
  defines "ks \<equiv> map fst (filter (\<lambda>(k, dsp_id). finished (oe_now env) p k (answer dsp_id)) (st_OpenRuns (p_Status p)))"
  shows "r = Inr (ks \<noteq> [])
    \<and> st_OpenRuns (p_Status p') = filter (\<lambda>(k, v). k \<notin> set ks) (st_OpenRuns (p_Status p))
    \<and> st_OpenRunStartedAt (p_Status p') = filter (\<lambda>(k, v). k \<notin> set ks) (st_OpenRunStartedAt (p_Status p))
    \<and> st_ExperimentsRun (p_Status p') = (if ks = [] then st_ExperimentsRun (p_Status p)
         else to_int32 (st_ExperimentsRun (p_Status p) + int (length ks)))
    \<and> st_Round (p_Status p') = st_Round (p_Status p)
    \<and> st_LastCycleTime (p_Status p') = st_LastCycleTime (p_Status p)"
proof (cases "st_OpenRuns (p_Status p) = []")
  case True
  with assms(4) show ?thesis by (simp add: drain_open_jobs_def ks_def case_prod_unfold)
next
  case False
  with assms(1,4) obtain b where b: "r = Inr b"
    "foldl (drain_run env c) (st0, p, False) (st_OpenRuns (p_Status p)) = (st', p', b)"
    by (auto simp: drain_open_jobs_def Let_def split: prod.splits)
  have "distinct (map fst (st_OpenRuns (p_Status p)))" using assms(3) by (simp add: gm_wf_def)
  from drain_loop [OF assms(2) this b(2)] b(1) show ?thesis by (simp only: ks_def simp_thms)
qed

text \<open>
  C5: a drain takes off exactly the runs that have ended or outlived their budget. When the pipeline
  client is available and the answers of the server do not change during the pass, the open runs and
  their start times that remain are those of the runs that go on, the number of experiments grows by
  the number of runs taken off, the pass reports whether there was one, and neither the round nor
  the time of the last cycle changes.
\<close>

theorem drain_takes_finished_runs:
  assumes "dsp_client_for env st (om_Namespace (p_meta p)) = (st0, Inr c)"
    and "\<And>w dsp_id. snd (get_run (oe_http env) c w dsp_id) = answer dsp_id"
    and "gm_wf (st_OpenRuns (p_Status p))"
    and "drain_open_jobs env st p = (st', p', r)"
  defines "ks \<equiv> map fst (filter (\<lambda>(k, dsp_id). finished (oe_now env) p k (answer dsp_id)) (st_OpenRuns (p_Status p)))"
  shows "r = Inr (ks \<noteq> [])
    \<and> st_OpenRuns (p_Status p') = filter (\<lambda>(k, v). k \<notin> set ks) (st_OpenRuns (p_Status p))
    \<and> st_OpenRunStartedAt (p_Status p') = filter (\<lambda>(k, v). k \<notin> set ks) (st_OpenRunStartedAt (p_Status p))
    \<and> st_ExperimentsRun (p_Status p') = (if ks = [] then st_ExperimentsRun (p_Status p)
         else to_int32 (st_ExperimentsRun (p_Status p) + int (length ks)))
    \<and> st_Round (p_Status p') = st_Round (p_Status p)
    \<and> st_LastCycleTime (p_Status p') = st_LastCycleTime (p_Status p)"
  unfolding ks_def by (rule drain_finished [OF assms(1-4)])

lemma book_failed_simps [simp]:
  "\<not> dr_kept d \<Longrightarrow> st_ExperimentsKept (book_run now k d s) = st_ExperimentsKept s"
  "\<not> dr_kept d \<Longrightarrow> st_BestEvalLoss (book_run now k d s) = st_BestEvalLoss s"
  "\<not> dr_kept d \<Longrightarrow> st_BestRunID (book_run now k d s) = st_BestRunID s"
  by (simp_all add: book_run_def Let_def)

lemma drain_failures_loop:
  assumes ans: "\<And>w dsp_id. snd (get_run (oe_http env) c w dsp_id) = answer dsp_id"
    and d: "distinct (map fst runs)"
    and ns: "\<And>k dsp_id run. (k, dsp_id) \<in> set runs \<Longrightarrow> answer dsp_id = Inr run \<Longrightarrow> run_State run \<noteq> ''SUCCEEDED''"
    and f: "foldl (drain_run env c) (st, p, b) runs = (st', p', b')"
  defines "n \<equiv> length (filter (\<lambda>(k, dsp_id). finished (oe_now env) p k (answer dsp_id)) runs)"
  shows "st_ConsecutiveDrainFailures (p_Status p')
        = (if n = 0 then st_ConsecutiveDrainFailures (p_Status p)
           else to_int32 (st_ConsecutiveDrainFailures (p_Status p) + int n))
    \<and> st_ExperimentsKept (p_Status p') = st_ExperimentsKept (p_Status p)
    \<and> st_BestEvalLoss (p_Status p') = st_BestEvalLoss (p_Status p)
    \<and> st_BestRunID (p_Status p') = st_BestRunID (p_Status p)"
  using d ns f unfolding n_def
proof (induction runs arbitrary: st p b)
  case Nil
  then show ?case by simp
next
  case (Cons e runs)
  obtain k dsp_id where e: "e = (k, dsp_id)" by fastforce
  obtain st1 p1 b1 where s: "drain_run env c (st, p, b) (k, dsp_id) = (st1, p1, b1)"
    by (metis prod_cases3)
  note step = drain_run_project [OF ans s]
  from Cons.prems(1,3) e s have d: "distinct (map fst runs)" and k: "k \<notin> fst ` set runs"
    and f: "foldl (drain_run env c) (st1, p1, b1) runs = (st', p', b')" by auto
  have ns: "run_State run \<noteq> ''SUCCEEDED''" if "(k', i) \<in> set (e # runs)" "answer i = Inr run" for k' i run
    using Cons.prems(2) that by blast
  have "run_State run \<noteq> ''SUCCEEDED''" if "(k', i) \<in> set runs" "answer i = Inr run" for k' i run
    using ns that by auto
  note IH = Cons.IH [OF d this f]
  show ?case
  proof (cases "finished (oe_now env) p k (answer dsp_id)")
    case False
    with step have "p1 = p" by auto
    with IH False e show ?thesis by simp
  next
    case True
    have "run_State run \<noteq> ''SUCCEEDED''" if "answer dsp_id = Inr run" for run
      using ns [of k dsp_id run] that e by simp
    with True step obtain q dr where q: "same_but_conditions p q" "\<not> dr_ok dr" "\<not> dr_kept dr"
      "p1 = upd_status (book_run (oe_now env) k dr) q" by auto
    have fin: "filter (\<lambda>(j, i). finished (oe_now env) p1 j (answer i)) runs
        = filter (\<lambda>(j, i). finished (oe_now env) p j (answer i)) runs"
      unfolding q(4) by (rule finished_frame_list [OF q(1) k])
    note sD = same_but_conditionsD [OF q(1)]
    let ?n = "length (filter (\<lambda>(j, i). finished (oe_now env) p j (answer i)) runs)"
    have n: "length (filter (\<lambda>(j, i). finished (oe_now env) p j (answer i)) (e # runs)) = Suc ?n"
      using True e by simp
    have m: "to_int32 (st_ConsecutiveDrainFailures (p_Status p) + int (Suc ?n))
        = (if ?n = 0 then to_int32 (st_ConsecutiveDrainFailures (p_Status p) + 1)
           else to_int32 (to_int32 (st_ConsecutiveDrainFailures (p_Status p) + 1) + int ?n))"
      by (simp only: to_int32_add) simp
    show ?thesis
      unfolding n m using IH [unfolded fin] q(2,3) sD
      by (simp only: q(4) upd_status_simps book_run_simps book_failed_simps nat.distinct if_False not_False_eq_True simp_thms)
  qed
qed

text \<open>
  Runs that bring no result drive the circuit breaker. When no run that a drain takes off has
  succeeded (they failed, were skipped or cancelled, or outlived their budget), the counter of
  consecutive failures grows by their number, no round is kept and the best loss stays.
\<close>

theorem drain_counts_failures:
  assumes "dsp_client_for env st (om_Namespace (p_meta p)) = (st0, Inr c)"
    and "\<And>w dsp_id. snd (get_run (oe_http env) c w dsp_id) = answer dsp_id"
    and "gm_wf (st_OpenRuns (p_Status p))"
    and "\<And>k dsp_id run. (k, dsp_id) \<in> set (st_OpenRuns (p_Status p)) \<Longrightarrow> answer dsp_id = Inr run
           \<Longrightarrow> run_State run \<noteq> ''SUCCEEDED''"
    and "drain_open_jobs env st p = (st', p', r)"
  defines "n \<equiv> length (filter (\<lambda>(k, dsp_id). finished (oe_now env) p k (answer dsp_id)) (st_OpenRuns (p_Status p)))"
  shows "st_ConsecutiveDrainFailures (p_Status p')
        = (if n = 0 then st_ConsecutiveDrainFailures (p_Status p)
           else to_int32 (st_ConsecutiveDrainFailures (p_Status p) + int n))
    \<and> st_ExperimentsKept (p_Status p') = st_ExperimentsKept (p_Status p)
    \<and> st_BestEvalLoss (p_Status p') = st_BestEvalLoss (p_Status p)
    \<and> st_BestRunID (p_Status p') = st_BestRunID (p_Status p)"
proof (cases "st_OpenRuns (p_Status p) = []")
  case True
  with assms(5) show ?thesis by (simp add: drain_open_jobs_def n_def)
next
  case False
  with assms(1,5) obtain b where b: "foldl (drain_run env c) (st0, p, False) (st_OpenRuns (p_Status p)) = (st', p', b)"
    by (auto simp: drain_open_jobs_def Let_def split: prod.splits)
  have "distinct (map fst (st_OpenRuns (p_Status p)))" using assms(3) by (simp add: gm_wf_def)
  from drain_failures_loop [OF assms(2) this assms(4) b] show ?thesis by (simp only: n_def)
qed

subsection \<open>A run that succeeded without a result\<close>

lemma begin_wiki_tx_frame:
  "p_meta q = p_meta p \<Longrightarrow> p_Spec q = p_Spec p \<Longrightarrow> begin_wiki_tx cl env remote q = begin_wiki_tx cl env remote p"
  by (simp add: begin_wiki_tx_def)

lemma wiki_push_result_frame:
  "p_meta q = p_meta p \<Longrightarrow> p_Spec q = p_Spec p
     \<Longrightarrow> wiki_push_result cl env now remote q rnd loss uri kept = wiki_push_result cl env now remote p rnd loss uri kept"
  by (simp add: wiki_push_result_def begin_wiki_tx_frame [of q p])

lemma complete_first_failed:
  "\<not> dr_ok d \<Longrightarrow> map er_EvalLoss (complete_first now k d rs) = map er_EvalLoss rs"
  by (induction rs) (simp_all add: complete_record_def)

lemma parse_zero_page: "parse_eval_loss (result_md rnd (Fin 0) kept uri) = Some (Fin 0)"
  using result_page_loss [of rnd 0 kept uri]
  by (simp add: fixed_value_def round_half_even_def f64_of_rat_def)

text \<open>
  A run that ended as SUCCEEDED but left no result line is booked as a failure in the status,
  without a loss; yet its page is pushed to the wiki with the loss 0, which the history loader reads
  as an observation that no real loss can beat.
\<close>

theorem resultless_run_publishes_zero:
  assumes "run_State run = ''SUCCEEDED''"
    and "read_full_result env (op_world st) (om_Namespace (p_meta p)) (run_RunID run) = None"
    and "wiki_push_result (oe_cluster env) (oe_wiki env) (oe_now env) (op_remote st) p
           (extract_round_from_run_id k (om_Name (p_meta p))) (Fin 0) [] False = (remote', None)"
    and "finish_run env st p k run = (st', p')"
    and "begin_wiki_tx (oe_cluster env) env' (op_remote st') p' = Inr tx"
  shows "(\<exists>page. tx_read no_faults tx
              (''results/round-'' @ itoa (extract_round_from_run_id k (om_Name (p_meta p))) @ ''.md'') = Inr page
            \<and> parse_eval_loss page = Some (Fin 0))
    \<and> map er_EvalLoss (st_RecentRuns (p_Status p')) = map er_EvalLoss (st_RecentRuns (p_Status p))
    \<and> st_ConsecutiveDrainFailures (p_Status p') = to_int32 (st_ConsecutiveDrainFailures (p_Status p) + 1)"
proof -
  have d: "read_drain env (op_world st) p run = failed_drain"
    using assms(1,2) by (simp add: read_drain_def)
  obtain p1 where c: "check_adapter env st p [] = (st, p1)" and p1: "same_but_conditions p p1"
    by (cases "ps_AdapterStorage (p_Spec p) = None") (auto simp: check_adapter_def)
  note s = same_but_conditionsD [OF p1]
  have w: "wiki_push_result (oe_cluster env) (oe_wiki env) (oe_now env) (op_remote st) p1
      (extract_round_from_run_id k (om_Name (p_meta p1))) (Fin 0) [] False = (remote', None)"
    using assms(3) wiki_push_result_frame [of p1 p] s by simp
  have r: "op_remote st' = remote'" and p': "\<exists>c'. p' = upd_status (book_run (oe_now env) k failed_drain) (set_cond c' p1)"
    using assms(1,4) d c w by (auto simp: finish_run_def failed_drain_def push_result_def Let_def)
  from p' s have q: "p_meta p' = p_meta p" "p_Spec p' = p_Spec p"
    "st_RecentRuns (p_Status p') = complete_first (oe_now env) k failed_drain (st_RecentRuns (p_Status p))"
    "st_ConsecutiveDrainFailures (p_Status p') = to_int32 (st_ConsecutiveDrainFailures (p_Status p) + 1)"
    by (auto simp: failed_drain_def)
  have "begin_wiki_tx (oe_cluster env) env' remote' p = Inr tx"
    using assms(5) r begin_wiki_tx_frame [OF q(1,2)] by simp
  from pushed_pages [OF assms(3) this] parse_zero_page q show ?thesis
    by (simp add: complete_first_failed failed_drain_def)
qed

subsection \<open>A concrete pass\<close>

definition demo_answer :: "string \<Rightarrow> unit http_env" where
  "demo_answer body = \<lparr>he_url_err = (\<lambda>_. None),
     he_do = (\<lambda>req w. (w, Inr \<lparr>hs_Status = 200, hs_Header = [], hs_Body = Inr body\<rparr>))\<rparr>"

definition demo_env :: "string \<Rightarrow> unit op_env" where
  "demo_env body = \<lparr>oe_now = minutes 180, oe_http = demo_answer body, oe_cluster = demo_cluster,
     oe_wiki = no_faults, oe_clientset = Inr (), oe_list_pods = (\<lambda>_ _ _. Inr []),
     oe_delete_pod = (\<lambda>_ w. (w, None)), oe_pod_log = (\<lambda>_ _ _ _. Inl ''gone''),
     oe_get_service = (\<lambda>_ _ _. Inr ()), oe_get_secret = (\<lambda>_ _ _. Inl ''none''),
     oe_get_config_map = (\<lambda>_ _ _. Inl ''none''), oe_read_token = (\<lambda>_. Inr ''t1''),
     oe_getenv = (\<lambda>_. []), oe_pipeline_yaml = trainer_image_placeholder,
     oe_list_workflows = (\<lambda>_ _ _. []), oe_delete_workflow = (\<lambda>_ _ w. w),
     oe_get_workstation = (\<lambda>_ _ _. Inl ''none''), oe_executor = Inr (),
     oe_exec = (\<lambda>_ _ _ w. (w, [], [], None)), oe_get_project_err = (\<lambda>_. None),
     oe_update_err = (\<lambda>_ _. None), oe_sql_fault = (\<lambda>_ _. None)\<rparr>"

definition demo_state :: "unit op_state" where
  "demo_state = \<lparr>op_world = (), op_remote = demo_remote, op_dsp = [], op_saved = None, op_mlmd = [],
     op_cleanups = []\<rparr>"

definition demo_client :: dsp_client where
  "demo_client = \<lparr>dc_BaseURL = ''https://ds-pipeline-dspa.lab.svc.cluster.local:8443'', dc_Token = ''t1''\<rparr>"

lemma demo_client_for:
  "dsp_client_for (demo_env body) demo_state ''lab''
     = (demo_state\<lparr>op_dsp := [(''lab/dspa'', demo_client)]\<rparr>, Inr demo_client)"
  by (simp add: dsp_client_for_def demo_env_def demo_state_def dspa_name_def) code_simp

definition running_body :: string where
  "running_body = [CHR 0x7B] @ go_quote ''run_id'' @ '':'' @ go_quote ''r1'' @ '','' @ go_quote ''state'' @ '':'' @ go_quote ''RUNNING'' @ [CHR 0x7D]"

definition running_run :: dsp_run where
  "running_run = \<lparr>run_RunID = ''r1'', run_DisplayName = [], run_ExperimentID = [], run_State = ''RUNNING'',
     run_StateHistory = [], run_CreatedAt = [], run_Parameters = [],
     run_Version = \<lparr>pr_PipelineID = [], pr_PipelineVersionID = []\<rparr>\<rparr>"

lemma running_decoded: "decode_body ''run'' decode_run False running_body = Inr running_run"
  by code_simp

lemma demo_get_run: "get_run (oe_http (demo_env running_body)) c w rid = (w, Inr running_run)"
  by (simp add: get_run_def do_get_def send_def do_request_def demo_env_def demo_answer_def running_decoded)

lemma dsp_client_keeps_token_witness:
  "dsp_client_for ((demo_env [])\<lparr>oe_read_token := (\<lambda>_. Inr ''t2'')\<rparr>)
      (demo_state\<lparr>op_dsp := [(''lab/dspa'', demo_client)]\<rparr>) ''lab''
     = (demo_state\<lparr>op_dsp := [(''lab/dspa'', demo_client)]\<rparr>, Inr demo_client)"
  using dsp_client_keeps_token [OF demo_client_for,
      where env' = "(demo_env [])\<lparr>oe_read_token := (\<lambda>_. Inr ''t2'')\<rparr>" and w = "()" and r = demo_remote]
  by (simp add: demo_client_def demo_state_def)

text \<open>The run of round 1, open for three hours and still running.\<close>

definition demo_open :: project where
  "demo_open = upd_status (\<lambda>s. s\<lparr>st_OpenRuns := [(''proj-round-1'', ''r1'')],
     st_OpenRunStartedAt := [(''proj-round-1'', 0)]\<rparr>) demo_project"

lemma demo_open_simps:
  "om_Namespace (p_meta demo_open) = ''lab''" "st_OpenRuns (p_Status demo_open) = [(''proj-round-1'', ''r1'')]"
  "st_ExperimentsRun (p_Status demo_open) = 0" "st_ConsecutiveDrainFailures (p_Status demo_open) = 0"
  by (simp_all add: demo_open_def demo_project_def empty_status_def)

lemma demo_finished: "finished (oe_now (demo_env b)) demo_open ''proj-round-1'' (Inr running_run)"
  by (simp add: finished_def run_fate_def demo_env_def demo_open_def is_run_terminal_def running_run_def
      demo_project_def demo_spec_def max_round_duration_def minutes_def)

lemma demo_drained: "snd (snd (drain_open_jobs (demo_env running_body) demo_state demo_open)) = Inr True"
proof -
  obtain st' p' r where d: "drain_open_jobs (demo_env running_body) demo_state demo_open = (st', p', r)"
    by (metis prod_cases3)
  have "snd (get_run (oe_http (demo_env running_body)) demo_client w i) = Inr running_run" for w i
    by (simp add: demo_get_run)
  from drain_finished [OF _ this _ d, unfolded demo_open_simps, OF demo_client_for]
  show ?thesis using d demo_finished by (simp add: demo_open_simps gm_wf_def)
qed

lemma drain_takes_finished_runs_witness:
  "snd (snd (drain_open_jobs (demo_env running_body) demo_state demo_open)) = Inr True
   \<and> st_OpenRuns (p_Status (fst (snd (drain_open_jobs (demo_env running_body) demo_state demo_open)))) = []
   \<and> st_ExperimentsRun (p_Status (fst (snd (drain_open_jobs (demo_env running_body) demo_state demo_open)))) = 1"
proof -
  obtain st' p' r where d: "drain_open_jobs (demo_env running_body) demo_state demo_open = (st', p', r)"
    by (metis prod_cases3)
  have "snd (get_run (oe_http (demo_env running_body)) demo_client w i) = Inr running_run" for w i
    by (simp add: demo_get_run)
  from drain_takes_finished_runs [OF _ this _ d, unfolded demo_open_simps, OF demo_client_for]
  show ?thesis using d demo_finished by (simp add: demo_open_simps gm_wf_def to_int32_def)
qed

lemma drain_counts_failures_witness:
  "st_ConsecutiveDrainFailures
     (p_Status (fst (snd (drain_open_jobs (demo_env running_body) demo_state demo_open)))) = 1"
proof -
  obtain st' p' r where d: "drain_open_jobs (demo_env running_body) demo_state demo_open = (st', p', r)"
    by (metis prod_cases3)
  have a: "snd (get_run (oe_http (demo_env running_body)) demo_client w i) = Inr running_run" for w i
    by (simp add: demo_get_run)
  have "Inr running_run = Inr run \<Longrightarrow> run_State run \<noteq> ''SUCCEEDED''" for run :: dsp_run
    by (auto simp: running_run_def)
  with a have "st_ConsecutiveDrainFailures (p_Status p') = 1"
    using drain_counts_failures [OF _ a _ _ d, unfolded demo_open_simps, OF demo_client_for] demo_finished
    by (simp add: gm_wf_def to_int32_def)
  with d show ?thesis by simp
qed

lemma demo_result_round: "extract_round_from_run_id ''proj-round-1'' (om_Name (p_meta demo_project)) = 1"
  by code_simp

lemma resultless_run_publishes_zero_witness:
  "\<exists>tx page. begin_wiki_tx demo_cluster no_faults (fst demo_result) demo_project = Inr tx
     \<and> tx_read no_faults tx ''results/round-1.md'' = Inr page \<and> parse_eval_loss page = Some (Fin 0)"
proof -
  let ?env = "(demo_env [])\<lparr>oe_now := 0\<rparr>" and ?run = "running_run\<lparr>run_State := ''SUCCEEDED''\<rparr>"
  have r: "''results/round-'' @ itoa 1 @ ''.md'' = ''results/round-1.md''" by code_simp
  obtain st' p' where f: "finish_run ?env demo_state demo_project ''proj-round-1'' ?run = (st', p')"
    by fastforce
  have res: "read_full_result ?env (op_world demo_state) (om_Namespace (p_meta demo_project)) (run_RunID ?run) = None"
    by (simp add: read_full_result_def run_pods_def demo_env_def)
  have push: "wiki_push_result (oe_cluster ?env) (oe_wiki ?env) (oe_now ?env) (op_remote demo_state) demo_project
      (extract_round_from_run_id ''proj-round-1'' (om_Name (p_meta demo_project))) (Fin 0) [] False
      = (fst demo_result, None)"
    using demo_result_pushed by (simp add: demo_result_round demo_env_def demo_state_def)
  have d0: "read_drain ?env w demo_project ?run = failed_drain" for w
    using res by (simp add: read_drain_def)
  obtain q where q: "p' = upd_status (book_run 0 ''proj-round-1'' failed_drain) q" "same_but_conditions demo_project q"
    using finish_run_project [of demo_project ?env demo_state "''proj-round-1''" ?run] f d0 by auto
  have m: "p_meta p' = p_meta demo_project" "p_Spec p' = p_Spec demo_project"
    using same_but_conditionsD [OF q(2)] q(1) by simp_all
  have stored: "ps_AdapterStorage (p_Spec demo_project) = None"
    by (simp add: demo_project_def demo_spec_def)
  have remote: "op_remote st' = fst demo_result"
    using f push stored by (auto simp: finish_run_def d0 check_adapter_def push_result_def failed_drain_def Let_def)
  have "gm_get demo_remote ''refs/heads/main'' \<noteq> None" by (simp add: demo_remote_def)
  then have "is_ok (begin_wiki_tx demo_cluster no_faults (fst demo_result) demo_project)"
    using wiki_push_result_keeps_ref [OF demo_result_pushed, of "''refs/heads/main''"]
    by (intro begin_wiki_tx_again [OF demo_begin_wiki(1)]) (simp_all add: demo_begin_wiki)
  then obtain tx where tx: "begin_wiki_tx demo_cluster no_faults (fst demo_result) demo_project = Inr tx"
    by (rule is_okE)
  then have "begin_wiki_tx (oe_cluster ?env) no_faults (op_remote st') p' = Inr tx"
    using begin_wiki_tx_frame [OF m] remote by (simp add: demo_env_def)
  from resultless_run_publishes_zero [OF _ res push f this] tx r show ?thesis
    by (auto simp: demo_result_round)
qed

end
