(* ===== verification/Dashboard.thy ===== *)
theory Dashboard
  imports Pages Stagnation
begin

text \<open>
  \<open>autoresearchproject_dashboard.go\<close>: the page \<open>DASHBOARD.md\<close>, section by section, and the ranking of
  the observations (with \<open>bestObservation\<close> of \<open>autoresearchproject_strategist.go\<close>). The losses that the
  loader returns are numbers; on them the order below is the order of Go.
\<close>

subsection \<open>Losses as a linear order\<close>

instantiation gofloat :: linorder
begin

definition less_eq_gofloat :: "gofloat \<Rightarrow> gofloat \<Rightarrow> bool" where
  "less_eq_gofloat x y =
     (case x of
        FNaN \<Rightarrow> True
      | FNegInf \<Rightarrow> y \<noteq> FNaN
      | Fin a \<Rightarrow> (case y of Fin b \<Rightarrow> a \<le> b | FPosInf \<Rightarrow> True | _ \<Rightarrow> False)
      | FPosInf \<Rightarrow> y = FPosInf)"

definition less_gofloat :: "gofloat \<Rightarrow> gofloat \<Rightarrow> bool" where
  "less_gofloat x y \<longleftrightarrow> x \<le> y \<and> \<not> y \<le> x"

instance
proof
  fix x y z :: gofloat
  show "x < y \<longleftrightarrow> x \<le> y \<and> \<not> y \<le> x" by (simp add: less_gofloat_def)
  show "x \<le> x" by (simp add: less_eq_gofloat_def split: gofloat.split)
  show "x \<le> y \<Longrightarrow> y \<le> z \<Longrightarrow> x \<le> z"
    by (cases x; cases y; cases z) (auto simp: less_eq_gofloat_def)
  show "x \<le> y \<Longrightarrow> y \<le> x \<Longrightarrow> x = y" by (cases x; cases y) (auto simp: less_eq_gofloat_def)
  show "x \<le> y \<or> y \<le> x" by (cases x; cases y) (auto simp: less_eq_gofloat_def)
qed

end

lemma less_gofloat_flt: "x \<noteq> FNaN \<Longrightarrow> x < y \<longleftrightarrow> flt x y"
  by (cases x; cases y) (auto simp: less_gofloat_def less_eq_gofloat_def)

subsection \<open>Ranking\<close>

text \<open>The loop of \<open>bestObservation\<close>: a later observation wins only with a smaller loss.\<close>

definition best_observation :: "observation list \<Rightarrow> observation option" where
  "best_observation history =
     (case history of
        [] \<Rightarrow> None
      | h # t \<Rightarrow>
          Some (foldl (\<lambda>best o'. if flt (ob_eval_loss o') (ob_eval_loss best) then o' else best) h history))"

definition top_k_observations :: "observation list \<Rightarrow> nat \<Rightarrow> (observation \<times> nat) list" where
  "top_k_observations history k =
     take k (sort_key (\<lambda>(o', i). ob_eval_loss o') (zip history [0..<length history]))"

lemma foldl_best:
  assumes "\<forall>x \<in> set (b # xs). ob_eval_loss x \<noteq> FNaN"
  shows "foldl (\<lambda>best o'. if flt (ob_eval_loss o') (ob_eval_loss best) then o' else best) b xs \<in> set (b # xs)
    \<and> (\<forall>x \<in> set (b # xs).
         ob_eval_loss (foldl (\<lambda>best o'. if flt (ob_eval_loss o') (ob_eval_loss best) then o' else best) b xs)
           \<le> ob_eval_loss x)"
  using assms
proof (induction xs arbitrary: b)
  case (Cons x xs)
  show ?case
  proof (cases "flt (ob_eval_loss x) (ob_eval_loss b)")
    case True
    then have "ob_eval_loss x \<le> ob_eval_loss b"
      using Cons.prems less_gofloat_flt [of "ob_eval_loss x" "ob_eval_loss b"] by simp
    with Cons.IH [of x] Cons.prems True show ?thesis by (auto intro: order_trans)
  next
    case False
    then have "ob_eval_loss b \<le> ob_eval_loss x"
      using Cons.prems less_gofloat_flt [of "ob_eval_loss x" "ob_eval_loss b"] by auto
    with Cons.IH [of b] Cons.prems False show ?thesis by (auto intro: order_trans)
  qed
qed simp

lemma best_observation_least:
  assumes "\<forall>x \<in> set history. ob_eval_loss x \<noteq> FNaN" "best_observation history = Some b"
  shows "b \<in> set history \<and> (\<forall>x \<in> set history. ob_eval_loss b \<le> ob_eval_loss x)"
  using assms foldl_best [of "hd history" history]
  by (cases history) (auto simp: best_observation_def)

text \<open>
  The ranking lists the observations with the smallest losses in increasing order, each with its
  index in the history, and everything left out is at least as large.
\<close>

theorem top_k_observations_spec:
  "length (top_k_observations history k) = min k (length history)
   \<and> sorted (map (\<lambda>(o', i). ob_eval_loss o') (top_k_observations history k))
   \<and> (\<forall>(o', i) \<in> set (top_k_observations history k). i < length history \<and> history ! i = o'
        \<and> (\<forall>j < length history. history ! j \<notin> fst ` set (top_k_observations history k)
             \<longrightarrow> ob_eval_loss o' \<le> ob_eval_loss (history ! j)))"
proof -
  let ?z = "zip history [0..<length history]" and ?f = "\<lambda>(o', i :: nat). ob_eval_loss o'"
  let ?s = "sort_key ?f ?z"
  have sorted: "sorted (map ?f ?s)" by simp
  have elem: "i < length history \<and> history ! i = o'" if "(o', i) \<in> set (take k ?s)" for o' i
    using set_take_subset [of k ?s] that by (auto simp: set_zip)
  have below: "ob_eval_loss o' \<le> ob_eval_loss (history ! j)"
    if i: "(o', i) \<in> set (take k ?s)" and j: "j < length history"
      and n: "history ! j \<notin> fst ` set (take k ?s)" for o' i j
  proof -
    have "(history ! j, j) \<in> set ?s" using j by (force simp: set_zip)
    then have "(history ! j, j) \<in> set (take k ?s) \<union> set (drop k ?s)"
      by (metis append_take_drop_id set_append)
    then have d: "(history ! j, j) \<in> set (drop k ?s)" using n by force
    have "sorted (map ?f (take k ?s) @ map ?f (drop k ?s))"
      using sorted by (metis append_take_drop_id map_append)
    then have "\<forall>x \<in> set (take k ?s). \<forall>y \<in> set (drop k ?s). ?f x \<le> ?f y"
      by (simp add: sorted_append)
    with i d show ?thesis by fastforce
  qed
  have "sorted (map ?f (take k ?s))"
    using sorted_wrt_take [OF sorted, of k] by (simp only: take_map)
  with elem below show ?thesis unfolding top_k_observations_def by auto
qed

lemma top_k_observations_spec_witness:
  defines "h \<equiv> map (\<lambda>x. \<lparr>ob_params = [], ob_eval_loss = Fin x\<rparr>) [3, 1, 2]"
  shows "top_k_observations h 2 = [(h ! 1, 1), (h ! 2, 2)]
       \<and> ob_eval_loss (h ! 1) \<le> ob_eval_loss (h ! 0) \<and> ob_eval_loss (h ! 2) \<le> ob_eval_loss (h ! 0)"
proof -
  have s: "top_k_observations h 2 = [(h ! 1, 1), (h ! 2, 2)]" "length h = 3" by (unfold h_def) code_simp+
  then have out: "h ! 0 \<notin> fst ` set (top_k_observations h 2)" by (simp add: h_def)
  show ?thesis using top_k_observations_spec [of h 2] s out by fastforce
qed

subsection \<open>The page\<close>

definition fmt_bool :: "bool \<Rightarrow> string" where
  "fmt_bool b = (if b then ''true'' else ''false'')"

text \<open>The verb \<open>%v\<close> on a map lookup: an absent key prints as a nil interface.\<close>

definition fmt_v :: "goval option \<Rightarrow> string" where
  "fmt_v v =
     (case v of
        None \<Rightarrow> ''<nil>''
      | Some (VInt n) \<Rightarrow> itoa n
      | Some (VInt32 n) \<Rightarrow> itoa n
      | Some (VInt64 n) \<Rightarrow> itoa n
      | Some (VFloat x) \<Rightarrow> fmt_g x
      | Some (VFloat32 x) \<Rightarrow> fmt_g x
      | Some (VStr s) \<Rightarrow> s
      | Some (VOther s) \<Rightarrow> s)"

definition param_float :: "observation \<Rightarrow> string \<Rightarrow> gofloat" where
  "param_float o' key = (case gm_get (ob_params o') key of Some (VFloat x) \<Rightarrow> x | _ \<Rightarrow> Fin 0)"

definition strategist_every_n :: int where "strategist_every_n = 5"
definition strategist_on_stagnation :: int where "strategist_on_stagnation = 3"
definition dashboard_trajectory_rows :: nat where "dashboard_trajectory_rows = 20"
definition dashboard_recent_research :: nat where "dashboard_recent_research = 5"

definition dash_header :: "project \<Rightarrow> int \<Rightarrow> gotime \<Rightarrow> observation list \<Rightarrow> string" where
  "dash_header p rnd now history =
     (let stag = stagnation_count history;
          stag_str = itoa (int stag) @ '' rounds without improvement''
      in ln (''# Dashboard '' @ em_dash @ '' `'' @ om_Name (p_meta p) @ ''`'') @ ln []
         @ ln (''_Auto-generated by the operator on every round commit. Edit anywhere ABOVE this line ''
               @ ''at your own risk '' @ em_dash @ '' the renderer replaces this file in full._'') @ ln []
         @ ln ''## Project state'' @ ln []
         @ ln ''| Metric | Value |''
         @ ln ''|--------|-------|''
         @ ln (''| Current round | '' @ itoa rnd @ '' (just proposed) |'')
         @ ln (''| Usable observations | '' @ itoa (int (length history)) @ '' |'')
         @ (case best_observation history of
              Some best \<Rightarrow>
                ln (''| Best eval_loss | **'' @ fmt_g (ob_eval_loss best) @ ''** |'')
                @ ln (''| Best lora_rank | '' @ fmt_v (gm_get (ob_params best) ''lora_rank'') @ '' |'')
                @ ln (''| Best learning_rate | '' @ fmt_v (gm_get (ob_params best) ''learning_rate'') @ '' |'')
            | None \<Rightarrow> ln ''| Best eval_loss | _(no completed rounds yet)_ |'')
         @ ln (''| Stagnation | '' @ (if int stag \<ge> strategist_on_stagnation
                                      then ''**STAGNATING** '' @ em_dash @ '' '' @ stag_str else stag_str)
               @ '' |'')
         @ ln (''| Last update | '' @ utc_stamp now @ '' |'')
         @ ln [])"

definition trajectory_row :: "observation list \<Rightarrow> nat \<Rightarrow> string" where
  "trajectory_row history i =
     (let o' = history ! i
      in ln (''| '' @ itoa (int i + 1) @ '' | '' @ fmt_g (ob_eval_loss o') @ '' | ''
             @ fmt_v (gm_get (ob_params o') ''lora_rank'') @ '' | ''
             @ fmt_g (param_float o' ''learning_rate'') @ '' | ''
             @ fmt_v (gm_get (ob_params o') ''num_training_steps'') @ '' |''))"

definition dash_trajectory :: "observation list \<Rightarrow> string" where
  "dash_trajectory history =
     ln ''## Trajectory'' @ ln []
     @ (if history = [] then
          ln ''_(no completed rounds yet. Once the first round finishes, this table fills in.)_'' @ ln []
        else
          ln ''Recent completed rounds, newest first:'' @ ln []
          @ ln ''| Round | eval_loss | lora_rank | learning_rate | num_steps |''
          @ ln ''|------:|----------:|----------:|--------------:|----------:|''
          @ concat (map (trajectory_row history)
              (rev [length history - dashboard_trajectory_rows..<length history]))
          @ (if length history > dashboard_trajectory_rows then
               ln [] @ ln (''_Truncated to last '' @ itoa (int dashboard_trajectory_rows)
                           @ '' rounds. Older rounds remain in `results/round-N.md`._'')
             else [])
          @ ln [])"

definition int_row :: "string \<times> int_spec \<Rightarrow> string" where
  "int_row ns =
     (let (name, spec) = ns;
          note = (case gm_get (sp_ints default_space) name of
                    Some orig \<Rightarrow>
                      (if is_low orig \<noteq> is_low spec \<or> is_high orig \<noteq> is_high spec
                       then ''narrowed from ['' @ itoa (is_low orig) @ '', '' @ itoa (is_high orig) @ '']''
                       else [])
                  | None \<Rightarrow> []);
          rng = ''['' @ itoa (is_low spec) @ '', '' @ itoa (is_high spec) @ '']''
                @ (if is_step spec > 0 then '' step '' @ itoa (is_step spec) else [])
      in ln (''| `'' @ name @ ''` (int) | '' @ rng @ '' | '' @ note @ '' |''))"

definition float_row :: "string \<times> float_spec \<Rightarrow> string" where
  "float_row ns =
     (let (name, spec) = ns;
          note = (case gm_get (sp_floats default_space) name of
                    Some orig \<Rightarrow>
                      (if \<not> feq (fs_low orig) (fs_low spec) \<or> \<not> feq (fs_high orig) (fs_high spec)
                       then ''narrowed from ['' @ fmt_g (fs_low orig) @ '', '' @ fmt_g (fs_high orig) @ '']''
                       else [])
                  | None \<Rightarrow> [])
      in ln (''| `'' @ name @ ''` (float, '' @ (if fs_log spec then ''log-uniform'' else ''uniform'')
             @ '') | ['' @ fmt_g (fs_low spec) @ '', '' @ fmt_g (fs_high spec) @ ''] | '' @ note @ '' |''))"

definition cat_row :: "string \<times> cat_spec \<Rightarrow> string" where
  "cat_row ns =
     (let (name, spec) = ns;
          note = (case gm_get (sp_cats default_space) name of
                    Some orig \<Rightarrow>
                      (if length (cs_choices orig) \<noteq> length (cs_choices spec)
                       then ''changed from '' @ itoa (int (length (cs_choices orig))) @ '' choices'' else [])
                  | None \<Rightarrow> [])
      in ln (''| `'' @ name @ ''` (categorical) | '' @ join '', '' (cs_choices spec) @ '' | '' @ note @ '' |''))"

definition dash_searcher :: "observation list \<Rightarrow> hypotheses \<Rightarrow> space \<Rightarrow> string" where
  "dash_searcher history h sp =
     (let n = int (length history);
          mode = (if n < default_warmup_trials
                  then ''Random (warmup '' @ em_dash @ '' '' @ itoa n @ ''/'' @ itoa default_warmup_trials
                       @ '' trials)''
                  else ''TPE (goptuna)'')
      in ln ''## Searcher state'' @ ln []
         @ ln (''- **Sampler**: '' @ mode)
         @ ln (''- **Observations seen**: '' @ itoa n)
         @ ''- **HYPOTHESES.md applied**: '' @ fmt_bool (hy_after_round h > 0)
         @ (if hy_after_round h > 0
            then '' (after round '' @ itoa (hy_after_round h) @ '', ''
                 @ itoa (int (length (hy_adjust h))) @ '' adjustments)'' else [])
         @ ln [] @ ln []
         @ ln ''### Current search space'' @ ln []
         @ ln ''| Param | Range / Choices | Notes |''
         @ ln ''|-------|-----------------|-------|''
         @ concat (map int_row (sort_key fst (sp_ints sp)))
         @ concat (map float_row (sort_key fst (sp_floats sp)))
         @ concat (map cat_row (sort_key fst (sp_cats sp)))
         @ ln [])"

definition top_row :: "nat \<times> (observation \<times> nat) \<Rightarrow> string" where
  "top_row e =
     (let (i, o', idx) = e
      in ln (''| '' @ itoa (int i + 1) @ '' | '' @ fmt_g (ob_eval_loss o') @ '' | ''
             @ fmt_v (gm_get (ob_params o') ''lora_rank'') @ '' | ''
             @ fmt_g (param_float o' ''learning_rate'') @ '' | '' @ itoa (int idx + 1) @ '' |''))"

definition dash_top :: "observation list \<Rightarrow> string" where
  "dash_top history =
     (if history = [] then []
      else
        let top = top_k_observations history 5
        in ln (''### Top '' @ itoa (int (length top)) @ '' configurations'') @ ln []
           @ ln ''| Rank | eval_loss | lora_rank | learning_rate | round |''
           @ ln ''|-----:|----------:|----------:|--------------:|------:|''
           @ concat (map top_row (zip [0..<length top] top))
           @ ln [])"

text \<open>\<open>strings.ReplaceAll(s, "\<newline>", "\<newline>> ")\<close>.\<close>

definition quote_lines :: "string \<Rightarrow> string" where
  "quote_lines s = concat (map (\<lambda>c. if c = CHR 0x0A then c # ''> '' else [c]) s)"

definition link_line :: "string \<Rightarrow> string" where
  "link_line ref = ln (''- [`'' @ ref @ ''`](./'' @ ref @ '')'')"

definition dash_strategist :: "hypotheses \<Rightarrow> string" where
  "dash_strategist h =
     ln ''## Strategist research'' @ ln []
     @ (if hy_adjust h = [] \<and> hy_hypothesis h = [] then
          ln (''_(strategist has not run yet '' @ em_dash @ '' wait for cadence (every 5 rounds) or ''
              @ ''stagnation (3+ rounds without improvement) to trigger the first turn.)_'') @ ln []
        else
          (if hy_hypothesis h \<noteq> [] then
             ln ''### Current hypothesis'' @ ln []
             @ ln (''> '' @ quote_lines (trim_space (hy_hypothesis h))) @ ln []
           else [])
          @ (if hy_references h \<noteq> [] then
               ln ''### Cited artifacts'' @ ln []
               @ concat (map link_line (hy_references h)) @ ln []
             else []))"

definition research_section :: "wiki_env \<Rightarrow> wiki_tx \<Rightarrow> string \<Rightarrow> string \<Rightarrow> string" where
  "research_section env tx dir heading =
     (case tx_list env tx dir of
        Inl _ \<Rightarrow> []
      | Inr entries \<Rightarrow>
         (let md = sort (filter (\<lambda>e. has_suffix e ''.md'') entries)
          in if md = [] then []
             else ln (''### '' @ heading) @ ln []
               @ concat (map (\<lambda>i. link_line (entry_path dir (md ! i)))
                   (rev [length md - dashboard_recent_research..<length md]))
               @ ln []))"

definition render_dashboard ::
    "project \<Rightarrow> int \<Rightarrow> gotime \<Rightarrow> observation list \<Rightarrow> hypotheses \<Rightarrow> space \<Rightarrow> wiki_env \<Rightarrow> wiki_tx \<Rightarrow> string" where
  "render_dashboard p rnd now history h sp env tx =
     dash_header p rnd now history
     @ dash_trajectory history
     @ dash_searcher history h sp
     @ dash_top history
     @ dash_strategist h
     @ research_section env tx ''raw/clips'' ''Recent clips''
     @ research_section env tx ''topics'' ''Recent topics''
     @ research_section env tx ''concepts'' ''Concept pages''
     @ ln ''---'' @ ln []
     @ ln ''Generated by `agent-office-operator` v0.4.0+ (Phase 3).''"

lemma render_dashboard_nonempty: "render_dashboard p rnd now history h sp env tx \<noteq> []"
  by (simp add: render_dashboard_def dash_header_def Let_def)

end
