(* ===== verification/SearchSeed.thy ===== *)
theory SearchSeed
  imports Qlora
begin

text \<open>
  What a pinned seed does to \<open>Suggest\<close>. Every call builds its generators anew from the seed, so two
  calls with the same seed draw the same random numbers whatever the history is.
\<close>

subsection \<open>Categorical parameters\<close>

lemma suggest_param_draws:
  assumes "suggest_param g rd seed sp t s name = Inr s'"
  shows "sg_draws s' = sg_draws s @
    (case (gm_get (sp_ints sp) name, gm_get (sp_floats sp) name, gm_get (sp_cats sp) name) of
       (None, None, Some c) \<Rightarrow> [length (cs_choices c)] | _ \<Rightarrow> [])"
  using assms by (auto simp: suggest_param_def Let_def split: option.splits sum.splits if_splits)

text \<open>The bounds that \<open>catRng\<close> has been asked for after some parameters, and the choice it makes.\<close>

fun cat_draws :: "space \<Rightarrow> string list \<Rightarrow> nat list" where
  "cat_draws sp [] = []"
| "cat_draws sp (n # ns) =
     (case (gm_get (sp_ints sp) n, gm_get (sp_floats sp) n, gm_get (sp_cats sp) n) of
        (None, None, Some c) \<Rightarrow> length (cs_choices c) # cat_draws sp ns
      | _ \<Rightarrow> cat_draws sp ns)"

fun cat_choices :: "gorand \<Rightarrow> int \<Rightarrow> space \<Rightarrow> nat list \<Rightarrow> string list \<Rightarrow> string gomap \<Rightarrow> string gomap" where
  "cat_choices rd seed sp bs [] m = m"
| "cat_choices rd seed sp bs (n # ns) m =
     (case (gm_get (sp_ints sp) n, gm_get (sp_floats sp) n, gm_get (sp_cats sp) n) of
        (None, None, Some c) \<Rightarrow>
          cat_choices rd seed sp (bs @ [length (cs_choices c)]) ns
            (gm_set m n (cs_choices c ! rd_intn rd seed bs (length (cs_choices c))))
      | _ \<Rightarrow> cat_choices rd seed sp bs ns m)"

definition cat_only :: "space \<Rightarrow> string \<Rightarrow> bool" where
  "cat_only sp n \<longleftrightarrow> gm_get (sp_ints sp) n = None \<and> gm_get (sp_floats sp) n = None
     \<and> gm_get (sp_cats sp) n \<noteq> None"

lemma suggest_param_cat:
  assumes "suggest_param g rd seed sp t s n = Inr s'"
  shows "x \<noteq> n \<Longrightarrow> gm_get (sg_out s') x = gm_get (sg_out s) x"
    and "gm_get (sp_ints sp) n = None \<Longrightarrow> gm_get (sp_floats sp) n = None \<Longrightarrow>
         gm_get (sp_cats sp) n = Some c \<Longrightarrow>
         gm_get (sg_out s') n
           = Some (VStr (cs_choices c ! rd_intn rd seed (sg_draws s) (length (cs_choices c))))"
  using assms
  by (auto simp: suggest_param_def Let_def split: option.splits sum.splits if_splits)

lemma suggest_params_cat:
  assumes "fold_result (suggest_param g rd seed sp t) s ns = Inr s'"
    and "\<forall>n. cat_only sp n \<longrightarrow> gm_get (sg_out s) n = map_option VStr (gm_get m n)"
  shows "\<forall>n. cat_only sp n \<longrightarrow>
           gm_get (sg_out s') n = map_option VStr (gm_get (cat_choices rd seed sp (sg_draws s) ns m) n)"
  using assms
proof (induction ns arbitrary: s m)
  case (Cons n ns)
  then obtain s1 where s1: "suggest_param g rd seed sp t s n = Inr s1"
    "fold_result (suggest_param g rd seed sp t) s1 ns = Inr s'" by (auto split: sum.splits)
  note d = suggest_param_draws [OF s1(1)] and o = suggest_param_cat [OF s1(1)]
  show ?case
  proof (cases "cat_only sp n")
    case True
    then obtain c where c: "gm_get (sp_ints sp) n = None" "gm_get (sp_floats sp) n = None"
      "gm_get (sp_cats sp) n = Some c" by (auto simp: cat_only_def)
    let ?m = "gm_set m n (cs_choices c ! rd_intn rd seed (sg_draws s) (length (cs_choices c)))"
    have "\<forall>x. cat_only sp x \<longrightarrow> gm_get (sg_out s1) x = map_option VStr (gm_get ?m x)"
    proof (intro allI impI)
      fix x
      assume "cat_only sp x"
      with Cons.prems(2) o(1) [of x] o(2) [OF c]
      show "gm_get (sg_out s1) x = map_option VStr (gm_get ?m x)" by (cases "x = n") simp_all
    qed
    from Cons.IH [OF s1(2) this] show ?thesis using c d by simp
  next
    case False
    have "\<forall>x. cat_only sp x \<longrightarrow> gm_get (sg_out s1) x = map_option VStr (gm_get m x)"
      using o False Cons.prems(2) by metis
    from Cons.IH [OF s1(2) this] False show ?thesis
      using d by (auto simp: cat_only_def split: option.splits)
  qed
qed simp

text \<open>
  With a seed other than 0, the value that \<open>Suggest\<close> chooses for a categorical parameter is the
  same for every history and every state of the optimiser: the search never explores its choices.
\<close>

theorem suggest_categorical_constant:
  assumes "cf_seed cfg \<noteq> 0" "cat_only (cf_space cfg) n"
    and "suggest g1 rd cfg h1 = Inr t1" "suggest g2 rd cfg h2 = Inr t2"
  shows "gm_get (tr_params t1) n = gm_get (tr_params t2) n"
proof -
  let ?sp = "cf_space cfg"
  have *: "gm_get (tr_params t) n = map_option VStr (gm_get
      (cat_choices rd (cf_seed cfg) ?sp [] (sorted_param_names ?sp) []) n)"
    if "suggest g rd cfg h = Inr t" for g :: "'c goptuna" and h t
  proof -
    from that assms(1) obtain st2 tid s where
      f: "fold_result (suggest_param g rd (cf_seed cfg) ?sp tid)
            \<lparr>sg_study = st2, sg_draws = [], sg_out = []\<rparr> (sorted_param_names ?sp) = Inr s"
      and t: "t = \<lparr>tr_params = sg_out s\<rparr>"
      by (auto simp: suggest_def suggest_seed_def Let_def split: sum.splits)
    show ?thesis using suggest_params_cat [OF f, of "[]"] assms(2) t by simp
  qed
  show ?thesis unfolding * [OF assms(3)] * [OF assms(4)] ..
qed

subsection \<open>The warm-up rounds\<close>

text \<open>
  The random sampler of goptuna draws from its own generator only. \<open>rnd st\<close>: the study \<open>st\<close> has a
  random sampler; \<open>rng st\<close>: the state of its generator, \<open>init s\<close> for the seed \<open>s\<close>. Storing past
  values leaves the generator alone, and what is suggested depends on it and on the range asked for.
\<close>

definition same_draw ::
    "('st \<Rightarrow> bool) \<Rightarrow> ('st \<Rightarrow> 'r) \<Rightarrow> (string + 'v \<times> 'st) \<Rightarrow> (string + 'v \<times> 'st) \<Rightarrow> bool" where
  "same_draw rnd rng x y \<longleftrightarrow>
     (\<forall>v st w st'. x = Inr (v, st) \<longrightarrow> y = Inr (w, st') \<longrightarrow>
        v = w \<and> rnd st \<and> rnd st' \<and> rng st = rng st')"

definition keeps_rng :: "('st \<Rightarrow> bool) \<Rightarrow> ('st \<Rightarrow> 'r) \<Rightarrow> 'r \<Rightarrow> string + 'st \<Rightarrow> bool" where
  "keeps_rng rnd rng r x \<longleftrightarrow> (\<forall>st. x = Inr st \<longrightarrow> rnd st \<and> rng st = r)"

definition same_rng :: "('st \<Rightarrow> bool) \<Rightarrow> ('st \<Rightarrow> 'r) \<Rightarrow> 'st \<Rightarrow> 'st \<Rightarrow> bool" where
  "same_rng rnd rng st st' \<longleftrightarrow> rnd st \<and> rnd st' \<and> rng st = rng st'"

definition random_sampler_law ::
    "'st goptuna \<Rightarrow> ('st \<Rightarrow> bool) \<Rightarrow> ('st \<Rightarrow> 'r) \<Rightarrow> (int \<Rightarrow> 'r) \<Rightarrow> bool" where
  "random_sampler_law g rnd rng init \<longleftrightarrow>
     (\<forall>s d. keeps_rng rnd rng (init s) (gp_create_study g (RandomSampler s) d)) \<and>
     (\<forall>st. rnd st \<longrightarrow> keeps_rng rnd rng (rng st) (map_sum id snd (gp_new_trial g st))) \<and>
     (\<forall>st t n x d. rnd st \<longrightarrow> keeps_rng rnd rng (rng st) (gp_set_param g st t n x d)) \<and>
     (\<forall>st t x. rnd st \<longrightarrow> keeps_rng rnd rng (rng st) (gp_set_value g st t x)) \<and>
     (\<forall>st t. rnd st \<longrightarrow> keeps_rng rnd rng (rng st) (gp_set_complete g st t)) \<and>
     (\<forall>st st' t t' n lo hi. same_rng rnd rng st st' \<longrightarrow>
        same_draw rnd rng (gp_suggest_int g st t n lo hi) (gp_suggest_int g st' t' n lo hi)) \<and>
     (\<forall>st st' t t' n lo hi s. same_rng rnd rng st st' \<longrightarrow>
        same_draw rnd rng (gp_suggest_step_int g st t n lo hi s)
          (gp_suggest_step_int g st' t' n lo hi s)) \<and>
     (\<forall>st st' t t' n lo hi. same_rng rnd rng st st' \<longrightarrow>
        same_draw rnd rng (gp_suggest_float g st t n lo hi) (gp_suggest_float g st' t' n lo hi)) \<and>
     (\<forall>st st' t t' n lo hi. same_rng rnd rng st st' \<longrightarrow>
        same_draw rnd rng (gp_suggest_log_float g st t n lo hi)
          (gp_suggest_log_float g st' t' n lo hi))"

lemma random_law_study:
  assumes "random_sampler_law g rnd rng init"
  shows "gp_create_study g (RandomSampler s) d = Inr st \<Longrightarrow> rnd st \<and> rng st = init s"
    and "rnd st \<Longrightarrow> gp_new_trial g st = Inr (t, st') \<Longrightarrow> rnd st' \<and> rng st' = rng st"
    and "rnd st \<Longrightarrow> gp_set_param g st t n x ds = Inr st' \<Longrightarrow> rnd st' \<and> rng st' = rng st"
    and "rnd st \<Longrightarrow> gp_set_value g st t y = Inr st' \<Longrightarrow> rnd st' \<and> rng st' = rng st"
    and "rnd st \<Longrightarrow> gp_set_complete g st t = Inr st' \<Longrightarrow> rnd st' \<and> rng st' = rng st"
proof -
  have "keeps_rng rnd rng (init s) (gp_create_study g (RandomSampler s) d)"
    using assms by (simp add: random_sampler_law_def)
  then show "gp_create_study g (RandomSampler s) d = Inr st \<Longrightarrow> rnd st \<and> rng st = init s"
    by (simp add: keeps_rng_def)
  have k: "rnd st \<Longrightarrow> keeps_rng rnd rng (rng st) (map_sum id snd (gp_new_trial g st))"
    "rnd st \<Longrightarrow> keeps_rng rnd rng (rng st) (gp_set_param g st t n x ds)"
    "rnd st \<Longrightarrow> keeps_rng rnd rng (rng st) (gp_set_value g st t y)"
    "rnd st \<Longrightarrow> keeps_rng rnd rng (rng st) (gp_set_complete g st t)"
    using assms by (simp_all add: random_sampler_law_def)
  then show "rnd st \<Longrightarrow> gp_new_trial g st = Inr (t, st') \<Longrightarrow> rnd st' \<and> rng st' = rng st"
    "rnd st \<Longrightarrow> gp_set_param g st t n x ds = Inr st' \<Longrightarrow> rnd st' \<and> rng st' = rng st"
    "rnd st \<Longrightarrow> gp_set_value g st t y = Inr st' \<Longrightarrow> rnd st' \<and> rng st' = rng st"
    "rnd st \<Longrightarrow> gp_set_complete g st t = Inr st' \<Longrightarrow> rnd st' \<and> rng st' = rng st"
    by (simp_all add: keeps_rng_def)
qed

lemma random_law_draw:
  assumes "random_sampler_law g rnd rng init" "same_rng rnd rng st st'"
  shows "same_draw rnd rng (suggest_int g st t n i) (suggest_int g st' t' n i)"
    and "same_draw rnd rng (suggest_float g st t n f) (suggest_float g st' t' n f)"
  using assms by (simp_all add: random_sampler_law_def suggest_int_def suggest_float_def)

text \<open>Replaying the history leaves the generator where it was.\<close>

lemma inject_param_rng:
  assumes g: "random_sampler_law g rnd rng init" and st: "rnd st"
    and i: "inject_param g sp obs t st n = Inr st'"
  shows "rnd st' \<and> rng st' = rng st"
  using i st random_law_study(3) [OF g st]
  by (auto simp: inject_param_def split: option.splits goval.splits sum.splits)

lemma inject_observation_rng:
  assumes g: "random_sampler_law g rnd rng init" and st: "rnd st"
    and i: "inject_observation g sp ns st obs = Inr st'"
  shows "rnd st' \<and> rng st' = rng st"
proof -
  from i obtain t st1 st2 st3 where n: "gp_new_trial g st = Inr (t, st1)"
    and f: "fold_result (inject_param g sp obs t) st1 ns = Inr st2"
    and v: "gp_set_value g st2 t (ob_eval_loss obs) = Inr st3" "gp_set_complete g st3 t = Inr st'"
    by (auto simp: inject_observation_def split: sum.splits)
  have 1: "rnd st1 \<and> rng st1 = rng st" by (rule random_law_study(2) [OF g st n])
  have 2: "rnd st2 \<and> rng st2 = rng st"
    by (rule fold_result_inv [OF f, where P = "\<lambda>s. rnd s \<and> rng s = rng st"])
      (use 1 inject_param_rng [OF g] in fastforce)+
  with random_law_study(4) [OF g _ v(1)] random_law_study(5) [OF g _ v(2)] show ?thesis by simp
qed

definition same_sugg :: "('st \<Rightarrow> bool) \<Rightarrow> ('st \<Rightarrow> 'r) \<Rightarrow> 'st sugg \<Rightarrow> 'st sugg \<Rightarrow> bool" where
  "same_sugg rnd rng s s' \<longleftrightarrow> rnd (sg_study s) \<and> rnd (sg_study s')
     \<and> rng (sg_study s) = rng (sg_study s') \<and> sg_draws s = sg_draws s' \<and> sg_out s = sg_out s'"

lemma suggest_param_same:
  assumes g: "random_sampler_law g rnd rng init" and s: "same_sugg rnd rng s s'"
    and p: "suggest_param g rd seed sp t s n = Inr u" "suggest_param g rd seed sp t' s' n = Inr u'"
  shows "same_sugg rnd rng u u'"
proof -
  have r: "rnd (sg_study s)" "rnd (sg_study s')" "rng (sg_study s) = rng (sg_study s')"
    "sg_draws s' = sg_draws s" "sg_out s' = sg_out s"
    "same_rng rnd rng (sg_study s) (sg_study s')"
    using s by (simp_all add: same_sugg_def same_rng_def)
  show ?thesis
  proof (cases "gm_get (sp_ints sp) n")
    case (Some i)
    with p random_law_draw(1) [OF g r(6), of t n i t'] r show ?thesis
      by (auto simp: suggest_param_def same_sugg_def same_draw_def split: sum.splits)
  next
    case ni: None
    show ?thesis
    proof (cases "gm_get (sp_floats sp) n")
      case (Some f)
      with p ni random_law_draw(2) [OF g r(6), of t n f t'] r show ?thesis
        by (auto simp: suggest_param_def same_sugg_def same_draw_def split: sum.splits)
    next
      case None
      with p ni random_law_study(3) [OF g r(1)] random_law_study(3) [OF g r(2)] r show ?thesis
        by (auto simp: suggest_param_def same_sugg_def Let_def split: sum.splits option.splits if_splits)
    qed
  qed
qed

lemma suggest_params_same:
  assumes g: "random_sampler_law g rnd rng init" and s: "same_sugg rnd rng s s'"
    and "fold_result (suggest_param g rd seed sp t) s ns = Inr u"
    and "fold_result (suggest_param g rd seed sp t') s' ns = Inr u'"
  shows "same_sugg rnd rng u u'"
  using assms(2-)
proof (induction ns arbitrary: s s')
  case (Cons n ns)
  then obtain v v' where "suggest_param g rd seed sp t s n = Inr v"
    "suggest_param g rd seed sp t' s' n = Inr v'"
    "fold_result (suggest_param g rd seed sp t) v ns = Inr u"
    "fold_result (suggest_param g rd seed sp t') v' ns = Inr u'"
    by (auto split: sum.splits)
  with Cons.IH suggest_param_same [OF g Cons.prems(1)] show ?case by blast
qed simp

text \<open>
  With a seed other than 0 and a random sampler that draws from its own generator, all the
  suggestions of the warm-up (fewer past rounds than \<open>Warmup\<close>) are one and the same.
\<close>

theorem warmup_suggestions_equal:
  assumes g: "random_sampler_law g rnd rng init" and seed: "cf_seed cfg \<noteq> 0"
    and n: "int (length h1) < cf_warmup cfg" "int (length h2) < cf_warmup cfg"
    and t: "suggest g rd cfg h1 = Inr t1" "suggest g rd cfg h2 = Inr t2"
  shows "t1 = t2"
proof -
  let ?sp = "cf_space cfg" and ?seed = "cf_seed cfg"
  have run: "\<exists>st tid s. rnd st \<and> rng st = init (rd_int63 rd ?seed) \<and> t = \<lparr>tr_params = sg_out s\<rparr>
      \<and> fold_result (suggest_param g rd ?seed ?sp tid) \<lparr>sg_study = st, sg_draws = [], sg_out = []\<rparr>
          (sorted_param_names ?sp) = Inr s"
    if t: "suggest g rd cfg h = Inr t" and n: "int (length h) < cf_warmup cfg" for h t
  proof -
    from t n seed obtain st0 st1 tid st2 s where
      c: "gp_create_study g (RandomSampler (rd_int63 rd ?seed)) (cf_direction cfg = direction_maximize)
            = Inr st0"
      and h: "fold_result (inject_observation g ?sp (sorted_param_names ?sp)) st0 h = Inr st1"
      and tr: "gp_new_trial g st1 = Inr (tid, st2)"
      and f: "fold_result (suggest_param g rd ?seed ?sp tid)
        \<lparr>sg_study = st2, sg_draws = [], sg_out = []\<rparr> (sorted_param_names ?sp) = Inr s"
      and ts: "t = \<lparr>tr_params = sg_out s\<rparr>"
      by (auto simp: suggest_def suggest_seed_def pick_sampler_def Let_def split: sum.splits)
    note 0 = random_law_study(1) [OF g c]
    have 1: "rnd st1 \<and> rng st1 = init (rd_int63 rd ?seed)"
      by (rule fold_result_inv [OF h, where P = "\<lambda>s. rnd s \<and> rng s = init (rd_int63 rd ?seed)"])
        (use 0 inject_observation_rng [OF g] in fastforce)+
    with random_law_study(2) [OF g _ tr] f ts show ?thesis by (metis (no_types))
  qed
  obtain st tid s where 1: "rnd st" "rng st = init (rd_int63 rd ?seed)" "t1 = \<lparr>tr_params = sg_out s\<rparr>"
    "fold_result (suggest_param g rd ?seed ?sp tid) \<lparr>sg_study = st, sg_draws = [], sg_out = []\<rparr>
       (sorted_param_names ?sp) = Inr s"
    using run [OF t(1) n(1)] by blast
  obtain st' tid' s' where 2: "rnd st'" "rng st' = init (rd_int63 rd ?seed)"
    "t2 = \<lparr>tr_params = sg_out s'\<rparr>"
    "fold_result (suggest_param g rd ?seed ?sp tid') \<lparr>sg_study = st', sg_draws = [], sg_out = []\<rparr>
       (sorted_param_names ?sp) = Inr s'"
    using run [OF t(2) n(2)] by blast
  have "same_sugg rnd rng s s'"
    by (rule suggest_params_same [OF g _ 1(4) 2(4)]) (simp add: same_sugg_def 1 2)
  with 1(3) 2(3) show ?thesis by (simp add: same_sugg_def)
qed

subsection \<open>Concrete runs\<close>

definition demo_history :: "observation list" where
  "demo_history = [\<lparr>ob_params = [(''rate'', VFloat (Fin 1))], ob_eval_loss = Fin 1\<rparr>]"

definition demo_trial :: trial where
  "demo_trial = \<lparr>tr_params =
     [(''offload'', VStr ''none''), (''rank'', VInt 4), (''rate'', VFloat (Fin 1))]\<rparr>"

lemma demo_suggest_history:
  "suggest low_goptuna zero_rand demo_config demo_history = Inr demo_trial"
  by code_simp

lemma demo_suggest_first: "suggest low_goptuna zero_rand demo_config [] = Inr demo_trial"
  by (simp add: demo_suggest demo_trial_def)

lemma suggest_categorical_constant_witness:
  "map_sum id (\<lambda>t. gm_get (tr_params t) ''offload'') (suggest low_goptuna zero_rand demo_config [])
   = map_sum id (\<lambda>t. gm_get (tr_params t) ''offload'')
       (suggest low_goptuna zero_rand demo_config demo_history)"
proof -
  have "cf_seed demo_config \<noteq> 0" "cat_only (cf_space demo_config) ''offload''" by code_simp+
  from suggest_categorical_constant [OF this demo_suggest_first demo_suggest_history]
  show ?thesis by (simp add: demo_suggest_first demo_suggest_history)
qed

lemma low_goptuna_random: "random_sampler_law low_goptuna (\<lambda>_. True) (\<lambda>_. ()) (\<lambda>_. ())"
  by (simp add: random_sampler_law_def keeps_rng_def same_draw_def low_goptuna_def)

lemma warmup_suggestions_equal_witness:
  "suggest low_goptuna zero_rand demo_config [] = suggest low_goptuna zero_rand demo_config demo_history"
proof -
  have "cf_seed demo_config \<noteq> 0" "int (length ([] :: observation list)) < cf_warmup demo_config"
    "int (length demo_history) < cf_warmup demo_config" by code_simp+
  from warmup_suggestions_equal [OF low_goptuna_random this demo_suggest_first demo_suggest_history]
  show ?thesis by (simp add: demo_suggest_first demo_suggest_history)
qed

end
