(* ===== verification/Proposal.thy ===== *)
theory Proposal
  imports Dashboard SearchSeed
begin

text \<open>
  \<open>requestProposal\<close> of \<open>autoresearchproject_controller.go\<close>: one wiki transaction that reads the
  history and HYPOTHESES.md, asks the searcher for the next configuration and commits it. The
  function changes conditions of the project even when it fails, so it returns the remote, the
  project and a result. The clock is read once per call.
\<close>

text \<open>What the step takes from libraries: the optimiser, the generator, the two YAML codecs.\<close>

record 'st search_env =
  se_goptuna :: "'st goptuna"
  se_rand :: gorand
  se_unmarshal :: "string \<Rightarrow> string + hypotheses"
  se_marshal :: "qlora \<Rightarrow> string result"

subsection \<open>Messages of the searcher\<close>

definition goval_type :: "goval \<Rightarrow> string" where
  "goval_type v =
     (case v of
        VInt _ \<Rightarrow> ''int'' | VInt32 _ \<Rightarrow> ''int32'' | VInt64 _ \<Rightarrow> ''int64''
      | VFloat _ \<Rightarrow> ''float64'' | VFloat32 _ \<Rightarrow> ''float32'' | VStr _ \<Rightarrow> ''string'' | VOther s \<Rightarrow> s)"

fun search_error_text :: "search_error \<Rightarrow> string" where
  "search_error_text EmptySpace = ''search: Space has no parameters''"
| "search_error_text (IntLowAboveHigh n lo hi) = ''search: IntSpec '' @ go_quote n @ '': Low (''
     @ itoa lo @ '') > High ('' @ itoa hi @ '')''"
| "search_error_text (IntNegativeStep n s) = ''search: IntSpec '' @ go_quote n @ '': Step (''
     @ itoa s @ '') must be >= 0''"
| "search_error_text (FloatLowAboveHigh n lo hi) = ''search: FloatSpec '' @ go_quote n @ '': Low (''
     @ fmt_g lo @ '') > High ('' @ fmt_g hi @ '')''"
| "search_error_text (FloatLogLow n lo) = ''search: FloatSpec '' @ go_quote n
     @ '': Log=true requires Low > 0 (got '' @ fmt_g lo @ '')''"
| "search_error_text (NoChoices n) = ''search: CategoricalSpec '' @ go_quote n @ '': Choices is empty''"
| "search_error_text (CreateStudyErr e) = ''search: create study: '' @ e"
| "search_error_text (HistoricalTrialErr e) = ''search: create historical trial: '' @ e"
| "search_error_text (NotAnInt n v) = ''search: history param '' @ go_quote n @ '' is not an int (got ''
     @ goval_type v @ '')''"
| "search_error_text (SetIntErr n e) = ''search: set int param '' @ go_quote n @ '': '' @ e"
| "search_error_text (NotAFloat n v) = ''search: history param '' @ go_quote n @ '' is not a float (got ''
     @ goval_type v @ '')''"
| "search_error_text (SetFloatErr n e) = ''search: set float param '' @ go_quote n @ '': '' @ e"
| "search_error_text (NotAString n v) = ''search: history param '' @ go_quote n @ '' is not a string (got ''
     @ goval_type v @ '')''"
| "search_error_text (NotInChoices n s) = ''search: history param '' @ go_quote n @ '' value ''
     @ go_quote s @ '' not in Choices''"
| "search_error_text (SetCatErr n e) = ''search: set categorical param '' @ go_quote n @ '': '' @ e"
| "search_error_text (SetValueErr e) = ''search: set trial value: '' @ e"
| "search_error_text (SetStateErr e) = ''search: set trial state: '' @ e"
| "search_error_text (NewTrialErr e) = ''search: create new trial: '' @ e"
| "search_error_text (SuggestIntErr n e) = ''search: suggest int '' @ go_quote n @ '': '' @ e"
| "search_error_text (SuggestFloatErr n e) = ''search: suggest float '' @ go_quote n @ '': '' @ e"
| "search_error_text (IntnPanic n) = ''invalid argument to Intn''"
| "search_error_text (ParamUnreachable n) = ''search: param '' @ go_quote n @ '' not found in any spec map''"

subsection \<open>HYPOTHESES.md\<close>

definition strategist_message :: "hypotheses \<Rightarrow> nat \<Rightarrow> string" where
  "strategist_message h notices =
     (let parts =
        (if hy_after_round h > 0 then [''after round '' @ itoa (hy_after_round h)] else [])
        @ (if hy_adjust h \<noteq> [] then [itoa (int (length (hy_adjust h))) @ '' param adjustments''] else [])
        @ (if hy_references h \<noteq> [] then [itoa (int (length (hy_references h))) @ '' references''] else [])
        @ (if notices > 0 then [itoa (int notices) @ '' clamped''] else [])
      in if parts = [] then ''HYPOTHESES.md applied (no adjustments)''
         else ''HYPOTHESES.md applied: '' @ join '', '' parts)"

definition current_hypotheses :: "(string \<Rightarrow> string + hypotheses) \<Rightarrow> string \<Rightarrow> hypotheses" where
  "current_hypotheses unmarshal body =
     (if body = [] then no_hypotheses
      else case parse_hypotheses unmarshal body of Inl _ \<Rightarrow> no_hypotheses | Inr h \<Rightarrow> h)"

text \<open>Step 3: the space to search and whether the file is there.\<close>

definition layer_hypotheses ::
    "(string \<Rightarrow> string + hypotheses) \<Rightarrow> gotime \<Rightarrow> string result \<Rightarrow> project \<Rightarrow> project \<times> space \<times> bool" where
  "layer_hypotheses unmarshal now rd p =
     (case rd of
        Inl _ \<Rightarrow> (p, default_space, False)
      | Inr body \<Rightarrow>
         (if body = [] then (p, default_space, False)
          else case parse_hypotheses unmarshal body of
            Inl e \<Rightarrow>
              (set_cond (condition now ''StrategistOK'' ''False'' ''HypothesesMalformed'' (truncate_msg e 256)) p,
               default_space, True)
          | Inr h \<Rightarrow>
              (let (sp, notices) = apply_hypotheses h default_space
               in (set_cond (condition now ''StrategistOK'' ''True'' ''HypothesesApplied''
                     (truncate_msg (strategist_message h (length notices)) 256)) p, sp, True))))"

subsection \<open>The commit of a proposal\<close>

definition search_config :: "project \<Rightarrow> space \<Rightarrow> config" where
  "search_config p sp =
     \<lparr>cf_sampler = sampler_tpe, cf_direction = direction_minimize,
      cf_seed = seed_from_uid (om_UID (p_meta p)), cf_space = sp, cf_warmup = default_warmup_trials\<rparr>"

text \<open>The conditions of the happy path.\<close>

definition proposal_conditions :: "gotime \<Rightarrow> int \<Rightarrow> observation list \<Rightarrow> project \<Rightarrow> project" where
  "proposal_conditions now rnd history p =
     (let n = int (length history); stag = int (stagnation_count history);
          p1 = set_cond (condition now ''WikiSyncOK'' ''True'' ''ProposalPushed''
                 (''proposals/round-'' @ itoa rnd @ ''.{yaml,md} committed to wiki via GitHub App'')) p;
          p2 = set_cond (condition now ''SearchAlive'' ''True'' ''SuggestProduced''
                 (''TPE produced round '' @ itoa rnd @ '' config from '' @ itoa n @ '' observations'')) p1
      in if stag \<ge> strategist_on_stagnation then
           set_cond (condition now ''StagnationDetected'' ''True'' ''PlateauDetected''
             (truncate_msg (''plateau: no eval_loss improvement in '' @ itoa stag @ '' rounds (threshold ''
                @ itoa strategist_on_stagnation @ '') '' @ em_dash
                @ '' strategist will run on next reconcile'') 256)) p2
         else
           set_cond (condition now ''StagnationDetected'' ''False'' ''Improving''
             (truncate_msg (itoa stag @ '' rounds since last improvement'') 256)) p2)"

text \<open>Step 5: stage both files, and the dashboard if it can be written, then commit and push.\<close>

definition stage_proposal ::
    "wiki_env \<Rightarrow> wiki_tx \<Rightarrow> int \<Rightarrow> string \<Rightarrow> string \<Rightarrow> (wiki_tx \<Rightarrow> string) \<Rightarrow> wiki_tx result" where
  "stage_proposal env tx rnd cfg_yaml md dash =
     (case tx_write env tx (''proposals/round-'' @ itoa rnd @ ''.yaml'') cfg_yaml of
        (_, Some e) \<Rightarrow> Inl e
      | (tx1, None) \<Rightarrow>
     (case tx_write env tx1 (''proposals/round-'' @ itoa rnd @ ''.md'') md of
        (_, Some e) \<Rightarrow> Inl e
      | (tx2, None) \<Rightarrow>
         (if dash tx2 \<noteq> [] then Inr (fst (tx_write env tx2 ''DASHBOARD.md'' (dash tx2))) else Inr tx2)))"

definition search_proposal ::
    "'st search_env \<Rightarrow> wiki_env \<Rightarrow> gotime \<Rightarrow> remote \<Rightarrow> project \<Rightarrow> int \<Rightarrow> wiki_tx
     \<Rightarrow> remote \<times> project \<times> (qlora \<times> string) result" where
  "search_proposal se env now remote p rnd tx =
     (case load_wiki_history (tx_list env tx) (tx_read env tx) default_space of
        Inl e \<Rightarrow> (remote, p, Inl (''load wiki history: '' @ e))
      | Inr history \<Rightarrow>
     (let rd = tx_read env tx ''HYPOTHESES.md'';
          body = (case rd of Inl _ \<Rightarrow> [] | Inr b \<Rightarrow> b);
          (p1, sp, present) = layer_hypotheses (se_unmarshal se) now rd p
      in case new_searcher (search_config p1 sp) of
        Inl e \<Rightarrow> (remote, p1, Inl (''build searcher: '' @ search_error_text e))
      | Inr cfg0 \<Rightarrow>
     (case suggest (se_goptuna se) (se_rand se) cfg0 history of
        Inl e \<Rightarrow> (remote, p1, Inl (''searcher.Suggest: '' @ search_error_text e))
      | Inr t \<Rightarrow>
     (let cfg = trial_to_qlora rnd t (length history)
      in case se_marshal se cfg of
        Inl e \<Rightarrow> (remote, p1, Inl (''marshal proposal: '' @ e))
      | Inr cfg_yaml \<Rightarrow>
     (case stage_proposal env tx rnd cfg_yaml (build_proposal_md rnd cfg (length history))
             (render_dashboard p1 rnd now history (current_hypotheses (se_unmarshal se) body) sp env) of
        Inl e \<Rightarrow> (remote, p1, Inl e)
      | Inr tx1 \<Rightarrow>
     (case finish_push (commit_and_push env remote tx1 (''propose: round '' @ itoa rnd)) of
        (remote1, Some e) \<Rightarrow>
          (remote1,
           set_cond (condition now ''WikiSyncOK'' ''False'' ''ProposalPushFailed'' (truncate_msg e 256)) p1,
           Inl e)
      | (remote1, None) \<Rightarrow>
          (remote1, proposal_conditions now rnd history p1,
           Inr (cfg, ''searcher (TPE, '' @ itoa (int (length history)) @ '' prior observations)''
                @ (if present then '' + HYPOTHESES.md'' else [])))))))))"

definition request_proposal ::
    "'st search_env \<Rightarrow> cluster \<Rightarrow> wiki_env \<Rightarrow> gotime \<Rightarrow> remote \<Rightarrow> project \<Rightarrow> int
     \<Rightarrow> remote \<times> project \<times> (qlora \<times> string) result" where
  "request_proposal se cl env now remote p rnd =
     (if ps_ValidationMode (p_Spec p) then
        (remote, p, Inr (validation_qlora rnd, ''validation (spec.validationMode=true)''))
      else case begin_wiki_tx cl env remote p of
        Inl e \<Rightarrow>
          (remote, set_cond (condition now ''WikiSyncOK'' ''False'' ''OpenFailed'' (truncate_msg e 256)) p,
           Inl (''open wiki: '' @ e))
      | Inr tx \<Rightarrow> search_proposal se env now remote p rnd tx)"

subsection \<open>The configuration lies in the default space\<close>

lemma default_space_floats:
  "sp_floats default_space =
     [(''lora_dropout'', \<lparr>fs_low = Fin 0, fs_high = Fin (3602879701896397 / 18014398509481984), fs_log = False\<rparr>),
      (''learning_rate'', \<lparr>fs_low = Fin (7378697629483821 / 147573952589676412928),
         fs_high = Fin (1152921504606847 / 2305843009213693952), fs_log = True\<rparr>),
      (''weight_decay'', \<lparr>fs_low = Fin 0, fs_high = Fin (3602879701896397 / 36028797018963968), fs_log = False\<rparr>)]"
  using f64_of_rat_eq [of "-3" "2 / 10"] f64_of_rat_eq [of "-15" "5 / 100000"]
    f64_of_rat_eq [of "-11" "5 / 10000"] f64_of_rat_eq [of "-4" "1 / 10"]
  by (simp add: default_space_def pow2_def round_half_even_def Let_def)

lemma default_space_ok: "space_ok default_space" "space_wf default_space"
proof -
  have "\<forall>(n, s) \<in> set (sp_floats default_space). float_spec_ok s"
    by (simp add: default_space_floats float_spec_ok_def fle_def feq_def)
  then show "space_ok default_space"
    by (simp add: space_ok_def space_empty_def) (simp add: default_space_def int_spec_ok_def)
  show "space_wf default_space" by (simp add: space_wf_def gm_wf_def default_space_def)
qed

text \<open>What YAML can hold: no key twice, and no NaN.\<close>

definition unmarshal_ok :: "(string \<Rightarrow> string + hypotheses) \<Rightarrow> bool" where
  "unmarshal_ok f \<longleftrightarrow>
     (\<forall>y h. f y = Inr h \<longrightarrow> gm_wf (hy_adjust h) \<and> (\<forall>(k, a) \<in> set (hy_adjust h). adjustment_finite a))"

lemma space_narrows_refl:
  assumes "space_ok sp"
  shows "space_narrows sp sp"
proof -
  have "fs_low f \<noteq> FNaN \<and> fs_high f \<noteq> FNaN" if "gm_get (sp_floats sp) n = Some f" for n f
    using space_okD(2) [OF assms that] by (auto simp: float_spec_ok_def fle_def feq_def dest: flt_not_NaN)
  then show ?thesis by (auto simp: space_narrows_def)
qed

lemma parse_hypotheses_ok:
  assumes "unmarshal_ok f" "parse_hypotheses f body = Inr h"
  shows "gm_wf (hy_adjust h)" "\<forall>(k, a) \<in> set (hy_adjust h). adjustment_finite a"
  using assms by (auto simp: parse_hypotheses_def unmarshal_ok_def Let_def no_hypotheses_def
      split: if_splits sum.splits)

lemma layer_hypotheses_space:
  assumes "unmarshal_ok f" "layer_hypotheses f now rd p = (p1, sp, present)"
  shows "space_ok sp \<and> space_narrows sp default_space \<and> p_Spec p1 = p_Spec p \<and> p_meta p1 = p_meta p"
proof -
  have "space_ok (fst (apply_hypotheses h default_space))
      \<and> space_narrows (fst (apply_hypotheses h default_space)) default_space"
    if "parse_hypotheses f body = Inr h" for body h
    using apply_loop_narrows [OF default_space_ok parse_hypotheses_ok [OF assms(1) that]] .
  then show ?thesis using assms(2) default_space_ok(1) space_narrows_refl
    by (auto simp: layer_hypotheses_def Let_def split: sum.splits if_splits prod.splits)
      (metis fst_conv)+
qed

lemma narrows_keys:
  assumes "space_narrows sp old"
  shows "gm_get (sp_ints sp) n = None \<longleftrightarrow> gm_get (sp_ints old) n = None"
    and "gm_get (sp_floats sp) n = None \<longleftrightarrow> gm_get (sp_floats old) n = None"
proof -
  have "set (map fst (sp_ints sp)) = set (map fst (sp_ints old))"
    and "set (map fst (sp_floats sp)) = set (map fst (sp_floats old))"
    using assms by (simp_all only: space_narrows_def)
  then show "gm_get (sp_ints sp) n = None \<longleftrightarrow> gm_get (sp_ints old) n = None"
    and "gm_get (sp_floats sp) n = None \<longleftrightarrow> gm_get (sp_floats old) n = None"
    by (simp_all only: gm_get_None_iff list.set_map)
qed

lemma trial_value:
  assumes "trial_in_space sp t" "gm_get (sp_ints sp) n \<noteq> None \<or> gm_get (sp_floats sp) n \<noteq> None"
  obtains v where "gm_get (tr_params t) n = Some v" "value_in_space sp n v"
proof -
  have "n \<in> fst ` set (tr_params t)"
    using assms unfolding trial_in_space_def gm_get_None_iff by simp
  then obtain v where "gm_get (tr_params t) n = Some v"
    by (cases "gm_get (tr_params t) n") (simp_all add: gm_get_None_iff)
  with assms(1) that show thesis by (simp add: trial_in_space_def)
qed

lemma narrowed_int:
  assumes "space_narrows sp old" "trial_in_space sp t" "gm_get (sp_ints old) n = Some s"
  shows "is_low s \<le> as_int t n \<and> as_int t n \<le> is_high s"
proof -
  obtain s' where s': "gm_get (sp_ints sp) n = Some s'"
    using narrows_keys(1) [OF assms(1), of n] assms(3) by auto
  obtain v where v: "gm_get (tr_params t) n = Some v" "value_in_space sp n v"
    using trial_value [OF assms(2)] s' by blast
  moreover have "is_low s \<le> is_low s' \<and> is_high s' \<le> is_high s"
    using assms(1,3) s' by (simp add: space_narrows_def)
  ultimately show ?thesis using s' by (auto simp: value_in_space_def as_int_def split: goval.splits)
qed

lemma narrowed_float:
  assumes "space_narrows sp old" "trial_in_space sp t" "gm_get (sp_floats old) n = Some s"
    and "gm_get (sp_ints old) n = None"
  shows "fle (fs_low s) (as_float t n) \<and> fle (as_float t n) (fs_high s)"
proof -
  obtain s' where s': "gm_get (sp_floats sp) n = Some s'" "gm_get (sp_ints sp) n = None"
    using narrows_keys [OF assms(1), of n] assms(3,4) by auto
  obtain v where v: "gm_get (tr_params t) n = Some v" "value_in_space sp n v"
    using trial_value [OF assms(2)] s' by blast
  moreover have "fle (fs_low s) (fs_low s')" "fle (fs_high s') (fs_high s)"
    using assms(1,3) s' by (simp_all add: space_narrows_def)
  ultimately show ?thesis using s'
    by (auto simp: value_in_space_def as_float_def split: goval.splits intro: fle_trans)
qed

text \<open>The bounds of the default space, written out.\<close>

definition qlora_in_bounds :: "qlora \<Rightarrow> bool" where
  "qlora_in_bounds c \<longleftrightarrow>
     4 \<le> q_LoraRank c \<and> q_LoraRank c \<le> 64 \<and> 8 \<le> q_LoraAlpha c \<and> q_LoraAlpha c \<le> 128
     \<and> 100 \<le> q_NumTrainingSteps c \<and> q_NumTrainingSteps c \<le> 500
     \<and> 1 \<le> q_PerDeviceBatch c \<and> q_PerDeviceBatch c \<le> 8
     \<and> 1 \<le> q_GradAccum c \<and> q_GradAccum c \<le> 8
     \<and> 512 \<le> q_MaxSeqLen c \<and> q_MaxSeqLen c \<le> 2048
     \<and> 0 \<le> q_WarmupSteps c \<and> q_WarmupSteps c \<le> 50
     \<and> fle (Fin 0) (q_LoraDropout c) \<and> fle (q_LoraDropout c) (f64_of_rat (2 / 10))
     \<and> fle (f64_of_rat (5 / 100000)) (q_LearningRate c) \<and> fle (q_LearningRate c) (f64_of_rat (5 / 10000))
     \<and> fle (Fin 0) (q_WeightDecay c) \<and> fle (q_WeightDecay c) (f64_of_rat (1 / 10))"

lemma trial_in_bounds:
  assumes n: "space_narrows sp default_space" and t: "trial_in_space sp t"
  shows "qlora_in_bounds (trial_to_qlora rnd t k)"
proof -
  note i = narrowed_int [OF n t] and f = narrowed_float [OF n t]
  have g: "gm_get (sp_ints default_space) ''lora_rank'' = Some \<lparr>is_low = 4, is_high = 64, is_step = 2\<rparr>"
    "gm_get (sp_ints default_space) ''lora_alpha'' = Some \<lparr>is_low = 8, is_high = 128, is_step = 4\<rparr>"
    "gm_get (sp_ints default_space) ''num_training_steps'' = Some \<lparr>is_low = 100, is_high = 500, is_step = 20\<rparr>"
    "gm_get (sp_ints default_space) ''per_device_batch_size'' = Some \<lparr>is_low = 1, is_high = 8, is_step = 0\<rparr>"
    "gm_get (sp_ints default_space) ''gradient_accumulation_steps'' = Some \<lparr>is_low = 1, is_high = 8, is_step = 0\<rparr>"
    "gm_get (sp_ints default_space) ''max_seq_length'' = Some \<lparr>is_low = 512, is_high = 2048, is_step = 256\<rparr>"
    "gm_get (sp_ints default_space) ''warmup_steps'' = Some \<lparr>is_low = 0, is_high = 50, is_step = 5\<rparr>"
    by (simp_all add: default_space_def)
  have h: "gm_get (sp_floats default_space) ''lora_dropout'' = Some \<lparr>fs_low = Fin 0, fs_high = f64_of_rat (2 / 10), fs_log = False\<rparr>"
    "gm_get (sp_floats default_space) ''learning_rate'' = Some \<lparr>fs_low = f64_of_rat (5 / 100000), fs_high = f64_of_rat (5 / 10000), fs_log = True\<rparr>"
    "gm_get (sp_floats default_space) ''weight_decay'' = Some \<lparr>fs_low = Fin 0, fs_high = f64_of_rat (1 / 10), fs_log = False\<rparr>"
    "gm_get (sp_ints default_space) ''lora_dropout'' = None"
    "gm_get (sp_ints default_space) ''learning_rate'' = None"
    "gm_get (sp_ints default_space) ''weight_decay'' = None"
    by (simp_all add: default_space_def)
  show ?thesis
    using i [OF g(1)] i [OF g(2)] i [OF g(3)] i [OF g(4)] i [OF g(5)] i [OF g(6)] i [OF g(7)]
      f [OF h(1,4)] f [OF h(2,5)] f [OF h(3,6)]
    unfolding qlora_in_bounds_def trial_to_qlora_def
    by (simp only: qlora.select_convs int_spec.select_convs float_spec.select_convs)
qed

lemma space_ok_not_nan: "space_ok sp \<Longrightarrow> bounds_not_nan sp"
  by (auto simp: space_ok_def bounds_not_nan_def float_spec_ok_def fle_def feq_def dest: flt_not_NaN)

lemma fle_between: "fle (Fin a) x \<Longrightarrow> fle x (Fin b) \<Longrightarrow> \<exists>v. x = Fin v \<and> a \<le> v \<and> v \<le> b"
  by (cases x) (auto simp: fle_def feq_def)

text \<open>What happened when \<open>search_proposal\<close> returned a configuration.\<close>

lemma search_proposal_Inr:
  assumes "search_proposal se env now remote p rnd tx = (remote', p', Inr (cfg, src))"
  obtains history p1 sp present cfg0 t y tx1 tx2 where
    "load_wiki_history (tx_list env tx) (tx_read env tx) default_space = Inr history"
    "layer_hypotheses (se_unmarshal se) now (tx_read env tx ''HYPOTHESES.md'') p = (p1, sp, present)"
    "new_searcher (search_config p1 sp) = Inr cfg0"
    "suggest (se_goptuna se) (se_rand se) cfg0 history = Inr t"
    "cfg = trial_to_qlora rnd t (length history)" "se_marshal se cfg = Inr y"
    "stage_proposal env tx rnd y (build_proposal_md rnd cfg (length history))
       (render_dashboard p1 rnd now history (current_hypotheses (se_unmarshal se)
          (case tx_read env tx ''HYPOTHESES.md'' of Inl _ \<Rightarrow> [] | Inr b \<Rightarrow> b)) sp env) = Inr tx1"
    "commit_and_push env remote tx1 (''propose: round '' @ itoa rnd) = (remote', tx2, None)"
    "p' = proposal_conditions now rnd history p1"
  using assms
  by (auto simp: search_proposal_def Let_def finish_push_None split: sum.splits prod.splits option.splits)

lemma request_proposal_Inr:
  assumes "request_proposal se cl env now remote p rnd = (remote', p', Inr (cfg, src))"
    and "\<not> ps_ValidationMode (p_Spec p)"
  obtains tx where "begin_wiki_tx cl env remote p = Inr tx"
    "search_proposal se env now remote p rnd tx = (remote', p', Inr (cfg, src))"
  using assms by (auto simp: request_proposal_def split: sum.splits)

lemma default_rates:
  "f64_of_rat (5 / 100000) = Fin (7378697629483821 / 147573952589676412928)"
  "f64_of_rat (5 / 10000) = Fin (1152921504606847 / 2305843009213693952)"
  "f64_of_rat (1 / 100) = Fin (5764607523034235 / 576460752303423488)"
  using f64_of_rat_eq [of "-15" "5 / 100000"] f64_of_rat_eq [of "-11" "5 / 10000"]
    f64_of_rat_eq [of "-7" "1 / 100"]
  by (simp_all add: pow2_def round_half_even_def Let_def)

text \<open>
  C4: whatever the strategist writes to HYPOTHESES.md, a configuration that is proposed outside
  validation mode lies within the operator's default bounds, and it passes the sanity check of
  \<open>validateQLoRAConfig\<close>.
\<close>

theorem proposal_in_bounds:
  assumes "goptuna_ok (se_goptuna se) live" "gorand_ok (se_rand se)" "unmarshal_ok (se_unmarshal se)"
    and "\<not> ps_ValidationMode (p_Spec p)"
    and "request_proposal se cl env now remote p rnd = (remote', p', Inr (cfg, src))"
  shows "qlora_in_bounds cfg \<and> validate_qlora cfg = None"
proof -
  obtain tx where "search_proposal se env now remote p rnd tx = (remote', p', Inr (cfg, src))"
    using assms(5,4) by (rule request_proposal_Inr)
  then obtain history p1 sp present cfg0 t where
    l: "layer_hypotheses (se_unmarshal se) now (tx_read env tx ''HYPOTHESES.md'') p = (p1, sp, present)"
    and n: "new_searcher (search_config p1 sp) = Inr cfg0"
    and s: "suggest (se_goptuna se) (se_rand se) cfg0 history = Inr t"
    and c: "cfg = trial_to_qlora rnd t (length history)"
    by (rule search_proposal_Inr)
  have sp: "space_ok sp \<and> space_narrows sp default_space"
    using layer_hypotheses_space [OF assms(3) l] by blast
  have e: "cf_space (search_config p1 sp) = sp" by (simp add: search_config_def)
  then have "trial_in_space sp t"
    using suggest_in_space_lemma [OF assms(1,2) n _ s] sp space_ok_not_nan new_searcher_space [OF n]
    by simp
  then have b: "qlora_in_bounds cfg" using trial_in_bounds sp c by blast
  obtain v where "q_LearningRate cfg = Fin v" "7378697629483821 / 147573952589676412928 \<le> v"
    "v \<le> 1152921504606847 / 2305843009213693952"
    using fle_between b unfolding qlora_in_bounds_def default_rates by meson
  then have "\<not> fle (q_LearningRate cfg) (Fin 0)" "\<not> flt (f64_of_rat (1 / 100)) (q_LearningRate cfg)"
    by (auto simp: default_rates fle_def feq_def)
  moreover have "q_TargetModules cfg \<noteq> []" by (simp add: c trial_to_qlora_def)
  ultimately have "validate_qlora cfg = None"
    using b by (simp add: validate_qlora_def qlora_in_bounds_def)
  with b show ?thesis ..
qed

text \<open>
  A proposal that fails leaves the wiki as it was: nothing is published unless the whole round
  is.
\<close>

theorem failed_proposal_keeps_wiki:
  assumes "request_proposal se cl env now remote p rnd = (remote', p', Inl e)"
  shows "remote' = remote"
proof -
  have f: "remote1 = remote" if "finish_push (commit_and_push env remote tx msg) = (remote1, Some e)"
    for tx msg remote1 e
    using that by (auto simp: finish_push_def split: prod.splits elim: commit_and_push_cases)
  show ?thesis using assms
    by (auto simp: request_proposal_def search_proposal_def Let_def dest!: f
        split: if_splits sum.splits prod.splits option.splits)
qed

text \<open>
  When a proposal succeeds outside validation mode, a later transaction of the project reads
  the configuration of that round from the wiki.
\<close>

theorem proposal_published:
  assumes "request_proposal se cl env now remote p rnd = (remote', p', Inr (cfg, src))"
    and "\<not> ps_ValidationMode (p_Spec p)"
    and "begin_wiki_tx cl env' remote' p = Inr tx'"
  shows "\<exists>y. se_marshal se cfg = Inr y
    \<and> tx_read no_faults tx' (''proposals/'' @ round_file rnd ''yaml'') = Inr y"
proof -
  let ?y = "''proposals/round-'' @ itoa rnd @ ''.yaml''" and ?m = "''proposals/round-'' @ itoa rnd @ ''.md''"
  obtain tx where b: "begin_wiki_tx cl env remote p = Inr tx"
    and sp: "search_proposal se env now remote p rnd tx = (remote', p', Inr (cfg, src))"
    using assms(1,2) by (rule request_proposal_Inr)
  from sp obtain y md dash tx1 tx2 msg where y: "se_marshal se cfg = Inr y"
    and st: "stage_proposal env tx rnd y md dash = Inr tx1"
    and c: "commit_and_push env remote tx1 msg = (remote', tx2, None)"
    by (rule search_proposal_Inr)
  from st obtain t1 t2 where w1: "tx_write env tx ?y y = (t1, None)" and w2: "tx_write env t1 ?m md = (t2, None)"
    and t: "tx1 = t2 \<or> tx1 = fst (tx_write env t2 ''DASHBOARD.md'' (dash t2))"
    by (auto simp: stage_proposal_def split: prod.splits option.splits if_splits)
  note w = tx_write_None [OF w1] tx_write_None [OF w2]
  have "has_suffix ?y ''.yaml''" "\<not> has_suffix ?m ''.yaml''" "\<not> has_suffix ''DASHBOARD.md'' ''.yaml''"
    by (simp_all add: has_suffix_def)
  then have ne: "?y \<noteq> ?m" "?y \<noteq> ''DASHBOARD.md''" by metis+
  have "gm_get (tx_index t2) ?y = Some y" using w ne by simp
  then have i: "gm_get (tx_index tx1) ?y = Some y"
    using t ne by (auto simp: tx_write_def Let_def split: option.splits)
  obtain t3 r where w3: "tx_write env t2 ''DASHBOARD.md'' (dash t2) = (t3, r)" by fastforce
  have h: "tx_head tx1 = tx_head tx" "tx_head_ref tx1 = tx_head_ref tx"
    using t tx_write_frame [OF w1] tx_write_frame [OF w2] tx_write_frame [OF w3] by (auto simp: w3)
  obtain kb where kb: "cl_get_kb cl (om_Namespace (p_meta p)) (ps_KnowledgeBase (p_Spec p)) = Inr kb"
    "begin_tx env remote (Some kb) (Some (cl_mint cl)) = Inr tx"
    using b by (rule begin_wiki_tx_Inr)
  have "begin_tx env' remote' (Some kb) (Some (cl_mint cl)) = Inr tx'"
    using assms(3) kb(1) by (elim begin_wiki_tx_Inr) simp
  from published_tree [OF kb(2) h c this] i y show ?thesis
    by (simp add: tx_read_def round_file_def)
qed

text \<open>
  Once the wiki holds an observation that does not fit the space that HYPOTHESES.md leaves (for
  instance a choice that has been pruned), the proposal fails and changes nothing on the wiki, so
  that the retry meets the same state.
\<close>

theorem misfit_blocks_proposals:
  assumes "goptuna_ok (se_goptuna se) live" "gorand_ok (se_rand se)" "unmarshal_ok (se_unmarshal se)"
    and "\<not> ps_ValidationMode (p_Spec p)" "begin_wiki_tx cl env remote p = Inr tx"
    and "load_wiki_history (tx_list env tx) (tx_read env tx) default_space = Inr history"
    and "layer_hypotheses (se_unmarshal se) now (tx_read env tx ''HYPOTHESES.md'') p = (p1, sp, present)"
    and "obs \<in> set history" "\<not> observation_fits sp obs"
  shows "\<exists>e. request_proposal se cl env now remote p rnd = (remote, p1, Inl (''searcher.Suggest: '' @ e))"
proof -
  have sp: "space_ok sp" using layer_hypotheses_space [OF assms(3,7)] by blast
  have e: "cf_space (search_config p1 sp) = sp" by (simp add: search_config_def)
  then obtain cfg0 where n: "new_searcher (search_config p1 sp) = Inr cfg0"
    using new_searcher_ok_iff [of "search_config p1 sp"] sp space_ok_not_nan
    by (auto simp: is_ok_iff)
  have "\<not> is_ok (suggest (se_goptuna se) (se_rand se) cfg0 history)"
    using suggest_ok_lemma [OF assms(1,2) n, of history] sp space_ok_not_nan e
      new_searcher_space [OF n] assms(8,9) by auto
  then obtain e where "suggest (se_goptuna se) (se_rand se) cfg0 history = Inl e"
    unfolding is_ok_iff(2) by blast
  with n assms(4-7) show ?thesis
    by (intro exI [of _ "search_error_text e"]) (simp add: request_proposal_def search_proposal_def)
qed

subsection \<open>A proposal is produced\<close>

definition writable :: "wiki_tx \<Rightarrow> string \<Rightarrow> bool" where
  "writable tx p \<longleftrightarrow> \<not> under_file (tx_tree tx) p \<and> \<not> is_dir (tx_tree tx) p"

lemma write_writable:
  assumes "writable tx p" "p \<noteq> []" "\<not> has_prefix p ''/''"
  obtains tx' where "tx_write no_faults tx p c = (tx', None)"
  using tx_write_succeeds [of p tx c] assms by (simp add: writable_def)

lemma writable_after_write:
  assumes "tx_write env tx p c = (tx', None)" "writable tx q"
    and "\<not> has_prefix q (p @ ''/'')" "\<not> has_prefix p (q @ ''/'')"
  shows "writable tx' q"
  using assms tx_write_None [OF assms(1)]
  by (simp add: writable_def under_file_def is_dir_def list_ex_set)

lemma no_slash_prefix: "\<not> has_prefix (''proposals/round-'' @ s) (''proposals/round-'' @ t @ ''/'')"
  if "CHR ''/'' \<notin> set s"
  using that by (auto simp: has_prefix_iff)

lemma stage_proposal_succeeds:
  assumes "writable tx (''proposals/round-'' @ itoa rnd @ ''.yaml'')"
    and "writable tx (''proposals/round-'' @ itoa rnd @ ''.md'')"
  shows "\<exists>tx1. stage_proposal no_faults tx rnd y md dash = Inr tx1 \<and> tx_head_ref tx1 = tx_head_ref tx"
proof -
  let ?y = "''proposals/round-'' @ itoa rnd @ ''.yaml''" and ?m = "''proposals/round-'' @ itoa rnd @ ''.md''"
  have n: "CHR ''/'' \<notin> set (itoa rnd @ ''.yaml'')" "CHR ''/'' \<notin> set (itoa rnd @ ''.md'')"
    using itoa_digits [of rnd] by (auto simp: is_digit_def)
  obtain t1 where t1: "tx_write no_faults tx ?y y = (t1, None)"
    by (rule write_writable [OF assms(1)]) simp_all
  have "writable t1 ?m"
    by (rule writable_after_write [OF t1 assms(2)])
      (use no_slash_prefix [OF n(2), of "itoa rnd @ ''.yaml''"]
           no_slash_prefix [OF n(1), of "itoa rnd @ ''.md''"] in simp_all)
  then obtain t2 where t2: "tx_write no_faults t1 ?m md = (t2, None)"
    by (rule write_writable) simp_all
  obtain t3 r where t3: "tx_write no_faults t2 ''DASHBOARD.md'' (dash t2) = (t3, r)" by fastforce
  have "stage_proposal no_faults tx rnd y md dash = Inr (if dash t2 \<noteq> [] then t3 else t2)"
    unfolding stage_proposal_def t1 by (simp add: t2 [simplified] t3)
  with tx_write_frame [OF t1] tx_write_frame [OF t2] tx_write_frame [OF t3] show ?thesis by simp
qed

lemma proposal_succeeds_lemma:
  assumes "goptuna_ok (se_goptuna se) live" "gorand_ok (se_rand se)" "unmarshal_ok (se_unmarshal se)"
    and "\<forall>cfg. is_ok (se_marshal se cfg)"
    and "\<not> ps_ValidationMode (p_Spec p)" "begin_wiki_tx cl no_faults remote p = Inr tx"
    and "load_wiki_history (tx_list no_faults tx) (tx_read no_faults tx) default_space = Inr history"
    and "layer_hypotheses (se_unmarshal se) now (tx_read no_faults tx ''HYPOTHESES.md'') p = (p1, sp, present)"
    and "\<forall>obs \<in> set history. observation_fits sp obs"
    and "writable tx (''proposals/round-'' @ itoa rnd @ ''.yaml'')"
    and "writable tx (''proposals/round-'' @ itoa rnd @ ''.md'')"
  shows "is_ok (snd (snd (request_proposal se cl no_faults now remote p rnd)))"
proof -
  have sp: "space_ok sp" using layer_hypotheses_space [OF assms(3,8)] by blast
  have e: "cf_space (search_config p1 sp) = sp" by (simp add: search_config_def)
  then obtain cfg0 where n: "new_searcher (search_config p1 sp) = Inr cfg0"
    using new_searcher_ok_iff [of "search_config p1 sp"] sp space_ok_not_nan
    by (auto simp: is_ok_iff)
  have "is_ok (suggest (se_goptuna se) (se_rand se) cfg0 history)"
    using suggest_ok_lemma [OF assms(1,2) n, of history] sp space_ok_not_nan e
      new_searcher_space [OF n] assms(9) by auto
  then obtain t where t: "suggest (se_goptuna se) (se_rand se) cfg0 history = Inr t" by (rule is_okE)
  obtain y where y: "se_marshal se (trial_to_qlora rnd t (length history)) = Inr y"
    using assms(4) is_okE by blast
  have ref: "has_prefix (tx_head_ref tx) ''refs/heads/''"
    using assms(6) by (elim begin_wiki_tx_Inr begin_tx_Inr) (simp add: branch_ref_def)
  let ?cfg = "trial_to_qlora rnd t (length history)"
  let ?dash = "render_dashboard p1 rnd now history (current_hypotheses (se_unmarshal se)
      (case tx_read no_faults tx ''HYPOTHESES.md'' of Inl _ \<Rightarrow> [] | Inr b \<Rightarrow> b)) sp no_faults"
  obtain tx1 where tx1: "stage_proposal no_faults tx rnd y (build_proposal_md rnd ?cfg (length history)) ?dash
      = Inr tx1" "tx_head_ref tx1 = tx_head_ref tx"
    using stage_proposal_succeeds [OF assms(10,11)] by blast
  obtain r tx2 where c: "commit_and_push no_faults remote tx1 (''propose: round '' @ itoa rnd) = (r, tx2, None)"
    using commit_and_push_succeeds [of "''propose: round '' @ itoa rnd" tx1 remote] ref tx1(2)
    by (metis append_is_Nil_conv list.distinct(1) prod.collapse)
  have "is_ok (snd (snd (search_proposal se no_faults now remote p rnd tx)))"
    unfolding search_proposal_def assms(7) Let_def sum.case assms(8) prod.case n t y tx1(1) c finish_push_def
    by simp
  with assms(5,6) show ?thesis by (simp add: request_proposal_def)
qed


subsection \<open>A concrete round\<close>

definition demo_search :: "nat search_env" where
  "demo_search = \<lparr>se_goptuna = low_goptuna, se_rand = zero_rand, se_unmarshal = (\<lambda>_. Inl ''bad''),
                  se_marshal = (\<lambda>_. Inr ''cfg'')\<rparr>"

lemma demo_search_ok: "goptuna_ok (se_goptuna demo_search) (\<lambda>_ _. True)"
  "gorand_ok (se_rand demo_search)" "unmarshal_ok (se_unmarshal demo_search)"
  "\<forall>cfg. is_ok (se_marshal demo_search cfg)"
  by (simp_all add: demo_search_def low_goptuna_ok zero_rand_ok unmarshal_ok_def)

lemma demo_files:
  assumes "tx_tree tx = demo_wiki"
  shows "load_wiki_history (tx_list no_faults tx) (tx_read no_faults tx) schema = Inr []"
    and "tx_read no_faults tx ''HYPOTHESES.md'' = Inr []"
proof -
  have e: "tx_list no_faults tx = tx_list no_faults (demo_tx demo_wiki)"
    "tx_read no_faults tx = tx_read no_faults (demo_tx demo_wiki)"
    using assms by (simp_all add: fun_eq_iff tx_list_def tx_read_def demo_tx_def)
  show "load_wiki_history (tx_list no_faults tx) (tx_read no_faults tx) schema = Inr []"
    unfolding e by (rule demo_wiki_history)
  show "tx_read no_faults tx ''HYPOTHESES.md'' = Inr []" unfolding e by code_simp
qed

lemma demo_round:
  "\<not> ps_ValidationMode (p_Spec demo_project)"
  "load_wiki_history (tx_list no_faults (demo_begin demo_remote))
      (tx_read no_faults (demo_begin demo_remote)) default_space = Inr []"
  "layer_hypotheses (se_unmarshal demo_search) 0
      (tx_read no_faults (demo_begin demo_remote) ''HYPOTHESES.md'') demo_project
      = (demo_project, default_space, False)"
  "\<forall>obs \<in> set []. observation_fits default_space obs"
  "writable (demo_begin demo_remote) (''proposals/round-'' @ itoa 2 @ ''.yaml'')"
  "writable (demo_begin demo_remote) (''proposals/round-'' @ itoa 2 @ ''.md'')"
proof -
  show "\<not> ps_ValidationMode (p_Spec demo_project)" by code_simp
  show "load_wiki_history (tx_list no_faults (demo_begin demo_remote))
      (tx_read no_faults (demo_begin demo_remote)) default_space = Inr []"
    by (rule demo_files) (rule demo_begin_wiki)
  show "layer_hypotheses (se_unmarshal demo_search) 0
      (tx_read no_faults (demo_begin demo_remote) ''HYPOTHESES.md'') demo_project
      = (demo_project, default_space, False)"
    using demo_files(2) [OF demo_begin_wiki(2)] by (simp add: layer_hypotheses_def)
  show "writable (demo_begin demo_remote) (''proposals/round-'' @ itoa 2 @ ''.yaml'')"
    "writable (demo_begin demo_remote) (''proposals/round-'' @ itoa 2 @ ''.md'')" by code_simp+
qed simp


definition demo_request :: "remote \<times> project \<times> (qlora \<times> string) result" where
  "demo_request = request_proposal demo_search demo_cluster no_faults 0 demo_remote demo_project 2"

lemma demo_request_Inr:
  obtains cfg src where
    "request_proposal demo_search demo_cluster no_faults 0 demo_remote demo_project 2
       = (fst demo_request, fst (snd demo_request), Inr (cfg, src))"
proof -
  have "is_ok (snd (snd demo_request))" unfolding demo_request_def
    by (rule proposal_succeeds_lemma [OF demo_search_ok demo_round(1) demo_begin_wiki(1) demo_round(2-6)])
  then obtain x where "snd (snd demo_request) = Inr x" by (rule is_okE)
  then show thesis using that [of "fst x" "snd x"] by (simp add: demo_request_def prod_eq_iff)
qed

lemma proposal_in_bounds_witness:
  "\<exists>cfg src. snd (snd demo_request) = Inr (cfg, src) \<and> qlora_in_bounds cfg \<and> validate_qlora cfg = None"
proof -
  obtain cfg src where r: "request_proposal demo_search demo_cluster no_faults 0 demo_remote demo_project 2
       = (fst demo_request, fst (snd demo_request), Inr (cfg, src))" by (rule demo_request_Inr)
  then have "snd (snd demo_request) = Inr (cfg, src)" by (metis demo_request_def snd_conv)
  with proposal_in_bounds [OF demo_search_ok(1-3) demo_round(1) r] show ?thesis by blast
qed

lemma failed_proposal_keeps_wiki_witness:
  "fst (request_proposal demo_search demo_cluster no_faults 0 demo_remote
      (demo_project\<lparr>p_Spec := demo_spec\<lparr>ps_KnowledgeBase := []\<rparr>\<rparr>) 2) = demo_remote"
proof -
  let ?p = "demo_project\<lparr>p_Spec := demo_spec\<lparr>ps_KnowledgeBase := []\<rparr>\<rparr>"
  let ?r = "request_proposal demo_search demo_cluster no_faults 0 demo_remote ?p 2"
  have "\<exists>e. snd (snd ?r) = Inl e"
    by (simp add: request_proposal_def begin_wiki_tx_def demo_spec_def)
  then obtain e where "?r = (fst ?r, fst (snd ?r), Inl e)" by (metis prod.collapse)
  then show ?thesis by (rule failed_proposal_keeps_wiki)
qed

lemma request_proposal_keeps_ref:
  assumes "request_proposal se cl env now remote p rnd = (remote', p', res)" "gm_get remote r \<noteq> None"
  shows "gm_get remote' r \<noteq> None"
  using assms finish_push_keeps_ref [OF _ assms(2)]
  by (auto simp: request_proposal_def search_proposal_def Let_def
      split: if_splits sum.splits prod.splits option.splits)

lemma proposal_published_witness:
  "\<exists>tx' cfg src. begin_wiki_tx demo_cluster no_faults (fst demo_request) demo_project = Inr tx'
     \<and> snd (snd demo_request) = Inr (cfg, src)
     \<and> tx_read no_faults tx' (''proposals/'' @ round_file 2 ''yaml'') = Inr ''cfg''"
proof -
  obtain cfg src where r: "request_proposal demo_search demo_cluster no_faults 0 demo_remote demo_project 2
       = (fst demo_request, fst (snd demo_request), Inr (cfg, src))" by (rule demo_request_Inr)
  have "gm_get demo_remote ''refs/heads/main'' \<noteq> None" by (simp add: demo_remote_def)
  then have "is_ok (begin_wiki_tx demo_cluster no_faults (fst demo_request) demo_project)"
    using request_proposal_keeps_ref [OF r]
    by (intro begin_wiki_tx_again [OF demo_begin_wiki(1)]) (simp_all add: demo_begin_wiki)
  then obtain tx' where b: "begin_wiki_tx demo_cluster no_faults (fst demo_request) demo_project = Inr tx'"
    by (rule is_okE)
  have "tx_read no_faults tx' (''proposals/'' @ round_file 2 ''yaml'') = Inr ''cfg''"
    using proposal_published [OF r demo_round(1) b] by (simp add: demo_search_def)
  moreover have "snd (snd demo_request) = Inr (cfg, src)" using r by (metis demo_request_def snd_conv)
  ultimately show ?thesis using b by blast
qed

text \<open>A wiki with one completed round whose choice is no longer offered.\<close>

definition pruned_wiki :: "string gomap" where
  "pruned_wiki = [(''proposals/round-1.yaml'', ''offload_strategy: gpu''),
     (''results/round-1.md'', ''| eval_loss | 0 |'')]"

definition pruned_remote :: remote where
  "pruned_remote = [(''refs/heads/main'',
     [\<lparr>wc_tree = pruned_wiki, wc_msg = ''init'', wc_name = ''n'', wc_email = ''e''\<rparr>])]"

lemma pruned_begin:
  "begin_wiki_tx demo_cluster no_faults pruned_remote demo_project = Inr (demo_begin pruned_remote)"
  "tx_tree (demo_begin pruned_remote) = pruned_wiki"
  by code_simp+

lemma pruned_files:
  "tx_list no_faults (demo_begin pruned_remote) ''proposals'' = Inr [''round-1.yaml'']"
  "tx_list no_faults (demo_begin pruned_remote) ''results'' = Inr [''round-1.md'']"
  "tx_read no_faults (demo_begin pruned_remote) (''proposals/'' @ round_file 1 ''yaml'') = Inr ''offload_strategy: gpu''"
  "tx_read no_faults (demo_begin pruned_remote) (''results/'' @ round_file 1 ''md'') = Inr ''| eval_loss | 0 |''"
  "tx_read no_faults (demo_begin pruned_remote) ''HYPOTHESES.md'' = Inr []"
  "round_numbers ''yaml'' [''round-1.yaml''] = Inr [1]"
  "round_numbers ''md'' [''round-1.md''] = Inr [1]"
  "parse_eval_loss ''| eval_loss | 0 |'' = Some (Fin 0)"
  by code_simp+

lemma pruned_proposal:
  "parse_proposal_yaml ''offload_strategy: gpu'' default_space = Inr [(''offload_strategy'', VStr ''gpu'')]"
proof -
  have a: "split_byte (CHR 0x0A) ''offload_strategy: gpu'' = [''offload_strategy: gpu'']"
    "trim_space ''offload_strategy: gpu'' = ''offload_strategy: gpu''"
    "\<not> has_prefix ''offload_strategy: gpu'' ''#''"
    "index_byte ''offload_strategy: gpu'' (CHR '':'') = Some 16"
    "trim_space (take 16 ''offload_strategy: gpu'') = ''offload_strategy''"
    "strip_quotes (trim_space (drop (16 + 1) ''offload_strategy: gpu'')) = ''gpu''"
    "\<not> has_prefix ''gpu'' ''[''" by code_simp+
  have b: "gm_get (sp_ints default_space) ''offload_strategy'' = None"
    "gm_get (sp_floats default_space) ''offload_strategy'' = None"
    "gm_get (sp_cats default_space) ''offload_strategy'' \<noteq> None"
    by (simp_all add: default_space_def)
  show ?thesis unfolding parse_proposal_yaml_def a(1) fold_result.simps parse_proposal_line_def a(2) Let_def
    using a(3,7) b by (auto simp only: a(4,5,6) option.case if_False if_True simp_thms not_None_eq) simp_all
qed

lemma misfit_blocks_proposals_witness:
  "\<exists>e. request_proposal demo_search demo_cluster no_faults 0 pruned_remote demo_project 2
     = (pruned_remote, demo_project, Inl (''searcher.Suggest: '' @ e))"
proof (rule misfit_blocks_proposals [OF demo_search_ok(1-3) demo_round(1) pruned_begin(1)])
  let ?obs = "\<lparr>ob_params = [(''offload_strategy'', VStr ''gpu'')], ob_eval_loss = Fin 0\<rparr>"
  have c: "completed_rounds [1] [1] = [1]" by code_simp
  show "load_wiki_history (tx_list no_faults (demo_begin pruned_remote))
      (tx_read no_faults (demo_begin pruned_remote)) default_space = Inr [?obs]"
    using pruned_files pruned_proposal
    by (simp add: load_wiki_history_def load_round_def c)
  show "layer_hypotheses (se_unmarshal demo_search) 0
      (tx_read no_faults (demo_begin pruned_remote) ''HYPOTHESES.md'') demo_project
      = (demo_project, default_space, False)"
    by (simp add: layer_hypotheses_def pruned_files)
  show "\<not> observation_fits default_space ?obs"
    by (simp add: observation_fits_def value_fits_def default_space_def)
qed simp

end
