(* ===== verification/Strategist.thy ===== *)
theory Strategist
  imports Drain Proposal
begin

text \<open>
  \<open>autoresearchproject_strategist.go\<close> and the parts of \<open>autoresearchproject_agent.go\<close> it uses: the
  strategist agent is asked for a new HYPOTHESES.md when it is due, and the answer is committed. A
  failed turn is recorded in the condition \<open>StrategistOK\<close> and never stops the round.
\<close>

subsection \<open>The pod of the agent\<close>

definition effective_gateway_ref :: "workstation \<Rightarrow> string" where
  "effective_gateway_ref aw =
     (case aws_Runtime (aw_Spec aw) of
        None \<Rightarrow> []
      | Some rt \<Rightarrow> (case rts_Shared rt of None \<Rightarrow> [] | Some s \<Rightarrow> shr_GatewayRef s))"

definition effective_profile :: "workstation \<Rightarrow> string" where
  "effective_profile aw =
     (let pinned = (case aws_Runtime (aw_Spec aw) of
                      None \<Rightarrow> []
                    | Some rt \<Rightarrow> (case rts_Shared rt of None \<Rightarrow> [] | Some s \<Rightarrow> shr_BrowserProfile s))
      in default_if_empty pinned (om_Name (aw_meta aw)))"

definition pod_ready :: "pod \<Rightarrow> bool" where
  "pod_ready p =
     (case find (\<lambda>(t, s). t = ''Ready'') (pod_Conditions p) of
        Some (_, s) \<Rightarrow> s = ''True'' | None \<Rightarrow> False)"

definition find_gateway_pod :: "'w op_env \<Rightarrow> 'w \<Rightarrow> string \<Rightarrow> string \<Rightarrow> pod result" where
  "find_gateway_pod env w ns agent =
     (case oe_get_workstation env w ns agent of
        Inl e \<Rightarrow> Inl (''get AgentWorkstation '' @ ns @ ''/'' @ agent @ '': '' @ e)
      | Inr aw \<Rightarrow>
     (let gw = effective_gateway_ref aw; descr = ''AgentGateway '' @ ns @ ''/'' @ gw
      in if gw = [] then Inl (''could not determine gateway for AgentWorkstation '' @ agent)
         else case oe_list_pods env w ns [(''agentoffice.ai/gateway'', gw)] of
           Inl e \<Rightarrow> Inl (''list pods for '' @ descr @ '': '' @ e)
         | Inr ps \<Rightarrow>
            (case find (\<lambda>p. pod_Phase p = ''Running'' \<and> pod_ready p) ps of
               Some p \<Rightarrow> Inr p
             | None \<Rightarrow> Inl (''no Ready pod found for '' @ descr @ '' (found ''
                           @ itoa (int (length ps)) @ '' candidates)''))))"

definition gateway_container_name :: string where
  "gateway_container_name = ''openclaw''"

definition exec_in_gateway_pod ::
    "'w op_env \<Rightarrow> 'w \<Rightarrow> pod \<Rightarrow> string list \<Rightarrow> 'w \<times> string \<times> string option" where
  "exec_in_gateway_pod env w p cmd =
     (case oe_clientset env of
        Inl e \<Rightarrow> (w, [], Some (''kubernetes client: '' @ e))
      | Inr _ \<Rightarrow>
     (case oe_executor env of
        Inl e \<Rightarrow> (w, [], Some (''spdy executor: '' @ e))
      | Inr _ \<Rightarrow>
     (case oe_exec env p gateway_container_name cmd w of
        (w, out, err, Some e) \<Rightarrow> (w, out @ err, Some (''stream: '' @ e))
      | (w, out, err, None) \<Rightarrow> (w, out, None))))"

subsection \<open>The prompt\<close>

definition short_reason :: "string \<Rightarrow> string" where
  "short_reason reason =
     (if has_prefix reason ''stagnation'' then ''stagnation''
      else if has_prefix reason ''cadence'' then ''cadence''
      else ''scheduled'')"

definition prompt_best :: "observation list \<Rightarrow> string" where
  "prompt_best history =
     (case best_observation history of
        None \<Rightarrow> []
      | Some b \<Rightarrow>
          (let v = (\<lambda>k. fmt_v (gm_get (ob_params b) k)) in
           ln (''Best eval_loss so far: '' @ fmt_g (ob_eval_loss b))
           @ ln ''Best config (subset):''
           @ ln (''  lora_rank='' @ v ''lora_rank'' @ '', lora_alpha='' @ v ''lora_alpha'' @ '', learning_rate=''
                 @ v ''learning_rate'' @ '', num_training_steps='' @ v ''num_training_steps'')
           @ ln []))"

text \<open>The last ten rounds, the oldest first.\<close>

definition prompt_trajectory :: "observation list \<Rightarrow> string" where
  "prompt_trajectory history =
     (let start = length history - 10 in
      ln ''Recent trajectory (last 10 completed rounds, oldest first):''
      @ concat (map (\<lambda>i. let o' = history ! i in
          ln (''  round='' @ itoa (int i + 1) @ '' eval_loss='' @ fmt_g (ob_eval_loss o') @ ''  lora_rank=''
              @ fmt_v (gm_get (ob_params o') ''lora_rank'') @ '' lr=''
              @ fmt_v (gm_get (ob_params o') ''learning_rate'')))
          [start..<length history])
      @ ln [])"

definition prompt_deliverable :: "observation list \<Rightarrow> string" where
  "prompt_deliverable history =
     ln ''Your task: write a new HYPOTHESES.md.'' @ ln []
     @ ln ''Format: Markdown body with a single ```yaml fenced block. The YAML must follow this shape (every field optional):''
     @ ln [] @ ln ''```''
     @ ln ''generated_at: <ISO 8601 UTC>''
     @ ln (''generated_after_round: '' @ itoa (int (length history)))
     @ ln ''hypothesis: |''
     @ ln ''  <1-3 sentences explaining your reasoning>''
     @ ln ''adjust_search_space:''
     @ ln ''  <param_name>:''
     @ ln ''    low: <number>     # narrows the lower bound (cannot widen)''
     @ ln ''    high: <number>    # narrows the upper bound (cannot widen)''
     @ ln ''    log: true|false   # for float params, sample log-uniformly''
     @ ln ''    choices: [...]    # for categorical params, REPLACES the choice list''
     @ ln ''references:''
     @ ln ''  - <path/to/wiki/file>.md''
     @ ln ''```'' @ ln []
     @ ln ''Constraints:''
     @ ln ''- The YAML fence MUST be present. The operator's parser extracts the first ```yaml block.''
     @ ln ''- Bound adjustments can only NARROW the original search space (the operator clamps wideningattempts).''
     @ ln ''- If you use the wiki-clip or wiki-write skill to enrich the knowledge base, reference those files in the `references:` list.''
     @ ln (''- If you have no new insight, output a minimal HYPOTHESES.md with the same adjust_search_space as before ''
           @ em_dash @ '' DO NOT skip the file; the parser handles empty AdjustSearchSpace correctly.'')
     @ ln ''- Reply with the file body only. No prose before the heading, no commentary after the closing fence.''"

definition build_strategist_prompt ::
    "project \<Rightarrow> observation list \<Rightarrow> hypotheses \<Rightarrow> string \<Rightarrow> string" where
  "build_strategist_prompt p history current reason =
     (let stag = stagnation_count history in
      ln (''You are the strategist for AutoResearchProject '' @ go_quote (om_Name (p_meta p)) @ '' (round ''
          @ itoa (int (length history)) @ '').'') @ ln []
      @ ln (''Trigger: '' @ reason) @ ln []
      @ prompt_best history
      @ (if stag > 0 then
           ln (''Stagnation: best eval_loss has NOT improved in the last '' @ itoa (int stag) @ '' rounds.'') @ ln []
         else [])
      @ prompt_trajectory history
      @ (if hy_hypothesis current \<noteq> [] \<or> hy_adjust current \<noteq> [] then
           ln (''Current HYPOTHESES.md (generated after round '' @ itoa (hy_after_round current) @ ''):'')
           @ ln (hy_hypothesis current) @ ln []
         else [])
      @ prompt_deliverable history)"

subsection \<open>The reply\<close>

definition decode_payload :: "json \<Rightarrow> (string \<times> string) option" where
  "decode_payload v =
     (let names = [''text'', ''type''] in
      do { kvs \<leftarrow> object_members v;
           t \<leftarrow> field_str ''text'' names kvs;
           y \<leftarrow> field_str ''type'' names kvs;
           Some (t, y) })"

text \<open>The texts of the envelope \<open>result.payloads\<close>; the type and the status are decoded and dropped.\<close>

definition decode_envelope :: "json \<Rightarrow> string list option" where
  "decode_envelope v =
     (let names = [''result'', ''status''] in
      do { kvs \<leftarrow> object_members v;
           r \<leftarrow> field_members ''result'' names kvs;
           ps \<leftarrow> field_list decode_payload ''payloads'' [''payloads''] r;
           s \<leftarrow> field_str ''status'' names kvs;
           Some (map fst ps) })"

definition extract_strategist_reply :: "string \<Rightarrow> string" where
  "extract_strategist_reply raw =
     (let r = trim_space raw in
      if r = [] then []
      else
        let texts = (case unmarshal decode_envelope r of None \<Rightarrow> [] | Some ts \<Rightarrow> filter (\<lambda>t. t \<noteq> []) ts);
            text = join [CHR 0x0A, CHR 0x0A] texts
        in trim_space (if text \<noteq> [] then text else r))"

subsection \<open>A turn\<close>

definition record_strategist_failure :: "gotime \<Rightarrow> string \<Rightarrow> project \<Rightarrow> project" where
  "record_strategist_failure now msg p =
     set_cond (condition now ''StrategistOK'' ''False'' ''TurnFailed'' (truncate_msg msg 256)) p"

definition strategist_command :: "string \<Rightarrow> string \<Rightarrow> string list" where
  "strategist_command agent prompt =
     [''openclaw'', ''agent'', ''--agent'', agent, ''--message'', prompt, ''--json'', ''--timeout'', ''840'']"

text \<open>The commit of a reply: \<open>None\<close> when HYPOTHESES.md was pushed (or was already there).\<close>

definition commit_hypotheses ::
    "'w op_env \<Rightarrow> 'w op_state \<Rightarrow> project \<Rightarrow> nat \<Rightarrow> string \<Rightarrow> string \<Rightarrow> 'w op_state \<times> string option" where
  "commit_hypotheses env st p n reason body =
     (case begin_wiki_tx (oe_cluster env) (oe_wiki env) (op_remote st) p of
        Inl e \<Rightarrow> (st, Some (''open wiki: '' @ e))
      | Inr tx \<Rightarrow>
     (case tx_write (oe_wiki env) tx ''HYPOTHESES.md'' body of
        (_, Some e) \<Rightarrow> (st, Some (''stage HYPOTHESES.md: '' @ e))
      | (tx1, None) \<Rightarrow>
     (case finish_push (commit_and_push (oe_wiki env) (op_remote st) tx1
             (''strategist: HYPOTHESES.md after round '' @ itoa (int n) @ '' ('' @ short_reason reason @ '')'')) of
        (remote, Some e) \<Rightarrow> (st\<lparr>op_remote := remote\<rparr>, Some (''push HYPOTHESES.md: '' @ e))
      | (remote, None) \<Rightarrow> (st\<lparr>op_remote := remote\<rparr>, None))))"

text \<open>One turn after the pod was found: the agent's answer, its checks, the commit.\<close>

definition strategist_turn ::
    "(string \<Rightarrow> string + hypotheses) \<Rightarrow> 'w op_env \<Rightarrow> 'w op_state \<Rightarrow> project \<Rightarrow> observation list
     \<Rightarrow> hypotheses \<Rightarrow> string \<Rightarrow> string \<Rightarrow> pod \<Rightarrow> 'w op_state \<times> string option" where
  "strategist_turn um env st p history current reason agent gw_pod =
     (case exec_in_gateway_pod env (op_world st) gw_pod
             (strategist_command agent (build_strategist_prompt p history current reason)) of
        (w, out, Some e) \<Rightarrow>
          (st\<lparr>op_world := w\<rparr>,
           Some (''openclaw agent exec: '' @ e @ '' (out: '' @ truncate_msg out 200 @ '')''))
      | (w, out, None) \<Rightarrow>
     (let body = extract_strategist_reply out; st1 = st\<lparr>op_world := w\<rparr>
      in if body = [] then (st1, Some ''strategist returned empty body'')
         else case parse_hypotheses um body of
           Inl e \<Rightarrow> (st1, Some (''strategist YAML invalid: '' @ e))
         | Inr _ \<Rightarrow> commit_hypotheses env st1 p (length history) reason body))"

definition run_strategist_if_due ::
    "(string \<Rightarrow> string + hypotheses) \<Rightarrow> 'w op_env \<Rightarrow> 'w op_state \<Rightarrow> project \<Rightarrow> observation list
     \<Rightarrow> hypotheses \<Rightarrow> 'w op_state \<times> project \<times> string" where
  "run_strategist_if_due um env st p history current =
     (let reason = strategist_due_reason history current strategist_every_n strategist_on_stagnation;
          agent = exp_Workstation (ps_Experimenter (p_Spec p));
          failure = record_strategist_failure (oe_now env)
      in if reason = [] then (st, p, [])
         else if agent = [] then (st, failure ''spec.experimenter.workstation is empty'' p, [])
         else case find_gateway_pod env (op_world st) (om_Namespace (p_meta p)) agent of
           Inl e \<Rightarrow> (st, failure (''find gateway pod: '' @ e) p, reason)
         | Inr gw_pod \<Rightarrow>
            (case strategist_turn um env st p history current reason agent gw_pod of
               (st, Some e) \<Rightarrow> (st, failure e p, reason)
             | (st, None) \<Rightarrow> (st, p, reason)))"

definition maybe_run_strategist ::
    "(string \<Rightarrow> string + hypotheses) \<Rightarrow> 'w op_env \<Rightarrow> 'w op_state \<Rightarrow> project
     \<Rightarrow> 'w op_state \<times> project \<times> string option" where
  "maybe_run_strategist um env st p =
     (case begin_wiki_tx (oe_cluster env) (oe_wiki env) (op_remote st) p of
        Inl e \<Rightarrow> (st, p, Some (''open wiki for strategist gate: '' @ e))
      | Inr tx \<Rightarrow>
     (case load_wiki_history (tx_list (oe_wiki env) tx) (tx_read (oe_wiki env) tx) default_space of
        Inl e \<Rightarrow> (st, p, Some (''load wiki history: '' @ e))
      | Inr history \<Rightarrow>
     (case tx_read (oe_wiki env) tx ''HYPOTHESES.md'' of
        Inl e \<Rightarrow> (st, p, Some (''read HYPOTHESES.md: '' @ e))
      | Inr body \<Rightarrow>
         (let current = (case parse_hypotheses um body of Inl _ \<Rightarrow> no_hypotheses | Inr h \<Rightarrow> h)
          in case run_strategist_if_due um env st p history current of (st, p, _) \<Rightarrow> (st, p, None)))))"

subsection \<open>What a turn publishes\<close>

lemma finish_push_error:
  "finish_push (commit_and_push env remote tx msg) = (remote', Some e) \<Longrightarrow> remote' = remote"
  by (auto simp: finish_push_def split: prod.splits elim: commit_and_push_cases)

lemma commit_hypotheses_pushed:
  assumes "commit_hypotheses env st p n reason body = (st', e)" "op_remote st' \<noteq> op_remote st"
  obtains tx0 tx1 tx2 msg where "e = None" "begin_wiki_tx (oe_cluster env) (oe_wiki env) (op_remote st) p = Inr tx0"
    "tx_write (oe_wiki env) tx0 ''HYPOTHESES.md'' body = (tx1, None)"
    "commit_and_push (oe_wiki env) (op_remote st) tx1 msg = (op_remote st', tx2, None)"
  using assms
  by (auto simp: commit_hypotheses_def finish_push_None dest: finish_push_error
      split: sum.splits prod.splits option.splits)

lemma strategist_turn_pushed:
  assumes "strategist_turn um env st p history current reason agent gw = (st', e)" "op_remote st' \<noteq> op_remote st"
  obtains st1 body h where "op_remote st1 = op_remote st" "parse_hypotheses um body = Inr h"
    "commit_hypotheses env st1 p (length history) reason body = (st', e)"
proof -
  obtain w out x where x: "exec_in_gateway_pod env (op_world st) gw
      (strategist_command agent (build_strategist_prompt p history current reason)) = (w, out, x)"
    by (metis prod_cases3)
  let ?b = "extract_strategist_reply out"
  note t = assms(1) [unfolded strategist_turn_def x Let_def prod.case]
  have "x = None" using t assms(2) by (auto split: option.splits)
  moreover obtain h where h: "parse_hypotheses um ?b = Inr h"
    using t assms(2) by (auto split: option.splits sum.splits if_splits)
  ultimately have "commit_hypotheses env (st\<lparr>op_world := w\<rparr>) p (length history) reason ?b = (st', e)"
    using t assms(2) by (auto split: if_splits)
  with h that [of "st\<lparr>op_world := w\<rparr>"] show thesis by simp
qed


subsection \<open>A concrete turn\<close>

definition demo_workstation :: workstation where
  "demo_workstation = \<lparr>aw_meta = p_meta demo_project,
     aw_Spec = \<lparr>aws_DisplayName = [], aws_SystemPrompt = [], aws_SystemPromptAddons = [],
       aws_Model = \<lparr>ms_Provider = ''openai'', ms_ModelName = ''m'', ms_ConnectionRef = [], ms_ModelRouterRef = []\<rparr>,
       aws_Description = [], aws_Role = [], aws_Capabilities = [], aws_Emoji = [], aws_Image = [],
       aws_APIKeySecretRef = [], aws_Tools = None, aws_Memory = None, aws_Team = [], aws_Office = None,
       aws_Channels = None,
       aws_Runtime = Some \<lparr>rts_Dedicated = None,
         rts_Shared = Some \<lparr>shr_GatewayRef = ''gw'', shr_BrowserProfile = []\<rparr>\<rparr>,
       aws_Resources = None, aws_KnowledgeBaseRefs = [], aws_SkillRefs = [], aws_Schedules = []\<rparr>,
     aw_Status = \<lparr>awst_Phase = [], awst_GatewayEndpoint = [], awst_Message = [], awst_LastActivity = None,
       awst_Conditions = [], awst_SkillSet = [], awst_SessionEpoch = 0, awst_GatewayRegistrations = [],
       awst_Schedules = [], awst_GatewayRegistrationsHash = []\<rparr>\<rparr>"

definition demo_pod :: pod where
  "demo_pod = \<lparr>pod_Name = ''gw-0'', pod_Namespace = ''lab'', pod_Phase = ''Running'',
     pod_Conditions = [(''Ready'', ''True'')], pod_CreationTimestamp = 0\<rparr>"

definition demo_agent_env :: "unit op_env" where
  "demo_agent_env = (demo_env [])\<lparr>oe_get_workstation := (\<lambda>_ _ _. Inr demo_workstation),
     oe_list_pods := (\<lambda>_ _ _. Inr [demo_pod]), oe_exec := (\<lambda>_ _ _ w. (w, ''# plan'', [], None))\<rparr>"

definition demo_turn :: "unit op_state \<times> project \<times> string" where
  "demo_turn = run_strategist_if_due (\<lambda>_. Inr no_hypotheses) demo_agent_env demo_state demo_project []
     (no_hypotheses\<lparr>hy_after_round := -100\<rparr>)"

lemma demo_reply: "extract_strategist_reply ''# plan'' = ''# plan''"
  "parse_hypotheses (\<lambda>_. Inr no_hypotheses) ''# plan'' = Inr no_hypotheses"
  by code_simp+

lemma demo_state_world: "demo_state\<lparr>op_world := ()\<rparr> = demo_state"
  by (simp add: demo_state_def)

lemma demo_agent_env_simps [simp]:
  "oe_cluster demo_agent_env = demo_cluster" "oe_wiki demo_agent_env = no_faults"
  "oe_exec demo_agent_env q n cmd w = (w, ''# plan'', [], None)"
  "oe_clientset demo_agent_env = Inr ()" "oe_executor demo_agent_env = Inr ()"
  by (simp_all add: demo_agent_env_def demo_env_def)

lemma demo_commit:
  "\<exists>st'. commit_hypotheses demo_agent_env demo_state demo_project n reason ''# plan'' = (st', None)
     \<and> op_remote st' \<noteq> demo_remote \<and> gm_get (op_remote st') ''refs/heads/main'' \<noteq> None"
proof -
  let ?msg = "''strategist: HYPOTHESES.md after round '' @ itoa (int n) @ '' ('' @ short_reason reason @ '')''"
  obtain tx1 where w: "tx_write no_faults (demo_begin demo_remote) ''HYPOTHESES.md'' ''# plan'' = (tx1, None)"
    "\<not> tx_clean tx1" "tx_head_ref tx1 = ''refs/heads/main''" "tx_head tx1 \<noteq> []"
  proof
    let ?tx = "fst (tx_write no_faults (demo_begin demo_remote) ''HYPOTHESES.md'' ''# plan'')"
    show "tx_write no_faults (demo_begin demo_remote) ''HYPOTHESES.md'' ''# plan'' = (?tx, None)"
      "\<not> tx_clean ?tx" "tx_head_ref ?tx = ''refs/heads/main''" "tx_head ?tx \<noteq> []" by code_simp+
  qed
  obtain r tx2 e where c: "commit_and_push no_faults demo_remote tx1 ?msg = (r, tx2, e)" by (metis prod_cases3)
  have "has_prefix ''refs/heads/main'' ''refs/heads/''" by code_simp
  then have e: "e = None" using commit_and_push_succeeds [of ?msg tx1 demo_remote] c w(3) by simp
  have "r \<noteq> demo_remote" using c
  proof (cases rule: commit_and_push_cases)
    case (pushed x)
    have l: "map_option length (gm_get demo_remote ''refs/heads/main'') = Some 1" by code_simp
    show ?thesis
    proof
      assume "r = demo_remote"
      then have "gm_get demo_remote ''refs/heads/main'' = Some (x # tx_head tx1)"
        using pushed(5) w(3) by (metis fun_upd_same)
      with l w(4) show False by simp
    qed
  qed (use e w in simp_all)
  moreover have "gm_get r ''refs/heads/main'' \<noteq> None"
    using commit_and_push_keeps_ref [OF c] by (simp add: demo_remote_def)
  ultimately show ?thesis using w(1) c e
    by (simp add: commit_hypotheses_def demo_state_def demo_begin_wiki finish_push_def del: append_Cons)
qed


end
