(* ===== verification/Schedules.thy ===== *)
theory Schedules
  imports Strategist
begin

text \<open>
  \<open>agentworkstation_schedules.go\<close>: the schedules that a workstation declares are brought into the cron
  table of its gateway. The plan is a function of the declared schedules, the names declared before and
  the jobs of the gateway. The cron service itself, like every command run in a pod, is a parameter,
  and so is the library that sets and removes a status condition.
\<close>

subsection \<open>The surroundings of the workstation controller\<close>

record 'w ws_env =
  ws_op :: "'w op_env"
  ws_set_condition :: "condition_entry list \<Rightarrow> string \<Rightarrow> string \<Rightarrow> string \<Rightarrow> string \<Rightarrow> condition_entry list"
  ws_remove_condition :: "condition_entry list \<Rightarrow> string \<Rightarrow> condition_entry list"

abbreviation upd_ws_status :: "(workstation_status \<Rightarrow> workstation_status) \<Rightarrow> workstation \<Rightarrow> workstation" where
  "upd_ws_status f aw \<equiv> aw\<lparr>aw_Status := f (aw_Status aw)\<rparr>"

text \<open>The condition \<open>ty\<close> gets a status, a reason and a message.\<close>

definition ws_condition :: "'w ws_env \<Rightarrow> string \<Rightarrow> string \<Rightarrow> string \<Rightarrow> string \<Rightarrow> workstation \<Rightarrow> workstation" where
  "ws_condition env ty status reason msg =
     upd_ws_status (\<lambda>s. s\<lparr>awst_Conditions := ws_set_condition env (awst_Conditions s) ty status reason msg\<rparr>)"

definition ellipsis :: string where
  "ellipsis = [CHR 0xE2, CHR 0x80, CHR 0xA6]"

definition truncate_text :: "string \<Rightarrow> nat \<Rightarrow> string" where
  "truncate_text s n = (if length s \<le> n then s else take n s @ ellipsis)"

definition exec_in_pod :: "'w op_env \<Rightarrow> 'w \<Rightarrow> pod \<Rightarrow> string list \<Rightarrow> 'w \<times> string \<times> string option" where
  "exec_in_pod env w p cmd =
     (case oe_clientset env of
        Inl e \<Rightarrow> (w, [], Some (''kubernetes client: '' @ e))
      | Inr _ \<Rightarrow>
     (case oe_executor env of
        Inl e \<Rightarrow> (w, [], Some (''new spdy executor: '' @ e))
      | Inr _ \<Rightarrow>
     (case oe_exec env p ''openclaw'' cmd w of
        (w, out, err, Some e) \<Rightarrow> (w, out @ err, Some (''exec: '' @ e))
      | (w, out, err, None) \<Rightarrow> (w, out, None))))"

subsection \<open>The jobs of the gateway\<close>

record cron_job =
  cj_ID :: string
  cj_Name :: string
  cj_AgentID :: string
  cj_ScheduleKind :: string
  cj_Expr :: string
  cj_PayloadKind :: string
  cj_Message :: string

definition decode_cron_job :: "json \<Rightarrow> cron_job option" where
  "decode_cron_job v =
     (let names = [''id'', ''name'', ''agentId'', ''schedule'', ''payload''];
          snames = [''kind'', ''expr'']; pnames = [''kind'', ''message''] in
      do { kvs \<leftarrow> object_members v;
           i \<leftarrow> field_str ''id'' names kvs;
           n \<leftarrow> field_str ''name'' names kvs;
           a \<leftarrow> field_str ''agentId'' names kvs;
           s \<leftarrow> field_members ''schedule'' names kvs;
           sk \<leftarrow> field_str ''kind'' snames s;
           se \<leftarrow> field_str ''expr'' snames s;
           p \<leftarrow> field_members ''payload'' names kvs;
           pk \<leftarrow> field_str ''kind'' pnames p;
           pm \<leftarrow> field_str ''message'' pnames p;
           Some \<lparr>cj_ID = i, cj_Name = n, cj_AgentID = a, cj_ScheduleKind = sk, cj_Expr = se,
                 cj_PayloadKind = pk, cj_Message = pm\<rparr> })"

definition decode_cron_list :: "json \<Rightarrow> cron_job list option" where
  "decode_cron_list v =
     do { kvs \<leftarrow> object_members v; field_list decode_cron_job ''jobs'' [''jobs''] kvs }"

definition parse_cron_list :: "string \<Rightarrow> cron_job list result" where
  "parse_cron_list out =
     (case str_index out [CHR 0x7B] of
        None \<Rightarrow> Inl ''no JSON in cron list output''
      | Some start \<Rightarrow>
         (case unmarshal decode_cron_list (drop start out) of
            None \<Rightarrow> Inl ''parsing cron list: invalid JSON''
          | Some jobs \<Rightarrow> Inr jobs))"

subsection \<open>The plan\<close>

datatype op_kind = AddJob | EditJob | RemoveJob

record schedule_op =
  so_Kind :: op_kind
  so_Name :: string
  so_Args :: "string list"

definition owned_job :: "string \<Rightarrow> cron_job \<Rightarrow> bool" where
  "owned_job agent j \<longleftrightarrow> cj_AgentID j = agent \<or> cj_AgentID j = []"

definition jobs_by_name :: "string \<Rightarrow> cron_job list \<Rightarrow> cron_job gomap" where
  "jobs_by_name agent jobs = foldl (\<lambda>m j. gm_set m (cj_Name j) j) [] (filter (owned_job agent) jobs)"

definition job_drifted :: "string \<Rightarrow> agent_schedule \<Rightarrow> cron_job \<Rightarrow> bool" where
  "job_drifted agent s j \<longleftrightarrow>
     trim_space (cj_Expr j) \<noteq> trim_space (sch_Cron s) \<or> trim_space (cj_Message j) \<noteq> trim_space (sch_Message s)
     \<or> cj_AgentID j \<noteq> [] \<and> cj_AgentID j \<noteq> agent"

definition schedule_ops :: "string \<Rightarrow> cron_job gomap \<Rightarrow> agent_schedule \<Rightarrow> schedule_op list" where
  "schedule_ops agent by_name s =
     (let msg = trim_space (sch_Message s); cron = trim_space (sch_Cron s) in
      case gm_get by_name (sch_Name s) of
        None \<Rightarrow>
          [\<lparr>so_Kind = AddJob, so_Name = sch_Name s,
            so_Args = [''openclaw'', ''cron'', ''add'', sch_Name s, msg, ''--cron'', cron, ''--agent'', agent,
                       ''--best-effort-deliver'', ''--display-name'', sch_Name s]
                      @ (if sch_Description s \<noteq> [] then [''--description'', sch_Description s] else [])\<rparr>]
      | Some j \<Rightarrow>
          (if job_drifted agent s j then
             [\<lparr>so_Kind = EditJob, so_Name = sch_Name s,
               so_Args = [''openclaw'', ''cron'', ''edit'', cj_ID j, ''--cron'', cron, ''--message'', msg,
                          ''--agent'', agent, ''--best-effort-deliver'']\<rparr>]
           else []))"

definition removal_ops :: "string set \<Rightarrow> cron_job gomap \<Rightarrow> string \<Rightarrow> schedule_op list" where
  "removal_ops wanted by_name name =
     (if name \<in> wanted then []
      else case gm_get by_name name of
        None \<Rightarrow> []
      | Some j \<Rightarrow> [\<lparr>so_Kind = RemoveJob, so_Name = name, so_Args = [''openclaw'', ''cron'', ''rm'', cj_ID j]\<rparr>])"

definition plan_schedules ::
    "string \<Rightarrow> agent_schedule list \<Rightarrow> string list \<Rightarrow> cron_job list \<Rightarrow> schedule_op list" where
  "plan_schedules agent declared previous jobs =
     (let by_name = jobs_by_name agent jobs; wanted = set (map sch_Name declared)
      in concat (map (schedule_ops agent by_name) declared)
         @ concat (map (removal_ops wanted by_name) (sort previous)))"

definition declared_names :: "agent_schedule list \<Rightarrow> string list" where
  "declared_names declared = sort (map sch_Name declared)"

subsection \<open>Applying the plan\<close>

definition op_kind_text :: "op_kind \<Rightarrow> string" where
  "op_kind_text k = (case k of AddJob \<Rightarrow> ''add'' | EditJob \<Rightarrow> ''edit'' | RemoveJob \<Rightarrow> ''rm'')"

definition apply_op :: "'w op_env \<Rightarrow> pod \<Rightarrow> 'w \<times> string list \<Rightarrow> schedule_op \<Rightarrow> 'w \<times> string list" where
  "apply_op env p acc op =
     (case acc of (w, failed) \<Rightarrow>
       (case exec_in_pod env w p (so_Args op) of
          (w, _, None) \<Rightarrow> (w, failed)
        | (w, _, Some e) \<Rightarrow>
            (w, failed @ [op_kind_text (so_Kind op) @ '' '' @ so_Name op @ '': '' @ truncate_text e 120])))"

definition schedules_condition :: string where
  "schedules_condition = ''SchedulesConverged''"

definition apply_schedules ::
    "'w ws_env \<Rightarrow> 'w \<Rightarrow> workstation \<Rightarrow> pod \<Rightarrow> cron_job list \<Rightarrow> 'w \<times> workstation \<times> string option" where
  "apply_schedules env w aw p jobs =
     (let declared = aws_Schedules (aw_Spec aw);
          ops = plan_schedules (om_Name (aw_meta aw)) declared (awst_Schedules (aw_Status aw)) jobs
      in case foldl (apply_op (ws_op env) p) (w, []) ops of
        (w, failed) \<Rightarrow>
          (let aw1 = upd_ws_status (\<lambda>s. s\<lparr>awst_Schedules := declared_names declared\<rparr>) aw in
           if failed \<noteq> [] then
             (w, ws_condition env schedules_condition ''False'' ''ApplyFailed'' (truncate_text (join ''; '' failed) 400) aw1,
              Some (itoa (int (length failed)) @ '' schedule op(s) failed''))
           else
             (w, ws_condition env schedules_condition ''True'' ''Converged''
                   (itoa (int (length declared)) @ '' schedule(s) declared''
                    @ (if ops \<noteq> [] then '', '' @ itoa (int (length ops)) @ '' change(s) applied'' else [])) aw1,
              None)))"

definition reconcile_schedules ::
    "'w ws_env \<Rightarrow> 'w \<Rightarrow> workstation \<Rightarrow> pod option \<Rightarrow> 'w \<times> workstation \<times> string option" where
  "reconcile_schedules env w aw gw_pod =
     (let fail = (\<lambda>reason msg. ws_condition env schedules_condition ''False'' reason msg aw) in
      if aws_Schedules (aw_Spec aw) = [] \<and> awst_Schedules (aw_Status aw) = [] then
        (w, upd_ws_status (\<lambda>s. s\<lparr>awst_Conditions := ws_remove_condition env (awst_Conditions s) schedules_condition\<rparr>) aw,
         None)
      else case gw_pod of
        None \<Rightarrow> (w, fail ''GatewayNotReady'' ''waiting for a Ready gateway pod to converge the cron table'', None)
      | Some p \<Rightarrow>
     (case exec_in_pod (ws_op env) w p [''openclaw'', ''cron'', ''list'', ''--json''] of
        (w, _, Some e) \<Rightarrow> (w, fail ''ListFailed'' (truncate_text e 200), Some (''cron list: '' @ e))
      | (w, out, None) \<Rightarrow>
     (case parse_cron_list out of
        Inl e \<Rightarrow> (w, fail ''ListUnparseable'' (truncate_text e 200), Some e)
      | Inr jobs \<Rightarrow> apply_schedules env w aw p jobs)))"

subsection \<open>The plan is empty exactly when nothing is to be done\<close>

text \<open>The job that counts under a name: the last one of the agent in the list of the gateway.\<close>

definition job_of :: "string \<Rightarrow> cron_job list \<Rightarrow> string \<Rightarrow> cron_job option" where
  "job_of agent jobs n = find (\<lambda>j. owned_job agent j \<and> cj_Name j = n) (rev jobs)"

lemma jobs_by_name_get: "gm_get (jobs_by_name agent jobs) n = job_of agent jobs n"
  unfolding jobs_by_name_def job_of_def
  by (induction jobs rule: rev_induct) auto

lemma job_of_Some:
  "job_of agent jobs n = Some j \<Longrightarrow> j \<in> set jobs \<and> owned_job agent j \<and> cj_Name j = n"
proof -
  have "x \<in> set xs \<and> P x" if "find P xs = Some x" for P and x :: cron_job and xs
    using that by (induction xs) (auto split: if_splits)
  then show "job_of agent jobs n = Some j \<Longrightarrow> ?thesis" unfolding job_of_def by fastforce
qed

lemma job_of_None: "job_of agent jobs n = None \<longleftrightarrow> (\<forall>j \<in> set jobs. owned_job agent j \<longrightarrow> cj_Name j \<noteq> n)"
  by (auto simp: job_of_def find_None_iff)

definition schedules_converged :: "string \<Rightarrow> agent_schedule list \<Rightarrow> string list \<Rightarrow> cron_job list \<Rightarrow> bool" where
  "schedules_converged agent declared previous jobs \<longleftrightarrow>
     (\<forall>s \<in> set declared. \<exists>j. job_of agent jobs (sch_Name s) = Some j
        \<and> trim_space (cj_Expr j) = trim_space (sch_Cron s) \<and> trim_space (cj_Message j) = trim_space (sch_Message s))
     \<and> (\<forall>n \<in> set previous - sch_Name ` set declared. \<forall>j \<in> set jobs. owned_job agent j \<longrightarrow> cj_Name j \<noteq> n)"

lemma schedule_ops_nil:
  "schedule_ops agent (jobs_by_name agent jobs) s = [] \<longleftrightarrow> (\<exists>j. job_of agent jobs (sch_Name s) = Some j
     \<and> trim_space (cj_Expr j) = trim_space (sch_Cron s) \<and> trim_space (cj_Message j) = trim_space (sch_Message s))"
  by (auto simp: schedule_ops_def jobs_by_name_get Let_def job_drifted_def owned_job_def split: option.splits
      dest: job_of_Some)

lemma ball_Diff: "(\<forall>x \<in> A - B. P x) \<longleftrightarrow> (\<forall>x \<in> A. x \<in> B \<or> P x)"
  by blast

lemma removal_ops_nil:
  "removal_ops wanted (jobs_by_name agent jobs) n = [] \<longleftrightarrow> n \<in> wanted \<or> job_of agent jobs n = None"
  by (simp add: removal_ops_def jobs_by_name_get split: option.split)

text \<open>
  C30: no command is planned exactly when the cron table agrees with the declaration: every declared
  schedule has a job of the agent with its expression and its message up to surrounding space, and no
  job of the agent is left of a name that was declared before and is not declared any more.
\<close>

theorem plan_empty_iff_converged:
  "plan_schedules agent declared previous jobs = [] \<longleftrightarrow> schedules_converged agent declared previous jobs"
  unfolding plan_schedules_def Let_def schedules_converged_def job_of_None [symmetric]
  by (simp add: schedule_ops_nil removal_ops_nil ball_Diff)


text \<open>
  A removal is tried once. After a pass, whether its commands succeeded or not, the status lists
  exactly the declared names; so a job whose removal failed is never addressed again, whatever the cron
  table holds later.
\<close>

theorem failed_removal_forgotten:
  assumes "apply_schedules env w aw p jobs = (w', aw', err)"
    and "n \<in> set (awst_Schedules (aw_Status aw))" "n \<notin> sch_Name ` set (aws_Schedules (aw_Spec aw))"
  shows "awst_Schedules (aw_Status aw') = declared_names (aws_Schedules (aw_Spec aw))
    \<and> n \<notin> so_Name ` set (plan_schedules (om_Name (aw_meta aw')) (aws_Schedules (aw_Spec aw'))
          (awst_Schedules (aw_Status aw')) jobs')"
proof -
  have st: "awst_Schedules (aw_Status aw') = declared_names (aws_Schedules (aw_Spec aw))"
    and spec: "aw_Spec aw' = aw_Spec aw" "aw_meta aw' = aw_meta aw"
    using assms(1) by (auto simp: apply_schedules_def ws_condition_def Let_def split: prod.splits if_splits)
  have "so_Name op \<in> sch_Name ` set (aws_Schedules (aw_Spec aw))"
    if "op \<in> set (plan_schedules a (aws_Schedules (aw_Spec aw)) (declared_names (aws_Schedules (aw_Spec aw))) jobs')"
    for op a
    using that
    by (auto simp: plan_schedules_def schedule_ops_def removal_ops_def declared_names_def Let_def
        split: option.splits if_splits)
  with st spec assms(3) show ?thesis by auto
qed

subsection \<open>A concrete table\<close>

definition demo_job :: "string \<Rightarrow> cron_job" where
  "demo_job n = \<lparr>cj_ID = ''7'', cj_Name = n, cj_AgentID = ''proj'', cj_ScheduleKind = ''cron'', cj_Expr = ''0 * * * *'',
     cj_PayloadKind = [], cj_Message = ''sweep''\<rparr>"

definition demo_scheduled :: workstation where
  "demo_scheduled = upd_ws_status (\<lambda>s. s\<lparr>awst_Schedules := [''old'']\<rparr>) demo_workstation"

definition demo_ws_env :: "unit ws_env" where
  "demo_ws_env = \<lparr>ws_op = (demo_env [])\<lparr>oe_exec := (\<lambda>_ _ _ w. (w, [], [], Some ''refused''))\<rparr>,
     ws_set_condition = (\<lambda>cs _ _ _ _. cs), ws_remove_condition = (\<lambda>cs _. cs)\<rparr>"


lemma failed_removal_forgotten_witness:
  "snd (snd (apply_schedules demo_ws_env () demo_scheduled demo_pod [demo_job ''old''])) = Some ''1 schedule op(s) failed''
   \<and> awst_Schedules (aw_Status (fst (snd (apply_schedules demo_ws_env () demo_scheduled demo_pod [demo_job ''old''])))) = []"
proof -
  obtain w' aw' err where a: "apply_schedules demo_ws_env () demo_scheduled demo_pod [demo_job ''old''] = (w', aw', err)"
    by (metis prod_cases3)
  have "snd (snd (apply_schedules demo_ws_env () demo_scheduled demo_pod [demo_job ''old''])) = Some ''1 schedule op(s) failed''"
    by code_simp
  moreover have "''old'' \<in> set (awst_Schedules (aw_Status demo_scheduled))" "aws_Schedules (aw_Spec demo_scheduled) = []"
    "om_Name (aw_meta demo_scheduled) = ''proj''"
    by (simp_all add: demo_scheduled_def demo_workstation_def demo_project_def)
  ultimately show ?thesis
    using failed_removal_forgotten [OF a, of "''old''" "[demo_job ''old'']"] a by (simp add: declared_names_def)
qed

end
