(* ===== verification/Packages.thy ===== *)
theory Packages
  imports Kube Schedules
begin

text \<open>
  \<open>skill_packageref.go\<close> and \<open>skill_packageref_oci.go\<close>: the text of a skill is fetched from a registry,
  checked against its digest and cached for the life of the process. Parameters are the two HTTP
  transports, the resolution of a URL against a base, decompression, and the entries of a tar archive
  up to the error that ends it.
\<close>

record 'w package_env =
  pe_now :: gotime
  pe_kube :: kube_env
  pe_http :: "'w http_env"
  pe_oci_http :: "bool \<Rightarrow> 'w http_env"
  pe_getenv :: "string \<Rightarrow> string"
  pe_resolve_url :: "string \<Rightarrow> string \<Rightarrow> string option"
  pe_gunzip :: "string \<Rightarrow> string result"
  pe_tar :: "string \<Rightarrow> (string \<times> string result) list \<times> string option"

record package_ref_entry =
  pce_content :: string
  pce_fetched :: gotime
  pce_pinned :: bool

type_synonym package_cache = "package_ref_entry gomap"

text \<open>\<open>registryTTL\<close>.\<close>

definition registry_ttl :: int where
  "registry_ttl = minutes 5"

subsection \<open>Coordinates\<close>

definition default_registry_base :: "(string \<Rightarrow> string) \<Rightarrow> string" where
  "default_registry_base getenv =
     (case filter (\<lambda>u. u \<noteq> []) (map trim_space (split_byte CHR '','' (trim_space (getenv ''AGENT_REGISTRY_URLS'')))) of
        [] \<Rightarrow> []
      | u # _ \<Rightarrow> trim_suffix (trim_suffix u ''/index.json'') ''/'')"

definition after_last :: "char \<Rightarrow> string \<Rightarrow> string" where
  "after_last c s = (case last_index_byte s c of None \<Rightarrow> s | Some i \<Rightarrow> drop (Suc i) s)"

definition parse_package_coordinate :: "string \<Rightarrow> (string \<times> string) result" where
  "parse_package_coordinate ref =
     (let c = after_last CHR ''/'' (trim_space ref);
          bad = Inl (''packageRef.ref '' @ go_quote ref @ '' is not name:version'')
      in case index_byte c CHR '':'' of
           None \<Rightarrow> bad
         | Some i \<Rightarrow> (if i = 0 \<or> drop (Suc i) c = [] then bad else Inr (take i c, drop (Suc i) c)))"

definition want_digest :: "package_ref_source \<Rightarrow> string" where
  "want_digest src = trim_prefix (trim_space (prs_Digest src)) ''sha256:''"

subsection \<open>Cache and digest\<close>

definition cached :: "gotime \<Rightarrow> package_cache \<Rightarrow> string \<Rightarrow> string option" where
  "cached now cache key =
     (case gm_get cache key of
        None \<Rightarrow> None
      | Some e \<Rightarrow> (if pce_pinned e \<or> now - pce_fetched e < registry_ttl then Some (pce_content e) else None))"

text \<open>The digest of a text, as it is compared: in lower case.\<close>

definition content_digest :: "string \<Rightarrow> string" where
  "content_digest body = hex_encode (sha256 body)"

definition digest_ok :: "string \<Rightarrow> string \<Rightarrow> bool" where
  "digest_ok want body \<longleftrightarrow> want = [] \<or> to_lower (content_digest body) = to_lower want"

text \<open>A fetched text is refused or cached.\<close>

definition admit_content ::
    "gotime \<Rightarrow> package_ref_source \<Rightarrow> string \<Rightarrow> string \<Rightarrow> package_cache \<Rightarrow> package_cache \<times> string result" where
  "admit_content now src key body cache =
     (if \<not> digest_ok (want_digest src) body then
        (cache, Inl (''packageRef '' @ prs_Ref src @ '': content digest '' @ content_digest body
                     @ '' does not match pinned digest '' @ want_digest src @ '' '' @ em_dash @ '' refusing to deliver''))
      else (gm_set cache key \<lparr>pce_content = body, pce_fetched = now, pce_pinned = (want_digest src \<noteq> [])\<rparr>, Inr body))"

subsection \<open>The HTTP registry\<close>

definition http_get_text :: "'w http_env \<Rightarrow> 'w \<Rightarrow> string \<Rightarrow> 'w \<times> string result" where
  "http_get_text he w url =
     (if url = [] then (w, Inl ''artifact has no content URL'')
      else case he_url_err he url of
        Some e \<Rightarrow> (w, Inl e)
      | None \<Rightarrow>
          and_then (he_do he \<lparr>hr_Method = ''GET'', hr_URL = url, hr_Header = [], hr_Body = NoBody\<rparr> w) (\<lambda>w resp.
            if hs_Status resp \<noteq> 200 then (w, Inl (''HTTP '' @ itoa (hs_Status resp)))
            else (w, map_sum id (take (2 * 2 ^ 20)) (hs_Body resp))))"

definition decode_content_field :: "json \<Rightarrow> string option" where
  "decode_content_field v = do { kvs \<leftarrow> object_members v; field_str ''content'' [''content''] kvs }"

text \<open>The URL of the text: what the manifest says, else the conventional path.\<close>

definition content_url :: "'w package_env \<Rightarrow> string \<Rightarrow> string \<Rightarrow> string \<Rightarrow> string result \<Rightarrow> string" where
  "content_url env base name version manifest =
     (let usual = base @ ''/'' @ name @ ''/'' @ version @ ''/skills/'' @ name @ ''.md'' in
      case manifest of
        Inl _ \<Rightarrow> usual
      | Inr raw \<Rightarrow>
         (case unmarshal decode_content_field raw of
            None \<Rightarrow> usual
          | Some c \<Rightarrow>
              (if c = [] then usual
               else case pe_resolve_url env (base @ ''/'') c of None \<Rightarrow> usual | Some u \<Rightarrow> u)))"

definition registry_base :: "'w package_env \<Rightarrow> package_ref_source \<Rightarrow> string" where
  "registry_base env src =
     default_if_empty (trim_suffix (trim_space (prs_Registry src)) ''/'') (default_registry_base (pe_getenv env))"

definition resolve_registry ::
    "'w package_env \<Rightarrow> package_ref_source \<Rightarrow> 'w \<times> package_cache \<Rightarrow> ('w \<times> package_cache) \<times> string result" where
  "resolve_registry env src st =
     (case parse_package_coordinate (prs_Ref src) of
        Inl e \<Rightarrow> (st, Inl e)
      | Inr (name, version) \<Rightarrow>
         (let base = registry_base env src;
              key = base @ ''|'' @ name @ ''|'' @ version @ ''|'' @ want_digest src;
              (w, cache) = st
          in if base = [] then
               (st, Inl (''packageRef '' @ go_quote (prs_Ref src) @ '': no registry set and AGENT_REGISTRY_URLS is empty''))
             else case cached (pe_now env) cache key of
               Some body \<Rightarrow> (st, Inr body)
             | None \<Rightarrow>
                (case http_get_text (pe_http env) w (base @ ''/'' @ name @ ''/'' @ version @ ''/mindifact.json'') of
                   (w1, manifest) \<Rightarrow>
                     (let url = content_url env base name version manifest in
                      case http_get_text (pe_http env) w1 url of
                        (w2, Inl e) \<Rightarrow> ((w2, cache), Inl (''packageRef '' @ prs_Ref src @ '': fetch '' @ url @ '': '' @ e))
                      | (w2, Inr body) \<Rightarrow>
                          (case admit_content (pe_now env) src key body cache of
                             (cache1, r) \<Rightarrow> ((w2, cache1), r))))))"

subsection \<open>References into an OCI registry\<close>

record oci_ref =
  or_host :: string
  or_repo :: string
  or_tag :: string
  or_digest :: string

definition parse_oci_ref :: "string \<Rightarrow> oci_ref result" where
  "parse_oci_ref ref =
     (let r = trim_prefix (trim_space ref) ''oci://'';
          (r, digest) = (case last_index_byte r CHR ''@'' of None \<Rightarrow> (r, []) | Some i \<Rightarrow> (take i r, drop (Suc i) r))
      in case index_byte r CHR ''/'' of
           None \<Rightarrow> Inl (''oci ref '' @ go_quote ref @ '' has no repository path'')
         | Some i \<Rightarrow>
             (let rest = drop (Suc i) r;
                  (repo, tag) = (case last_index_byte rest CHR '':'' of
                      None \<Rightarrow> (rest, ''latest'') | Some j \<Rightarrow> (take j rest, drop (Suc j) rest))
              in if i = 0 \<or> repo = [] then Inl (''oci ref '' @ go_quote ref @ '' is incomplete'')
                 else Inr \<lparr>or_host = take i r, or_repo = repo, or_tag = tag, or_digest = digest\<rparr>))"

text \<open>The matches of \<open>(\w+)="([^"]*)"\<close>, from left to right.\<close>

definition word_char :: "char \<Rightarrow> bool" where
  "word_char c \<longleftrightarrow> (let n = (of_char c :: nat) in
     48 \<le> n \<and> n \<le> 57 \<or> 65 \<le> n \<and> n \<le> 90 \<or> 97 \<le> n \<and> n \<le> 122 \<or> n = 95)"

definition to_quote :: "string \<Rightarrow> string" where
  "to_quote s = dropWhile (\<lambda>c. c \<noteq> CHR 0x22) s"

lemma kv_rest: "takeWhile word_char s \<noteq> [] \<Longrightarrow> length (dropWhile word_char s) < length s"
  using length_dropWhile_le [of word_char "tl s"] by (cases s) (auto split: if_splits)

lemma kv_tail: "takeWhile word_char s \<noteq> [] \<Longrightarrow> length (tl (to_quote (drop 2 (dropWhile word_char s)))) < length s"
  using kv_rest [of s] length_dropWhile_le [of "\<lambda>c. c \<noteq> CHR 0x22" "drop 2 (dropWhile word_char s)"]
  by (simp add: to_quote_def)

function kv_matches :: "string \<Rightarrow> (string \<times> string) list" where
  "kv_matches s =
     (if s = [] then []
      else if takeWhile word_char s = [] then kv_matches (tl s)
      else if has_prefix (dropWhile word_char s) [CHR ''='', CHR 0x22] \<and> to_quote (drop 2 (dropWhile word_char s)) \<noteq> [] then
        (takeWhile word_char s, takeWhile (\<lambda>c. c \<noteq> CHR 0x22) (drop 2 (dropWhile word_char s)))
        # kv_matches (tl (to_quote (drop 2 (dropWhile word_char s))))
      else kv_matches (dropWhile word_char s))"
  by pat_completeness auto
termination
proof (relation "measure length")
  show "wf (measure length)" by simp
  show "(tl s, s) \<in> measure length" if "s \<noteq> []" for s :: string using that by simp
  show "(tl (to_quote (drop 2 (dropWhile word_char s))), s) \<in> measure length" if "takeWhile word_char s \<noteq> []" for s
    using kv_tail [OF that] by (simp only: in_measure)
  show "(dropWhile word_char s, s) \<in> measure length" if "takeWhile word_char s \<noteq> []" for s
    using kv_rest [OF that] by (simp only: in_measure)
qed

declare kv_matches.simps [simp del]

definition kv_get :: "(string \<times> string) list \<Rightarrow> string \<Rightarrow> string" where
  "kv_get ms k = (case gm_get (rev ms) k of None \<Rightarrow> [] | Some v \<Rightarrow> v)"

subsection \<open>The registry client\<close>

record oci_client =
  oc_base :: string
  oc_insecure :: bool
  oc_basic :: string
  oc_token :: string

definition new_oci_client :: "string \<Rightarrow> bool \<Rightarrow> string \<Rightarrow> oci_client" where
  "new_oci_client base insecure basic = \<lparr>oc_base = base, oc_insecure = insecure, oc_basic = basic, oc_token = []\<rparr>"

definition oci_do ::
    "'w package_env \<Rightarrow> 'w \<Rightarrow> oci_client \<Rightarrow> string \<Rightarrow> string \<Rightarrow> 'w \<times> (http_response \<times> string) result" where
  "oci_do env w cl path accepts =
     and_then
       (registry_request (pe_oci_http env (oc_insecure cl)) w ''GET'' (oc_base cl @ path)
         ((if accepts \<noteq> [] then [(''Accept'', accepts)] else [])
          @ (if oc_token cl \<noteq> [] then [(''Authorization'', ''Bearer '' @ oc_token cl)] else [])))
       (\<lambda>w resp. (w, map_sum id (\<lambda>b. (resp, take (8 * 2 ^ 20) b)) (hs_Body resp)))"

text \<open>\<open>json.Decoder.Decode\<close> reads the first value and ignores the rest.\<close>

definition decode_first :: "(json \<Rightarrow> 'a option) \<Rightarrow> string \<Rightarrow> 'a option" where
  "decode_first dec s = (case parse_value (2 * length s + 2) s of None \<Rightarrow> None | Some (v, _) \<Rightarrow> dec v)"

definition decode_token_field :: "json \<Rightarrow> string option" where
  "decode_token_field v = do { kvs \<leftarrow> object_members v; field_str ''token'' [''token''] kvs }"

definition token_dance ::
    "'w package_env \<Rightarrow> 'w \<Rightarrow> oci_client \<Rightarrow> string \<Rightarrow> (string \<times> string) list \<Rightarrow> 'w \<times> string result" where
  "token_dance env w cl realm kv =
     and_then
       (registry_request (pe_oci_http env (oc_insecure cl)) w ''GET''
         (realm @ ''?service='' @ kv_get kv ''service'' @ ''&scope='' @ kv_get kv ''scope'')
         (if oc_basic cl \<noteq> [] then [(''Authorization'', ''Basic '' @ oc_basic cl)] else []))
       (\<lambda>w resp.
         (case map_sum id (\<lambda>b. decode_first decode_token_field (take (2 ^ 20) b)) (hs_Body resp) of
            Inr (Some tok) \<Rightarrow>
              (if tok = [] then (w, Inl (''registry token dance failed (HTTP '' @ itoa (hs_Status resp) @ '' from realm)''))
               else (w, Inr tok))
          | _ \<Rightarrow> (w, Inl (''registry token dance failed (HTTP '' @ itoa (hs_Status resp) @ '' from realm)''))))"

text \<open>A request; when the registry asks for a token, the request is repeated with one.\<close>

definition oci_get ::
    "'w package_env \<Rightarrow> 'w \<times> oci_client \<Rightarrow> string \<Rightarrow> string
       \<Rightarrow> ('w \<times> oci_client) \<times> (int \<times> string) result" where
  "oci_get env st path accepts =
     (let (w, cl) = st; answer = (\<lambda>(resp, b). (hs_Status resp, b)) in
      case oci_do env w cl path accepts of
        (w, Inl e) \<Rightarrow> ((w, cl), Inl e)
      | (w, Inr (resp, body)) \<Rightarrow>
         (let kv = kv_matches (header_get resp ''Www-Authenticate''); realm = kv_get kv ''realm'' in
          if hs_Status resp \<noteq> 401 \<or> realm = [] then ((w, cl), Inr (hs_Status resp, body))
          else case token_dance env w cl realm kv of
            (w, Inl e) \<Rightarrow> ((w, cl), Inl e)
          | (w, Inr tok) \<Rightarrow>
             (let cl1 = cl\<lparr>oc_token := tok\<rparr> in
              case oci_do env w cl1 path accepts of (w, r) \<Rightarrow> ((w, cl1), map_sum id answer r))))"

subsection \<open>Pull secrets\<close>

definition base64_char :: "nat \<Rightarrow> char" where
  "base64_char n =
     (if n < 26 then char_of (65 + n) else if n < 52 then char_of (71 + n) else if n < 62 then char_of (n - 4)
      else if n = 62 then CHR ''+'' else CHR ''/'')"

fun base64_encode :: "string \<Rightarrow> string" where
  "base64_encode [] = []"
| "base64_encode [a] =
     (let x = (of_char a :: nat) in [base64_char (x div 4), base64_char (x mod 4 * 16), CHR ''='', CHR ''=''])"
| "base64_encode [a, b] =
     (let x = (of_char a :: nat); y = of_char b
      in [base64_char (x div 4), base64_char (x mod 4 * 16 + y div 16), base64_char (y mod 16 * 4), CHR ''=''])"
| "base64_encode (a # b # c # r) =
     (let x = (of_char a :: nat); y = of_char b; z = of_char c
      in [base64_char (x div 4), base64_char (x mod 4 * 16 + y div 16), base64_char (y mod 16 * 4 + z div 64),
          base64_char (z mod 64)] @ base64_encode r)"

record docker_auth =
  da_auth :: string
  da_username :: string
  da_password :: string

definition decode_docker_auth :: "json \<Rightarrow> docker_auth option" where
  "decode_docker_auth v =
     (let names = [''auth'', ''username'', ''password''] in
      do { kvs \<leftarrow> object_members v;
           a \<leftarrow> field_str ''auth'' names kvs;
           u \<leftarrow> field_str ''username'' names kvs;
           p \<leftarrow> field_str ''password'' names kvs;
           Some \<lparr>da_auth = a, da_username = u, da_password = p\<rparr> })"

definition decode_docker_config :: "json \<Rightarrow> docker_auth gomap option" where
  "decode_docker_config v =
     do { kvs \<leftarrow> object_members v;
          ms \<leftarrow> field_members ''auths'' [''auths''] kvs;
          vs \<leftarrow> those (map (\<lambda>(k, x). decode_docker_auth x) ms);
          Some (foldl (\<lambda>m (k, a). gm_set m (valid_utf8 k) a) [] (zip (map fst ms) vs)) }"

definition basic_from_pull_secret ::
    "kube_env \<Rightarrow> kube \<Rightarrow> string \<Rightarrow> string \<Rightarrow> string \<Rightarrow> string result" where
  "basic_from_pull_secret env k ns name host =
     (let here = ''pull secret '' @ ns @ ''/'' @ name in
      case api_read env Secrets sec_meta (ku_secrets k) ns name of
        Inl e \<Rightarrow> Inl (here @ '': '' @ e)
      | Inr sec \<Rightarrow>
     (case gm_get (sec_Data sec) ''.dockerconfigjson'' of
        None \<Rightarrow> Inl (here @ '' has no .dockerconfigjson key'')
      | Some raw \<Rightarrow>
     (case unmarshal decode_docker_config raw of
        None \<Rightarrow> Inl (here @ '': invalid JSON'')
      | Some auths \<Rightarrow>
     (case gm_get auths host of
        Some a \<Rightarrow> Inr (if da_auth a \<noteq> [] then da_auth a else base64_encode (da_username a @ '':'' @ da_password a))
      | None \<Rightarrow>
         (case filter (\<lambda>a. a \<noteq> []) (map (\<lambda>h. da_auth (the (gm_get auths h))) (ke_range env (map fst auths))) of
            a # _ \<Rightarrow> Inr a
          | [] \<Rightarrow> Inl (here @ '' has no usable auth entry''))))))"

subsection \<open>The text of an artifact\<close>

definition mt_oci_index :: string where
  "mt_oci_index = ''application/vnd.oci.image.index.v1+json''"

definition decode_manifest :: "json \<Rightarrow> (string \<times> string list) option" where
  "decode_manifest v =
     (let names = [''mediaType'', ''layers''] in
      do { kvs \<leftarrow> object_members v;
           m \<leftarrow> field_str ''mediaType'' names kvs;
           ls \<leftarrow> field_list (\<lambda>x. do { o' \<leftarrow> object_members x; field_str ''digest'' [''digest''] o' }) ''layers'' names kvs;
           Some (m, ls) })"

definition is_skill_file :: "string \<Rightarrow> bool" where
  "is_skill_file name = (let n = trim_prefix name ''./'' in n = ''SKILL.md'' \<or> has_suffix n ''/SKILL.md'')"

definition skill_from_layer :: "'w package_env \<Rightarrow> string \<Rightarrow> string \<Rightarrow> string result" where
  "skill_from_layer env artifact blob =
     (case (if take 2 blob = [CHR 0x1F, CHR 0x8B] then map_sum (\<lambda>e. ''layer gunzip: '' @ e) id (pe_gunzip env blob) else Inr blob) of
        Inl e \<Rightarrow> Inl e
      | Inr tar \<Rightarrow>
         (case pe_tar env tar of
            (entries, err) \<Rightarrow>
              (case filter (is_skill_file \<circ> fst) entries of
                 (_, body) # _ \<Rightarrow> map_sum id (take (2 * 2 ^ 20)) body
               | [] \<Rightarrow> Inl (case err of Some e \<Rightarrow> ''layer tar: '' @ e
                           | None \<Rightarrow> ''artifact '' @ artifact @ '' carries no SKILL.md''))))"

definition fetch_oci_skill_content ::
    "'w package_env \<Rightarrow> 'w \<times> oci_client \<Rightarrow> oci_ref \<Rightarrow> ('w \<times> oci_client) \<times> string result" where
  "fetch_oci_skill_content env st ref =
     (let want = default_if_empty (or_digest ref) (or_tag ref); artifact = or_repo ref @ '':'' @ want in
      and_then (oci_get env st (''/v2/'' @ or_repo ref @ ''/manifests/'' @ want) manifest_accept) (\<lambda>st (code, body).
        if code \<noteq> 200 then (st, Inl (''manifest '' @ artifact @ '': HTTP '' @ itoa code))
        else case unmarshal decode_manifest body of
          None \<Rightarrow> (st, Inl (''manifest '' @ artifact @ '': invalid JSON''))
        | Some (media, layers) \<Rightarrow>
           (if media = mt_oci_index then
              (st, Inl (artifact @ '' is a pack (image index) '' @ em_dash @ '' install its member skills, not the index itself''))
            else case layers of
              [] \<Rightarrow> (st, Inl (''manifest '' @ artifact @ '' has no content layer''))
            | layer # _ \<Rightarrow>
                and_then (oci_get env st (''/v2/'' @ or_repo ref @ ''/blobs/'' @ layer) []) (\<lambda>st (code, blob).
                  if code \<noteq> 200 then
                    (st, Inl (if length layer < 19 then ''panic: slice bounds out of range''
                              else ''layer blob '' @ take 19 layer @ '': HTTP '' @ itoa code))
                  else (st, skill_from_layer env artifact blob)))))"

definition resolve_oci ::
    "'w package_env \<Rightarrow> kube \<Rightarrow> string \<Rightarrow> package_ref_source \<Rightarrow> 'w \<times> package_cache
       \<Rightarrow> ('w \<times> package_cache) \<times> string result" where
  "resolve_oci env k ns src st =
     (case parse_oci_ref (prs_Ref src) of
        Inl e \<Rightarrow> (st, Inl e)
      | Inr ref \<Rightarrow>
         (let (w, cache) = st;
              key = ''oci|'' @ prs_Ref src @ ''|'' @ want_digest src;
              fail = (\<lambda>e. ''packageRef '' @ prs_Ref src @ '': '' @ e) in
          case cached (pe_now env) cache key of
            Some body \<Rightarrow> (st, Inr body)
          | None \<Rightarrow>
         (case (if prs_PullSecretName src = [] then Inr []
                else basic_from_pull_secret (pe_kube env) k ns (prs_PullSecretName src) (or_host ref)) of
            Inl e \<Rightarrow> (st, Inl (fail e))
          | Inr basic \<Rightarrow>
         (case fetch_oci_skill_content env
                  (w, new_oci_client (''https://'' @ or_host ref) (prs_InsecureSkipTLSVerify src) basic) ref of
            ((w1, _), Inl e) \<Rightarrow> ((w1, cache), Inl (fail e))
          | ((w1, _), Inr body) \<Rightarrow>
              (case admit_content (pe_now env) src key body cache of (cache1, r) \<Rightarrow> ((w1, cache1), r))))))"

definition resolve_package_ref ::
    "'w package_env \<Rightarrow> kube \<Rightarrow> string \<Rightarrow> package_ref_source \<Rightarrow> 'w \<times> package_cache
       \<Rightarrow> ('w \<times> package_cache) \<times> string result" where
  "resolve_package_ref env k ns src st =
     (if has_prefix (trim_space (prs_Ref src)) ''oci://'' then resolve_oci env k ns src st
      else resolve_registry env src st)"

subsection \<open>A pinned text is what was pinned\<close>

lemma last_index_byte_None: "last_index_byte s c = None \<longleftrightarrow> c \<notin> set s"
  by (induction s) (auto split: option.splits)

lemma after_last_rev: "after_last c s = rev (takeWhile (\<lambda>x. x \<noteq> c) (rev s))"
proof (induction s)
  case (Cons x s)
  have tw: "takeWhile (\<lambda>x. x \<noteq> c) (rev s @ [x]) = (if c \<in> set s then takeWhile (\<lambda>x. x \<noteq> c) (rev s)
      else rev s @ (if x = c then [] else [x]))"
    by (auto simp: takeWhile_append)
  have none: "c \<notin> set s \<Longrightarrow> after_last c s = s" by (simp add: after_last_def last_index_byte_None [THEN iffD2])
  show ?case
    using Cons tw last_index_byte_None [of s c] none
    by (auto simp: after_last_def split: option.splits if_splits)
qed (simp add: after_last_def)

lemma after_last_append: "after_last c (x @ c # d) = after_last c d"
proof (cases "c \<in> set d")
  case False
  then have tw: "takeWhile (\<lambda>x. x \<noteq> c) (rev d) = rev d" by (auto simp: takeWhile_eq_all_conv)
  show ?thesis using False by (simp add: after_last_rev takeWhile_append tw)
qed (auto simp: after_last_rev takeWhile_append)

lemma after_last_absent: "c \<notin> set d \<Longrightarrow> after_last c d = d"
  by (simp add: after_last_def last_index_byte_None [THEN iffD2])

text \<open>What is cached under a key agrees with the digest at the end of the key.\<close>

definition cache_ok :: "package_cache \<Rightarrow> bool" where
  "cache_ok cache \<longleftrightarrow> (\<forall>k e. gm_get cache k = Some e \<longrightarrow> digest_ok (after_last CHR ''|'' k) (pce_content e))"

lemma hex_digit_not_bar: "n < 16 \<Longrightarrow> lower_char (hex_digit n) \<noteq> CHR ''|''"
proof
  assume n: "n < 16" and bar: "lower_char (hex_digit n) = CHR ''|''"
  have "(of_char (lower_char (hex_digit n)) :: nat) \<noteq> 124"
    using n by (simp add: lower_char_def hex_digit_def Let_def)
  with bar show False by simp
qed

lemma digest_no_bar: "CHR ''|'' \<notin> set (to_lower (content_digest s))"
proof -
  have "b < 256" if "b \<in> set (sha256 s)" for b using that by (auto simp: sha256_def)
  then have "lower_char (hex_digit (b div 16)) \<noteq> CHR ''|''" "lower_char (hex_digit (b mod 16)) \<noteq> CHR ''|''"
    if "b \<in> set (sha256 s)" for b
    using that by (auto intro!: hex_digit_not_bar simp: less_mult_imp_div_less)
  then show ?thesis by (fastforce simp: content_digest_def hex_encode_def to_lower_def)
qed

lemma digest_ok_no_bar:
  assumes "digest_ok d body" shows "CHR ''|'' \<notin> set d"
proof
  assume bar: "CHR ''|'' \<in> set d"
  moreover have "lower_char CHR ''|'' = CHR ''|''" by (simp add: lower_char_def)
  ultimately have "CHR ''|'' \<in> set (to_lower d)" by (force simp: to_lower_def)
  then show False
    using assms digest_no_bar [of body] bar by (auto simp: digest_ok_def)
qed

lemma admit_content_ok:
  assumes "admit_content now src (x @ CHR ''|'' # want_digest src) body cache = (cache', r)" "cache_ok cache"
  shows "cache_ok cache'" "r = Inr b \<Longrightarrow> digest_ok (want_digest src) b"
  using assms digest_ok_no_bar [of "want_digest src" body]
  by (auto simp: admit_content_def cache_ok_def after_last_append after_last_absent split: if_splits)

lemma cached_ok:
  assumes "cached now cache (x @ CHR ''|'' # d) = Some b" "cache_ok cache" "CHR ''|'' \<notin> set d"
  shows "digest_ok d b"
proof -
  obtain e where e: "gm_get cache (x @ CHR ''|'' # d) = Some e" "b = pce_content e"
    using assms(1) by (auto simp: cached_def split: option.splits if_splits)
  then have "digest_ok (after_last CHR ''|'' (x @ CHR ''|'' # d)) b" using assms(2) unfolding cache_ok_def by blast
  then show ?thesis by (simp add: after_last_append after_last_absent assms(3))
qed

lemma resolve_package_ref_ok:
  assumes "resolve_package_ref env k ns src (w, cache) = ((w', cache'), r)" "cache_ok cache"
  shows "cache_ok cache'" "r = Inr body \<Longrightarrow> CHR ''|'' \<notin> set (want_digest src) \<Longrightarrow> digest_ok (want_digest src) body"
proof -
  have reg: "cache_ok cache' \<and> (r = Inr body \<longrightarrow> CHR ''|'' \<notin> set (want_digest src) \<longrightarrow> digest_ok (want_digest src) body)"
    if "resolve_registry env src (w, cache) = ((w', cache'), r)"
    using that assms(2) admit_content_ok [of _ src "registry_base env src @ ''|'' @ _ @ ''|'' @ _", simplified]
      cached_ok [of _ _ "registry_base env src @ ''|'' @ _ @ ''|'' @ _", simplified]
    by (fastforce simp: resolve_registry_def Let_def split: sum.splits prod.splits option.splits if_splits)
  have oci: "cache_ok cache' \<and> (r = Inr body \<longrightarrow> CHR ''|'' \<notin> set (want_digest src) \<longrightarrow> digest_ok (want_digest src) body)"
    if "resolve_oci env k ns src (w, cache) = ((w', cache'), r)"
    using that assms(2) admit_content_ok [of _ src "''oci|'' @ _", simplified] cached_ok [of _ _ "''oci|'' @ _", simplified]
    by (fastforce simp: resolve_oci_def Let_def split: sum.splits prod.splits option.splits if_splits)
  from reg oci assms(1) show "cache_ok cache'"
    "r = Inr body \<Longrightarrow> CHR ''|'' \<notin> set (want_digest src) \<Longrightarrow> digest_ok (want_digest src) body"
    by (auto simp: resolve_package_ref_def split: if_splits)
qed

text \<open>
  The states that the process can reach: it starts with an empty cache, resolves references of any
  skill in any namespace, and the world around it changes as it likes.
\<close>

inductive package_reachable :: "'w \<times> package_cache \<Rightarrow> bool" where
  start: "package_reachable (w, [])"
| world: "package_reachable (w, cache) \<Longrightarrow> package_reachable (w', cache)"
| resolve: "package_reachable st \<Longrightarrow> resolve_package_ref env k ns src st = (st', r) \<Longrightarrow> package_reachable st'"

lemma package_reachable_ok: "package_reachable st \<Longrightarrow> cache_ok (snd st)"
proof (induction rule: package_reachable.induct)
  case (resolve st env k ns src st' r)
  then show ?case by (metis prod.collapse resolve_package_ref_ok(1))
qed (simp_all add: cache_ok_def)

text \<open>
  A skill whose reference is pinned by a digest is delivered only with a text of this digest,
  whatever the registries answer and whatever was fetched before: the SHA-256 of the text is the digest
  of the reference, up to the case of its letters. This holds for both transports and for texts that
  come from the cache.
\<close>

theorem pinned_content_delivered:
  assumes "package_reachable st" "resolve_package_ref env k ns src st = (st', Inr body)"
    and "want_digest src \<noteq> []" "CHR ''|'' \<notin> set (want_digest src)"
  shows "to_lower (hex_encode (sha256 body)) = to_lower (want_digest src)"
proof -
  obtain w cache w' cache' where st: "st = (w, cache)" "st' = (w', cache')" by fastforce
  have "digest_ok (want_digest src) body"
    using assms(2) package_reachable_ok [OF assms(1)] assms(4) unfolding st by (auto intro: resolve_package_ref_ok(2))
  with assms(3) show ?thesis by (simp add: digest_ok_def content_digest_def)
qed

lemma cached_admitted:
  assumes "admit_content now src key body cache = (cache', Inr b)"
    and "want_digest src \<noteq> [] \<or> now' - now < registry_ttl"
  shows "cached now' cache' key = Some b"
  using assms by (auto simp: admit_content_def cached_def split: if_splits)

text \<open>
  The cache of the OCI transport does not know who may read what. After a fetch with the
  credentials of one namespace, the same reference is answered in every other namespace, with any pull
  secret or none, without a request to the registry: for ever if it is pinned, else for five minutes.
\<close>

theorem private_content_served_from_cache:
  assumes "resolve_oci env k ns src (w, cache) = ((w1, cache1), Inr body)"
    and "cached (pe_now env) cache (''oci|'' @ prs_Ref src @ ''|'' @ want_digest src) = None"
    and "prs_Ref src2 = prs_Ref src" "want_digest src2 = want_digest src"
    and "want_digest src \<noteq> [] \<or> pe_now env2 - pe_now env < registry_ttl"
  shows "resolve_oci env2 k2 ns2 src2 (w2, cache1) = ((w2, cache1), Inr body)"
proof -
  obtain ref where ref: "parse_oci_ref (prs_Ref src) = Inr ref"
    using assms(1) by (auto simp: resolve_oci_def split: sum.splits)
  obtain b where "admit_content (pe_now env) src (''oci|'' @ prs_Ref src @ ''|'' @ want_digest src) b cache = (cache1, Inr body)"
    using assms(1,2) ref by (auto simp: resolve_oci_def Let_def split: sum.splits prod.splits if_splits)
  from cached_admitted [OF this assms(5)] show ?thesis
    using ref assms(3,4) by (simp add: resolve_oci_def)
qed

subsection \<open>A concrete registry\<close>

definition demo_transport :: "string \<Rightarrow> unit http_env" where
  "demo_transport body = \<lparr>he_url_err = (\<lambda>_. None),
     he_do = (\<lambda>req w. (w, if has_suffix (hr_URL req) ''.json'' then Inl ''down''
                          else Inr \<lparr>hs_Status = 200, hs_Header = [], hs_Body = Inr body\<rparr>))\<rparr>"

definition demo_package_env :: "string \<Rightarrow> unit package_env" where
  "demo_package_env body = \<lparr>pe_now = 0, pe_kube = demo_kube_env, pe_http = demo_transport body,
     pe_oci_http = (\<lambda>_. demo_transport body), pe_getenv = (\<lambda>_. []), pe_resolve_url = (\<lambda>_ _. None),
     pe_gunzip = Inr, pe_tar = (\<lambda>_. ([(''SKILL.md'', Inr ''# hi'')], None))\<rparr>"

definition demo_package :: "string \<Rightarrow> string \<Rightarrow> package_ref_source" where
  "demo_package ref digest = \<lparr>prs_Ref = ref, prs_Digest = digest, prs_Registry = ''http://r'', prs_PullSecretName = [],
     prs_InsecureSkipTLSVerify = False\<rparr>"

lemma trim_space_plain_all:
  assumes "list_all plain_char s" shows "trim_space s = s"
proof (cases s)
  case (Cons c t)
  with assms show ?thesis
    using trim_space_plain(1) [of c "last t" "butlast t"] trim_space_plain(2) [of c c]
    by (cases "t = []") (auto simp: list_all_iff)
qed simp

lemma plain_hex: "list_all plain_char (content_digest s)"
proof -
  have "plain_char (hex_digit n)" if "n < 16" for n using that by (auto simp: plain_char_def hex_digit_def)
  moreover have "b < 256" if "b \<in> set (sha256 s)" for b using that by (auto simp: sha256_def)
  ultimately show ?thesis
    by (fastforce simp: content_digest_def hex_encode_def list_all_iff less_mult_imp_div_less)
qed

definition demo_pinned :: "string \<Rightarrow> string \<Rightarrow> package_ref_source" where
  "demo_pinned ref body = demo_package ref (''sha256:'' @ content_digest body)"

lemma demo_pinned_fields: "want_digest (demo_pinned ref b) = content_digest b"
  "prs_Ref (demo_pinned ref b) = ref" "prs_Registry (demo_pinned ref b) = ''http://r''"
proof -
  have "list_all plain_char (''sha256:'' @ content_digest b)" using plain_hex [of b] by (simp add: plain_char_def)
  then show "want_digest (demo_pinned ref b) = content_digest b"
    unfolding want_digest_def demo_pinned_def demo_package_def by (simp only: trim_space_plain_all package_ref_source.simps trim_prefix_append)
qed (simp_all add: demo_pinned_def demo_package_def)

lemma resolve_registry_miss:
  assumes "parse_package_coordinate (prs_Ref src) = Inr (name, version)" "registry_base env src = base" "base \<noteq> []"
    and "cached (pe_now env) cache (base @ ''|'' @ name @ ''|'' @ version @ ''|'' @ want_digest src) = None"
    and "http_get_text (pe_http env) w (base @ ''/'' @ name @ ''/'' @ version @ ''/mindifact.json'') = (w1, manifest)"
    and "http_get_text (pe_http env) w1 (content_url env base name version manifest) = (w2, Inr body)"
    and "admit_content (pe_now env) src (base @ ''|'' @ name @ ''|'' @ version @ ''|'' @ want_digest src) body cache = (c, r)"
  shows "resolve_registry env src (w, cache) = ((w2, c), r)"
  unfolding resolve_registry_def by (simp only: assms Let_def sum.case prod.case option.case if_False)

lemma demo_pinned_resolves:
  "\<exists>st'. resolve_package_ref (demo_package_env ''# hi'') k ns (demo_pinned ''x:1'' ''# hi'') ((), []) = (st', Inr ''# hi'')"
proof -
  let ?src = "demo_pinned ''x:1'' ''# hi''"
  have t: "trim_space ''x:1'' = ''x:1''" "trim_space ''http://r'' = ''http://r''"
    by (simp_all add: trim_space_plain_all plain_char_def)
  have p: "parse_package_coordinate ''x:1'' = Inr (''x'', ''1'')"
    by (simp add: parse_package_coordinate_def t after_last_def)
  have b: "registry_base (demo_package_env ''# hi'') ?src = ''http://r''"
    by (simp add: registry_base_def demo_pinned_fields t trim_suffix_def has_suffix_def default_if_empty_def)
  have g: "http_get_text (demo_transport ''# hi'') w u = (w, if has_suffix u ''.json'' then Inl ''down'' else Inr ''# hi'')"
    if "u \<noteq> []" for w u
    using that by (simp add: http_get_text_def demo_transport_def)
  have a: "\<exists>c. admit_content now ?src key ''# hi'' cache = (c, Inr ''# hi'')" for now key cache
    by (simp add: admit_content_def digest_ok_def demo_pinned_fields)
  let ?key = "''http://r'' @ ''|'' @ ''x'' @ ''|'' @ ''1'' @ ''|'' @ want_digest ?src"
  obtain c where c: "admit_content (pe_now (demo_package_env ''# hi'')) ?src ?key ''# hi'' [] = (c, Inr ''# hi'')" using a by blast
  have e: "pe_http (demo_package_env ''# hi'') = demo_transport ''# hi''" by (simp add: demo_package_env_def)
  have "resolve_registry (demo_package_env ''# hi'') ?src ((), []) = (((), c), Inr ''# hi'')"
    by (rule resolve_registry_miss [OF _ b _ _ _ _ c, where ?manifest = "Inl ''down''"])
      (simp_all add: demo_pinned_fields p cached_def e g content_url_def has_suffix_def)
  then show ?thesis by (auto simp: resolve_package_ref_def demo_pinned_fields t)
qed

lemma demo_pinned_digest: "want_digest (demo_pinned r ''# hi'') \<noteq> []" "CHR ''|'' \<notin> set (want_digest (demo_pinned r ''# hi''))"
proof -
  have "content_digest ''# hi'' \<noteq> []" using sha256_length [of "''# hi''"] hex_encode_length [of "sha256 ''# hi''"]
    by (auto simp: content_digest_def)
  then show "want_digest (demo_pinned r ''# hi'') \<noteq> []" "CHR ''|'' \<notin> set (want_digest (demo_pinned r ''# hi''))"
    using digest_ok_no_bar [of "content_digest ''# hi''" "''# hi''"] by (simp_all add: demo_pinned_fields digest_ok_def)
qed


definition demo_manifest :: string where
  "demo_manifest = [CHR 0x7B, CHR 0x22] @ ''layers'' @ [CHR 0x22, CHR '':'', CHR ''['', CHR 0x7B, CHR 0x22] @ ''digest''
     @ [CHR 0x22, CHR '':'', CHR 0x22] @ ''d'' @ [CHR 0x22, CHR 0x7D, CHR '']'', CHR 0x7D]"

lemma demo_manifest_decoded: "unmarshal decode_manifest demo_manifest = Some ([], [''d''])"
  by code_simp

lemma demo_oci_get:
  assumes "\<not> has_suffix (oc_base cl @ p) ''.json''"
  shows "oci_get (demo_package_env b) (w, cl) p a = ((w, cl), Inr (200, take (8 * 2 ^ 20) b))"
  using assms by (simp add: oci_get_def oci_do_def registry_request_def demo_package_env_def demo_transport_def Let_def)

lemma private_content_served_from_cache_witness:
  "\<exists>cache1. resolve_oci (demo_package_env demo_manifest) empty_kube ''lab'' (demo_package ''oci://r/a:1'' []) ((), [])
      = (((), cache1), Inr ''# hi'')
   \<and> resolve_oci (demo_package_env ''gone'') empty_kube ''other'' (demo_package ''oci://r/a:1'' []) ((), cache1)
      = (((), cache1), Inr ''# hi'')"
proof -
  let ?src = "demo_package ''oci://r/a:1'' []" let ?e = "demo_package_env demo_manifest"
  have m: "take 8388608 demo_manifest = demo_manifest" "take 2 demo_manifest \<noteq> [CHR 0x1F, CHR 0x8B]"
    by (simp_all add: demo_manifest_def)
  have src: "prs_Ref ?src = ''oci://r/a:1''" "want_digest ?src = []" "prs_PullSecretName ?src = []"
    "prs_InsecureSkipTLSVerify ?src = False"
    by (simp_all add: demo_package_def want_digest_def trim_space_plain_all trim_prefix_def)
  have p: "parse_oci_ref ''oci://r/a:1'' = Inr \<lparr>or_host = ''r'', or_repo = ''a'', or_tag = ''1'', or_digest = []\<rparr>"
    by (simp add: parse_oci_ref_def trim_space_plain_all plain_char_def trim_prefix_def)
  have l: "skill_from_layer ?e a demo_manifest = Inr ''# hi''" for a
    using m(2) by (simp add: skill_from_layer_def demo_package_env_def is_skill_file_def trim_prefix_def)
  have f: "\<exists>cl. fetch_oci_skill_content ?e ((), new_oci_client (''https://'' @ ''r'') i b)
      \<lparr>or_host = ''r'', or_repo = ''a'', or_tag = ''1'', or_digest = []\<rparr> = (((), cl), Inr ''# hi'')" for i b
    by (simp add: fetch_oci_skill_content_def default_if_empty_def demo_oci_get new_oci_client_def has_suffix_def m Let_def
        demo_manifest_decoded l mt_oci_index_def)
  obtain cache1 where r: "resolve_oci ?e empty_kube ''lab'' ?src ((), []) = (((), cache1), Inr ''# hi'')"
    using f [of False "[]"]
    by (auto simp: resolve_oci_def src p cached_def admit_content_def digest_ok_def)
  have "resolve_oci (demo_package_env ''gone'') empty_kube ''other'' ?src ((), cache1) = (((), cache1), Inr ''# hi'')"
    by (rule private_content_served_from_cache [OF r _ refl refl])
      (simp_all add: cached_def demo_package_env_def registry_ttl_def minutes_def)
  with r show ?thesis by blast
qed

end
