(* ===== verification/Skills.thy ===== *)
theory Skills
  imports Packages
begin

text \<open>
  \<open>agentworkstation_skills.go\<close> and the content of a skill in \<open>skill_controller.go\<close>: where the text of a
  skill comes from, which skills a workstation gets, and the \<open>SKILL.md\<close> that is written into its
  workspace. The template language is a parameter: it parses a text, and a parsed template renders the
  skill and the parameters of the binding.
\<close>

type_synonym skill_template = "string \<Rightarrow> (skill \<Rightarrow> string gomap \<Rightarrow> string result) result"

definition skill_name :: "skill \<Rightarrow> string" where
  "skill_name sk = om_Name (skl_meta sk)"

subsection \<open>Content\<close>

text \<open>
  The package comes before the config map and the config map before the inline text. Two controllers
  have this function; they differ in the first word of the last message.
\<close>

definition resolve_skill_content ::
    "string \<Rightarrow> 'w package_env \<Rightarrow> kube \<Rightarrow> skill \<Rightarrow> 'w \<times> package_cache \<Rightarrow> ('w \<times> package_cache) \<times> string result" where
  "resolve_skill_content word env k sk st =
     (let src = sk_Source (skl_Spec sk); ns = om_Namespace (skl_meta sk) in
      case sks_PackageRef src of
        Some p \<Rightarrow> resolve_package_ref env k ns p st
      | None \<Rightarrow>
     (case sks_ConfigMapRef src of
        Some r \<Rightarrow>
          (st, (case api_read (pe_kube env) ConfigMaps cm_meta (ku_config_maps k) ns (cms_Name r) of
             Inl e \<Rightarrow> Inl (''ConfigMap '' @ ns @ ''/'' @ cms_Name r @ '': '' @ e)
           | Inr cm \<Rightarrow>
              (case gm_get (cm_Data cm) (cms_Key r) of
                 None \<Rightarrow> Inl (''ConfigMap '' @ ns @ ''/'' @ cms_Name r @ '' missing key '' @ go_quote (cms_Key r))
               | Some v \<Rightarrow> Inr v)))
      | None \<Rightarrow>
          (st, if sks_Inline src \<noteq> [] then Inr (sks_Inline src)
               else Inl (word @ ''source has no packageRef, configMapRef, or inline content''))))"

definition skill_declares_source :: "skill \<Rightarrow> bool" where
  "skill_declares_source sk \<longleftrightarrow> (let src = sk_Source (skl_Spec sk) in
     sks_PackageRef src \<noteq> None \<or> sks_ConfigMapRef src \<noteq> None \<or> sks_Inline src \<noteq> [])"

definition resolved_version_label :: "string \<Rightarrow> string \<Rightarrow> string" where
  "resolved_version_label pinned version =
     (if pinned \<noteq> [] then pinned else if version \<noteq> [] then ''floating:'' @ version else ''floating'')"

definition overrides_params :: "skill_overrides option \<Rightarrow> string gomap" where
  "overrides_params ov = (case ov of None \<Rightarrow> [] | Some x \<Rightarrow> sko_InvocationParams x)"

subsection \<open>Rendering\<close>

abbreviation newline :: char where
  "newline \<equiv> CHR 0x0A"

definition trim_left_newlines :: "string \<Rightarrow> string" where
  "trim_left_newlines s = dropWhile (\<lambda>c. c = newline) s"

definition trim_right_newlines :: "string \<Rightarrow> string" where
  "trim_right_newlines s = rev (dropWhile (\<lambda>c. c = newline) (rev s))"

definition paragraph_end :: string where
  "paragraph_end = [newline, newline]"

text \<open>The line that opens the front matter.\<close>

definition fence_line :: string where
  "fence_line = ''---'' @ [newline]"

definition frontmatter_led :: "string \<Rightarrow> bool" where
  "frontmatter_led base \<longleftrightarrow> has_prefix (trim_left_newlines base) fence_line"

definition skill_header :: "skill \<Rightarrow> string \<Rightarrow> string" where
  "skill_header sk base =
     (let sp = skl_Spec sk in
      (if frontmatter_led base then [] else ''# '' @ default_if_empty (sk_DisplayName sp) (skill_name sk) @ paragraph_end)
      @ (if \<not> frontmatter_led base \<and> sk_Description sp \<noteq> [] then sk_Description sp @ paragraph_end else [])
      @ (if ski_Tool (sk_Invocation sp) \<noteq> [] then
           ''*This skill is built on the `'' @ ski_Tool (sk_Invocation sp)
             @ ''` tool. Invoke it through that tool's normal interface.*'' @ paragraph_end
         else []))"

definition skill_template_body :: "skill_template \<Rightarrow> skill \<Rightarrow> skill_overrides option \<Rightarrow> string" where
  "skill_template_body tpl sk ov =
     (let t = trim_space (ski_PromptTemplate (sk_Invocation (skl_Spec sk))) in
      if t = [] then []
      else case tpl t of
        Inl e \<Rightarrow> ''<!-- skill template parse error: '' @ e @ '' -->'' @ paragraph_end
      | Inr render \<Rightarrow>
         (case render sk (overrides_params ov) of
            Inl e \<Rightarrow> ''<!-- skill template render error: '' @ e @ '' -->'' @ paragraph_end
          | Inr s \<Rightarrow> trim_right_newlines s @ paragraph_end))"

definition skill_trailer :: "skill_overrides option \<Rightarrow> string" where
  "skill_trailer ov =
     (case ov of
        None \<Rightarrow> []
      | Some x \<Rightarrow>
          (if trim_space (sko_PromptAdditions x) = [] then []
           else ''---'' @ paragraph_end @ trim_right_newlines (sko_PromptAdditions x) @ [newline]))"

definition render_skill :: "skill_template \<Rightarrow> skill \<Rightarrow> string \<Rightarrow> skill_overrides option \<Rightarrow> string" where
  "render_skill tpl sk base ov =
     skill_header sk base
     @ (if base \<noteq> [] then trim_right_newlines base @ paragraph_end else [])
     @ skill_template_body tpl sk ov
     @ skill_trailer ov"

subsection \<open>Which skills\<close>

record resolved_skill =
  rsk_Skill :: skill
  rsk_BindingName :: string
  rsk_Overrides :: "skill_overrides option"
  rsk_Version :: string
  rsk_Rendered :: string

definition by_skill_name :: "resolved_skill list \<Rightarrow> resolved_skill list" where
  "by_skill_name rs = sort_key (skill_name \<circ> rsk_Skill) rs"

text \<open>The text of a skill, unless it declares a source that cannot be read.\<close>

definition deliverable ::
    "'w package_env \<Rightarrow> kube \<Rightarrow> skill \<Rightarrow> 'w \<times> package_cache \<Rightarrow> ('w \<times> package_cache) \<times> string result" where
  "deliverable env k sk st =
     (case resolve_skill_content ''skill '' env k sk st of
        (st1, Inr base) \<Rightarrow> (st1, Inr base)
      | (st1, Inl e) \<Rightarrow> (st1, if skill_declares_source sk then Inl e else Inr []))"

fun render_catalog ::
    "'w package_env \<Rightarrow> kube \<Rightarrow> skill_template \<Rightarrow> skill list \<Rightarrow> 'w \<times> package_cache
       \<Rightarrow> ('w \<times> package_cache) \<times> resolved_skill list" where
  "render_catalog env k tpl [] st = (st, [])"
| "render_catalog env k tpl (sk # sks) st =
     (let (st1, r) = deliverable env k sk st;
          (st2, rs) = render_catalog env k tpl sks st1
      in (st2, case r of
           Inl _ \<Rightarrow> rs
         | Inr base \<Rightarrow> \<lparr>rsk_Skill = sk, rsk_BindingName = [], rsk_Overrides = None, rsk_Version = sk_Version (skl_Spec sk),
                        rsk_Rendered = render_skill tpl sk base None\<rparr> # rs))"

definition list_all_catalog_skills ::
    "'w package_env \<Rightarrow> kube \<Rightarrow> skill_template \<Rightarrow> string \<Rightarrow> 'w \<times> package_cache
       \<Rightarrow> ('w \<times> package_cache) \<times> resolved_skill list result" where
  "list_all_catalog_skills env k tpl ns st =
     (case api_list (pe_kube env) Skills skl_meta (ku_skills k) ns of
        Inl e \<Rightarrow> (st, Inl (''listing Skills: '' @ e))
      | Inr sks \<Rightarrow> (case render_catalog env k tpl sks st of (st1, rs) \<Rightarrow> (st1, Inr (by_skill_name rs))))"

definition platform_catalog_namespace :: string where
  "platform_catalog_namespace = ''agent-office''"

definition skill_name_label :: string where
  "skill_name_label = ''agentoffice.ai/skill-name''"

definition skill_agent_label :: string where
  "skill_agent_label = ''agentoffice.ai/agent''"

text \<open>The value of a label, empty when it is absent.\<close>

definition label_value :: "object_meta \<Rightarrow> string \<Rightarrow> string" where
  "label_value m l = (case gm_get (om_Labels m) l of None \<Rightarrow> [] | Some v \<Rightarrow> v)"

text \<open>The choice among the skills that carry the name as a label.\<close>

definition pick_labelled :: "string \<Rightarrow> skill_ref \<Rightarrow> skill list \<Rightarrow> skill option" where
  "pick_labelled agent ref items =
     (let own = filter (\<lambda>s. label_value (skl_meta s) skill_agent_label = agent) items;
          same = filter (\<lambda>s. skr_Version ref \<noteq> [] \<and> sk_Version (skl_Spec s) = skr_Version ref) items
      in case own @ same @ items of [] \<Rightarrow> None | s # _ \<Rightarrow> Some s)"

definition find_ref_skill :: "kube_env \<Rightarrow> kube \<Rightarrow> workstation \<Rightarrow> skill_ref \<Rightarrow> skill option" where
  "find_ref_skill env k aw ref =
     (let ns = om_Namespace (aw_meta aw);
          labelled = (case api_list env Skills skl_meta (ku_skills k) ns of
              Inl _ \<Rightarrow> [] | Inr xs \<Rightarrow> sort_key skill_name (with_label skl_meta skill_name_label (skr_Name ref) xs));
          named = (\<lambda>n. case api_read env Skills skl_meta (ku_skills k) n (skr_Name ref) of Inl _ \<Rightarrow> None | Inr s \<Rightarrow> Some s)
      in case pick_labelled (om_Name (aw_meta aw)) ref labelled of
           Some s \<Rightarrow> Some s
         | None \<Rightarrow> (case named ns of Some s \<Rightarrow> Some s | None \<Rightarrow> named platform_catalog_namespace))"

text \<open>One reference: the resolved skill under the name of the reference, or why there is none.\<close>

definition resolve_ref ::
    "'w package_env \<Rightarrow> kube \<Rightarrow> skill_template \<Rightarrow> workstation \<Rightarrow> skill_ref \<Rightarrow> 'w \<times> package_cache
       \<Rightarrow> ('w \<times> package_cache) \<times> resolved_skill result" where
  "resolve_ref env k tpl aw ref st =
     (case find_ref_skill (pe_kube env) k aw ref of
        None \<Rightarrow> (st, Inl (skr_Name ref @ '' (no such Skill in '' @ om_Namespace (aw_meta aw) @ '' or ''
                          @ platform_catalog_namespace @ '')''))
      | Some sk \<Rightarrow>
         (if skr_Version ref \<noteq> [] \<and> sk_Version (skl_Spec sk) \<noteq> skr_Version ref then
            (st, Inl (skr_Name ref @ '' (pinned '' @ skr_Version ref @ '', catalog has '' @ sk_Version (skl_Spec sk) @ '')''))
          else case deliverable env k sk st of
            (st1, Inl e) \<Rightarrow> (st1, Inl (skr_Name ref @ '' (content: '' @ e @ '')''))
          | (st1, Inr base) \<Rightarrow>
             (let named = sk\<lparr>skl_meta := (skl_meta sk)\<lparr>om_Name := skr_Name ref\<rparr>\<rparr>
              in (st1, Inr \<lparr>rsk_Skill = named, rsk_BindingName = [], rsk_Overrides = None,
                            rsk_Version = sk_Version (skl_Spec sk), rsk_Rendered = render_skill tpl named base None\<rparr>))))"

fun resolve_refs ::
    "'w package_env \<Rightarrow> kube \<Rightarrow> skill_template \<Rightarrow> workstation \<Rightarrow> string set \<Rightarrow> skill_ref list \<Rightarrow> 'w \<times> package_cache
       \<Rightarrow> ('w \<times> package_cache) \<times> resolved_skill list \<times> string list" where
  "resolve_refs env k tpl aw seen [] st = (st, [], [])"
| "resolve_refs env k tpl aw seen (ref # refs) st =
     (if skr_Name ref = [] \<or> skr_Name ref \<in> seen then resolve_refs env k tpl aw seen refs st
      else
        let (st1, r) = resolve_ref env k tpl aw ref st;
            (st2, rs, un) = resolve_refs env k tpl aw (insert (skr_Name ref) seen) refs st1
        in (st2, case r of Inl e \<Rightarrow> (rs, e # un) | Inr x \<Rightarrow> (x # rs, un)))"

definition list_ref_skills ::
    "'w package_env \<Rightarrow> kube \<Rightarrow> skill_template \<Rightarrow> workstation \<Rightarrow> 'w \<times> package_cache
       \<Rightarrow> ('w \<times> package_cache) \<times> resolved_skill list \<times> string list" where
  "list_ref_skills env k tpl aw st =
     (case resolve_refs env k tpl aw {} (aws_SkillRefs (aw_Spec aw)) st of
        (st1, rs, un) \<Rightarrow> (st1, by_skill_name rs, un))"

subsection \<open>The list of wikis\<close>

text \<open>The fixed parts of \<open>WIKI.md\<close>, and its entry for one knowledge base.\<close>

definition wiki_md_intro :: string where
  "wiki_md_intro =
     ''# Available Knowledge Bases'' @ paragraph_end @
     ''These wikis are mounted into the gateway pod and shared across every logical agent. Read existing articles before answering questions; file new findings back into the wiki so future sessions benefit.'' @ paragraph_end"

definition wiki_md_conventions :: string where
  "wiki_md_conventions =
     ''- **Conventions**: `raw/clips/` for unsorted captures, `topics/` for curated articles, `concepts/` for canonical concept pages, `queries/` for query-result snapshots, `_lint/` for nightly lint reports, `_index.md` for the manifest, **`log.md` for the chronological activity feed**.'' @ paragraph_end"

definition wiki_md_howto :: string where
  "wiki_md_howto =
     ''## Reading + writing'' @ paragraph_end @
     ''- **Search**: prefer the `wiki-search` skill (or fall back to `exec` running `rg <query> /home/node/.openclaw/wiki/<kb>/`).'' @ [newline] @
     ''- **Clip a URL**: use the `wiki-clip` skill '' @ em_dash @ '' it captures the page through the VM browser and files clean Markdown into `raw/clips/`.'' @ [newline] @
     ''- **File an article**: use the `wiki-write` skill so the article includes correct frontmatter, backlinks, and entries in `_index.md`.'' @ [newline] @
     ''- **Log every meaningful operation**: every `wiki-clip`, `wiki-write`, and substantial `wiki-search` skill appends a single entry to `log.md` with the format `## [YYYY-MM-DD] <op> | <subject>`. This makes the wiki'' @ [CHR 0x27] @ ''s history greppable and gives the linter agent a structured timeline to walk.'' @ [newline] @
     ''- **Cite**: when answering from the wiki, cite the source article path so the user can navigate to it directly.'' @ [newline]"

definition wiki_mount_path :: "string \<Rightarrow> string" where
  "wiki_mount_path name = ''/home/node/.openclaw/wiki/'' @ name"

definition wiki_md_entry :: "knowledge_base \<Rightarrow> string" where
  "wiki_md_entry kb =
     (let sp = kb_Spec kb; name = om_Name (kb_meta kb) in
      ''## '' @ default_if_empty (kbs_DisplayName sp) name @ paragraph_end
      @ (if kbs_Description sp \<noteq> [] then kbs_Description sp @ paragraph_end else [])
      @ ''- **Mount path**: `'' @ wiki_mount_path name @ ''`'' @ [newline]
      @ ''- **KB name**: `'' @ name @ ''` (use this when calling `wiki-*` skills)'' @ [newline]
      @ wiki_md_conventions)"

definition gateway_wikis :: "string \<Rightarrow> knowledge_base list \<Rightarrow> knowledge_base list" where
  "gateway_wikis gw kbs =
     sort_key (om_Name \<circ> kb_meta) (filter (\<lambda>kb. gwr_Name (kbs_GatewayRef (kb_Spec kb)) = gw) kbs)"

definition render_wiki_md :: "kube_env \<Rightarrow> kube \<Rightarrow> workstation \<Rightarrow> string \<Rightarrow> string result" where
  "render_wiki_md env k aw gw =
     (if gw = [] then Inr []
      else case api_list env KnowledgeBases kb_meta (ku_knowledge_bases k) (om_Namespace (aw_meta aw)) of
        Inl e \<Rightarrow> Inl e
      | Inr kbs \<Rightarrow>
         (let es = gateway_wikis gw kbs in
          if es = [] then Inr []
          else Inr (wiki_md_intro @ concat (map wiki_md_entry es) @ wiki_md_howto)))"

subsection \<open>The front matter\<close>

lemma trim_left_newlines_led: "has_prefix s fence_line \<Longrightarrow> trim_left_newlines s = s"
  by (cases s) (auto simp: trim_left_newlines_def fence_line_def)

lemma trim_right_newlines_snoc: "trim_right_newlines (s @ [newline]) = trim_right_newlines s"
  by (simp add: trim_right_newlines_def)

lemma trim_right_newlines_append: "trim_right_newlines t \<noteq> [] \<Longrightarrow> trim_right_newlines (s @ t) = s @ trim_right_newlines t"
  by (auto simp: trim_right_newlines_def dropWhile_append)

lemma trim_right_newlines_empty: "trim_right_newlines t = [] \<Longrightarrow> trim_right_newlines (s @ t) = trim_right_newlines s"
  by (auto simp: trim_right_newlines_def dropWhile_append)

lemma trimmed_led:
  assumes "has_prefix s fence_line" shows "has_prefix (trim_right_newlines s @ paragraph_end) fence_line"
proof -
  obtain t where s: "s = ''---'' @ newline # t" using assms by (auto simp: has_prefix_iff fence_line_def)
  show ?thesis
  proof (cases "trim_right_newlines t = []")
    case True
    then have "trim_right_newlines (newline # t) = []"
      using trim_right_newlines_empty [of t "[newline]"] by (simp add: trim_right_newlines_def)
    then have "trim_right_newlines s = ''---''"
      using trim_right_newlines_empty [of "newline # t" "''---''"] by (simp add: s trim_right_newlines_def)
    then show ?thesis by (simp add: paragraph_end_def fence_line_def)
  next
    case False
    then show ?thesis
      using trim_right_newlines_append [of t "''---'' @ [newline]"] by (simp add: s fence_line_def)
  qed
qed

text \<open>
  A skill whose text opens with front matter keeps it at the first byte of the rendered file, where
  the runtime looks for it, exactly when the skill names no tool and its text has no empty line in
  front of the front matter. With a tool, the line about the tool comes first; with an empty line, that
  line does, although the test for front matter skips it.
\<close>

theorem frontmatter_at_first_byte:
  assumes "frontmatter_led base"
  shows "has_prefix (render_skill tpl sk base ov) fence_line
    \<longleftrightarrow> ski_Tool (sk_Invocation (skl_Spec sk)) = [] \<and> has_prefix base fence_line"
proof (cases "ski_Tool (sk_Invocation (skl_Spec sk)) = []")
  case False
  then show ?thesis using assms by (simp add: render_skill_def skill_header_def fence_line_def)
next
  case True
  have ne: "base \<noteq> []" using assms by (auto simp: frontmatter_led_def trim_left_newlines_def fence_line_def)
  have r: "render_skill tpl sk base ov
      = (trim_right_newlines base @ paragraph_end) @ skill_template_body tpl sk ov @ skill_trailer ov"
    using True assms ne by (simp add: render_skill_def skill_header_def)
  show ?thesis
  proof (cases "has_prefix base fence_line")
    case True
    then show ?thesis
      using has_prefix_extend [OF trimmed_led [OF True]] \<open>ski_Tool _ = []\<close> by (simp only: r simp_thms)
  next
    case led: False
    obtain c t where b: "base = c # t" using ne by (cases base) auto
    have "c = newline" using led assms b by (cases "c = newline") (auto simp: frontmatter_led_def trim_left_newlines_def)
    moreover have "trim_right_newlines base = c # trim_right_newlines t \<or> trim_right_newlines base = []"
      using trim_right_newlines_append [of t "[c]"] trim_right_newlines_empty [of t "[c]"] \<open>c = newline\<close> b
      by (cases "trim_right_newlines t = []") (auto simp: trim_right_newlines_def)
    ultimately have "\<not> has_prefix (render_skill tpl sk base ov) fence_line"
      by (auto simp: r paragraph_end_def fence_line_def)
    with led show ?thesis by blast
  qed
qed


subsection \<open>Every reference is resolved or reported\<close>

lemma by_skill_name_simps [simp]:
  "set (by_skill_name rs) = set rs" "length (by_skill_name rs) = length rs"
  "sorted (map (skill_name \<circ> rsk_Skill) (by_skill_name rs))"
  "distinct (map f (by_skill_name rs)) \<longleftrightarrow> distinct (map f rs)"
proof -
  have "mset (map f (by_skill_name rs)) = mset (map f rs)" by (simp add: by_skill_name_def)
  then show "distinct (map f (by_skill_name rs)) \<longleftrightarrow> distinct (map f rs)" by (metis mset_eq_imp_distinct_iff)
qed (simp_all add: by_skill_name_def)

lemma resolve_ref_Inr:
  assumes "resolve_ref env k tpl aw ref st = (st1, Inr x)"
  obtains sk base where "find_ref_skill (pe_kube env) k aw ref = Some sk"
    "skr_Version ref = [] \<or> sk_Version (skl_Spec sk) = skr_Version ref"
    "deliverable env k sk st = (st1, Inr base)"
    "rsk_Skill x = sk\<lparr>skl_meta := (skl_meta sk)\<lparr>om_Name := skr_Name ref\<rparr>\<rparr>"
    "rsk_Version x = sk_Version (skl_Spec sk)" "rsk_Rendered x = render_skill tpl (rsk_Skill x) base None"
  using assms by (auto simp: resolve_ref_def Let_def split: option.splits if_splits prod.splits sum.splits)

lemma resolve_ref_name: "resolve_ref env k tpl aw ref st = (st1, Inr x) \<Longrightarrow> skill_name (rsk_Skill x) = skr_Name ref"
  by (erule resolve_ref_Inr) (simp add: skill_name_def)

text \<open>The names that the loop has still to deal with.\<close>

definition open_names :: "string set \<Rightarrow> skill_ref list \<Rightarrow> string set" where
  "open_names seen refs = {n \<in> skr_Name ` set refs. n \<noteq> [] \<and> n \<notin> seen}"

lemma open_names_Cons: "open_names seen (ref # refs)
    = (if skr_Name ref = [] \<or> skr_Name ref \<in> seen then open_names seen refs
       else insert (skr_Name ref) (open_names (insert (skr_Name ref) seen) refs))"
  by (auto simp: open_names_def)

lemma open_names_simps [simp]: "finite (open_names seen refs)" "open_names seen [] = {}"
  "n \<in> seen \<Longrightarrow> n \<notin> open_names seen refs"
  by (auto simp: open_names_def)

lemma resolve_refs_names:
  assumes "resolve_refs env k tpl aw seen refs st = (st', rs, un)"
  shows "skill_name ` rsk_Skill ` set rs \<subseteq> open_names seen refs \<and> distinct (map (skill_name \<circ> rsk_Skill) rs)
    \<and> length rs + length un = card (open_names seen refs)"
  using assms
proof (induction refs arbitrary: seen st rs un)
  case (Cons ref refs)
  let ?seen = "insert (skr_Name ref) seen"
  show ?case
  proof (cases "skr_Name ref = [] \<or> skr_Name ref \<in> seen")
    case True
    then show ?thesis using Cons.IH [of seen st rs un] Cons.prems by (auto simp: open_names_Cons)
  next
    case False
    then obtain st1 r rs1 un1 where r: "resolve_ref env k tpl aw ref st = (st1, r)"
      and rest: "resolve_refs env k tpl aw ?seen refs st1 = (st', rs1, un1)"
      and out: "(rs, un) = (case r of Inl e \<Rightarrow> (rs1, e # un1) | Inr x \<Rightarrow> (x # rs1, un1))"
      using Cons.prems by (auto simp: Let_def split: prod.splits)
    note IH = Cons.IH [OF rest]
    have new: "skr_Name ref \<notin> open_names ?seen refs" by simp
    with IH have "skr_Name ref \<notin> skill_name ` rsk_Skill ` set rs1" by blast
    with IH False out r new show ?thesis
      by (auto simp: open_names_Cons image_comp comp_def dest!: resolve_ref_name split: sum.splits)
  qed
qed simp

lemma resolve_refs_from:
  assumes "resolve_refs env k tpl aw seen refs st = (st', rs, un)" "x \<in> set rs" "I st"
    and I: "\<And>ref st st' r. I st \<Longrightarrow> resolve_ref env k tpl aw ref st = (st', r) \<Longrightarrow> I st'"
  shows "\<exists>ref \<in> set refs. \<exists>st1 st2. I st1 \<and> resolve_ref env k tpl aw ref st1 = (st2, Inr x)"
  using assms(1-3)
proof (induction refs arbitrary: seen st rs un)
  case (Cons ref refs)
  show ?case
  proof (cases "skr_Name ref = [] \<or> skr_Name ref \<in> seen")
    case True
    then show ?thesis using Cons.IH [of seen st rs un] Cons.prems by auto
  next
    case False
    then obtain st1 r rs1 un1 where ref: "resolve_ref env k tpl aw ref st = (st1, r)"
      and rest: "resolve_refs env k tpl aw (insert (skr_Name ref) seen) refs st1 = (st', rs1, un1)"
      and "(rs, un) = (case r of Inl e \<Rightarrow> (rs1, e # un1) | Inr x \<Rightarrow> (x # rs1, un1))"
      using Cons.prems by (auto simp: Let_def split: prod.splits)
    then show ?thesis using Cons.IH [OF rest _ I [OF Cons.prems(3) ref]] Cons.prems(2,3) ref
      by (auto split: sum.splits simp del: split_paired_Ex split_paired_All)
  qed
qed simp

text \<open>
  C26: the skills of a workstation are complete and exact: each name in its references, however often it
  is listed, is either delivered or reported with a reason, and nothing else is delivered. What is
  delivered is sorted, has one entry per name, has the pinned version, and is the text of the skill
  that the reference means.
\<close>

theorem refs_resolved_or_reported:
  assumes "list_ref_skills env k tpl aw st = (st', rs, un)"
  shows "length rs + length un = card {n \<in> skr_Name ` set (aws_SkillRefs (aw_Spec aw)). n \<noteq> []}
    \<and> sorted (map (skill_name \<circ> rsk_Skill) rs) \<and> distinct (map (skill_name \<circ> rsk_Skill) rs)
    \<and> (\<forall>x \<in> set rs. \<exists>ref \<in> set (aws_SkillRefs (aw_Spec aw)). \<exists>sk base.
          find_ref_skill (pe_kube env) k aw ref = Some sk \<and> skill_name (rsk_Skill x) = skr_Name ref
          \<and> skl_Spec (rsk_Skill x) = skl_Spec sk
          \<and> (skr_Version ref = [] \<or> rsk_Version x = skr_Version ref)
          \<and> rsk_Rendered x = render_skill tpl (rsk_Skill x) base None)"
proof -
  obtain rs1 where r: "resolve_refs env k tpl aw {} (aws_SkillRefs (aw_Spec aw)) st = (st', rs1, un)"
    and rs: "rs = by_skill_name rs1"
    using assms by (auto simp: list_ref_skills_def split: prod.splits)
  have "open_names {} refs = {n \<in> skr_Name ` set refs. n \<noteq> []}" for refs by (auto simp: open_names_def)
  moreover have "\<exists>ref \<in> set (aws_SkillRefs (aw_Spec aw)). \<exists>sk base.
      find_ref_skill (pe_kube env) k aw ref = Some sk \<and> skill_name (rsk_Skill x) = skr_Name ref
      \<and> skl_Spec (rsk_Skill x) = skl_Spec sk \<and> (skr_Version ref = [] \<or> rsk_Version x = skr_Version ref)
      \<and> rsk_Rendered x = render_skill tpl (rsk_Skill x) base None" if x: "x \<in> set rs1" for x
  proof -
    from resolve_refs_from [OF r x, of "\<lambda>_. True"] obtain ref st1 st2 where ref: "ref \<in> set (aws_SkillRefs (aw_Spec aw))"
      and x': "resolve_ref env k tpl aw ref st1 = (st2, Inr x)" by blast
    from x' ref resolve_ref_name [OF x'] show ?thesis
      by (elim resolve_ref_Inr) (rule bexI [of _ ref], rule exI, rule exI, auto)
  qed
  ultimately show ?thesis using resolve_refs_names [OF r] by (simp add: rs)
qed


subsection \<open>Pinned text\<close>

lemma deliverable_reachable:
  assumes "package_reachable st" "deliverable env k sk st = (st', r)" shows "package_reachable st'"
proof -
  obtain r0 where "resolve_skill_content ''skill '' env k sk st = (st', r0)"
    using assms(2) by (auto simp: deliverable_def split: prod.splits sum.splits)
  with assms(1) show ?thesis
    by (auto simp: resolve_skill_content_def Let_def intro: package_reachable.resolve split: option.splits)
qed

lemma resolve_ref_reachable:
  "package_reachable st \<Longrightarrow> resolve_ref env k tpl aw ref st = (st', r) \<Longrightarrow> package_reachable st'"
  by (auto simp: resolve_ref_def Let_def split: option.splits if_splits prod.splits sum.splits intro: deliverable_reachable)

text \<open>
  C25: what a workstation reads under the name of a skill that is pinned by a digest was rendered from a
  text of exactly this digest: no registry, no earlier fetch and no other workstation can change what
  it is told to do. The SHA-256 of the text is the digest, up to the case of its letters.
\<close>

theorem pinned_skill_text:
  assumes "package_reachable st" "list_ref_skills env k tpl aw st = (st', rs, un)" "x \<in> set rs"
    and "sks_PackageRef (sk_Source (skl_Spec (rsk_Skill x))) = Some src"
    and "want_digest src \<noteq> []" "CHR ''|'' \<notin> set (want_digest src)"
  shows "\<exists>body. to_lower (hex_encode (sha256 body)) = to_lower (want_digest src)
    \<and> rsk_Rendered x = render_skill tpl (rsk_Skill x) body None"
proof -
  obtain rs1 where r: "resolve_refs env k tpl aw {} (aws_SkillRefs (aw_Spec aw)) st = (st', rs1, un)" "x \<in> set rs1"
    using assms(2,3) by (auto simp: list_ref_skills_def split: prod.splits)
  obtain ref st1 st2 where st1: "package_reachable st1" and x: "resolve_ref env k tpl aw ref st1 = (st2, Inr x)"
    using resolve_refs_from [where I = package_reachable, OF r assms(1)] resolve_ref_reachable by blast
  from x obtain sk base where d: "deliverable env k sk st1 = (st2, Inr base)"
    and sk: "rsk_Skill x = sk\<lparr>skl_meta := (skl_meta sk)\<lparr>om_Name := skr_Name ref\<rparr>\<rparr>"
    and out: "rsk_Rendered x = render_skill tpl (rsk_Skill x) base None"
    by (rule resolve_ref_Inr)
  have p: "sks_PackageRef (sk_Source (skl_Spec sk)) = Some src" using assms(4) by (simp add: sk)
  then have "resolve_package_ref env k (om_Namespace (skl_meta sk)) src st1 = (st2, Inr base)"
    using d by (auto simp: deliverable_def resolve_skill_content_def Let_def skill_declares_source_def split: prod.splits sum.splits)
  from pinned_content_delivered [OF st1 this assms(5,6)] out show ?thesis by blast
qed


subsection \<open>A concrete workstation\<close>

definition demo_skill :: "string \<Rightarrow> string \<Rightarrow> skill_source \<Rightarrow> skill" where
  "demo_skill ns name src = \<lparr>skl_meta = demo_meta ns name,
     skl_Spec = \<lparr>sk_DisplayName = [], sk_Description = [], sk_Version = ''1'', sk_Source = src,
       sk_Invocation = \<lparr>ski_Tool = [], ski_PromptTemplate = []\<rparr>, sk_Requires = [], sk_Dependencies = []\<rparr>,
     skl_Status = \<lparr>skst_ContentSHA256 = [], skst_ReferencedBy = [], skst_Conditions = []\<rparr>\<rparr>"

definition inline_source :: "string \<Rightarrow> skill_source" where
  "inline_source s = \<lparr>sks_PackageRef = None, sks_ConfigMapRef = None, sks_Inline = s\<rparr>"

definition package_source :: "package_ref_source \<Rightarrow> skill_source" where
  "package_source p = \<lparr>sks_PackageRef = Some p, sks_ConfigMapRef = None, sks_Inline = []\<rparr>"

definition demo_agent :: "string \<Rightarrow> string \<Rightarrow> skill_ref list \<Rightarrow> workstation" where
  "demo_agent ns name refs = demo_workstation\<lparr>aw_meta := demo_meta ns name,
     aw_Spec := (aw_Spec demo_workstation)\<lparr>aws_SkillRefs := refs\<rparr>\<rparr>"

definition no_templates :: skill_template where
  "no_templates t = Inl ''no templates''"

lemma frontmatter_at_first_byte_witness:
  "has_prefix (render_skill no_templates (demo_skill ''lab'' ''x'' (inline_source [])) (fence_line @ ''a'') None) fence_line"
  using frontmatter_at_first_byte [of "fence_line @ ''a''" no_templates "demo_skill ''lab'' ''x'' (inline_source [])" None]
  by (simp add: frontmatter_led_def trim_left_newlines_led demo_skill_def)

definition demo_skill_kube :: kube where
  "demo_skill_kube = empty_kube\<lparr>ku_skills := [demo_skill ''lab'' ''x'' (package_source (demo_pinned ''x:1'' ''# hi''))]\<rparr>"

definition demo_skill_agent :: workstation where
  "demo_skill_agent = demo_agent ''lab'' ''ws'' [\<lparr>skr_Name = ''x'', skr_Version = ''1''\<rparr>, \<lparr>skr_Name = ''gone'', skr_Version = []\<rparr>]"

lemma demo_list_ref_skills:
  "\<exists>st' x un. list_ref_skills (demo_package_env ''# hi'') demo_skill_kube no_templates demo_skill_agent ((), [])
     = (st', [x], [un]) \<and> sks_PackageRef (sk_Source (skl_Spec (rsk_Skill x))) = Some (demo_pinned ''x:1'' ''# hi'')"
proof -
  let ?env = "demo_package_env ''# hi''"
  have k: "pe_kube ?env = demo_kube_env" by (simp add: demo_package_env_def)
  have f: "find_ref_skill demo_kube_env demo_skill_kube demo_skill_agent \<lparr>skr_Name = ''x'', skr_Version = ''1''\<rparr>
      = Some (demo_skill ''lab'' ''x'' (package_source (demo_pinned ''x:1'' ''# hi'')))"
    "find_ref_skill demo_kube_env demo_skill_kube demo_skill_agent \<lparr>skr_Name = ''gone'', skr_Version = []\<rparr> = None"
    by (simp_all add: find_ref_skill_def demo_skill_kube_def demo_skill_agent_def demo_agent_def api_list_def in_namespace_def
        with_label_def demo_skill_def demo_meta_def pick_labelled_def api_read_def api_get_def got_result_def obj_get_def
        obj_key_def demo_kube_env_def platform_catalog_namespace_def)
  obtain c where d: "deliverable ?env demo_skill_kube (demo_skill ''lab'' ''x'' (package_source (demo_pinned ''x:1'' ''# hi''))) ((), [])
      = (((), c), Inr ''# hi'')"
    using demo_pinned_resolves [of demo_skill_kube "''lab''"]
    by (auto simp: deliverable_def resolve_skill_content_def demo_skill_def package_source_def demo_meta_def)
  have refs: "aws_SkillRefs (aw_Spec demo_skill_agent) = [\<lparr>skr_Name = ''x'', skr_Version = ''1''\<rparr>, \<lparr>skr_Name = ''gone'', skr_Version = []\<rparr>]"
    by (simp add: demo_skill_agent_def demo_agent_def)
  have v: "sk_Version (skl_Spec (demo_skill ns n src)) = ''1''" for ns n src by (simp add: demo_skill_def)
  show ?thesis
    unfolding list_ref_skills_def
    by (simp add: refs resolve_ref_def k f d v by_skill_name_def Let_def) (simp add: demo_skill_def package_source_def)
qed

lemma refs_resolved_or_reported_witness:
  "\<exists>st' rs un. list_ref_skills (demo_package_env ''# hi'') demo_skill_kube no_templates demo_skill_agent ((), []) = (st', rs, un)
     \<and> length rs + length un = 2"
proof -
  obtain st' x un where r: "list_ref_skills (demo_package_env ''# hi'') demo_skill_kube no_templates demo_skill_agent ((), [])
      = (st', [x], [un])" using demo_list_ref_skills by blast
  have "{n \<in> skr_Name ` set (aws_SkillRefs (aw_Spec demo_skill_agent)). n \<noteq> []} = {''x'', ''gone''}"
    by (auto simp: demo_skill_agent_def demo_agent_def)
  with refs_resolved_or_reported [OF r] have "length [x] + length [un] = 2" by simp
  with refs_resolved_or_reported [OF r] r show ?thesis by blast
qed

lemma pinned_skill_text_witness:
  "\<exists>st' x un body. list_ref_skills (demo_package_env ''# hi'') demo_skill_kube no_templates demo_skill_agent ((), []) = (st', [x], [un])
     \<and> to_lower (hex_encode (sha256 body)) = to_lower (want_digest (demo_pinned ''x:1'' ''# hi''))
     \<and> rsk_Rendered x = render_skill no_templates (rsk_Skill x) body None"
proof -
  obtain st' x un where r: "list_ref_skills (demo_package_env ''# hi'') demo_skill_kube no_templates demo_skill_agent ((), [])
      = (st', [x], [un])" "sks_PackageRef (sk_Source (skl_Spec (rsk_Skill x))) = Some (demo_pinned ''x:1'' ''# hi'')"
    using demo_list_ref_skills by blast
  have "x \<in> set [x]" by simp
  from pinned_skill_text [OF package_reachable.start r(1) this r(2) demo_pinned_digest] r(1) show ?thesis by blast
qed

end
