(* ===== verification/Bindings.thy ===== *)
theory Bindings
  imports Skills
begin

text \<open>
  \<open>skillbinding_controller.go\<close>, the references and the reconciler of \<open>skill_controller.go\<close>, and
  \<open>agentworkstation_skillrefs.go\<close>: which workstations a binding grants its skill to, which other bindings
  grant them the same skill, and the bindings that the operator keeps for the references of a workstation.
\<close>

subsection \<open>Whom a binding applies to\<close>

text \<open>A selector without any criterion selects nothing.\<close>

definition has_criteria :: "label_selector \<Rightarrow> bool" where
  "has_criteria ls \<longleftrightarrow> lse_MatchLabels ls \<noteq> [] \<or> lse_MatchExpressions ls \<noteq> []"

definition ws_name :: "workstation \<Rightarrow> string" where
  "ws_name aw = om_Name (aw_meta aw)"

definition sorted_set :: "string list \<Rightarrow> string list" where
  "sorted_set ns = sort (remdups ns)"

definition resolve_subjects :: "kube_env \<Rightarrow> kube \<Rightarrow> skill_binding \<Rightarrow> string list result" where
  "resolve_subjects env k sb =
     (case api_list env Workstations aw_meta (ku_workstations k) (om_Namespace (sb_meta sb)) of
        Inl e \<Rightarrow> Inl (''listing AgentWorkstations: '' @ e)
      | Inr aws \<Rightarrow>
         (let by_name = foldl (\<lambda>m aw. gm_set m (ws_name aw) aw) [] aws;
              direct = filter (\<lambda>n. gm_get by_name n \<noteq> None)
                (map bsu_Name (filter (\<lambda>s. bsu_Kind s = ''AgentWorkstation'') (skb_Subjects (sb_Spec sb))))
          in case skb_SubjectSelector (sb_Spec sb) of
               None \<Rightarrow> Inr (sorted_set direct)
             | Some ls \<Rightarrow>
                 (if \<not> has_criteria ls then Inr (sorted_set direct)
                  else case ke_selector env ls of
                    Inl e \<Rightarrow> Inl (''invalid subjectSelector: '' @ e)
                  | Inr sel \<Rightarrow>
                      Inr (sorted_set (direct @ map fst (filter (\<lambda>(n, aw). sel (om_Labels (aw_meta aw))) by_name))))))"

text \<open>The same question for one workstation, as the workstation controller asks it.\<close>

definition skill_binding_applies :: "kube_env \<Rightarrow> skill_binding \<Rightarrow> workstation \<Rightarrow> bool" where
  "skill_binding_applies env sb aw \<longleftrightarrow>
     list_ex (\<lambda>s. bsu_Kind s = ''AgentWorkstation'' \<and> bsu_Name s = ws_name aw) (skb_Subjects (sb_Spec sb))
     \<or> (case skb_SubjectSelector (sb_Spec sb) of
          None \<Rightarrow> False
        | Some ls \<Rightarrow> has_criteria ls \<and> (case ke_selector env ls of Inl _ \<Rightarrow> False | Inr sel \<Rightarrow> sel (om_Labels (aw_meta aw))))"

text \<open>
  The skills that bindings grant to a workstation. Of several bindings for one skill the one with the
  greatest name wins.
\<close>

definition binding_name :: "skill_binding \<Rightarrow> string" where
  "binding_name sb = om_Name (sb_meta sb)"

definition bound_skill :: "skill_binding \<Rightarrow> string" where
  "bound_skill sb = skr_Name (skb_SkillRef (sb_Spec sb))"

definition winner :: "skill_binding list \<Rightarrow> string \<Rightarrow> skill_binding option" where
  "winner granters n =
     (case rev (sort_key binding_name (filter (\<lambda>sb. bound_skill sb = n) granters)) of [] \<Rightarrow> None | sb # _ \<Rightarrow> Some sb)"

definition apply_winner ::
    "'w package_env \<Rightarrow> kube \<Rightarrow> skill_template \<Rightarrow> string \<Rightarrow> skill_binding \<Rightarrow> 'w \<times> package_cache
       \<Rightarrow> ('w \<times> package_cache) \<times> resolved_skill option" where
  "apply_winner env k tpl ns sb st =
     (let pin = skr_Version (skb_SkillRef (sb_Spec sb)); ov = skb_Overrides (sb_Spec sb) in
      case api_read (pe_kube env) Skills skl_meta (ku_skills k) ns (bound_skill sb) of
        Inl _ \<Rightarrow> (st, None)
      | Inr sk \<Rightarrow>
         (if pin \<noteq> [] \<and> pin \<noteq> sk_Version (skl_Spec sk) then (st, None)
          else case deliverable env k sk st of
            (st1, Inl _) \<Rightarrow> (st1, None)
          | (st1, Inr base) \<Rightarrow>
              (st1, Some \<lparr>rsk_Skill = sk, rsk_BindingName = binding_name sb, rsk_Overrides = ov,
                 rsk_Version = resolved_version_label pin (sk_Version (skl_Spec sk)),
                 rsk_Rendered = render_skill tpl sk base ov\<rparr>)))"

fun apply_winners ::
    "'w package_env \<Rightarrow> kube \<Rightarrow> skill_template \<Rightarrow> string \<Rightarrow> skill_binding list \<Rightarrow> 'w \<times> package_cache
       \<Rightarrow> ('w \<times> package_cache) \<times> resolved_skill list" where
  "apply_winners env k tpl ns [] st = (st, [])"
| "apply_winners env k tpl ns (sb # sbs) st =
     (let (st1, r) = apply_winner env k tpl ns sb st;
          (st2, rs) = apply_winners env k tpl ns sbs st1
      in (st2, case r of None \<Rightarrow> rs | Some x \<Rightarrow> x # rs))"

definition list_applied_skills ::
    "'w package_env \<Rightarrow> kube \<Rightarrow> skill_template \<Rightarrow> workstation \<Rightarrow> 'w \<times> package_cache
       \<Rightarrow> ('w \<times> package_cache) \<times> resolved_skill list result" where
  "list_applied_skills env k tpl aw st =
     (let ns = om_Namespace (aw_meta aw) in
      case api_list (pe_kube env) Bindings sb_meta (ku_bindings k) ns of
        Inl e \<Rightarrow> (st, Inl (''listing SkillBindings: '' @ e))
      | Inr sbs \<Rightarrow>
         (let granters = filter (\<lambda>sb. skill_binding_applies (pe_kube env) sb aw) sbs;
              names = ke_range (pe_kube env) (remdups (map bound_skill granters))
          in case apply_winners env k tpl ns (List.map_filter (winner granters) names) st of
               (st1, rs) \<Rightarrow> (st1, Inr (by_skill_name rs))))"

subsection \<open>Conflicts\<close>

text \<open>What another binding reports, or what it resolves to while it has reported nothing.\<close>

definition applied_or_live :: "kube_env \<Rightarrow> kube \<Rightarrow> skill_binding \<Rightarrow> string list" where
  "applied_or_live env k sb =
     (if skbst_AppliedTo (sb_Status sb) \<noteq> [] then skbst_AppliedTo (sb_Status sb)
      else case resolve_subjects env k sb of Inl _ \<Rightarrow> [] | Inr ns \<Rightarrow> ns)"

definition overlaps :: "kube_env \<Rightarrow> kube \<Rightarrow> skill_binding \<Rightarrow> skill_binding list \<Rightarrow> string \<Rightarrow> string list" where
  "overlaps env k sb sbs n =
     concat (map (\<lambda>other. map (\<lambda>_. binding_name other) (filter (\<lambda>m. m = n) (applied_or_live env k other)))
       (filter (\<lambda>other. binding_name other \<noteq> binding_name sb \<and> bound_skill other = bound_skill sb) sbs))"

definition detect_conflicts :: "kube_env \<Rightarrow> kube \<Rightarrow> skill_binding \<Rightarrow> string list \<Rightarrow> binding_conflict list result" where
  "detect_conflicts env k sb applied =
     (case api_list env Bindings sb_meta (ku_bindings k) (om_Namespace (sb_meta sb)) of
        Inl e \<Rightarrow> Inl e
      | Inr sbs \<Rightarrow>
          Inr (map (\<lambda>n. \<lparr>bcf_AgentWorkstation = n, bcf_OverlapsWith = sort (overlaps env k sb sbs n)\<rparr>)
                (filter (\<lambda>n. overlaps env k sb sbs n \<noteq> []) (sorted_set applied))))"

subsection \<open>The pass over a binding\<close>

text \<open>Which version of the skill a binding gets.\<close>

definition resolve_bound_skill :: "kube_env \<Rightarrow> kube \<Rightarrow> skill_binding \<Rightarrow> string result" where
  "resolve_bound_skill env k sb =
     (let pin = skr_Version (skb_SkillRef (sb_Spec sb)) in
      case api_read env Skills skl_meta (ku_skills k) (om_Namespace (sb_meta sb)) (bound_skill sb) of
        Inl e \<Rightarrow> Inl e
      | Inr sk \<Rightarrow>
         (let v = sk_Version (skl_Spec sk) in
          if pin = [] \<or> pin = v then Inr (resolved_version_label pin v)
          else Inl (''skill version mismatch: pinned '' @ go_quote pin @ '' but Skill '' @ go_quote (skill_name sk)
                    @ '' reports '' @ go_quote v)))"

definition status_update ::
    "kube_env \<Rightarrow> kind \<Rightarrow> ('o \<Rightarrow> object_meta) \<Rightarrow> 'o \<Rightarrow> 'o list \<Rightarrow> 'o list \<times> string option" where
  "status_update env k meta x xs =
     (case ke_fault env (call UpdateStatus k (om_Namespace (meta x)) (om_Name (meta x))) of
        Some e \<Rightarrow> (xs, Some e) | None \<Rightarrow> (obj_put meta x xs, None))"

definition outcome_condition :: "gotime \<Rightarrow> string \<Rightarrow> string \<Rightarrow> string \<Rightarrow> string option \<Rightarrow> project_condition" where
  "outcome_condition now t bad good err =
     (case err of None \<Rightarrow> condition now t ''True'' ''Resolved'' good | Some e \<Rightarrow> condition now t ''False'' bad e)"

definition err_of :: "'a result \<Rightarrow> string option" where
  "err_of r = (case r of Inl e \<Rightarrow> Some e | Inr _ \<Rightarrow> None)"

definition binding_conditions ::
    "gotime \<Rightarrow> skill_binding \<Rightarrow> string list result \<Rightarrow> string result \<Rightarrow> project_condition list" where
  "binding_conditions now sb subjects version =
     (let n = (case subjects of Inl _ \<Rightarrow> 0 | Inr ns \<Rightarrow> int (length ns)); v = (case version of Inl _ \<Rightarrow> [] | Inr v \<Rightarrow> v) in
      [outcome_condition now ''SubjectsResolved'' ''ResolveError'' (''Resolved '' @ itoa n @ '' AgentWorkstation(s)'') (err_of subjects),
       outcome_condition now ''SkillResolved'' ''SkillNotFound''
         (''Skill '' @ go_quote (bound_skill sb) @ '' resolved (version='' @ v @ '')'') (err_of version),
       outcome_condition now ''Ready'' ''ResolveError'' (''Applied to '' @ itoa n @ '' AgentWorkstation(s)'')
         (case err_of version of Some e \<Rightarrow> Some e | None \<Rightarrow> err_of subjects)])"

definition reconcile_binding :: "kube_env \<Rightarrow> string \<Rightarrow> string \<Rightarrow> kube \<Rightarrow> kube \<times> string option" where
  "reconcile_binding env ns name k =
     (case api_get env Bindings sb_meta (ku_bindings k) ns name of
        NotFound _ \<Rightarrow> (k, None)
      | Failed e \<Rightarrow> (k, Some e)
      | Found sb \<Rightarrow>
         (let subjects = resolve_subjects env k sb;
              applied = (case subjects of Inl _ \<Rightarrow> [] | Inr ns \<Rightarrow> ns);
              version = resolve_bound_skill env k sb
          in case detect_conflicts env k sb applied of
               Inl e \<Rightarrow> (k, Some (''detecting conflicts: '' @ e))
             | Inr cs \<Rightarrow>
                (let st = \<lparr>skbst_AppliedTo = applied,
                           skbst_ResolvedSkillVersion = (case version of Inl _ \<Rightarrow> [] | Inr v \<Rightarrow> v),
                           skbst_Conflicts = cs,
                           skbst_Conditions = merge_conditions (skbst_Conditions (sb_Status sb))
                              (binding_conditions (ke_now env) sb subjects version)\<rparr>;
                     (sbs, err) = status_update env Bindings sb_meta (sb\<lparr>sb_Status := st\<rparr>) (ku_bindings k)
                 in (k\<lparr>ku_bindings := sbs\<rparr>, err))))"

subsection \<open>The pass over a skill\<close>

definition resolve_referenced_by :: "kube_env \<Rightarrow> kube \<Rightarrow> skill \<Rightarrow> string list result" where
  "resolve_referenced_by env k sk =
     (case api_list env Bindings sb_meta (ku_bindings k) (om_Namespace (skl_meta sk)) of
        Inl e \<Rightarrow> Inl e
      | Inr sbs \<Rightarrow>
          Inr (sorted_set (concat (map (applied_or_live env k) (filter (\<lambda>sb. bound_skill sb = skill_name sk) sbs)))))"

definition reconcile_skill ::
    "'w package_env \<Rightarrow> string \<Rightarrow> string \<Rightarrow> kube \<times> 'w \<times> package_cache \<Rightarrow> (kube \<times> 'w \<times> package_cache) \<times> string option" where
  "reconcile_skill env ns name s =
     (let (k, st) = s; ke = pe_kube env in
      case api_get ke Skills skl_meta (ku_skills k) ns name of
        NotFound _ \<Rightarrow> (s, None)
      | Failed e \<Rightarrow> (s, Some e)
      | Found sk \<Rightarrow>
         (case resolve_skill_content [] env k sk st of
            (st1, content) \<Rightarrow>
              (case resolve_referenced_by ke k sk of
                 Inl e \<Rightarrow> ((k, st1), Some (''resolving referencedBy: '' @ e))
               | Inr refs \<Rightarrow>
                  (let good = ''Resolved '' @ itoa (case content of Inl _ \<Rightarrow> 0 | Inr c \<Rightarrow> int (length c)) @ '' bytes'';
                       cond = (\<lambda>t. outcome_condition (ke_now ke) t ''ResolveError'' good (err_of content));
                       status = \<lparr>skst_ContentSHA256 = (case content of Inl _ \<Rightarrow> [] | Inr c \<Rightarrow> content_digest c),
                                 skst_ReferencedBy = refs,
                                 skst_Conditions = merge_conditions (skst_Conditions (skl_Status sk))
                                    [cond ''ContentResolved'', cond ''Ready'']\<rparr>;
                       (sks, err) = status_update ke Skills skl_meta (sk\<lparr>skl_Status := status\<rparr>) (ku_skills k)
                   in ((k\<lparr>ku_skills := sks\<rparr>, st1), err)))))"

subsection \<open>Both questions have the same answer\<close>

lemma sorted_set_simps [simp]: "set (sorted_set ns) = set ns" "sorted (sorted_set ns)" "distinct (sorted_set ns)"
  by (simp_all add: sorted_set_def)

text \<open>The workstations of a namespace by name.\<close>

lemma gm_set_new: "k \<notin> fst ` set m \<Longrightarrow> gm_set m k v = m @ [(k, v)]"
  by (induction m) auto

lemma index_by:
  "distinct (map f xs) \<Longrightarrow> f ` set xs \<inter> fst ` set m = {} \<Longrightarrow>
     foldl (\<lambda>m x. gm_set m (f x) x) m xs = m @ map (\<lambda>x. (f x, x)) xs"
proof (induction xs arbitrary: m)
  case (Cons x xs)
  then have "gm_set m (f x) x = m @ [(f x, x)]" by (intro gm_set_new) auto
  with Cons show ?case by auto
qed simp

lemma names_in_namespace:
  "obj_keys_ok meta xs \<Longrightarrow> distinct (map (om_Name \<circ> meta) (in_namespace meta ns xs))"
  by (auto simp: obj_keys_ok_def in_namespace_def distinct_map inj_on_def obj_key_def)

lemma resolve_subjects_names:
  assumes "resolve_subjects env k sb = Inr out" "obj_keys_ok aw_meta (ku_workstations k)"
  shows "set out = ws_name ` {aw \<in> set (ku_workstations k). om_Namespace (aw_meta aw) = om_Namespace (sb_meta sb)
      \<and> skill_binding_applies env sb aw}" (is "_ = ws_name ` ?A")
    and "sorted out" "distinct out"
proof -
  let ?aws = "in_namespace aw_meta (om_Namespace (sb_meta sb)) (ku_workstations k)"
  have ws: "ws_name = om_Name \<circ> aw_meta" by (simp add: ws_name_def fun_eq_iff)
  have by_name: "foldl (\<lambda>m aw. gm_set m (ws_name aw) aw) [] ?aws = map (\<lambda>aw. (ws_name aw, aw)) ?aws"
    using names_in_namespace [OF assms(2)] index_by [of ws_name ?aws "[]"] by (simp add: ws)
  have get: "gm_get (map (\<lambda>aw. (ws_name aw, aw)) ?aws) n \<noteq> None \<longleftrightarrow> n \<in> ws_name ` set ?aws" for n
    by (auto simp: gm_get_None_iff image_iff)
  let ?M = "foldl (\<lambda>m aw. gm_set m (ws_name aw) aw) [] ?aws"
  let ?direct = "map bsu_Name (filter (\<lambda>s. bsu_Kind s = ''AgentWorkstation'') (skb_Subjects (sb_Spec sb)))"
  define sel where "sel aw \<longleftrightarrow> (case skb_SubjectSelector (sb_Spec sb) of None \<Rightarrow> False
      | Some ls \<Rightarrow> has_criteria ls \<and> (case ke_selector env ls of Inl _ \<Rightarrow> False | Inr s \<Rightarrow> s (om_Labels (aw_meta aw))))" for aw :: workstation
  have out: "out = sorted_set (filter (\<lambda>n. gm_get ?M n \<noteq> None) ?direct @ map fst (filter (\<lambda>(n, aw). sel aw) ?M))"
    using assms(1) unfolding resolve_subjects_def api_list_def sel_def
    by (simp add: Let_def case_prod_unfold split: option.splits if_splits sum.splits)
  have app: "skill_binding_applies env sb aw \<longleftrightarrow> ws_name aw \<in> set ?direct \<or> sel aw" for aw
    unfolding skill_binding_applies_def sel_def by (auto simp: list_ex_iff image_iff) 
  have A: "?A = {aw \<in> set ?aws. skill_binding_applies env sb aw}" by (auto simp: in_namespace_def)
  have "set out = {n \<in> set ?direct. n \<in> ws_name ` set ?aws} \<union> ws_name ` {aw \<in> set ?aws. sel aw}"
  proof -
    have "set (filter (\<lambda>n. gm_get ?M n \<noteq> None) ?direct) = {n \<in> set ?direct. n \<in> ws_name ` set ?aws}"
      unfolding by_name set_filter by (simp only: get)
    moreover have "map fst (filter (\<lambda>(n, aw). sel aw) ?M) = map ws_name (filter sel ?aws)"
      unfolding by_name by (simp add: filter_map comp_def)
    ultimately show ?thesis unfolding out by simp
  qed
  also have "\<dots> = ws_name ` {aw \<in> set ?aws. skill_binding_applies env sb aw}" unfolding app by blast
  finally show "set out = ws_name ` ?A" unfolding A .
  show "sorted out" "distinct out" unfolding out by simp_all
qed

text \<open>
  C33: the two ways in which the operator decides whom a binding grants its skill to agree: the names
  that the binding reports are, sorted and without repetition, those of exactly the workstations of its
  namespace for which the test of the workstation controller succeeds. (The report fails as a whole when
  the selector is invalid.)
\<close>

theorem binding_subjects_agree:
  assumes "resolve_subjects env k sb = Inr out" "obj_keys_ok aw_meta (ku_workstations k)"
  shows "set out = ws_name ` {aw \<in> set (ku_workstations k). om_Namespace (aw_meta aw) = om_Namespace (sb_meta sb)
      \<and> skill_binding_applies env sb aw} \<and> sorted out \<and> distinct out"
  using resolve_subjects_names [OF assms] by blast

subsection \<open>Conflicts are mutual\<close>

lemma set_overlaps:
  "set (overlaps env k sb sbs n) = binding_name ` {other \<in> set sbs. binding_name other \<noteq> binding_name sb
     \<and> bound_skill other = bound_skill sb \<and> n \<in> set (applied_or_live env k other)}"
  by (auto simp: overlaps_def)

text \<open>The status of a binding is current: it names nobody yet, or whom the binding resolves to.\<close>

definition status_current :: "kube_env \<Rightarrow> kube \<Rightarrow> skill_binding \<Rightarrow> bool" where
  "status_current env k sb \<longleftrightarrow>
     (\<exists>ns. resolve_subjects env k sb = Inr ns \<and> (skbst_AppliedTo (sb_Status sb) = [] \<or> skbst_AppliedTo (sb_Status sb) = ns))"

lemma status_currentD:
  "status_current env k sb \<Longrightarrow> resolve_subjects env k sb = Inr (applied_or_live env k sb)"
  by (auto simp: status_current_def applied_or_live_def)

definition reports_conflict :: "binding_conflict list \<Rightarrow> string \<Rightarrow> string \<Rightarrow> bool" where
  "reports_conflict cs n b \<longleftrightarrow> (\<exists>c \<in> set cs. bcf_AgentWorkstation c = n \<and> b \<in> set (bcf_OverlapsWith c))"

lemma detect_conflicts_iff:
  assumes "detect_conflicts env k a applied = Inr cs"
  shows "reports_conflict cs n b \<longleftrightarrow> n \<in> set applied
    \<and> (\<exists>other \<in> set (ku_bindings k). om_Namespace (sb_meta other) = om_Namespace (sb_meta a) \<and> binding_name other = b
         \<and> b \<noteq> binding_name a \<and> bound_skill other = bound_skill a \<and> n \<in> set (applied_or_live env k other))"
proof -
  let ?sbs = "in_namespace sb_meta (om_Namespace (sb_meta a)) (ku_bindings k)"
  have cs: "cs = map (\<lambda>n. \<lparr>bcf_AgentWorkstation = n, bcf_OverlapsWith = sort (overlaps env k a ?sbs n)\<rparr>)
      (filter (\<lambda>n. overlaps env k a ?sbs n \<noteq> []) (sorted_set applied))"
    using assms by (simp add: detect_conflicts_def api_list_def split: option.splits)
  have "reports_conflict cs n b \<longleftrightarrow> n \<in> set applied \<and> b \<in> set (overlaps env k a ?sbs n)"
    by (auto simp: reports_conflict_def cs)
  then show ?thesis by (auto simp: set_overlaps in_namespace_def)
qed

lemma inj_on_image_both:
  "inj_on f S \<Longrightarrow> y \<in> f ` {x \<in> S. P x} \<and> y \<in> f ` {x \<in> S. Q x} \<longleftrightarrow> (\<exists>x \<in> S. f x = y \<and> P x \<and> Q x)"
  by (auto dest: inj_onD)

text \<open>
  C34: when the status of two bindings is current, a pass over the first reports the second as
  overlapping on a workstation exactly when both bindings grant the same skill to this workstation; so
  the two report each other or neither does.
\<close>

theorem conflict_iff_both_apply:
  assumes "detect_conflicts env k a applied = Inr cs" "resolve_subjects env k a = Inr applied"
    and "b \<in> set (ku_bindings k)" "om_Namespace (sb_meta b) = om_Namespace (sb_meta a)" "binding_name b \<noteq> binding_name a"
    and "status_current env k b" "obj_keys_ok aw_meta (ku_workstations k)" "obj_keys_ok sb_meta (ku_bindings k)"
  shows "reports_conflict cs n (binding_name b) \<longleftrightarrow> bound_skill a = bound_skill b
    \<and> (\<exists>aw \<in> set (ku_workstations k). om_Namespace (aw_meta aw) = om_Namespace (sb_meta a) \<and> ws_name aw = n
         \<and> skill_binding_applies env a aw \<and> skill_binding_applies env b aw)"
proof -
  have same: "other = b" if "other \<in> set (ku_bindings k)" "om_Namespace (sb_meta other) = om_Namespace (sb_meta a)"
    "binding_name other = binding_name b" for other
    using that assms(3,4,8) by (auto simp: obj_keys_ok_def distinct_map inj_on_def obj_key_def binding_name_def)
  let ?S = "{aw \<in> set (ku_workstations k). om_Namespace (aw_meta aw) = om_Namespace (sb_meta a)}"
  have inj: "inj_on ws_name ?S"
    using assms(7) by (auto simp: obj_keys_ok_def distinct_map inj_on_def obj_key_def ws_name_def)
  have "set applied = ws_name ` {aw \<in> ?S. skill_binding_applies env a aw}"
    using resolve_subjects_names(1) [OF assms(2,7)] by (simp add: conj_assoc)
  moreover have "set (applied_or_live env k b) = ws_name ` {aw \<in> ?S. skill_binding_applies env b aw}"
    using resolve_subjects_names(1) [OF status_currentD [OF assms(6)] assms(7)] assms(4) by (simp add: conj_assoc)
  moreover have "reports_conflict cs n (binding_name b) \<longleftrightarrow> bound_skill b = bound_skill a
      \<and> n \<in> set applied \<and> n \<in> set (applied_or_live env k b)"
    using detect_conflicts_iff [OF assms(1), of n "binding_name b"] same assms(3,4,5) by metis
  ultimately have "reports_conflict cs n (binding_name b) \<longleftrightarrow> bound_skill b = bound_skill a
      \<and> (\<exists>aw \<in> ?S. ws_name aw = n \<and> skill_binding_applies env a aw \<and> skill_binding_applies env b aw)"
    by (simp only: inj_on_image_both [OF inj])
  then show ?thesis by auto
qed


subsection \<open>Concrete bindings\<close>

definition demo_binding :: "string \<Rightarrow> string \<Rightarrow> string \<Rightarrow> skill_binding" where
  "demo_binding name skl agent = \<lparr>sb_meta = demo_meta ''lab'' name,
     sb_Spec = \<lparr>skb_SkillRef = \<lparr>skr_Name = skl, skr_Version = []\<rparr>,
       skb_Subjects = [\<lparr>bsu_Kind = ''AgentWorkstation'', bsu_Name = agent\<rparr>], skb_SubjectSelector = None, skb_Overrides = None\<rparr>,
     sb_Status = \<lparr>skbst_AppliedTo = [], skbst_ResolvedSkillVersion = [], skbst_Conflicts = [], skbst_Conditions = []\<rparr>\<rparr>"

definition demo_binding_kube :: kube where
  "demo_binding_kube = demo_skill_kube\<lparr>ku_workstations := [demo_skill_agent],
     ku_bindings := [demo_binding ''a'' ''x'' ''ws'', demo_binding ''b'' ''x'' ''ws'']\<rparr>"

lemma demo_binding_kube_ok:
  "obj_keys_ok aw_meta (ku_workstations demo_binding_kube)" "obj_keys_ok sb_meta (ku_bindings demo_binding_kube)"
  "ku_workstations demo_binding_kube = [demo_skill_agent]"
  "ku_bindings demo_binding_kube = [demo_binding ''a'' ''x'' ''ws'', demo_binding ''b'' ''x'' ''ws'']"
  by (simp_all add: obj_keys_ok_def demo_binding_kube_def demo_binding_def obj_key_def demo_meta_def)

lemma demo_subjects: "resolve_subjects demo_kube_env demo_binding_kube (demo_binding n ''x'' ''ws'') = Inr [''ws'']"
  by (simp add: resolve_subjects_def api_list_def demo_kube_env_def demo_binding_kube_ok in_namespace_def demo_binding_def
      demo_skill_agent_def demo_agent_def demo_meta_def ws_name_def sorted_set_def)

lemma binding_subjects_agree_witness:
  "resolve_subjects demo_kube_env demo_binding_kube (demo_binding ''a'' ''x'' ''ws'') = Inr [''ws'']
   \<and> ''ws'' \<in> ws_name ` {aw \<in> set (ku_workstations demo_binding_kube).
        om_Namespace (aw_meta aw) = om_Namespace (sb_meta (demo_binding ''a'' ''x'' ''ws''))
        \<and> skill_binding_applies demo_kube_env (demo_binding ''a'' ''x'' ''ws'') aw}"
proof -
  have "''ws'' \<in> set [''ws'']" by simp
  with binding_subjects_agree [OF demo_subjects demo_binding_kube_ok(1), of "''a''"] demo_subjects show ?thesis by metis
qed

lemma conflict_iff_both_apply_witness:
  "\<exists>cs. detect_conflicts demo_kube_env demo_binding_kube (demo_binding ''a'' ''x'' ''ws'') [''ws''] = Inr cs
     \<and> reports_conflict cs ''ws'' ''b''"
proof -
  let ?a = "demo_binding ''a'' ''x'' ''ws''" let ?b = "demo_binding ''b'' ''x'' ''ws''"
  obtain cs where cs: "detect_conflicts demo_kube_env demo_binding_kube ?a [''ws''] = Inr cs"
    by (simp add: detect_conflicts_def api_list_def demo_kube_env_def)
  have n: "binding_name (demo_binding n s w) = n" "bound_skill (demo_binding n s w) = s" for n s w
    by (simp_all add: binding_name_def bound_skill_def demo_binding_def demo_meta_def)
  have cur: "status_current demo_kube_env demo_binding_kube ?b"
    using demo_subjects by (simp add: status_current_def) (simp add: demo_binding_def)
  have "?b \<in> set (ku_bindings demo_binding_kube)" "om_Namespace (sb_meta ?b) = om_Namespace (sb_meta ?a)"
    "binding_name ?b \<noteq> binding_name ?a"
    by (simp add: demo_binding_kube_ok) (simp_all add: demo_binding_def demo_meta_def binding_name_def)
  note iff = conflict_iff_both_apply [OF cs demo_subjects this cur demo_binding_kube_ok(1,2), of "''ws''"]
  have "skill_binding_applies demo_kube_env (demo_binding n ''x'' ''ws'') demo_skill_agent" for n
    by (simp add: skill_binding_applies_def demo_binding_def demo_skill_agent_def demo_agent_def ws_name_def demo_meta_def)
  then have "reports_conflict cs ''ws'' (binding_name ?b)"
    unfolding iff by (simp add: n demo_binding_kube_ok) (simp add: demo_binding_def demo_skill_agent_def demo_agent_def ws_name_def demo_meta_def)
  with cs n show ?thesis by auto
qed

end
