(* ===== verification/SkillRefs.thy ===== *)
theory SkillRefs
  imports Bindings
begin

text \<open>
  \<open>agentworkstation_skillrefs.go\<close>: the operator keeps one binding for each reference of a workstation
  to a skill of its namespace, and removes the bindings of references that are gone.
\<close>

text \<open>A loop that returns at the first error, with what it has done until then.\<close>

fun run_all :: "('s \<Rightarrow> 'a \<Rightarrow> 's \<times> string option) \<Rightarrow> 's \<Rightarrow> 'a list \<Rightarrow> 's \<times> string option" where
  "run_all f s [] = (s, None)"
| "run_all f s (x # xs) =
     (case f s x of (s1, Some e) \<Rightarrow> (s1, Some e) | (s1, None) \<Rightarrow> run_all f s1 xs)"

definition managed_by_label :: string where
  "managed_by_label = ''agentoffice.ai/managed-by-aw''"

definition binding_prefix :: string where
  "binding_prefix = ''aw-binding-''"

definition managed_binding_name :: "string \<Rightarrow> string \<Rightarrow> string" where
  "managed_binding_name aw sk =
     (let plain = binding_prefix @ aw @ ''-'' @ sk in
      if length plain \<le> 200 then plain
      else binding_prefix @ take (200 - length binding_prefix - 1 - 8) aw @ ''-'' @ hex_encode (take 4 (sha256 sk)))"

definition desired_refs :: "workstation \<Rightarrow> skill_ref gomap" where
  "desired_refs aw = foldl (\<lambda>m ref. gm_set m (skr_Name ref) ref) [] (aws_SkillRefs (aw_Spec aw))"

definition fresh_binding :: "string \<Rightarrow> string \<Rightarrow> skill_binding" where
  "fresh_binding ns name =
     \<lparr>sb_meta = \<lparr>om_Name = name, om_Namespace = ns, om_UID = [], om_Generation = 0, om_Labels = [], om_Annotations = [],
         om_DeletionTimestamp = None, om_Finalizers = [], om_Controller = None\<rparr>,
      sb_Spec = \<lparr>skb_SkillRef = \<lparr>skr_Name = [], skr_Version = []\<rparr>, skb_Subjects = [], skb_SubjectSelector = None,
         skb_Overrides = None\<rparr>,
      sb_Status = \<lparr>skbst_AppliedTo = [], skbst_ResolvedSkillVersion = [], skbst_Conflicts = [], skbst_Conditions = []\<rparr>\<rparr>"

text \<open>What the operator writes into a binding: the label, the reference, the subject, the owner.\<close>

definition stamp_binding :: "workstation \<Rightarrow> skill_ref \<Rightarrow> skill_binding \<Rightarrow> skill_binding" where
  "stamp_binding aw ref sb =
     sb\<lparr>sb_meta := (sb_meta sb)\<lparr>om_Labels := gm_set (om_Labels (sb_meta sb)) managed_by_label (ws_name aw)\<rparr>,
        sb_Spec := (sb_Spec sb)\<lparr>skb_SkillRef := ref,
          skb_Subjects := [\<lparr>bsu_Kind = ''AgentWorkstation'', bsu_Name = ws_name aw\<rparr>]\<rparr>\<rparr>"

definition mutate_binding :: "workstation \<Rightarrow> skill_ref \<Rightarrow> skill_binding \<Rightarrow> skill_binding result" where
  "mutate_binding aw ref sb =
     (case set_controller (aw_meta aw) (sb_meta (stamp_binding aw ref sb)) of
        Inl e \<Rightarrow> Inl e
      | Inr m \<Rightarrow> Inr ((stamp_binding aw ref sb)\<lparr>sb_meta := m\<rparr>))"

text \<open>
  One reference: nothing if its skill is not in the namespace, else the binding is written and taken
  off the names that are left over.
\<close>

definition upsert_binding ::
    "kube_env \<Rightarrow> kube \<Rightarrow> workstation \<Rightarrow> skill_binding list \<times> string list \<Rightarrow> string
       \<Rightarrow> (skill_binding list \<times> string list) \<times> string option" where
  "upsert_binding env k aw s skl =
     (let (sbs, left) = s; ns = om_Namespace (aw_meta aw) in
      case api_get env Skills skl_meta (ku_skills k) ns skl of
        Failed e \<Rightarrow> (s, Some (''get Skill '' @ ns @ ''/'' @ skl @ '': '' @ e))
      | NotFound _ \<Rightarrow> (s, None)
      | Found _ \<Rightarrow>
         (let name = managed_binding_name (ws_name aw) skl; ref = the (gm_get (desired_refs aw) skl) in
          case create_or_update env Bindings sb_meta (mutate_binding aw ref) (fresh_binding ns name) sbs of
            (sbs1, Inl e) \<Rightarrow> ((sbs1, left), Some (''upsert managed SkillBinding '' @ name @ '': '' @ e))
          | (sbs1, Inr _) \<Rightarrow> ((sbs1, filter (\<lambda>n. n \<noteq> name) left), None)))"

definition remove_binding :: "kube_env \<Rightarrow> string \<Rightarrow> skill_binding list \<Rightarrow> string \<Rightarrow> skill_binding list \<times> string option" where
  "remove_binding env ns sbs name =
     (case api_delete env Bindings sb_meta ns name sbs of
        (sbs1, None) \<Rightarrow> (sbs1, None)
      | (sbs1, Some e) \<Rightarrow> (sbs1, Some (''delete stale managed SkillBinding '' @ name @ '': '' @ e)))"

definition reconcile_skill_refs :: "kube_env \<Rightarrow> kube \<Rightarrow> workstation \<Rightarrow> skill_binding list \<times> string option" where
  "reconcile_skill_refs env k aw =
     (let ns = om_Namespace (aw_meta aw) in
      case api_list env Bindings sb_meta (ku_bindings k) ns of
        Inl e \<Rightarrow> (ku_bindings k, Some (''list managed SkillBindings for aw '' @ ws_name aw @ '': '' @ e))
      | Inr sbs \<Rightarrow>
         (let names = map binding_name (with_label sb_meta managed_by_label (ws_name aw) sbs) in
          case run_all (upsert_binding env k aw) (ku_bindings k, names) (ke_range env (map fst (desired_refs aw))) of
            ((sbs1, left), Some e) \<Rightarrow> (sbs1, Some e)
          | ((sbs1, left), None) \<Rightarrow> run_all (remove_binding env ns) sbs1 (ke_range env left)))"

subsection \<open>One pass makes the bindings what the references say\<close>

text \<open>The references to skills of the namespace.\<close>

definition local_refs :: "kube \<Rightarrow> workstation \<Rightarrow> string set" where
  "local_refs k aw = {n \<in> fst ` set (desired_refs aw). obj_get skl_meta (ku_skills k) (om_Namespace (aw_meta aw), n) \<noteq> None}"

abbreviation managed_key :: "workstation \<Rightarrow> string \<Rightarrow> string \<times> string" where
  "managed_key aw n \<equiv> (om_Namespace (aw_meta aw), managed_binding_name (ws_name aw) n)"

text \<open>The binding of a reference, made from the one that was there.\<close>

definition written :: "workstation \<Rightarrow> string \<Rightarrow> skill_binding option \<Rightarrow> skill_binding" where
  "written aw n old =
     (let sb = stamp_binding aw (the (gm_get (desired_refs aw) n))
            (case old of None \<Rightarrow> fresh_binding (om_Namespace (aw_meta aw)) (managed_binding_name (ws_name aw) n) | Some sb \<Rightarrow> sb)
      in sb\<lparr>sb_meta := (sb_meta sb)\<lparr>om_Controller := Some (om_UID (aw_meta aw))\<rparr>\<rparr>)"

text \<open>The name of a binding is not taken by a binding of another owner.\<close>

definition ours :: "workstation \<Rightarrow> skill_binding option \<Rightarrow> bool" where
  "ours aw old \<longleftrightarrow> (case old of None \<Rightarrow> True | Some sb \<Rightarrow> om_Controller (sb_meta sb) \<in> {None, Some (om_UID (aw_meta aw))})"

lemma written_key:
  "obj_get sb_meta sbs (managed_key aw n) = old \<Longrightarrow> obj_key sb_meta (written aw n old) = managed_key aw n"
  by (auto simp: written_def stamp_binding_def fresh_binding_def obj_key_def Let_def split: option.splits dest!: obj_get_key)

lemma mutate_binding_ours:
  assumes "ours aw old"
  shows "mutate_binding aw (the (gm_get (desired_refs aw) n))
      (case old of None \<Rightarrow> fresh_binding (om_Namespace (aw_meta aw)) (managed_binding_name (ws_name aw) n) | Some sb \<Rightarrow> sb)
    = Inr (written aw n old)"
  using assms
  by (cases old) (auto simp: ours_def mutate_binding_def set_controller_def written_def stamp_binding_def fresh_binding_def Let_def)


definition is_local :: "kube \<Rightarrow> workstation \<Rightarrow> string \<Rightarrow> bool" where
  "is_local k aw n \<longleftrightarrow> obj_get skl_meta (ku_skills k) (om_Namespace (aw_meta aw), n) \<noteq> None"

definition write_binding :: "workstation \<Rightarrow> skill_binding list \<Rightarrow> string \<Rightarrow> skill_binding list" where
  "write_binding aw sbs n = obj_put sb_meta (written aw n (obj_get sb_meta sbs (managed_key aw n))) sbs"

lemma write_binding_get:
  "obj_get sb_meta (write_binding aw sbs n) key
     = (if key = managed_key aw n then Some (written aw n (obj_get sb_meta sbs key)) else obj_get sb_meta sbs key)"
  using written_key [of sbs aw n] by (auto simp: write_binding_def objs.get_put)

lemma fresh_binding_key: "obj_key sb_meta (fresh_binding ns name) = (ns, name)"
  by (simp add: fresh_binding_def obj_key_def)

lemma upsert_binding_local:
  assumes "no_api_faults env" "is_local k aw n" "ours aw (obj_get sb_meta sbs (managed_key aw n))"
  shows "upsert_binding env k aw (sbs, left) n
    = ((write_binding aw sbs n, filter (\<lambda>m. m \<noteq> managed_binding_name (ws_name aw) n) left), None)"
proof -
  let ?old = "obj_get sb_meta sbs (managed_key aw n)"
  have "create_or_update env Bindings sb_meta (mutate_binding aw (the (gm_get (desired_refs aw) n)))
      (fresh_binding (om_Namespace (aw_meta aw)) (managed_binding_name (ws_name aw) n)) sbs
      = (obj_put sb_meta (written aw n ?old) sbs, Inr (written aw n ?old))"
    using mutate_binding_ours [OF assms(3), of n] written_key [of sbs aw n]
    by (intro create_or_update_eq assms) (simp_all add: fresh_binding_key)
  then show ?thesis using assms(1,2)
    by (auto simp: upsert_binding_def api_get_def is_local_def write_binding_def Let_def)
qed

lemma upsert_binding_foreign:
  "no_api_faults env \<Longrightarrow> \<not> is_local k aw n \<Longrightarrow> upsert_binding env k aw s n = (s, None)"
  by (auto simp: upsert_binding_def api_get_def is_local_def split: prod.splits)

lemma upsert_all:
  assumes "no_api_faults env" "distinct (map (managed_binding_name (ws_name aw)) (filter (is_local k aw) names))"
    and "\<And>n. n \<in> set names \<Longrightarrow> is_local k aw n \<Longrightarrow> ours aw (obj_get sb_meta sbs (managed_key aw n))"
  shows "run_all (upsert_binding env k aw) (sbs, left) names
    = ((foldl (write_binding aw) sbs (filter (is_local k aw) names),
        filter (\<lambda>m. m \<notin> managed_binding_name (ws_name aw) ` set (filter (is_local k aw) names)) left), None)"
  using assms(2,3)
proof (induction names arbitrary: sbs left)
  case (Cons n names)
  show ?case
  proof (cases "is_local k aw n")
    case False
    then show ?thesis using Cons by (simp add: upsert_binding_foreign [OF assms(1)])
  next
    case True
    let ?left = "filter (\<lambda>m. m \<noteq> managed_binding_name (ws_name aw) n) left"
    have "ours aw (obj_get sb_meta (write_binding aw sbs n) (managed_key aw m))"
      if "m \<in> set names" "is_local k aw m" for m
      using Cons.prems that True by (auto simp: write_binding_get image_iff)
    from Cons.IH [OF _ this, of ?left] Cons.prems(1) True show ?thesis
      using upsert_binding_local [OF assms(1) True, of sbs left] Cons.prems(2)
      by (auto simp: filter_filter intro!: filter_cong)
  qed
qed simp

lemma remove_all:
  assumes "no_api_faults env"
  shows "run_all (remove_binding env ns) sbs names = (foldl (\<lambda>s m. obj_del sb_meta m s) sbs (map (Pair ns) names), None)"
  using assms by (induction names arbitrary: sbs) (simp_all add: remove_binding_def api_delete_def)


text \<open>The store after the writes, by \<open>put_all\<close> of the store interface.\<close>

lemma write_all_get:
  assumes "distinct (map (managed_binding_name (ws_name aw)) names)"
  shows "obj_get sb_meta (foldl (write_binding aw) sbs names) key
    = (case find (\<lambda>n. managed_key aw n = key) names of None \<Rightarrow> obj_get sb_meta sbs key
       | Some n \<Rightarrow> Some (written aw n (obj_get sb_meta sbs key)))"
proof -
  define f where "f n old = (if obj_key sb_meta (written aw n old) = managed_key aw n then written aw n old
      else fresh_binding (om_Namespace (aw_meta aw)) (managed_binding_name (ws_name aw) n))" for n old
  have f: "f n (obj_get sb_meta s (managed_key aw n)) = written aw n (obj_get sb_meta s (managed_key aw n))" for n s
    by (simp add: f_def written_key)
  have "foldl (write_binding aw) sbs names
      = foldl (\<lambda>s n. obj_put sb_meta (f n (obj_get sb_meta s (managed_key aw n))) s) sbs names"
    by (simp add: f write_binding_def [abs_def])
  moreover have "distinct (map (managed_key aw) names)"
    using assms by (simp add: distinct_map inj_on_def)
  moreover have "obj_key sb_meta (f n old) = managed_key aw n" for n old by (simp add: f_def fresh_binding_key)
  ultimately have "obj_get sb_meta (foldl (write_binding aw) sbs names) key
      = (case find (\<lambda>n. managed_key aw n = key) names of None \<Rightarrow> obj_get sb_meta sbs key
         | Some n \<Rightarrow> Some (f n (obj_get sb_meta sbs key)))"
    by (simp only:) (rule objs.put_all)
  moreover have "f n (obj_get sb_meta sbs key) = written aw n (obj_get sb_meta sbs key)"
    if "find (\<lambda>n. managed_key aw n = key) names = Some n" for n
    using f [of n sbs] find_SomeD [OF that] by simp
  ultimately show ?thesis by (simp split: option.split)
qed

lemma written_idem: "written aw n (Some (written aw n old)) = written aw n old"
  by (simp add: written_def stamp_binding_def Let_def)

lemma written_label: "gm_get (om_Labels (sb_meta (written aw n old))) managed_by_label = Some (ws_name aw)"
  by (simp add: written_def stamp_binding_def Let_def)

lemma written_ours: "ours aw (Some (written aw n old))"
  by (simp add: ours_def written_def Let_def)

text \<open>The names of the bindings that carry the label of the workstation.\<close>

lemma labelled_names:
  assumes "obj_keys_ok sb_meta sbs"
  shows "m \<in> set (map binding_name (with_label sb_meta managed_by_label v (in_namespace sb_meta ns sbs)))
    \<longleftrightarrow> (\<exists>sb. obj_get sb_meta sbs (ns, m) = Some sb \<and> gm_get (om_Labels (sb_meta sb)) managed_by_label = Some v)"
  unfolding obj_get_iff [OF assms]
  by (auto simp: with_label_def in_namespace_def binding_name_def obj_key_def)

lemma foldl_inv: "P s \<Longrightarrow> (\<And>s x. P s \<Longrightarrow> P (f s x)) \<Longrightarrow> P (foldl f s xs)"
  by (induction xs arbitrary: s) auto

lemma desired_local: "local_refs k aw = set (filter (is_local k aw) (map fst (desired_refs aw)))"
  by (auto simp: local_refs_def is_local_def)

lemma desired_distinct: "distinct (map fst (desired_refs aw))"
proof -
  have "gm_wf (desired_refs aw)" unfolding desired_refs_def by (rule foldl_inv) simp_all
  then show ?thesis by (simp add: gm_wf_def)
qed


text \<open>The bindings after a pass, as a function of the key.\<close>

definition bindings_after :: "kube \<Rightarrow> workstation \<Rightarrow> string \<times> string \<Rightarrow> skill_binding option" where
  "bindings_after k aw key =
     (let old = obj_get sb_meta (ku_bindings k) key in
      case find (\<lambda>n. is_local k aw n \<and> managed_key aw n = key) (map fst (desired_refs aw)) of
        Some n \<Rightarrow> Some (written aw n old)
      | None \<Rightarrow>
         (case old of
            None \<Rightarrow> None
          | Some sb \<Rightarrow>
              (if fst key = om_Namespace (aw_meta aw) \<and> gm_get (om_Labels (sb_meta sb)) managed_by_label = Some (ws_name aw)
               then None else Some sb)))"

lemma find_inj:
  assumes "inj_on g (set xs)" "set ys = set xs" "distinct xs" "distinct ys"
  shows "find (\<lambda>n. g n = key) ys = find (\<lambda>n. g n = key) xs"
proof (cases "find (\<lambda>n. g n = key) xs")
  case None
  then have "find (\<lambda>n. g n = key) ys = None" using assms(2) by (simp add: find_None_iff)
  with None show ?thesis by simp
next
  case (Some n)
  then obtain m where m: "find (\<lambda>n. g n = key) ys = Some m"
    using assms(2) find_SomeD [OF Some] by (cases "find (\<lambda>n. g n = key) ys") (auto simp: find_None_iff)
  then have "m = n" using find_SomeD [OF m] find_SomeD [OF Some] assms(1,2) by (auto dest: inj_onD)
  with m Some show ?thesis by simp
qed

lemma find_filter: "find (\<lambda>n. Q n) (filter P xs) = find (\<lambda>n. P n \<and> Q n) xs"
  by (induction xs) auto

lemma reconcile_skill_refs_ok:
  assumes "no_api_faults env" "range_ok env" "obj_keys_ok sb_meta (ku_bindings k)"
    and inj: "inj_on (managed_binding_name (ws_name aw)) (local_refs k aw)"
    and ours: "\<And>n. n \<in> local_refs k aw \<Longrightarrow> ours aw (obj_get sb_meta (ku_bindings k) (managed_key aw n))"
  shows "\<exists>sbs. reconcile_skill_refs env k aw = (sbs, None) \<and> obj_keys_ok sb_meta sbs
    \<and> obj_get sb_meta sbs = bindings_after k aw"
proof -
  let ?ns = "om_Namespace (aw_meta aw)" let ?mn = "managed_binding_name (ws_name aw)" let ?sbs = "ku_bindings k"
  let ?D = "map fst (desired_refs aw)" let ?L = "filter (is_local k aw) (ke_range env ?D)"
  let ?names = "map binding_name (with_label sb_meta managed_by_label (ws_name aw) (in_namespace sb_meta ?ns ?sbs))"
  let ?left = "filter (\<lambda>m. m \<notin> ?mn ` set ?L) ?names"
  have D: "set (ke_range env ?D) = set ?D" "distinct (ke_range env ?D)"
    using range_okD [OF assms(2)] desired_distinct by blast+
  then have L: "set ?L = local_refs k aw" "distinct ?L" by (simp_all add: desired_local)
  then have dm: "distinct (map ?mn ?L)" using inj by (simp add: distinct_map)
  let ?w = "foldl (write_binding aw) ?sbs ?L"
  have ups: "run_all (upsert_binding env k aw) (?sbs, ?names) (ke_range env ?D) = ((?w, ?left), None)"
    using dm L(1) by (intro upsert_all [OF assms(1)] ours) auto
  let ?out = "foldl (\<lambda>s m. obj_del sb_meta m s) ?w (map (Pair ?ns) (ke_range env ?left))"
  have r: "reconcile_skill_refs env k aw = (?out, None)"
    unfolding reconcile_skill_refs_def Let_def api_list_def
    by (simp only: no_api_faultsD [OF assms(1)] option.case sum.case ups prod.case remove_all [OF assms(1)])
  have keys: "obj_keys_ok sb_meta ?out"
    by (rule foldl_inv [of "obj_keys_ok sb_meta"], rule foldl_inv [of "obj_keys_ok sb_meta"])
      (simp_all only: assms(3) write_binding_def obj_keys_ok_put obj_keys_ok_del)
  have "obj_get sb_meta ?out key = bindings_after k aw key" for key
  proof -
    have inj': "inj_on (managed_key aw) (set (filter (is_local k aw) ?D))"
      using inj by (auto simp: desired_local inj_on_def)
    have "find (\<lambda>n. managed_key aw n = key) ?L = find (\<lambda>n. managed_key aw n = key) (filter (is_local k aw) ?D)"
      by (rule find_inj [OF inj']) (use D desired_distinct in auto)
    then have w: "obj_get sb_meta ?w key
        = (case find (\<lambda>n. is_local k aw n \<and> managed_key aw n = key) ?D of None \<Rightarrow> obj_get sb_meta ?sbs key
           | Some n \<Rightarrow> Some (written aw n (obj_get sb_meta ?sbs key)))"
      by (simp only: write_all_get [OF dm] find_filter)
    have del: "key \<in> set (map (Pair ?ns) (ke_range env ?left)) \<longleftrightarrow> fst key = ?ns \<and> snd key \<in> set ?names
        \<and> snd key \<notin> ?mn ` local_refs k aw"
      using range_okD(1) [OF assms(2), of ?left] L(1) by (cases key) auto
    have lab: "fst key = ?ns \<Longrightarrow> snd key \<in> set ?names \<longleftrightarrow> (\<exists>sb. obj_get sb_meta ?sbs key = Some sb
        \<and> gm_get (om_Labels (sb_meta sb)) managed_by_label = Some (ws_name aw))"
      using labelled_names [OF assms(3)] by (metis prod.collapse)
    show ?thesis
    proof (cases "find (\<lambda>n. is_local k aw n \<and> managed_key aw n = key) ?D")
      case (Some n)
      from find_SomeD [OF Some] have "n \<in> local_refs k aw" "managed_key aw n = key" by (simp_all add: desired_local)
      then have "snd key \<in> ?mn ` local_refs k aw" by (metis image_eqI snd_conv)
      with del have "key \<notin> set (map (Pair ?ns) (ke_range env ?left))" by blast
      then show ?thesis unfolding objs.del_all w bindings_after_def Let_def by (simp only: Some option.case if_False)
    next
      case None
      then have "fst key = ?ns \<Longrightarrow> snd key \<notin> ?mn ` local_refs k aw"
        by (cases key) (auto simp: find_None_iff desired_local)
      with del lab have "key \<in> set (map (Pair ?ns) (ke_range env ?left)) \<longleftrightarrow> fst key = ?ns
          \<and> (\<exists>sb. obj_get sb_meta ?sbs key = Some sb \<and> gm_get (om_Labels (sb_meta sb)) managed_by_label = Some (ws_name aw))"
        by blast
      then show ?thesis unfolding objs.del_all w bindings_after_def Let_def
        by (cases "obj_get sb_meta ?sbs key") (simp_all only: None option.case option.simps simp_thms if_True if_False split: if_split)
    qed
  qed
  with r keys show ?thesis by blast
qed


lemma bindings_after_fix:
  assumes "obj_get sb_meta sbs = bindings_after k aw" "inj_on (managed_binding_name (ws_name aw)) (local_refs k aw)"
  shows "bindings_after (k\<lparr>ku_bindings := sbs\<rparr>) aw = bindings_after k aw"
proof -
  have loc: "is_local (k\<lparr>ku_bindings := sbs\<rparr>) aw n = is_local k aw n" for n by (simp add: is_local_def)
  show ?thesis
    by (auto simp: fun_eq_iff bindings_after_def loc assms(1) Let_def written_idem split: option.splits)
qed


subsection \<open>A name that is taken\<close>

lemma mutate_binding_key: "mutate_binding aw ref y = Inr x \<Longrightarrow> obj_key sb_meta x = obj_key sb_meta y"
  by (auto simp: mutate_binding_def stamp_binding_def obj_key_def Let_def dest!: set_controller_key split: sum.splits)

lemma upsert_binding_taken:
  assumes "no_api_faults env" "is_local k aw n" "obj_get sb_meta sbs (managed_key aw n) = Some sb"
    and "om_Controller (sb_meta sb) = Some u" "u \<noteq> om_UID (aw_meta aw)"
  shows "\<exists>e. upsert_binding env k aw (sbs, left) n = ((sbs, left), Some e)"
  using assms
  by (auto simp: upsert_binding_def api_get_def is_local_def create_or_update_def fresh_binding_key mutate_binding_def
      set_controller_def stamp_binding_def Let_def)

lemma upsert_binding_frame:
  assumes "no_api_faults env" "upsert_binding env k aw (sbs, left) n = ((sbs1, left1), r)" "key \<noteq> managed_key aw n"
  shows "obj_get sb_meta sbs1 key = obj_get sb_meta sbs key"
proof -
  let ?ref = "the (gm_get (desired_refs aw) n)"
  have "obj_get sb_meta sbs2 key = obj_get sb_meta sbs key"
    if c: "create_or_update env Bindings sb_meta (mutate_binding aw ?ref)
        (fresh_binding (om_Namespace (aw_meta aw)) (managed_binding_name (ws_name aw) n)) sbs = (sbs2, q)" for sbs2 q
    using c assms(1,3)
    by (auto simp: create_or_update_def api_get_def fresh_binding_key obj_get_put
        dest!: mutate_binding_key mutate_binding_key [OF sym] obj_get_key
        split: option.splits sum.splits if_splits)
  then show ?thesis
    using assms(1,2) by (auto simp: upsert_binding_def api_get_def Let_def split: option.splits prod.splits sum.splits)
qed

lemma upsert_all_taken:
  assumes "no_api_faults env" "is_local k aw n" "om_Controller (sb_meta sb) = Some u" "u \<noteq> om_UID (aw_meta aw)"
  shows "n \<in> set names \<Longrightarrow> obj_get sb_meta sbs (managed_key aw n) = Some sb \<Longrightarrow>
    \<exists>sbs1 left1 e. run_all (upsert_binding env k aw) (sbs, left) names = ((sbs1, left1), Some e)
      \<and> obj_get sb_meta sbs1 (managed_key aw n) = Some sb"
proof (induction names arbitrary: sbs left)
  case (Cons m names)
  show ?case
  proof (cases "is_local k aw m \<and> managed_key aw m = managed_key aw n")
    case True
    then show ?thesis using upsert_binding_taken [OF assms(1), of k aw m sbs sb u left] assms(3,4) Cons.prems(2) by auto
  next
    case False
    then have n: "n \<in> set names" using Cons.prems(1) assms(2) by auto
    obtain sbs1 left1 r where u: "upsert_binding env k aw (sbs, left) m = ((sbs1, left1), r)"
      by (metis surj_pair)
    have "obj_get sb_meta sbs1 (managed_key aw n) = Some sb"
    proof (cases "is_local k aw m")
      case True
      with False have "managed_key aw n \<noteq> managed_key aw m" by metis
      from upsert_binding_frame [OF assms(1) u this] Cons.prems(2) show ?thesis by simp
    next
      case False
      then show ?thesis using upsert_binding_foreign [OF assms(1)] u Cons.prems(2) by auto
    qed
    then show ?thesis using Cons.IH [OF n, of sbs1 left1] u by (cases r) auto
  qed
qed simp

text \<open>
  The name of a binding joins the names of the workstation and the skill with a dash, so different
  pairs can share it. When the binding of a reference belongs to another workstation, the pass ends with
  an error: the reference gets no binding, and the bindings of references that are gone are not removed.
\<close>

theorem taken_binding_name_fails:
  assumes "no_api_faults env" "range_ok env" "n \<in> local_refs k aw"
    and "obj_get sb_meta (ku_bindings k) (managed_key aw n) = Some sb"
    and "om_Controller (sb_meta sb) = Some u" "u \<noteq> om_UID (aw_meta aw)"
  shows "\<exists>sbs e. reconcile_skill_refs env k aw = (sbs, Some e) \<and> obj_get sb_meta sbs (managed_key aw n) = Some sb"
proof -
  have n: "is_local k aw n" "n \<in> set (ke_range env (map fst (desired_refs aw)))"
    using assms(3) range_okD(1) [OF assms(2)] by (auto simp: desired_local)
  from upsert_all_taken [OF assms(1) n(1) assms(5,6) n(2) assms(4)]
  obtain sbs1 left1 e where "run_all (upsert_binding env k aw) (ku_bindings k, map binding_name (with_label sb_meta managed_by_label
      (ws_name aw) (in_namespace sb_meta (om_Namespace (aw_meta aw)) (ku_bindings k)))) (ke_range env (map fst (desired_refs aw)))
      = ((sbs1, left1), Some e)" and "obj_get sb_meta sbs1 (managed_key aw n) = Some sb" by blast
  then show ?thesis
    unfolding reconcile_skill_refs_def Let_def api_list_def no_api_faultsD [OF assms(1)] option.case sum.case by simp
qed



subsection \<open>A concrete pass\<close>

definition demo_refs_kube :: kube where
  "demo_refs_kube = demo_skill_kube\<lparr>ku_bindings := [demo_binding ''old'' ''x'' ''ws'']\<rparr>"

lemma demo_local_refs: "local_refs demo_refs_kube demo_skill_agent \<subseteq> {''x''}"
  by (auto simp: local_refs_def demo_refs_kube_def demo_skill_kube_def demo_skill_agent_def demo_agent_def desired_refs_def
      obj_get_def obj_key_def demo_skill_def demo_meta_def split: if_splits)


definition demo_taken :: skill_binding where
  "demo_taken = (demo_binding (managed_binding_name ''a-b'' ''c'') ''c'' ''a-b'')\<lparr>sb_meta :=
     (demo_meta ''lab'' (managed_binding_name ''a-b'' ''c''))\<lparr>om_Controller := Some ''uid-a-b''\<rparr>\<rparr>"

definition demo_taken_kube :: kube where
  "demo_taken_kube = empty_kube\<lparr>ku_skills := [demo_skill ''lab'' ''b-c'' (inline_source ''t'')], ku_bindings := [demo_taken]\<rparr>"

lemma taken_binding_name_fails_witness:
  "\<exists>sbs e. reconcile_skill_refs demo_kube_env demo_taken_kube
       (demo_agent ''lab'' ''a'' [\<lparr>skr_Name = ''b-c'', skr_Version = []\<rparr>]) = (sbs, Some e)
     \<and> obj_get sb_meta sbs (''lab'', managed_binding_name ''a'' ''b-c'') = Some demo_taken"
proof -
  let ?aw = "demo_agent ''lab'' ''a'' [\<lparr>skr_Name = ''b-c'', skr_Version = []\<rparr>]"
  have same: "managed_binding_name ''a-b'' ''c'' = managed_binding_name ''a'' ''b-c''"
    by (simp add: managed_binding_name_def binding_prefix_def)
  have aw: "om_Namespace (aw_meta ?aw) = ''lab''" "ws_name ?aw = ''a''" "om_UID (aw_meta ?aw) = ''uid-a''"
    by (simp_all add: demo_agent_def demo_meta_def ws_name_def)
  have loc: "''b-c'' \<in> local_refs demo_taken_kube ?aw"
    by (simp add: local_refs_def desired_refs_def demo_taken_kube_def obj_get_def aw)
      (simp add: demo_agent_def obj_key_def demo_skill_def demo_meta_def)
  have get: "obj_get sb_meta (ku_bindings demo_taken_kube) (managed_key ?aw ''b-c'') = Some demo_taken"
    by (simp add: demo_taken_kube_def obj_get_def obj_key_def demo_taken_def aw same demo_meta_def)
  have "om_Controller (sb_meta demo_taken) = Some ''uid-a-b''" by (simp add: demo_taken_def)
  from taken_binding_name_fails [OF demo_kube_env_ok loc get this] show ?thesis by (simp add: aw)
qed

end
