(* ===== verification/CatalogTypes.thy ===== *)
theory CatalogTypes
  imports SkillRefs
begin

text \<open>
  What the catalogue serves (\<open>catalog_packs.go\<close>, \<open>catalog_skills.go\<close>, \<open>catalog_registry.go\<close>,
  \<open>catalog_recommend.go\<close>, \<open>catalog_teams.go\<close>): packs with their dependencies, the order of versions,
  the names of agents, the terms of a description, and the team that an agent joins.
\<close>

record catalog_dependency =
  cd_Kind :: string
  cd_Name :: string
  cd_Optional :: bool
  cd_Available :: bool
  cd_GatewayURL :: string

record catalog_requirement =
  cr_Name :: string
  cr_Range :: string
  cr_Satisfied :: bool

record tool_recipe =
  tr_URL :: string
  tr_Type :: string
  tr_AuthHeaderValue :: string
  tr_EnvFromSecret :: string

record registry_ref =
  rr_Name :: string
  rr_Key :: string

record registry_tool =
  rt_Mode :: string
  rt_Prefix :: string
  rt_Path :: string
  rt_Hint :: string
  rt_Category :: "string list"
  rt_RouteRef :: string
  rt_CredentialRef :: "registry_ref option"
  rt_Recipe :: "tool_recipe option"

record catalog_pack =
  cp_Type :: string
  cp_Name :: string
  cp_DisplayName :: string
  cp_Description :: string
  cp_Version :: string
  cp_Tier :: string
  cp_Requires :: "string list"
  cp_Dependencies :: "catalog_dependency list"
  cp_Recipe :: "tool_recipe option"
  cp_GatewayRef :: string
  cp_Installed :: bool
  cp_Registry :: string
  cp_Namespace :: string
  cp_ArtifactKind :: string
  cp_Member :: string
  cp_Members :: "string list"
  cp_Skills :: "string list"
  cp_PackRequires :: "catalog_requirement list"
  cp_Provides :: "string list"
  cp_Tool :: "registry_tool option"
  cp_Manifest :: string
  cp_ContentURL :: string
  cp_OCI :: string

text \<open>The zero value, which a lookup of an absent name gives.\<close>

definition empty_pack :: catalog_pack where
  "empty_pack = \<lparr>cp_Type = [], cp_Name = [], cp_DisplayName = [], cp_Description = [], cp_Version = [], cp_Tier = [],
     cp_Requires = [], cp_Dependencies = [], cp_Recipe = None, cp_GatewayRef = [], cp_Installed = False, cp_Registry = [],
     cp_Namespace = [], cp_ArtifactKind = [], cp_Member = [], cp_Members = [], cp_Skills = [], cp_PackRequires = [],
     cp_Provides = [], cp_Tool = None, cp_Manifest = [], cp_ContentURL = [], cp_OCI = []\<rparr>"

record recommend_pack =
  rp_Pack :: catalog_pack
  rp_Reason :: string

definition rp_name :: "recommend_pack \<Rightarrow> string" where
  "rp_name c = cp_Name (rp_Pack c)"

record recommend_identity =
  ri_Name :: string
  ri_DisplayName :: string
  ri_Emoji :: string
  ri_Role :: string
  ri_SystemPrompt :: string

text \<open>\<open>byName\<close>: of two packs of one name the last.\<close>

definition by_pack_name :: "catalog_pack list \<Rightarrow> catalog_pack gomap" where
  "by_pack_name packs = foldl (\<lambda>m p. gm_set m (cp_Name p) p) [] packs"

subsection \<open>Versions\<close>

fun segments_less :: "string list \<Rightarrow> string list \<Rightarrow> bool" where
  "segments_less [] [] = False"
| "segments_less as bs =
     (let av = (case as of [] \<Rightarrow> [] | a # _ \<Rightarrow> a); bv = (case bs of [] \<Rightarrow> [] | b # _ \<Rightarrow> b) in
      case (atoi av, atoi bv) of
        (Some i, Some j) \<Rightarrow> (if i \<noteq> j then i < j else segments_less (tl as) (tl bs))
      | _ \<Rightarrow> (if av \<noteq> bv then av < bv else segments_less (tl as) (tl bs)))"

definition version_segments :: "string \<Rightarrow> string list" where
  "version_segments v = split_byte (CHR ''.'') (trim_prefix (trim_space v) ''v'')"

definition version_less :: "string \<Rightarrow> string \<Rightarrow> bool" where
  "version_less a b = segments_less (version_segments a) (version_segments b)"

subsection \<open>Names of agents\<close>

definition name_char :: "char \<Rightarrow> bool" where
  "name_char c \<longleftrightarrow> is_digit c \<or> c = CHR ''-'' \<or> (97 \<le> (of_char c :: nat) \<and> (of_char c :: nat) \<le> 122)"

text \<open>\<open>nameRe.ReplaceAllString(s, "-")\<close>: one dash for each run of other characters.\<close>

function dash_runs :: "string \<Rightarrow> string" where
  "dash_runs s =
     (case s of
        [] \<Rightarrow> []
      | c # r \<Rightarrow> (if name_char c then c # dash_runs r else CHR ''-'' # dash_runs (dropWhile (\<lambda>c. \<not> name_char c) r)))"
  by pat_completeness auto
termination by (relation "measure length") (auto simp: less_Suc_eq_le length_dropWhile_le)

declare dash_runs.simps [simp del]

definition trim_dashes :: "string \<Rightarrow> string" where
  "trim_dashes s = trim_right (CHR ''-'') (dropWhile (\<lambda>c. c = CHR ''-'') s)"

lemma str_contains_Nil [simp]: "str_contains [] p \<longleftrightarrow> p = []"
  by (simp add: str_contains_def str_index_def)

lemma str_contains_Cons: "str_contains (c # s) p \<longleftrightarrow> has_prefix (c # s) p \<or> str_contains s p"
proof -
  have "index_from n s p = None \<longleftrightarrow> index_from m s p = None" for n m
    by (induction s arbitrary: n m) auto
  from this [of "Suc 0" 0] show ?thesis by (simp add: str_contains_def str_index_def del: not_None_eq)
qed

lemma replace_all_Nil [simp]: "replace_all [] old new = []"
  by (simp add: replace_all.simps)

lemma replace_all_Cons:
  "replace_all (c # r) old new = (if old \<noteq> [] \<and> has_prefix (c # r) old then new @ replace_all (drop (length old) (c # r)) old new
     else c # replace_all r old new)"
  by (subst replace_all.simps) simp

lemma replace_all_shorter:
  assumes "old \<noteq> []" "length new < length old"
  shows "length (replace_all s old new) \<le> length s"
    and "str_contains s old \<Longrightarrow> length (replace_all s old new) < length s"
proof -
  have "length (replace_all s old new) \<le> length s \<and> (str_contains s old \<longrightarrow> length (replace_all s old new) < length s)"
  proof (induction s rule: length_induct)
    case (1 s)
    show ?case
    proof (cases s)
      case (Cons c r)
      show ?thesis
      proof (cases "has_prefix s old")
        case True
        then obtain t where s: "s = old @ t" by (auto simp: has_prefix_iff)
        then have "length t < length s" using assms(1) by simp
        with 1 have "length (replace_all t old new) \<le> length t" by blast
        moreover have "replace_all s old new = new @ replace_all t old new"
          using True assms(1) s Cons by (metis replace_all_Cons append_eq_conv_conj)
        ultimately show ?thesis using s assms(2) by simp
      next
        case False
        with 1 Cons show ?thesis by (simp add: replace_all_Cons str_contains_Cons)
      qed
    qed (simp add: assms(1))
  qed
  then show "length (replace_all s old new) \<le> length s"
    "str_contains s old \<Longrightarrow> length (replace_all s old new) < length s" by blast+
qed

function collapse_dashes :: "string \<Rightarrow> string" where
  "collapse_dashes s = (if str_contains s ''--'' then collapse_dashes (replace_all s ''--'' ''-'') else s)"
  by pat_completeness auto
termination by (relation "measure length") (simp_all add: replace_all_shorter(2))

declare collapse_dashes.simps [simp del]

definition sanitize_agent_name :: "string \<Rightarrow> string" where
  "sanitize_agent_name s =
     (let t = collapse_dashes (trim_dashes (dash_runs (to_lower (trim_space s))))
      in if 30 < length t then trim_dashes (take 30 t) else t)"


subsection \<open>Terms of a description\<close>

definition letter :: "char \<Rightarrow> bool" where
  "letter c \<longleftrightarrow> (let n = (of_char c :: nat) in 65 \<le> n \<and> n \<le> 90 \<or> 97 \<le> n \<and> n \<le> 122)"

text \<open>The matches of \<open>[a-zA-Z][a-zA-Z-]+\<close>.\<close>

function words_of :: "string \<Rightarrow> string list" where
  "words_of s =
     (case s of
        [] \<Rightarrow> []
      | c # r \<Rightarrow>
          (let w = takeWhile (\<lambda>c. letter c \<or> c = CHR ''-'') r in
           if letter c \<and> w \<noteq> [] then (c # w) # words_of (dropWhile (\<lambda>c. letter c \<or> c = CHR ''-'') r) else words_of r))"
  by pat_completeness auto
termination by (relation "measure length") (auto simp: less_Suc_eq_le length_dropWhile_le)

declare words_of.simps [simp del]

definition stopwords :: "string list" where
  "stopwords = [''the'', ''and'', ''for'', ''our'', ''with'', ''that'', ''this'', ''from'', ''need'', ''want'', ''will'',
     ''agent'', ''have'', ''gets'', ''get'', ''can'', ''should'', ''data'']"

definition tokenize :: "string \<Rightarrow> string list" where
  "tokenize desc =
     foldl (\<lambda>terms w. if 2 < length w \<and> w \<notin> set stopwords \<and> w \<notin> set terms then terms @ [w] else terms) []
       (words_of (to_lower desc))"

definition contains_any :: "string \<Rightarrow> string list \<Rightarrow> bool" where
  "contains_any s subs \<longleftrightarrow> list_ex (str_contains (to_lower s)) subs"

subsection \<open>Teams\<close>

record recommend_team =
  rct_Gateway :: string
  rct_Team :: string
  rct_Reason :: string
  rct_Members :: "string list"
  rct_Ready :: bool
  rct_Existing :: bool

record gateway_candidate =
  gc_Name :: string
  gc_Description :: string
  gc_Team :: string
  gc_Ready :: bool
  gc_Members :: "string list"

definition new_gateway :: "string \<Rightarrow> string \<Rightarrow> recommend_team" where
  "new_gateway slug reason = \<lparr>rct_Gateway = slug @ ''-gateway'', rct_Team = [], rct_Reason = reason, rct_Members = [],
     rct_Ready = False, rct_Existing = False\<rparr>"

definition existing_gateway :: "gateway_candidate \<Rightarrow> string \<Rightarrow> recommend_team" where
  "existing_gateway c reason = \<lparr>rct_Gateway = gc_Name c, rct_Team = gc_Team c, rct_Reason = reason, rct_Members = gc_Members c,
     rct_Ready = gc_Ready c, rct_Existing = True\<rparr>"

definition own_team_for :: "string \<Rightarrow> recommend_team" where
  "own_team_for agent =
     new_gateway (default_if_empty (sanitize_agent_name (trim_suffix (trim_space agent) ''-gateway'')) ''custom'')
       ''each hire starts on its own gateway; joining an existing crew is a gitops edit''"

definition new_team_for :: "string \<Rightarrow> recommend_team" where
  "new_team_for desc =
     new_gateway (default_if_empty (sanitize_agent_name (join ''-'' (take 2 (tokenize (to_lower desc))))) ''custom'')
       ''no existing team does this work; starting a new one''"

text \<open>The score of a candidate, in halves: a hit counts two, readiness one.\<close>

definition team_score :: "string list \<Rightarrow> gateway_candidate \<Rightarrow> nat" where
  "team_score terms c =
     (let hay = to_lower (gc_Name c @ '' '' @ gc_Description c @ '' '' @ gc_Team c @ '' '' @ join '' '' (gc_Members c))
      in 2 * length (filter (\<lambda>t. 4 \<le> length t \<and> str_contains hay t) terms) + (if gc_Ready c then 1 else 0))"

text \<open>The first candidate of the highest positive score.\<close>

definition best_candidate :: "string list \<Rightarrow> gateway_candidate list \<Rightarrow> (gateway_candidate \<times> nat) option" where
  "best_candidate terms cands =
     foldl (\<lambda>best c. let s = team_score terms c; b = (case best of None \<Rightarrow> 0 | Some (_, b) \<Rightarrow> b)
        in if b < s then Some (c, s) else best) None cands"

definition pick_team_fallback :: "string \<Rightarrow> gateway_candidate list \<Rightarrow> recommend_team option" where
  "pick_team_fallback desc cands =
     (if cands = [] then None
      else case best_candidate (tokenize (to_lower desc)) cands of
        None \<Rightarrow> Some (new_team_for desc)
      | Some (c, s) \<Rightarrow>
          Some (if s \<le> 1 then new_team_for desc
                else existing_gateway c ''closest match to the described job among existing teams''))"

definition resolve_team :: "string \<Rightarrow> string \<Rightarrow> gateway_candidate list \<Rightarrow> recommend_team option" where
  "resolve_team name reason cands =
     (let n = trim_space name in
      if n = [] then None
      else case find (\<lambda>c. gc_Name c = n) cands of
        Some c \<Rightarrow> Some (existing_gateway c reason)
      | None \<Rightarrow>
          (let slug = sanitize_agent_name (trim_suffix n ''-gateway'')
           in if slug = [] then None else Some (new_gateway slug reason)))"

subsection \<open>A version order\<close>

definition numeric_version :: "string \<Rightarrow> bool" where
  "numeric_version v \<longleftrightarrow> list_all (\<lambda>s. atoi s \<noteq> None) (version_segments v)"

definition version_numbers :: "string \<Rightarrow> int list" where
  "version_numbers v = map (\<lambda>s. the (atoi s)) (version_segments v)"

lemma atoi_Nil: "atoi [] = None"
  by (simp add: atoi_def parse_nat_def)

lemma segments_less_numeric:
  "list_all (\<lambda>s. atoi s \<noteq> None) as \<Longrightarrow> list_all (\<lambda>s. atoi s \<noteq> None) bs \<Longrightarrow>
     segments_less as bs \<longleftrightarrow> map (\<lambda>s. the (atoi s)) as < map (\<lambda>s. the (atoi s)) bs"
proof (induction as arbitrary: bs)
  case Nil
  have "[] < b" if "b \<noteq> []" for b :: string using that by (cases b) simp_all
  with Nil show ?case by (cases bs) (auto simp: atoi_Nil)
next
  case (Cons a as)
  then obtain i where i: "atoi a = Some i" by auto
  then have "a \<noteq> []" by (metis atoi_Nil option.distinct(1))
  show ?case
  proof (cases bs)
    case Nil
    then show ?thesis using i \<open>a \<noteq> []\<close> by (cases a) (simp_all add: atoi_Nil)
  next
    case (Cons b bs')
    with Cons.IH [of bs'] Cons.prems i show ?thesis by auto
  qed
qed

lemma version_less_numeric_core:
  "numeric_version a \<Longrightarrow> numeric_version b \<Longrightarrow> version_less a b \<longleftrightarrow> version_numbers a < version_numbers b"
  using segments_less_numeric by (simp add: version_less_def numeric_version_def version_numbers_def)

text \<open>
  C37: For versions whose segments are numbers, \<open>versionLess\<close> is the lexicographic order of the
  numbers: a strict linear order, in which a version precedes those that extend it.
\<close>

theorem version_less_numeric:
  assumes "numeric_version a" "numeric_version b"
  shows "version_less a b \<longleftrightarrow> version_numbers a < version_numbers b"
  using assms by (rule version_less_numeric_core)

lemma version_segments_plain:
  assumes "plain_char c" "plain_char d" "c \<noteq> CHR ''v''"
  shows "version_segments (c # s @ [d]) = split_byte (CHR ''.'') (c # s @ [d])"
  using trim_space_plain(1) [OF assms(1,2), of s] assms(3) by (auto simp: version_segments_def trim_prefix_def)

lemma demo_versions:
  "version_segments ''1.9'' = [''1'', ''9'']" "version_segments ''1.10'' = [''1'', ''10'']"
  "version_segments ''1.10-rc'' = [''1'', ''10-rc'']"
  using version_segments_plain [of "CHR ''1''" "CHR ''9''" "''.''"] version_segments_plain [of "CHR ''1''" "CHR ''0''" "''.1''"]
    version_segments_plain [of "CHR ''1''" "CHR ''c''" "''.10-r''"]
  by (simp_all add: plain_char_def)

lemma version_less_numeric_witness: "version_less ''1.9'' ''1.10'' \<and> version_numbers ''1.9'' = [1, 9]"
proof -
  have v: "atoi ''1'' = Some 1" "atoi ''9'' = Some 9" "atoi ''10'' = Some 10" by code_simp+
  then have "numeric_version ''1.9''" "numeric_version ''1.10''" by (simp_all add: numeric_version_def demo_versions)
  from version_less_numeric [OF this] v show ?thesis by (simp add: version_numbers_def demo_versions)
qed

text \<open>With a pre-release among them the order has a cycle, so there is no newest version.\<close>

lemma versions_cycle:
  "version_less ''1.9'' ''1.10'' \<and> version_less ''1.10'' ''1.10-rc'' \<and> version_less ''1.10-rc'' ''1.9''"
  unfolding version_less_def demo_versions by code_simp

subsection \<open>Names are labels\<close>

text \<open>A DNS label of at most 30 characters, or nothing.\<close>

definition agent_label :: "string \<Rightarrow> bool" where
  "agent_label s \<longleftrightarrow> list_all name_char s \<and> length s \<le> 30 \<and> \<not> str_contains s ''--''
     \<and> (s \<noteq> [] \<longrightarrow> hd s \<noteq> CHR ''-'' \<and> last s \<noteq> CHR ''-'')"

lemma dash_runs_name_chars: "list_all name_char (dash_runs s)"
proof (induction s rule: dash_runs.induct)
  case (1 s)
  have d: "name_char (CHR ''-'')" by (simp add: name_char_def)
  show ?case
  proof (cases s)
    case (Cons c r)
    with 1 d show ?thesis by (cases "name_char c") (simp_all add: dash_runs.simps [of "c # r"])
  qed (simp add: dash_runs.simps)
qed

lemma dash_runs_id: "list_all name_char s \<Longrightarrow> dash_runs s = s"
  by (induction s) (simp_all add: dash_runs.simps)

lemma replace_all_chars:
  "list_all P s \<Longrightarrow> list_all P new \<Longrightarrow> list_all P (replace_all s old new)"
proof (induction s rule: length_induct)
  case (1 s)
  show ?case
  proof (cases s)
    case (Cons c r)
    have "list_all P (drop (length old) s)" using 1(2) by (simp add: list_all_iff in_set_dropD)
    moreover have "old \<noteq> [] \<Longrightarrow> length (drop (length old) s) < length s" using Cons by simp
    ultimately show ?thesis using 1 Cons by (auto simp: replace_all_Cons)
  qed simp
qed

lemma replace_dashes_ends:
  assumes "s \<noteq> []" "last s \<noteq> CHR ''-''"
  shows "replace_all s ''--'' ''-'' \<noteq> []" "last (replace_all s ''--'' ''-'') = last s"
    "hd s \<noteq> CHR ''-'' \<Longrightarrow> hd (replace_all s ''--'' ''-'') = hd s"
proof -
  have "replace_all s ''--'' ''-'' \<noteq> [] \<and> last (replace_all s ''--'' ''-'') = last s"
    using assms
  proof (induction s rule: length_induct)
    case (1 s)
    obtain c r where s: "s = c # r" using 1(2) by (cases s) auto
    show ?case
    proof (cases "has_prefix s ''--''")
      case True
      then obtain t where t: "s = ''--'' @ t" by (auto simp: has_prefix_iff)
      then have "t \<noteq> []" "last t = last s" using 1(3) by (auto split: if_splits)
      have "length t < length s" by (simp add: t)
      with 1(1,3) \<open>t \<noteq> []\<close> \<open>last t = last s\<close>
      have "replace_all t ''--'' ''-'' \<noteq> [] \<and> last (replace_all t ''--'' ''-'') = last t" by metis
      with t \<open>last t = last s\<close> show ?thesis by (simp add: replace_all_Cons)
    next
      case False
      then have e: "replace_all s ''--'' ''-'' = c # replace_all r ''--'' ''-''" by (auto simp: s replace_all_Cons)
      show ?thesis
      proof (cases "r = []")
        case True
        with e s show ?thesis by simp
      next
        case False
        then have "last r = last s" "length r < length s" by (simp_all add: s)
        with 1(1,3) False have "replace_all r ''--'' ''-'' \<noteq> [] \<and> last (replace_all r ''--'' ''-'') = last r" by metis
        with False e s show ?thesis by simp
      qed
    qed
  qed
  then show "replace_all s ''--'' ''-'' \<noteq> []" "last (replace_all s ''--'' ''-'') = last s" by blast+
  show "hd (replace_all s ''--'' ''-'') = hd s" if "hd s \<noteq> CHR ''-''"
    using that assms(1) by (cases s) (auto simp: replace_all_Cons has_prefix_iff)
qed

lemma collapse_dashes_ends:
  "s \<noteq> [] \<Longrightarrow> hd s \<noteq> CHR ''-'' \<Longrightarrow> last s \<noteq> CHR ''-'' \<Longrightarrow>
     collapse_dashes s \<noteq> [] \<and> hd (collapse_dashes s) \<noteq> CHR ''-'' \<and> last (collapse_dashes s) \<noteq> CHR ''-''"
proof (induction s rule: collapse_dashes.induct)
  case (1 s)
  then show ?case
    using replace_dashes_ends [of s] by (cases "str_contains s ''--''") (simp_all add: collapse_dashes.simps [of s])
qed

lemma collapse_dashes_none: "\<not> str_contains (collapse_dashes s) ''--''"
proof (induction s rule: collapse_dashes.induct)
  case (1 s)
  then show ?case by (cases "str_contains s ''--''") (simp_all add: collapse_dashes.simps [of s])
qed

lemma collapse_dashes_chars: "list_all name_char s \<Longrightarrow> list_all name_char (collapse_dashes s)"
proof (induction s rule: collapse_dashes.induct)
  case (1 s)
  have "name_char (CHR ''-'')" by (simp add: name_char_def)
  with 1 show ?case
    by (cases "str_contains s ''--''") (simp_all add: collapse_dashes.simps [of s] replace_all_chars)
qed

text \<open>Trimming cuts at both ends and leaves no dash there.\<close>

lemma dashes_around: "s = takeWhile (\<lambda>c. c = CHR ''-'') s @ trim_dashes s
    @ rev (takeWhile (\<lambda>c. c = CHR ''-'') (rev (dropWhile (\<lambda>c. c = CHR ''-'') s)))"
  unfolding trim_dashes_def trim_right_def rev_append [symmetric] by simp

lemma trim_dashes_parts: "\<exists>a b. s = a @ trim_dashes s @ b"
  using dashes_around by blast

lemma trim_dashes_ends:
  assumes "trim_dashes s \<noteq> []"
  shows "hd (trim_dashes s) \<noteq> CHR ''-''" "last (trim_dashes s) \<noteq> CHR ''-''"
proof -
  define t where "t = dropWhile (\<lambda>c. c = CHR ''-'') s"
  define u where "u = dropWhile (\<lambda>c. c = CHR ''-'') (rev t)"
  have tr: "trim_dashes s = rev u" by (simp add: trim_dashes_def trim_right_def t_def u_def)
  then have "u \<noteq> []" using assms by simp
  then have "hd u \<noteq> CHR ''-''" unfolding u_def by (rule hd_dropWhile)
  then show "last (trim_dashes s) \<noteq> CHR ''-''" using \<open>u \<noteq> []\<close> by (simp add: tr last_rev)
  have "rev t = takeWhile (\<lambda>c. c = CHR ''-'') (rev t) @ u" by (simp add: u_def)
  then have "t = rev u @ rev (takeWhile (\<lambda>c. c = CHR ''-'') (rev t))" by (metis rev_append rev_rev_ident)
  then have "hd t = hd (rev u @ rev (takeWhile (\<lambda>c. c = CHR ''-'') (rev t)))" by (rule arg_cong)
  then have "hd t = hd (trim_dashes s)" using \<open>u \<noteq> []\<close> by (simp add: tr)
  moreover have "t \<noteq> []" using \<open>u \<noteq> []\<close> by (auto simp: u_def)
  then have "hd t \<noteq> CHR ''-''" unfolding t_def by (rule hd_dropWhile)
  ultimately show "hd (trim_dashes s) \<noteq> CHR ''-''" by simp
qed

lemma sanitize_label: "agent_label (sanitize_agent_name s)"
proof -
  let ?d = "dash_runs (to_lower (trim_space s))"
  let ?t = "collapse_dashes (trim_dashes ?d)"
  obtain a b where "?d = a @ trim_dashes ?d @ b" using trim_dashes_parts by blast
  then have "list_all name_char (trim_dashes ?d)" using dash_runs_name_chars [of "to_lower (trim_space s)"]
    by (metis list_all_append)
  then have chars: "list_all name_char ?t" by (rule collapse_dashes_chars)
  have ends: "?t \<noteq> [] \<longrightarrow> hd ?t \<noteq> CHR ''-'' \<and> last ?t \<noteq> CHR ''-''"
    using trim_dashes_ends [of ?d] collapse_dashes_ends [of "trim_dashes ?d"]
    by (cases "trim_dashes ?d = []") (auto simp: collapse_dashes.simps)
  have none: "\<not> str_contains ?t ''--''" by (rule collapse_dashes_none)
  show ?thesis
  proof (cases "30 < length ?t")
    case False
    with chars ends none show ?thesis by (simp add: agent_label_def sanitize_agent_name_def Let_def)
  next
    case True
    then have e: "sanitize_agent_name s = trim_dashes (take 30 ?t)" by (simp add: sanitize_agent_name_def Let_def)
    obtain a b where p: "take 30 ?t = a @ sanitize_agent_name s @ b" using trim_dashes_parts e by metis
    then have q: "?t = a @ sanitize_agent_name s @ (b @ drop 30 ?t)" using append_take_drop_id [of 30 ?t] by simp
    have "length (take 30 ?t) \<le> 30" by simp
    then have "length (sanitize_agent_name s) \<le> 30" unfolding p by simp
    moreover have "list_all name_char (sanitize_agent_name s)" using chars q by (metis list_all_append)
    moreover have "\<not> str_contains (sanitize_agent_name s) ''--''"
      using none q str_contains_infix [of "sanitize_agent_name s" "''--''" a "b @ drop 30 ?t"] by metis
    moreover have "sanitize_agent_name s \<noteq> [] \<longrightarrow> hd (sanitize_agent_name s) \<noteq> CHR ''-'' \<and> last (sanitize_agent_name s) \<noteq> CHR ''-''"
      using trim_dashes_ends [of "take 30 ?t"] e by simp
    ultimately show ?thesis by (simp add: agent_label_def)
  qed
qed

lemma name_char_facts: "name_char c \<Longrightarrow> plain_char c \<and> lower_char c = c"
  by (auto simp: name_char_def plain_char_def is_digit_def lower_char_def Let_def)

lemma trim_space_names:
  assumes "list_all name_char s" shows "trim_space s = s"
proof (cases s)
  case (Cons c r)
  show ?thesis
  proof (cases r rule: rev_cases)
    case Nil
    with Cons assms show ?thesis using trim_space_plain(2) [of c c] name_char_facts by auto
  next
    case (snoc m d)
    with Cons assms show ?thesis using trim_space_plain(1) [of c d m] name_char_facts by auto
  qed
qed simp

lemma sanitize_id:
  assumes "agent_label s" shows "sanitize_agent_name s = s"
proof -
  have cs: "list_all name_char s" and len: "length s \<le> 30" and none: "\<not> str_contains s ''--''"
    and ends: "s \<noteq> [] \<Longrightarrow> hd s \<noteq> CHR ''-'' \<and> last s \<noteq> CHR ''-''"
    using assms by (auto simp: agent_label_def)
  have low: "to_lower s = s" unfolding to_lower_def using cs name_char_facts by (intro map_idI) (auto simp: list_all_iff)
  have trim: "trim_dashes s = s"
  proof (cases "s = []")
    case False
    then have "dropWhile (\<lambda>c. c = CHR ''-'') s = s" using ends by (cases s) auto
    moreover have "dropWhile (\<lambda>c. c = CHR ''-'') (rev s) = rev s" using False ends by (cases s rule: rev_cases) auto
    ultimately show ?thesis by (simp add: trim_dashes_def trim_right_def)
  qed (simp add: trim_dashes_def trim_right_def)
  have "collapse_dashes s = s" using none by (simp add: collapse_dashes.simps)
  then show ?thesis
    using len by (simp add: sanitize_agent_name_def trim_space_names [OF cs] low dash_runs_id [OF cs] trim)
qed

text \<open>
  C39: Whatever a model or a description proposes as the name of an agent, the name that is used is a DNS
  label of at most 30 characters without double dashes (or empty, which callers check), and sanitising
  it again does not change it.
\<close>

theorem sanitized_name_is_label:
  "agent_label (sanitize_agent_name s) \<and> sanitize_agent_name (sanitize_agent_name s) = sanitize_agent_name s"
  using sanitize_label sanitize_id by blast

text \<open>
  Two agents whose names differ only in the ending \<open>-gateway\<close> are placed on one gateway.
\<close>

lemma own_team_shared:
  assumes "agent_label s" "agent_label (s @ ''-gateway'')" "s \<noteq> []"
  shows "own_team_for (s @ ''-gateway'') = own_team_for s \<or> has_suffix s ''-gateway''"
proof -
  have "trim_space s = s" "trim_space (s @ ''-gateway'') = s @ ''-gateway''"
    using assms(1,2) by (simp_all only: agent_label_def trim_space_names)
  then show ?thesis by (auto simp: own_team_for_def trim_suffix_def has_suffix_iff)
qed

end
