(* ===== verification/Selection.thy ===== *)
theory Selection
  imports CatalogTypes
begin

text \<open>
  \<open>completeSelection\<close> and \<open>dropContained\<close> of \<open>catalog_recommend_gateway.go\<close>, and \<open>applyRefineOps\<close> of
  \<open>catalog_refine.go\<close>: a selection of packs is made complete for what its packs require, then what a
  larger pack of the selection contains is dropped; a conversation edits a selection by operations.
\<close>

definition picked :: "recommend_pack list \<Rightarrow> string \<Rightarrow> bool" where
  "picked cs n \<longleftrightarrow> n \<in> rp_name ` set cs"

text \<open>The pack that lists a name as a member: of several the last, the empty name when there is none.\<close>

definition parents :: "catalog_pack list \<Rightarrow> string gomap" where
  "parents ps = foldl (\<lambda>m p. foldl (\<lambda>m x. gm_set m x (cp_Name p)) m (cp_Members p)) [] ps"

definition name_at :: "string gomap \<Rightarrow> string \<Rightarrow> string" where
  "name_at m k = (case gm_get m k of None \<Rightarrow> [] | Some v \<Rightarrow> v)"

definition parent_of_pack :: "catalog_pack list \<Rightarrow> string \<Rightarrow> string" where
  "parent_of_pack packs n = name_at (parents packs) n"

definition meta_of :: "catalog_pack list \<Rightarrow> string \<Rightarrow> string" where
  "meta_of packs n = name_at (parents (filter (\<lambda>p. cp_ArtifactKind p = ''meta-pack'') packs)) n"

subsection \<open>Completing a selection\<close>

definition pack_of :: "catalog_pack \<Rightarrow> string" where
  "pack_of p = (if cp_ArtifactKind p = ''pack'' then cp_Name p else cp_Member p)"

definition requires_of :: "catalog_pack list \<Rightarrow> string \<Rightarrow> catalog_requirement list" where
  "requires_of packs n = (case gm_get (by_pack_name packs) n of None \<Rightarrow> [] | Some p \<Rightarrow> cp_PackRequires p)"

text \<open>\<open>picked\<close> of the code holds exactly the names of \<open>out\<close>.\<close>

definition add_pick :: "catalog_pack list \<Rightarrow> string \<Rightarrow> string \<Rightarrow> recommend_pack list \<Rightarrow> recommend_pack list" where
  "add_pick packs name reason out =
     (if name = [] \<or> picked out name then out
      else case gm_get (by_pack_name packs) name of
        None \<Rightarrow> out | Some p \<Rightarrow> out @ [\<lparr>rp_Pack = p, rp_Reason = reason\<rparr>])"

definition unmet :: "catalog_pack list \<Rightarrow> recommend_pack list \<Rightarrow> string \<Rightarrow> string list" where
  "unmet packs out pack = map cr_Name (filter (\<lambda>r. \<not> cr_Satisfied r \<and> \<not> picked out (cr_Name r)) (requires_of packs pack))"

definition complete_step ::
    "catalog_pack list \<Rightarrow> recommend_pack list \<times> bool \<Rightarrow> recommend_pack \<Rightarrow> recommend_pack list \<times> bool" where
  "complete_step packs st c =
     (let (out, grew) = st; pack = pack_of (rp_Pack c); un = unmet packs out pack; meta = meta_of packs pack in
      if pack = [] \<or> un = [] then st
      else if meta \<noteq> [] \<and> requires_of packs meta = [] \<and> \<not> picked out meta then
        (add_pick packs meta (''self-contained parent of '' @ pack @ '', which needs '' @ join '', '' un) out, True)
      else (foldl (\<lambda>o1 u. add_pick packs u (''required by '' @ pack) o1) out un, True))"

definition complete_pass :: "catalog_pack list \<Rightarrow> recommend_pack list \<Rightarrow> recommend_pack list \<times> bool" where
  "complete_pass packs out = foldl (complete_step packs) (out, False) out"

fun complete_passes :: "catalog_pack list \<Rightarrow> nat \<Rightarrow> recommend_pack list \<Rightarrow> recommend_pack list" where
  "complete_passes packs 0 out = out"
| "complete_passes packs (Suc n) out =
     (case complete_pass packs out of (out1, grew) \<Rightarrow> if grew then complete_passes packs n out1 else out1)"

definition complete_selection :: "recommend_pack list \<Rightarrow> catalog_pack list \<Rightarrow> recommend_pack list" where
  "complete_selection chosen packs = (if chosen = [] then chosen else complete_passes packs 8 chosen)"

subsection \<open>Dropping what is contained\<close>

text \<open>The names of the packs that bring this one along, as far as the code looks.\<close>

definition containers :: "catalog_pack list \<Rightarrow> catalog_pack \<Rightarrow> string list" where
  "containers packs p =
     (if cp_Member p = [] then [] else [cp_Member p, parent_of_pack packs (cp_Member p)]) @ [parent_of_pack packs (cp_Name p)]"

definition drop_contained :: "recommend_pack list \<Rightarrow> catalog_pack list \<Rightarrow> recommend_pack list" where
  "drop_contained chosen packs =
     (if length chosen < 2 then chosen
      else filter (\<lambda>c. \<not> list_ex (picked chosen) (containers packs (rp_Pack c))) chosen)"

subsection \<open>What completing does\<close>

text \<open>A selection grows by catalogue entries of new names.\<close>

definition grows :: "catalog_pack list \<Rightarrow> recommend_pack list \<Rightarrow> recommend_pack list \<Rightarrow> bool" where
  "grows packs a b \<longleftrightarrow> (\<exists>ex. b = a @ ex \<and> distinct (map rp_name ex) \<and> (\<forall>e \<in> set ex. rp_Pack e \<in> set packs \<and> \<not> picked a (rp_name e)))"

lemma grows_refl: "grows packs a a"
  by (simp add: grows_def)

lemma grows_trans:
  assumes "grows packs a b" "grows packs b c" shows "grows packs a c"
proof -
  obtain x where x: "b = a @ x" "distinct (map rp_name x)" "\<forall>e \<in> set x. rp_Pack e \<in> set packs \<and> \<not> picked a (rp_name e)"
    using assms(1) unfolding grows_def by (elim exE conjE)
  obtain y where y: "c = b @ y" "distinct (map rp_name y)" "\<forall>e \<in> set y. rp_Pack e \<in> set packs \<and> \<not> picked b (rp_name e)"
    using assms(2) unfolding grows_def by (elim exE conjE)
  have pb: "picked b n \<longleftrightarrow> picked a n \<or> n \<in> rp_name ` set x" for n unfolding picked_def x(1) set_append image_Un by (rule Un_iff)
  have "n \<notin> rp_name ` set x" if "n \<in> rp_name ` set y" for n
  proof -
    from that obtain e where "e \<in> set y" "n = rp_name e" by auto
    then show ?thesis using y(3) pb [of n] by simp
  qed
  then have "rp_name ` set x \<inter> rp_name ` set y = {}" by (simp only: disjoint_iff) metis
  then have "distinct (map rp_name (x @ y))" using x(2) y(2) by simp
  moreover have "\<forall>e \<in> set (x @ y). rp_Pack e \<in> set packs \<and> \<not> picked a (rp_name e)" using x(3) y(3) pb by (simp add: ball_Un)
  moreover have "c = a @ (x @ y)" by (simp add: x(1) y(1))
  ultimately show ?thesis unfolding grows_def by blast
qed

interpretation growth: frame "\<lambda>a b. grows packs a b" for packs
  by unfold_locales (fact grows_refl, fact grows_trans)

interpretation growth_st: frame "\<lambda>a b. grows packs (fst a) (fst b)" for packs
  by unfold_locales (simp_all add: grows_refl, rule grows_trans)

lemma by_pack_name_get: "gm_get (by_pack_name packs) n = Some p \<Longrightarrow> p \<in> set packs \<and> cp_Name p = n"
  unfolding by_pack_name_def by (induction packs rule: rev_induct) (auto split: if_splits)

lemma by_pack_name_some: "n \<in> cp_Name ` set packs \<Longrightarrow> gm_get (by_pack_name packs) n \<noteq> None"
  unfolding by_pack_name_def by (induction packs rule: rev_induct) auto

lemma parents_value: "gm_get (parents ps) k = Some n \<Longrightarrow> n \<in> cp_Name ` set ps"
proof (induction ps rule: rev_induct)
  case (snoc p ps)
  have "gm_get (foldl (\<lambda>m x. gm_set m x v) m xs) k = Some n \<Longrightarrow> n = v \<or> gm_get m k = Some n" for v m xs
  proof (induction xs arbitrary: m)
    case (Cons a xs)
    then show ?case using Cons.IH [of "gm_set m a v"] by (auto split: if_splits)
  qed simp
  with snoc show ?case by (fastforce simp: parents_def)
qed (simp add: parents_def)

lemma add_pick_grows: "grows packs out (add_pick packs name reason out)"
  by (auto simp: add_pick_def grows_def rp_name_def dest: by_pack_name_get split: option.split)

lemma add_pick_new:
  assumes "name \<noteq> []" "\<not> picked out name" "name \<in> cp_Name ` set packs"
  shows "length (add_pick packs name reason out) = Suc (length out)"
  using assms by_pack_name_some [of name packs] by (auto simp: add_pick_def)

lemma grows_length: "grows packs a b \<Longrightarrow> length a \<le> length b"
  by (auto simp: grows_def)

lemma complete_step_grows: "grows packs (fst st) (fst (complete_step packs st c))"
proof -
  have "grows packs out (foldl (\<lambda>o1 u. add_pick packs u r o1) out un)" for out r un
    by (rule growth.frame_foldl) (rule add_pick_grows)
  then show ?thesis
    by (auto simp: complete_step_def Let_def grows_refl add_pick_grows split: prod.split)
qed

lemma complete_pass_grows: "grows packs out (fst (complete_pass packs out))"
  using growth_st.frame_foldl [where f = "complete_step packs" and a = "(out, False)" and xs = out] complete_step_grows
  by (simp add: complete_pass_def)

lemma complete_passes_grows: "grows packs out (complete_passes packs n out)"
proof (induction n arbitrary: out)
  case (Suc n)
  obtain out1 g where p: "complete_pass packs out = (out1, g)" by fastforce
  then have "grows packs out out1" using complete_pass_grows [of packs out] by simp
  with Suc [of out1] p show ?case by (auto intro: grows_trans)
qed (simp add: grows_refl)

subsection \<open>When the selection is complete\<close>

definition dependency_complete :: "catalog_pack list \<Rightarrow> recommend_pack list \<Rightarrow> bool" where
  "dependency_complete packs out \<longleftrightarrow>
     (\<forall>c \<in> set out. pack_of (rp_Pack c) \<noteq> [] \<longrightarrow> unmet packs out (pack_of (rp_Pack c)) = [])"

text \<open>What a pack requires and the cluster lacks is in the catalogue.\<close>

definition requirements_listed :: "catalog_pack list \<Rightarrow> bool" where
  "requirements_listed packs \<longleftrightarrow>
     (\<forall>p \<in> set packs. \<forall>r \<in> set (cp_PackRequires p). \<not> cr_Satisfied r \<longrightarrow> cr_Name r \<noteq> [] \<and> cr_Name r \<in> cp_Name ` set packs)"

lemma unmet_listed:
  assumes "requirements_listed packs" "u \<in> set (unmet packs out pack)"
  shows "u \<noteq> [] \<and> u \<in> cp_Name ` set packs \<and> \<not> picked out u"
proof -
  obtain p r where p: "gm_get (by_pack_name packs) pack = Some p" "r \<in> set (cp_PackRequires p)"
      "\<not> cr_Satisfied r" "\<not> picked out (cr_Name r)" "u = cr_Name r"
    using assms(2) by (cases "gm_get (by_pack_name packs) pack") (auto simp: unmet_def requires_of_def)
  then show ?thesis using assms(1) by_pack_name_get [OF p(1)] by (auto simp: requirements_listed_def)
qed

lemma complete_step_cases:
  assumes "requirements_listed packs" "complete_step packs (out, g) c = (out1, g1)"
  shows "out1 = out \<and> g1 = g \<and> (pack_of (rp_Pack c) \<noteq> [] \<longrightarrow> unmet packs out (pack_of (rp_Pack c)) = [])
    \<or> g1 \<and> length out < length out1"
proof -
  let ?pack = "pack_of (rp_Pack c)"
  let ?un = "unmet packs out ?pack" and ?meta = "meta_of packs ?pack"
  consider (idle) "?pack = [] \<or> ?un = []" | (meta) "?pack \<noteq> []" "?un \<noteq> []" "?meta \<noteq> [] \<and> requires_of packs ?meta = [] \<and> \<not> picked out ?meta"
    | (pull) "?pack \<noteq> []" "?un \<noteq> []" "\<not> (?meta \<noteq> [] \<and> requires_of packs ?meta = [] \<and> \<not> picked out ?meta)" by blast
  then show ?thesis
  proof cases
    case idle
    with assms(2) show ?thesis by (auto simp: complete_step_def Let_def)
  next
    case meta
    then have "?meta \<in> cp_Name ` set packs"
      by (auto simp: meta_of_def name_at_def dest!: parents_value split: option.splits)
    with meta assms(2) add_pick_new show ?thesis by (auto simp: complete_step_def Let_def)
  next
    case pull
    then obtain u us where un: "?un = u # us" by (cases ?un) auto
    then have "u \<in> set ?un" by simp
    then have "u \<noteq> [] \<and> u \<in> cp_Name ` set packs \<and> \<not> picked out u" by (rule unmet_listed [OF assms(1)])
    then have "length out < length (add_pick packs u r out)" for r using add_pick_new by simp
    moreover have "length a \<le> length (foldl (\<lambda>o1 u. add_pick packs u r o1) a us)" for a r
      using growth.frame_foldl [where f = "\<lambda>o1 u. add_pick packs u r o1"] add_pick_grows by (metis grows_length)
    ultimately have "length out < length (foldl (\<lambda>o1 u. add_pick packs u r o1) out ?un)" for r
      by (simp add: un) (meson less_le_trans)
    with pull assms(2) show ?thesis by (auto simp: complete_step_def Let_def)
  qed
qed

lemma complete_pass_cases:
  assumes "requirements_listed packs" "complete_pass packs out = (out1, g)"
  shows "out1 = out \<and> dependency_complete packs out \<and> \<not> g \<or> g \<and> length out < length out1"
proof -
  have "foldl (complete_step packs) (out, False) cs = (out1, g) \<Longrightarrow>
      out1 = out \<and> (\<forall>c \<in> set cs. pack_of (rp_Pack c) \<noteq> [] \<longrightarrow> unmet packs out (pack_of (rp_Pack c)) = []) \<and> \<not> g
      \<or> g \<and> length out < length out1" for cs out1 g
  proof (induction cs arbitrary: out1 g rule: rev_induct)
    case (snoc c cs)
    obtain o2 g2 where 2: "foldl (complete_step packs) (out, False) cs = (o2, g2)" by fastforce
    then have "complete_step packs (o2, g2) c = (out1, g)" using snoc.prems by simp
    from complete_step_cases [OF assms(1) this] snoc.IH [OF 2] show ?case by auto
  qed simp
  with assms(2) show ?thesis by (simp add: complete_pass_def dependency_complete_def)
qed

lemma complete_passes_complete:
  "requirements_listed packs \<Longrightarrow> dependency_complete packs (complete_passes packs n out)
     \<or> length out + n \<le> length (complete_passes packs n out)"
proof (induction n arbitrary: out)
  case (Suc n)
  obtain out1 g where p: "complete_pass packs out = (out1, g)" by fastforce
  from complete_pass_cases [OF Suc.prems p] Suc.IH [OF Suc.prems, of out1] p show ?case by auto
qed simp


subsection \<open>What dropping keeps\<close>

text \<open>A selected container and a selected pack that it brings along.\<close>

definition brings :: "catalog_pack list \<Rightarrow> recommend_pack list \<Rightarrow> (string \<times> string) set" where
  "brings packs chosen =
     {(d, n). \<exists>e \<in> set chosen. n = rp_name e \<and> d \<in> set (containers packs (rp_Pack e)) \<and> picked chosen d}"

text \<open>Containment has no cycle among the selected packs.\<close>

definition ranked :: "(string \<Rightarrow> nat) \<Rightarrow> catalog_pack list \<Rightarrow> recommend_pack list \<Rightarrow> bool" where
  "ranked rank packs chosen \<longleftrightarrow>
     (\<forall>e \<in> set chosen. \<forall>d \<in> set (containers packs (rp_Pack e)). picked chosen d \<longrightarrow> rank d < rank (rp_name e))"


subsection \<open>Concrete catalogues\<close>

definition demo_pack :: "string \<Rightarrow> string \<Rightarrow> string \<Rightarrow> string list \<Rightarrow> string list \<Rightarrow> catalog_pack" where
  "demo_pack kind name member members reqs = empty_pack\<lparr>cp_ArtifactKind := kind, cp_Name := name, cp_Member := member,
     cp_Members := members, cp_PackRequires := map (\<lambda>r. \<lparr>cr_Name = r, cr_Range = [], cr_Satisfied = False\<rparr>) reqs\<rparr>"

definition demo_pick :: "catalog_pack \<Rightarrow> recommend_pack" where
  "demo_pick p = \<lparr>rp_Pack = p, rp_Reason = []\<rparr>"

definition demo_forge :: "catalog_pack list" where
  "demo_forge = [demo_pack ''meta-pack'' ''brain'' [] [''core'', ''terrain''] [], demo_pack ''pack'' ''core'' [] [] [],
     demo_pack ''pack'' ''terrain'' [] [] [''core''], demo_pack ''skill'' ''strokes'' ''terrain'' [] []]"


text \<open>The skill alone is completed by the pack that holds everything, and nothing else is left.\<close>

lemma demo_forge_selected:
  "map rp_name (drop_contained (complete_selection [demo_pick (demo_forge ! 3)] demo_forge) demo_forge) = [''brain'']"
  by code_simp


text \<open>A chain of requirements that is longer than the passes reach is left incomplete.\<close>

definition demo_chain :: "catalog_pack list" where
  "demo_chain = map (\<lambda>i. demo_pack ''pack'' (''p'' @ nat_str i) [] [] [''p'' @ nat_str (Suc i)]) [0..<9] @ [demo_pack ''pack'' ''p9'' [] [] []]"

lemma long_chain_incomplete:
  "requirements_listed demo_chain \<and> \<not> dependency_complete demo_chain (complete_selection [demo_pick (hd demo_chain)] demo_chain)"
  by code_simp

text \<open>
  A pack that is promoted to its self-contained parent still pulls in what it requires from elsewhere, in
  the next pass.
\<close>

lemma promoted_pack_still_pulls:
  "let packs = [demo_pack ''meta-pack'' ''all'' [] [''a''] [], demo_pack ''pack'' ''a'' [] [] [''b''], demo_pack ''pack'' ''b'' [] [] []]
   in map rp_name (drop_contained (complete_selection [demo_pick (packs ! 1)] packs) packs) = [''all'', ''b'']"
  by code_simp

text \<open>Of two parents of a pack only the last is looked at, so the pack is kept beside the first.\<close>

lemma second_parent_hides_first:
  "let packs = [demo_pack ''meta-pack'' ''m'' [] [''a''] [], demo_pack ''meta-pack'' ''n'' [] [''a''] [], demo_pack ''pack'' ''a'' [] [] []]
   in map rp_name (drop_contained [demo_pick (packs ! 0), demo_pick (packs ! 2)] packs) = [''m'', ''a'']"
  by code_simp

end
