(* ===== verification/Catalog.thy ===== *)
theory Catalog
  imports Selection
begin

text \<open>
  The catalogue itself: the registries it federates (\<open>catalog_registry.go\<close>), the entries it serves
  (\<open>catalog_skills.go\<close>, \<open>catalog_packs.go\<close>) and their installation on the cluster
  (\<open>catalog_install.go\<close>). HTTP is a parameter; the handlers are functions on decoded requests.
\<close>

text \<open>The namespace of the handler.\<close>

definition catalog_namespace :: string where
  "catalog_namespace = ''agent-office''"

record 'w catalog_env =
  ca_kube :: kube_env
  ca_http :: "'w http_env"
  ca_getenv :: "string \<Rightarrow> string"

text \<open>The registry cache: when it was filled (not at all, or reset) and with what.\<close>

record registry_cache =
  rca_fetched :: "gotime option"
  rca_packs :: "catalog_pack list"

subsection \<open>Decoding a registry index\<close>

text \<open>A string in a list; \<open>null\<close> decodes as the empty string.\<close>

definition decode_string :: "json \<Rightarrow> string option" where
  "decode_string v = (case v of JStr s \<Rightarrow> Some (valid_utf8 s) | JNull \<Rightarrow> Some [] | _ \<Rightarrow> None)"

text \<open>A pointer to a struct: \<open>null\<close> resets it, a repeated member is merged into it.\<close>

definition field_pointer ::
    "(json \<Rightarrow> 'a option) \<Rightarrow> string \<Rightarrow> string list \<Rightarrow> (string \<times> json) list \<Rightarrow> 'a option option" where
  "field_pointer dec name names kvs =
     (let vs = map snd (filter (\<lambda>(k, v). k = name \<or> (k \<notin> set names \<and> to_lower k = to_lower name)) kvs);
          merged = foldl (\<lambda>acc v. case acc of None \<Rightarrow> None
            | Some cur \<Rightarrow> (case v of JNull \<Rightarrow> Some None
                | JObj k \<Rightarrow> Some (Some ((case cur of None \<Rightarrow> [] | Some k0 \<Rightarrow> k0) @ k)) | _ \<Rightarrow> None)) (Some None) vs
      in case merged of None \<Rightarrow> None | Some None \<Rightarrow> Some None | Some (Some k) \<Rightarrow> map_option Some (dec (JObj k)))"

definition decode_recipe :: "json \<Rightarrow> tool_recipe option" where
  "decode_recipe v =
     (let names = [''url'', ''type'', ''authHeaderValue'', ''envFromSecret''] in
      do { kvs \<leftarrow> object_members v;
           u \<leftarrow> field_str ''url'' names kvs;
           t \<leftarrow> field_str ''type'' names kvs;
           h \<leftarrow> field_str ''authHeaderValue'' names kvs;
           e \<leftarrow> field_str ''envFromSecret'' names kvs;
           Some \<lparr>tr_URL = u, tr_Type = t, tr_AuthHeaderValue = h, tr_EnvFromSecret = e\<rparr> })"

definition decode_registry_ref :: "json \<Rightarrow> registry_ref option" where
  "decode_registry_ref v =
     do { kvs \<leftarrow> object_members v;
          n \<leftarrow> field_str ''name'' [''name'', ''key''] kvs;
          k \<leftarrow> field_str ''key'' [''name'', ''key''] kvs;
          Some \<lparr>rr_Name = n, rr_Key = k\<rparr> }"

definition decode_tool :: "json \<Rightarrow> registry_tool option" where
  "decode_tool v =
     (let names = [''mode'', ''prefix'', ''path'', ''hint'', ''category'', ''routeRef'', ''credentialRef'', ''recipe''] in
      do { kvs \<leftarrow> object_members v;
           m \<leftarrow> field_str ''mode'' names kvs;
           pr \<leftarrow> field_str ''prefix'' names kvs;
           pa \<leftarrow> field_str ''path'' names kvs;
           h \<leftarrow> field_str ''hint'' names kvs;
           c \<leftarrow> field_list decode_string ''category'' names kvs;
           r \<leftarrow> field_str ''routeRef'' names kvs;
           cr \<leftarrow> field_pointer decode_registry_ref ''credentialRef'' names kvs;
           re \<leftarrow> field_pointer decode_recipe ''recipe'' names kvs;
           Some \<lparr>rt_Mode = m, rt_Prefix = pr, rt_Path = pa, rt_Hint = h, rt_Category = c, rt_RouteRef = r,
                 rt_CredentialRef = cr, rt_Recipe = re\<rparr> })"

record registry_artifact =
  ra_Namespace :: string
  ra_Name :: string
  ra_Version :: string
  ra_Kind :: string
  ra_Description :: string
  ra_Manifest :: string
  ra_Content :: string
  ra_OCI :: string
  ra_Digest :: string
  ra_Site :: string
  ra_Member :: string
  ra_Members :: "string list"
  ra_Skills :: "string list"
  ra_Provides :: "string list"
  ra_Tool :: "registry_tool option"
  ra_Requires :: "json option"

definition decode_artifact :: "json \<Rightarrow> registry_artifact option" where
  "decode_artifact v =
     (let names = [''namespace'', ''name'', ''version'', ''kind'', ''description'', ''manifest'', ''content'', ''oci'', ''digest'',
                   ''site'', ''member'', ''members'', ''skills'', ''provides'', ''tool'', ''requires''] in
      do { kvs \<leftarrow> object_members v;
           ns \<leftarrow> field_str ''namespace'' names kvs;
           n \<leftarrow> field_str ''name'' names kvs;
           ver \<leftarrow> field_str ''version'' names kvs;
           k \<leftarrow> field_str ''kind'' names kvs;
           d \<leftarrow> field_str ''description'' names kvs;
           mf \<leftarrow> field_str ''manifest'' names kvs;
           c \<leftarrow> field_str ''content'' names kvs;
           oci \<leftarrow> field_str ''oci'' names kvs;
           dg \<leftarrow> field_str ''digest'' names kvs;
           site \<leftarrow> field_str ''site'' names kvs;
           mb \<leftarrow> field_str ''member'' names kvs;
           ms \<leftarrow> field_list decode_string ''members'' names kvs;
           sk \<leftarrow> field_list decode_string ''skills'' names kvs;
           pv \<leftarrow> field_list decode_string ''provides'' names kvs;
           t \<leftarrow> field_pointer decode_tool ''tool'' names kvs;
           Some \<lparr>ra_Namespace = ns, ra_Name = n, ra_Version = ver, ra_Kind = k, ra_Description = d, ra_Manifest = mf,
                 ra_Content = c, ra_OCI = oci, ra_Digest = dg, ra_Site = site, ra_Member = mb, ra_Members = ms, ra_Skills = sk,
                 ra_Provides = pv, ra_Tool = t,
                 ra_Requires = (case rev (members_of ''requires'' names kvs) of [] \<Rightarrow> None | r # _ \<Rightarrow> Some r)\<rparr> })"

text \<open>\<open>registryIndex\<close>: the name of the registry and its artifacts.\<close>

record registry_index =
  rix_Registry :: string
  rix_APIVersion :: string
  rix_Artifacts :: "registry_artifact list"

definition decode_index :: "json \<Rightarrow> registry_index option" where
  "decode_index v =
     (let names = [''registry'', ''apiVersion'', ''artifacts''] in
      do { kvs \<leftarrow> object_members v;
           r \<leftarrow> field_str ''registry'' names kvs;
           a \<leftarrow> field_str ''apiVersion'' names kvs;
           xs \<leftarrow> field_list decode_artifact ''artifacts'' names kvs;
           Some \<lparr>rix_Registry = r, rix_APIVersion = a, rix_Artifacts = xs\<rparr> })"

text \<open>The two graphs that \<open>requires\<close> carries: resources of the cluster, and other packs.\<close>

definition decode_requirement :: "json \<Rightarrow> (string \<times> string \<times> string) option" where
  "decode_requirement v =
     (let names = [''kind'', ''name'', ''range''] in
      do { kvs \<leftarrow> object_members v;
           k \<leftarrow> field_str ''kind'' names kvs;
           n \<leftarrow> field_str ''name'' names kvs;
           r \<leftarrow> field_str ''range'' names kvs;
           Some (k, n, r) })"

definition decode_slice :: "(json \<Rightarrow> 'a option) \<Rightarrow> json \<Rightarrow> 'a list option" where
  "decode_slice dec v = (case v of JNull \<Rightarrow> Some [] | JArr vs \<Rightarrow> those (map dec vs) | _ \<Rightarrow> None)"

definition requirement :: "string \<Rightarrow> string \<Rightarrow> catalog_requirement" where
  "requirement n r = \<lparr>cr_Name = n, cr_Range = r, cr_Satisfied = False\<rparr>"

definition parse_requires :: "json option \<Rightarrow> catalog_dependency list \<times> catalog_requirement list" where
  "parse_requires req =
     (case req of
        None \<Rightarrow> ([], [])
      | Some v \<Rightarrow>
         (case decode_slice decode_requirement v of
            Some objs \<Rightarrow>
              (map (\<lambda>(k, n, r). \<lparr>cd_Kind = k, cd_Name = n, cd_Optional = False, cd_Available = False, cd_GatewayURL = []\<rparr>)
                 (filter (\<lambda>(k, n, r). k \<noteq> [] \<and> n \<noteq> []) objs),
               map (\<lambda>(k, n, r). requirement n r) (filter (\<lambda>(k, n, r). k = [] \<and> n \<noteq> []) objs))
          | None \<Rightarrow>
              (case decode_slice decode_string v of
                 None \<Rightarrow> ([], [])
               | Some names \<Rightarrow> ([], map (\<lambda>n. requirement n []) (filter (\<lambda>n. n \<noteq> []) names)))))"

subsection \<open>Federation\<close>

text \<open>A path of an index, made absolute.\<close>

definition absolute_url :: "string \<Rightarrow> string \<Rightarrow> string" where
  "absolute_url base p =
     (if p = [] \<or> has_prefix p ''http'' then p
      else if has_prefix p ''/'' then
        (case str_index base ''://'' of
           None \<Rightarrow> base @ p
         | Some i \<Rightarrow>
             (case str_index (drop (i + 3) base) ''/'' of
                None \<Rightarrow> base @ p
              | Some j \<Rightarrow> (if 0 < i \<and> 0 < j then take (i + 3 + j) base @ p else base @ p)))
      else base @ ''/'' @ p)"

definition remote_to_pack :: "string \<Rightarrow> string \<Rightarrow> registry_artifact \<Rightarrow> catalog_pack" where
  "remote_to_pack registry base a =
     (let (deps, reqs) = parse_requires (ra_Requires a); tool = (ra_Kind a = ''tool'') in
      \<lparr>cp_Type = (if tool then ''tool'' else ''skill''), cp_Name = ra_Name a, cp_DisplayName = ra_Name a,
       cp_Description = (if ra_Kind a = ''meta-pack'' \<and> ra_Members a \<noteq> []
                         then ra_Description a @ '' (meta-pack: '' @ join '', '' (ra_Members a) @ '')'' else ra_Description a),
       cp_Version = ra_Version a, cp_Tier = ''mindifact'', cp_Requires = [], cp_Dependencies = deps,
       cp_Recipe = (if tool then (case ra_Tool a of None \<Rightarrow> None | Some t \<Rightarrow> rt_Recipe t) else None),
       cp_GatewayRef = [], cp_Installed = False, cp_Registry = registry, cp_Namespace = ra_Namespace a,
       cp_ArtifactKind = ra_Kind a, cp_Member = ra_Member a, cp_Members = ra_Members a, cp_Skills = ra_Skills a,
       cp_PackRequires = reqs, cp_Provides = ra_Provides a, cp_Tool = ra_Tool a, cp_Manifest = absolute_url base (ra_Manifest a),
       cp_ContentURL = absolute_url base (ra_Content a), cp_OCI = ra_OCI a\<rparr>)"

definition fetch_registry_index :: "'w http_env \<Rightarrow> 'w \<Rightarrow> string \<Rightarrow> 'w \<times> registry_index result" where
  "fetch_registry_index he w url =
     (case he_url_err he url of
        Some e \<Rightarrow> (w, Inl e)
      | None \<Rightarrow>
          and_then (he_do he \<lparr>hr_Method = ''GET'', hr_URL = url, hr_Header = [(''Accept'', ''application/json'')], hr_Body = NoBody\<rparr> w)
            (\<lambda>w resp.
              if hs_Status resp \<noteq> 200 then (w, Inl (''registry '' @ url @ '': HTTP '' @ itoa (hs_Status resp)))
              else case hs_Body resp of
                Inl e \<Rightarrow> (w, Inl e)
              | Inr body \<Rightarrow>
                  (case unmarshal decode_index (take (4 * 2 ^ 20) body) of
                     None \<Rightarrow> (w, Inl ''invalid index'')
                   | Some idx \<Rightarrow> (w, Inr idx))))"

definition registry_dir :: "string \<Rightarrow> string" where
  "registry_dir u = (case last_index_byte u CHR ''/'' of None \<Rightarrow> u | Some i \<Rightarrow> (if 0 < i then take i u else u))"

definition fetch_registry :: "'w http_env \<Rightarrow> 'w \<times> catalog_pack list \<Rightarrow> string \<Rightarrow> 'w \<times> catalog_pack list" where
  "fetch_registry he st u =
     (let (w, out) = st in
      if u = [] then st
      else case fetch_registry_index he w u of
        (w1, Inl _) \<Rightarrow> (w1, out)
      | (w1, Inr idx) \<Rightarrow> (w1, out @ map (remote_to_pack (rix_Registry idx) (registry_dir u)) (rix_Artifacts idx)))"

definition registry_packs :: "'w catalog_env \<Rightarrow> 'w \<times> registry_cache \<Rightarrow> ('w \<times> registry_cache) \<times> catalog_pack list" where
  "registry_packs env st =
     (let (w, cache) = st; raw = trim_space (ca_getenv env ''AGENT_REGISTRY_URLS'') in
      if raw = [] then (st, [])
      else if (case rca_fetched cache of None \<Rightarrow> False | Some t \<Rightarrow> ke_now (ca_kube env) - t < registry_ttl) \<and> rca_packs cache \<noteq> []
      then (st, rca_packs cache)
      else let (w1, out) = foldl (fetch_registry (ca_http env)) (w, []) (map trim_space (split_byte (CHR '','') raw)) in
        if out = [] \<and> rca_packs cache \<noteq> [] then ((w1, cache), rca_packs cache)
        else ((w1, \<lparr>rca_fetched = Some (ke_now (ca_kube env)), rca_packs = out\<rparr>), out))"

subsection \<open>Entries\<close>

definition shared_gateway_url :: "string \<Rightarrow> string" where
  "shared_gateway_url ns = ''http://mcp-gateway-data-science-gateway-class.'' @ ns @ ''.svc.cluster.local/mcp''"

definition enrich_dependency :: "kube_env \<Rightarrow> kube \<Rightarrow> skill_dependency \<Rightarrow> catalog_dependency" where
  "enrich_dependency ke k d =
     (let mcp = (skd_Kind d = ''mcpServer'' \<and> is_ok (api_read ke Registrations reg_meta (ku_registrations k) catalog_namespace (skd_Name d)));
          kb = (skd_Kind d = ''knowledgeBase'' \<and> is_ok (api_read ke KnowledgeBases kb_meta (ku_knowledge_bases k) catalog_namespace (skd_Name d)))
      in \<lparr>cd_Kind = skd_Kind d, cd_Name = skd_Name d, cd_Optional = skd_Optional d, cd_Available = mcp \<or> kb,
          cd_GatewayURL = (if mcp then shared_gateway_url catalog_namespace else [])\<rparr>)"

record skill_entry =
  sce_Name :: string
  sce_DisplayName :: string
  sce_Description :: string
  sce_Version :: string
  sce_Tier :: string
  sce_SourceRepo :: string
  sce_SourceRevision :: string
  sce_ContentSHA256 :: string
  sce_Tool :: string
  sce_Requires :: "string list"
  sce_Dependencies :: "catalog_dependency list"

definition annotation_value :: "object_meta \<Rightarrow> string \<Rightarrow> string" where
  "annotation_value m a = name_at (om_Annotations m) a"

definition to_catalog_entry :: "kube_env \<Rightarrow> kube \<Rightarrow> skill \<Rightarrow> skill_entry" where
  "to_catalog_entry ke k s =
     (let m = skl_meta s; sp = skl_Spec s in
      \<lparr>sce_Name = om_Name m, sce_DisplayName = default_if_empty (sk_DisplayName sp) (om_Name m), sce_Description = sk_Description sp,
       sce_Version = sk_Version sp, sce_Tier = default_if_empty (label_value m ''agentoffice.ai/skill-tier'') ''customer-authored'',
       sce_SourceRepo = label_value m ''agentoffice.ai/source-repo'',
       sce_SourceRevision = label_value m ''agentoffice.ai/source-revision'', sce_ContentSHA256 = skst_ContentSHA256 (skl_Status s),
       sce_Tool = ski_Tool (sk_Invocation sp), sce_Requires = sk_Requires sp,
       sce_Dependencies = map (enrich_dependency ke k) (sk_Dependencies sp)\<rparr>)"

definition list_catalog_skills :: "kube_env \<Rightarrow> kube \<Rightarrow> string \<Rightarrow> string \<Rightarrow> skill_entry list result" where
  "list_catalog_skills ke k query tier =
     (let q = to_lower (trim_space query); t = trim_space tier in
      case api_list ke Skills skl_meta (ku_skills k) catalog_namespace of
        Inl e \<Rightarrow> Inl (''listing skills: '' @ e)
      | Inr skills \<Rightarrow>
          Inr (sort_key sce_Name
            (filter (\<lambda>e. (t = [] \<or> sce_Tier e = t)
                \<and> (q = [] \<or> str_contains (to_lower (sce_Name e @ '' '' @ sce_DisplayName e @ '' '' @ sce_Description e)) q))
              (map (to_catalog_entry ke k) skills))))"

definition resolve_skill_md :: "kube_env \<Rightarrow> kube \<Rightarrow> skill \<Rightarrow> string result" where
  "resolve_skill_md ke k s =
     (let src = sk_Source (skl_Spec s) in
      if sks_Inline src \<noteq> [] then Inr (sks_Inline src)
      else case sks_ConfigMapRef src of
        None \<Rightarrow> Inl (''skill '' @ go_quote (om_Name (skl_meta s)) @ '' has neither inline nor configMapRef source'')
      | Some ref \<Rightarrow>
         (case api_read ke ConfigMaps cm_meta (ku_config_maps k) catalog_namespace (cms_Name ref) of
            Inl e \<Rightarrow> Inl (''getting configmap '' @ go_quote (cms_Name ref) @ '': '' @ e)
          | Inr cm \<Rightarrow>
             (case gm_get (cm_Data cm) (cms_Key ref) of
                None \<Rightarrow> Inl (''configmap '' @ go_quote (cms_Name ref) @ '' has no key '' @ go_quote (cms_Key ref))
              | Some body \<Rightarrow> Inr body)))"

text \<open>The answer to a request for one skill: a status with an error, or the entry, the text and the prompt.\<close>

definition get_catalog_skill :: "kube_env \<Rightarrow> kube \<Rightarrow> string \<Rightarrow> (int \<times> string) + (skill_entry \<times> string \<times> string)" where
  "get_catalog_skill ke k name =
     (case api_get ke Skills skl_meta (ku_skills k) catalog_namespace name of
        NotFound _ \<Rightarrow> Inl (404, ''skill '' @ go_quote name @ '' not found'')
      | Failed e \<Rightarrow> Inl (500, ''getting skill '' @ go_quote name @ '': '' @ e)
      | Found s \<Rightarrow>
         (case resolve_skill_md ke k s of
            Inl e \<Rightarrow> Inl (500, ''resolving skill body: '' @ e)
          | Inr body \<Rightarrow>
              Inr ((to_catalog_entry ke k s)\<lparr>sce_ContentSHA256 := hex_encode (sha256 body)\<rparr>, body,
                   ski_PromptTemplate (sk_Invocation (skl_Spec s)))))"

subsection \<open>All packs\<close>

definition skill_pack :: "kube_env \<Rightarrow> kube \<Rightarrow> skill \<Rightarrow> catalog_pack" where
  "skill_pack ke k s =
     (let e = to_catalog_entry ke k s in
      empty_pack\<lparr>cp_Type := ''skill'', cp_Name := sce_Name e, cp_DisplayName := sce_DisplayName e, cp_Description := sce_Description e,
        cp_Version := sce_Version e, cp_Tier := sce_Tier e, cp_Requires := sce_Requires e, cp_Dependencies := sce_Dependencies e,
        cp_Installed := True, cp_ArtifactKind := ''skill'', cp_Member := label_value (skl_meta s) ''agentoffice.ai/pack'',
        cp_Registry := annotation_value (skl_meta s) ''agentoffice.ai/registry''\<rparr>)"

definition registration_recipe :: "string \<Rightarrow> tool_recipe" where
  "registration_recipe raw =
     (let usual = \<lparr>tr_URL = shared_gateway_url catalog_namespace, tr_Type = ''http'', tr_AuthHeaderValue = [], tr_EnvFromSecret = []\<rparr> in
      if raw = [] then usual
      else case unmarshal decode_recipe raw of None \<Rightarrow> usual | Some r \<Rightarrow> (if tr_URL r \<noteq> [] then r else usual))"

definition registration_pack :: "mcp_registration \<Rightarrow> catalog_pack" where
  "registration_pack reg =
     (let m = reg_meta reg; n = om_Name m in
      empty_pack\<lparr>cp_Type := ''tool'', cp_Name := n,
        cp_DisplayName := default_if_empty (annotation_value m ''agentoffice.ai/display-name'') n,
        cp_Description := default_if_empty (annotation_value m ''agentoffice.ai/description'')
          (''Governed tools registered behind the MCP gateway ('' @ n @ ''). Credentials are injected gateway-side per call.''),
        cp_Recipe := Some (registration_recipe (annotation_value m ''agentoffice.ai/client-recipe'')), cp_Installed := True\<rparr>)"

definition knowledge_base_pack :: "knowledge_base \<Rightarrow> catalog_pack" where
  "knowledge_base_pack kb =
     empty_pack\<lparr>cp_Type := ''kb'', cp_Name := om_Name (kb_meta kb), cp_DisplayName := kbs_DisplayName (kb_Spec kb),
       cp_Description := kbs_Description (kb_Spec kb), cp_GatewayRef := gwr_Name (kbs_GatewayRef (kb_Spec kb)), cp_Installed := True\<rparr>"

text \<open>The packs of the cluster, by the types that are asked for (all when none is).\<close>

definition local_packs :: "kube_env \<Rightarrow> kube \<Rightarrow> string list \<Rightarrow> catalog_pack list result" where
  "local_packs ke k types =
     (let want = (\<lambda>t. types = [] \<or> t \<in> set types);
          tools = (if want ''tool'' then (case api_list ke Registrations reg_meta (ku_registrations k) catalog_namespace of
                     Inl _ \<Rightarrow> [] | Inr xs \<Rightarrow> map registration_pack xs) else []);
          kbs = (if want ''kb'' then (case api_list ke KnowledgeBases kb_meta (ku_knowledge_bases k) catalog_namespace of
                     Inl _ \<Rightarrow> [] | Inr xs \<Rightarrow> map knowledge_base_pack xs) else [])
      in if want ''skill'' then
           (case api_list ke Skills skl_meta (ku_skills k) catalog_namespace of
              Inl e \<Rightarrow> Inl (''listing skills: '' @ e)
            | Inr xs \<Rightarrow> Inr (map (skill_pack ke k) xs @ tools @ kbs))
         else Inr (tools @ kbs))"

text \<open>One row for each name of a registry that is not local: the newest version, at the place of the first.\<close>

definition newest_row :: "string set \<Rightarrow> catalog_pack gomap \<Rightarrow> catalog_pack \<Rightarrow> catalog_pack gomap" where
  "newest_row locals m rp =
     (if cp_Name rp \<in> locals then m
      else case gm_get m (cp_Name rp) of
        None \<Rightarrow> gm_set m (cp_Name rp) rp
      | Some cur \<Rightarrow> (if version_less (cp_Version cur) (cp_Version rp) then gm_set m (cp_Name rp) rp else m))"

definition newest_rows :: "string set \<Rightarrow> catalog_pack list \<Rightarrow> catalog_pack list" where
  "newest_rows locals rps = map snd (foldl (newest_row locals) [] rps)"

text \<open>A pack is present when an installed skill belongs to it.\<close>

definition mark_satisfied :: "catalog_pack list \<Rightarrow> catalog_pack \<Rightarrow> catalog_pack" where
  "mark_satisfied items p =
     p\<lparr>cp_PackRequires := map (\<lambda>r. r\<lparr>cr_Satisfied := list_ex (\<lambda>q. cp_Installed q \<and> cp_Member q \<noteq> [] \<and> cp_Member q = cr_Name r) items\<rparr>)
        (cp_PackRequires p)\<rparr>"

definition type_rank :: "string \<Rightarrow> nat" where
  "type_rank t = (if t = ''tool'' then 1 else if t = ''kb'' then 2 else 0)"

text \<open>Installed first, then by type, then by name.\<close>

definition sort_packs :: "catalog_pack list \<Rightarrow> catalog_pack list" where
  "sort_packs ps = sort_key (\<lambda>p. if cp_Installed p then 0 else 1 :: nat) (sort_key (\<lambda>p. type_rank (cp_Type p)) (sort_key cp_Name ps))"

definition gather_packs ::
    "'w catalog_env \<Rightarrow> kube \<Rightarrow> string list \<Rightarrow> 'w \<times> registry_cache \<Rightarrow> ('w \<times> registry_cache) \<times> catalog_pack list result" where
  "gather_packs env k types st =
     (case local_packs (ca_kube env) k types of
        Inl e \<Rightarrow> (st, Inl e)
      | Inr items \<Rightarrow>
          (let (st1, remote) = (if types = [] \<or> ''skill'' \<in> set types then registry_packs env st else (st, []));
               found = items @ newest_rows (cp_Name ` set items) remote
           in (st1, Inr (sort_packs (map (mark_satisfied found) found)))))"

definition list_packs ::
    "'w catalog_env \<Rightarrow> kube \<Rightarrow> string \<Rightarrow> string \<Rightarrow> 'w \<times> registry_cache \<Rightarrow> ('w \<times> registry_cache) \<times> catalog_pack list result" where
  "list_packs env k query types st =
     (let q = to_lower (trim_space query); tf = trim_space types;
          ts = (if tf = [] then [] else map trim_space (split_byte (CHR '','') tf))
      in case gather_packs env k ts st of
        (st1, Inl e) \<Rightarrow> (st1, Inl e)
      | (st1, Inr items) \<Rightarrow>
          (st1, Inr (filter (\<lambda>p. q = [] \<or> str_contains (to_lower (cp_Name p @ '' '' @ cp_DisplayName p @ '' '' @ cp_Description p)) q) items)))"

subsection \<open>Installation\<close>

definition dash_text :: string where
  "dash_text = [CHR 0x20, CHR 0xE2, CHR 0x80, CHR 0x94, CHR 0x20]"

definition installable :: "catalog_pack \<Rightarrow> bool" where
  "installable p \<longleftrightarrow> (if cp_ArtifactKind p = ''tool'' then cp_Tool p \<noteq> None
     else (cp_ArtifactKind p = [] \<or> cp_ArtifactKind p = ''skill'') \<and> cp_ContentURL p \<noteq> [])"

definition resolve_install_set :: "catalog_pack list \<Rightarrow> string \<Rightarrow> catalog_pack list" where
  "resolve_install_set remote name =
     (case find (\<lambda>p. cp_Name p = name) remote of
        None \<Rightarrow> []
      | Some self \<Rightarrow>
          (let kind = cp_ArtifactKind self in
           if kind = [] \<or> kind = ''skill'' \<or> kind = ''tool'' then (if installable self then [self] else [])
           else if kind = ''pack'' then filter (\<lambda>p. cp_Member p = name \<and> installable p) remote
           else if kind = ''meta-pack'' then
             filter (\<lambda>p. installable p \<and> cp_Registry p = cp_Registry self
                \<and> (if cp_Members self \<noteq> [] then cp_Member p \<in> set (cp_Members self) else cp_Namespace p = cp_Namespace self)) remote
           else []))"

text \<open>\<open>mergeLabels\<close>, and the loop that sets annotations: the entries of the second map win.\<close>

definition merge_labels :: "string gomap \<Rightarrow> string gomap \<Rightarrow> string gomap" where
  "merge_labels dst src = foldl (\<lambda>m (k, v). gm_set m k v) dst src"

definition fresh_meta :: "string \<Rightarrow> string gomap \<Rightarrow> string gomap \<Rightarrow> object_meta" where
  "fresh_meta n ls ans = \<lparr>om_Name = n, om_Namespace = catalog_namespace, om_UID = [], om_Generation = 0, om_Labels = ls,
     om_Annotations = ans, om_DeletionTimestamp = None, om_Finalizers = [], om_Controller = None\<rparr>"

definition pack_coordinates :: "catalog_pack \<Rightarrow> string" where
  "pack_coordinates p = cp_Namespace p @ ''/'' @ cp_Name p @ '':'' @ cp_Version p"

definition to_skill_dep :: "catalog_dependency \<Rightarrow> skill_dependency" where
  "to_skill_dep d = \<lparr>skd_Kind = cd_Kind d, skd_Name = cd_Name d, skd_Optional = cd_Optional d\<rparr>"

definition installed_skill :: "catalog_pack \<Rightarrow> string \<Rightarrow> skill" where
  "installed_skill p body =
     \<lparr>skl_meta = fresh_meta (cp_Name p)
        ([(''app.kubernetes.io/managed-by'', ''agent-office''), (''agentoffice.ai/skill-tier'', ''mindifact'')]
         @ (if cp_Member p = [] then [] else [(''agentoffice.ai/pack'', cp_Member p)]))
        [(''agentoffice.ai/registry'', cp_Registry p), (''agentoffice.ai/pack-ref'', pack_coordinates p),
         (''agentoffice.ai/manifest'', cp_Manifest p), (''agentoffice.ai/content-url'', cp_ContentURL p)],
      skl_Spec = \<lparr>sk_DisplayName = default_if_empty (cp_DisplayName p) (cp_Name p), sk_Description = cp_Description p,
        sk_Version = cp_Version p, sk_Source = \<lparr>sks_PackageRef = None, sks_ConfigMapRef = None, sks_Inline = body\<rparr>,
        sk_Invocation = \<lparr>ski_Tool = [], ski_PromptTemplate = []\<rparr>, sk_Requires = [], sk_Dependencies = map to_skill_dep (cp_Dependencies p)\<rparr>,
      skl_Status = \<lparr>skst_ContentSHA256 = [], skst_ReferencedBy = [], skst_Conditions = []\<rparr>\<rparr>"

text \<open>Create the object, or put labels, annotations and the new specification on the one that is there.\<close>

definition upsert ::
    "kube_env \<Rightarrow> kind \<Rightarrow> ('o \<Rightarrow> object_meta) \<Rightarrow> ('o \<Rightarrow> 'o) \<Rightarrow> 'o \<Rightarrow> 'o list \<Rightarrow> 'o list \<times> string option" where
  "upsert ke kd meta update desired xs =
     (let n = om_Name (meta desired);
          write = (\<lambda>v x. case ke_fault ke (call v kd catalog_namespace n) of Some e \<Rightarrow> (xs, Some e) | None \<Rightarrow> (obj_put meta x xs, None))
      in case api_get ke kd meta xs catalog_namespace n of
        Failed e \<Rightarrow> (xs, Some e) | NotFound _ \<Rightarrow> write Create desired | Found old \<Rightarrow> write Update (update old))"

definition merge_meta :: "object_meta \<Rightarrow> object_meta \<Rightarrow> object_meta" where
  "merge_meta new old = old\<lparr>om_Labels := merge_labels (om_Labels old) (om_Labels new),
     om_Annotations := merge_labels (om_Annotations old) (om_Annotations new)\<rparr>"

definition install_skill ::
    "'w catalog_env \<Rightarrow> catalog_pack \<Rightarrow> 'w \<times> kube \<Rightarrow> ('w \<times> kube) \<times> string option" where
  "install_skill env p st =
     (let (w, k) = st in
      case http_get_text (ca_http env) w (cp_ContentURL p) of
        (w1, Inl e) \<Rightarrow> ((w1, k), Some (''fetch content: '' @ e))
      | (w1, Inr body) \<Rightarrow>
          (if trim_space body = [] then ((w1, k), Some ''registry served empty content'')
           else let desired = installed_skill p body;
                    (xs, e) = upsert (ca_kube env) Skills skl_meta
                      (\<lambda>old. old\<lparr>skl_meta := merge_meta (skl_meta desired) (skl_meta old), skl_Spec := skl_Spec desired\<rparr>) desired (ku_skills k)
                in ((w1, k\<lparr>ku_skills := xs\<rparr>), e)))"

definition recipe_json :: "tool_recipe \<Rightarrow> json" where
  "recipe_json r =
     JObj ([(''url'', JStr (tr_URL r)), (''type'', JStr (tr_Type r))]
       @ (if tr_AuthHeaderValue r = [] then [] else [(''authHeaderValue'', JStr (tr_AuthHeaderValue r))])
       @ (if tr_EnvFromSecret r = [] then [] else [(''envFromSecret'', JStr (tr_EnvFromSecret r))]))"

definition tool_provenance :: "catalog_pack \<Rightarrow> string gomap" where
  "tool_provenance p =
     [(''agentoffice.ai/registry'', cp_Registry p), (''agentoffice.ai/pack-ref'', pack_coordinates p)]
     @ (if cp_DisplayName p = [] then [] else [(''agentoffice.ai/display-name'', cp_DisplayName p)])
     @ (if cp_Description p = [] then [] else [(''agentoffice.ai/description'', cp_Description p)])
     @ (case cp_Recipe p of
          None \<Rightarrow> [] | Some r \<Rightarrow> (if tr_URL r = [] then [] else [(''agentoffice.ai/client-recipe'', json_print (recipe_json r))]))"

definition tool_spec :: "registry_tool \<Rightarrow> json gomap" where
  "tool_spec t =
     [(''targetRef'', JObj [(''group'', JStr ''gateway.networking.k8s.io''), (''kind'', JStr ''HTTPRoute''), (''name'', JStr (rt_RouteRef t))]),
      (''state'', JStr ''Enabled'')]
     @ (if rt_Path t = [] then [] else [(''path'', JStr (rt_Path t))])
     @ (if rt_Prefix t = [] then [] else [(''prefix'', JStr (rt_Prefix t))])
     @ (if rt_Hint t = [] then [] else [(''hint'', JStr (rt_Hint t))])
     @ (if rt_Category t = [] then [] else [(''category'', JArr (map JStr (rt_Category t)))])
     @ (case rt_CredentialRef t of
          None \<Rightarrow> []
        | Some c \<Rightarrow> (if rr_Name c = [] then [] else [(''credentialRef'', JObj [(''name'', JStr (rr_Name c)), (''key'', JStr (rr_Key c))])]))"

definition install_tool :: "'w catalog_env \<Rightarrow> catalog_pack \<Rightarrow> 'w \<times> kube \<Rightarrow> ('w \<times> kube) \<times> string option" where
  "install_tool env p st =
     (let (w, k) = st in
      case cp_Tool p of
        None \<Rightarrow> (st, Some ''tool artifact carries no definition'')
      | Some t \<Rightarrow>
         (if rt_Mode t = ''bundled'' then
            (st, Some (''mode '' @ go_quote (rt_Mode t) @ '' ships a workload, which this operator cannot install yet; ''
                       @ ''deploy it via gitops and republish as mode:reference''))
          else if rt_RouteRef t = [] then (st, Some ''mode reference needs routeRef (the HTTPRoute serving this MCP server)'')
          else case api_get (ca_kube env) Routes rte_meta (ku_routes k) catalog_namespace (rt_RouteRef t) of
            NotFound _ \<Rightarrow> (st, Some (''HTTPRoute '' @ go_quote (rt_RouteRef t) @ '' not on this cluster'' @ dash_text
                                   @ ''the MCP server it fronts is not deployed''))
          | Failed e \<Rightarrow> (st, Some (''checking HTTPRoute '' @ go_quote (rt_RouteRef t) @ '': '' @ e))
          | Found _ \<Rightarrow>
             (let desired = \<lparr>reg_meta = fresh_meta (cp_Name p)
                      [(''app.kubernetes.io/managed-by'', ''agent-office''), (''app.kubernetes.io/component'', ''registration''),
                       (''agentoffice.ai/skill-tier'', ''mindifact'')] (tool_provenance p),
                    reg_spec = tool_spec t, reg_status = []\<rparr>;
                  (xs, e) = upsert (ca_kube env) Registrations reg_meta
                    (\<lambda>old. old\<lparr>reg_meta := merge_meta (reg_meta desired) (reg_meta old), reg_spec := reg_spec desired\<rparr>) desired
                    (ku_registrations k)
              in ((w, k\<lparr>ku_registrations := xs\<rparr>), e))))"

definition install_pack :: "'w catalog_env \<Rightarrow> catalog_pack \<Rightarrow> 'w \<times> kube \<Rightarrow> ('w \<times> kube) \<times> string option" where
  "install_pack env p st = (if cp_ArtifactKind p = ''tool'' then install_tool env p st else install_skill env p st)"

text \<open>What was installed and what was skipped, and why.\<close>

definition install_step ::
    "'w catalog_env \<Rightarrow> ('w \<times> kube) \<times> string list \<times> string list \<Rightarrow> catalog_pack \<Rightarrow> ('w \<times> kube) \<times> string list \<times> string list" where
  "install_step env acc p =
     (let (st, installed, skipped) = acc in
      case install_pack env p st of
        (st1, Some e) \<Rightarrow> (st1, installed, skipped @ [cp_Name p @ '': '' @ e])
      | (st1, None) \<Rightarrow> (st1, installed @ [cp_Name p], skipped))"

definition install_all :: "'w catalog_env \<Rightarrow> catalog_pack list \<Rightarrow> 'w \<times> kube \<Rightarrow> ('w \<times> kube) \<times> string list \<times> string list" where
  "install_all env target st = foldl (install_step env) (st, [], []) target"

text \<open>
  The handler: the name of the request is not empty; an answer is a status with an error, or the two
  lists. The cache is marked as never filled, so that the next request reads the registries again.
\<close>

definition install ::
    "'w catalog_env \<Rightarrow> string \<Rightarrow> ('w \<times> kube) \<times> registry_cache \<Rightarrow>
       (('w \<times> kube) \<times> registry_cache) \<times> ((int \<times> string) + (string list \<times> string list))" where
  "install env name st =
     (let ((w, k), cache) = st in
      if trim_space name = [] then (st, Inl (400, ''body must be {'' @ go_quote ''name'' @ '': '' @ go_quote ''<artifact>'' @ ''}''))
      else let ((w1, cache1), remote) = registry_packs env (w, cache) in
        if remote = [] then (((w1, k), cache1), Inl (503, ''no registry configured or reachable (AGENT_REGISTRY_URLS)''))
        else let target = resolve_install_set remote name in
          if target = [] then (((w1, k), cache1), Inl (404, ''no installable artifact found for '' @ go_quote name))
          else let (wk, installed, skipped) = install_all env target (w1, k)
               in ((wk, cache1\<lparr>rca_fetched := None\<rparr>), Inr (installed, skipped)))"

subsection \<open>One row for each name\<close>

text \<open>A row is the newest of its name, as far as versions are ordered.\<close>

definition newest_of :: "catalog_pack list \<Rightarrow> string \<Rightarrow> catalog_pack \<Rightarrow> bool" where
  "newest_of rps n p \<longleftrightarrow> cp_Name p = n \<and> p \<in> set rps
     \<and> (list_all (\<lambda>r. numeric_version (cp_Version r)) rps \<longrightarrow>
          list_all (\<lambda>r. cp_Name r = n \<longrightarrow> \<not> version_less (cp_Version p) (cp_Version r)) rps)"

definition rows_inv :: "string set \<Rightarrow> catalog_pack list \<Rightarrow> catalog_pack gomap \<Rightarrow> bool" where
  "rows_inv locals rps m \<longleftrightarrow> gm_wf m \<and> (\<forall>n. gm_get m n = None \<longleftrightarrow> n \<notin> cp_Name ` set rps - locals)
     \<and> (\<forall>n p. gm_get m n = Some p \<longrightarrow> newest_of rps n p)"

lemma newest_of_other: "newest_of rps n p \<Longrightarrow> cp_Name rp \<noteq> n \<Longrightarrow> newest_of (rps @ [rp]) n p"
  by (auto simp: newest_of_def)

lemma newest_of_keep:
  "newest_of rps n p \<Longrightarrow> cp_Name rp = n \<Longrightarrow> \<not> version_less (cp_Version p) (cp_Version rp) \<Longrightarrow> newest_of (rps @ [rp]) n p"
  by (auto simp: newest_of_def)

lemma newest_of_new:
  assumes "n = cp_Name rp" "n \<notin> cp_Name ` set rps \<or> newest_of rps n cur \<and> version_less (cp_Version cur) (cp_Version rp)"
  shows "newest_of (rps @ [rp]) n rp"
proof -
  have "\<not> version_less (cp_Version rp) (cp_Version r)"
    if num: "list_all (\<lambda>r. numeric_version (cp_Version r)) (rps @ [rp])" and r: "r \<in> set (rps @ [rp])" "cp_Name r = n" for r
  proof -
    have nr: "numeric_version (cp_Version x)" if "x \<in> set (rps @ [rp])" for x using num that by (simp only: list_all_iff)
    note le = version_less_numeric_core [OF nr nr]
    show ?thesis
    proof (cases "r = rp \<or> r \<notin> set rps")
      case True
      then have "r = rp" using r by auto
      then show ?thesis using le [of rp rp] by simp
    next
      case False
      then have c: "newest_of rps n cur" "version_less (cp_Version cur) (cp_Version rp)" using assms(2) r(2) by auto
      then have cur: "cur \<in> set rps" "\<not> version_less (cp_Version cur) (cp_Version r)"
        using False num r(2) by (auto simp: newest_of_def list_all_iff)
      then show ?thesis using le [of cur rp] le [of rp r] le [of cur r] c(2) r(1) by fastforce
    qed
  qed
  then show ?thesis using assms(1) by (auto simp: newest_of_def list_all_iff)
qed

lemma rows_inv_step:
  assumes "rows_inv locals rps m" shows "rows_inv locals (rps @ [rp]) (newest_row locals m rp)"
proof -
  let ?n = "cp_Name rp"
  have wf: "gm_wf m" and dom: "\<And>n. gm_get m n = None \<longleftrightarrow> n \<notin> cp_Name ` set rps - locals"
    and ent: "\<And>n p. gm_get m n = Some p \<Longrightarrow> newest_of rps n p"
    using assms by (auto simp: rows_inv_def)
  have put: "rows_inv locals (rps @ [rp]) (gm_set m ?n rp)"
    if "?n \<notin> locals" "newest_of (rps @ [rp]) ?n rp"
    using that wf dom ent newest_of_other by (auto simp: rows_inv_def)
  have keep: "rows_inv locals (rps @ [rp]) m"
    if "?n \<in> locals \<or> (\<exists>cur. gm_get m ?n = Some cur \<and> \<not> version_less (cp_Version cur) (cp_Version rp))"
  proof -
    have "newest_of (rps @ [rp]) n p" if g: "gm_get m n = Some p" for n p
    proof (cases "n = ?n")
      case True
      then have "?n \<notin> locals" using g dom [of n] by auto
      with True g \<open>?n \<in> locals \<or> _\<close> show ?thesis using ent [OF g] newest_of_keep by auto
    next
      case False
      then show ?thesis using newest_of_other [OF ent [OF g]] by simp
    qed
    moreover have "gm_get m n = None \<longleftrightarrow> n \<notin> cp_Name ` set (rps @ [rp]) - locals" for n
      using that dom [of n] by (cases "n = ?n"; cases "gm_get m n") auto
    ultimately show ?thesis using wf by (simp add: rows_inv_def)
  qed
  show ?thesis
  proof (cases "?n \<in> locals")
    case True
    with keep show ?thesis by (simp add: newest_row_def)
  next
    case False
    show ?thesis
    proof (cases "gm_get m ?n")
      case None
      then have "?n \<notin> cp_Name ` set rps" using dom False by auto
      with None False show ?thesis using put newest_of_new [of ?n rp rps] by (simp add: newest_row_def)
    next
      case (Some cur)
      with False show ?thesis
        using put keep newest_of_new [of ?n rp rps cur] ent [OF Some] by (simp add: newest_row_def)
    qed
  qed
qed

lemma rows_inv: "rows_inv locals rps (foldl (newest_row locals) [] rps)"
proof (induction rps rule: rev_induct)
  case (snoc rp rps)
  from rows_inv_step [OF snoc] show ?case by simp
qed (simp add: rows_inv_def)

lemma map_of_values: "gm_wf m \<Longrightarrow> p \<in> set (map snd m) \<longleftrightarrow> (\<exists>n. gm_get m n = Some p)"
proof -
  assume w: "gm_wf m"
  have "p \<in> set (map snd m) \<longleftrightarrow> (\<exists>n. (n, p) \<in> set m)" by force
  then show ?thesis by (simp only: gm_get_wf [OF w])
qed

lemma newest_rows_core:
  "distinct (map cp_Name (newest_rows locals rps)) \<and> cp_Name ` set (newest_rows locals rps) = cp_Name ` set rps - locals
    \<and> list_all (\<lambda>p. newest_of rps (cp_Name p) p) (newest_rows locals rps)"
proof -
  let ?m = "foldl (newest_row locals) [] rps"
  have i: "gm_wf ?m" "\<And>n. gm_get ?m n = None \<longleftrightarrow> n \<notin> cp_Name ` set rps - locals"
    "\<And>n p. gm_get ?m n = Some p \<Longrightarrow> newest_of rps n p"
    using rows_inv [of locals rps] by (simp_all add: rows_inv_def)
  have key: "cp_Name p = n" if "(n, p) \<in> set ?m" for n p using i(3) that by (simp add: gm_get_wf [OF i(1)] newest_of_def)
  have names: "map cp_Name (map snd ?m) = map fst ?m" using key by auto
  have "distinct (map cp_Name (newest_rows locals rps))" using i(1) unfolding newest_rows_def names by (simp add: gm_wf_def)
  moreover have "cp_Name ` set (newest_rows locals rps) = fst ` set ?m"
    using names unfolding newest_rows_def by (metis set_map)
  moreover have "fst ` set ?m = cp_Name ` set rps - locals" using i(2) by (auto simp: gm_get_None_iff)
  moreover have "newest_of rps (cp_Name p) p" if "p \<in> set (newest_rows locals rps)" for p
    using that i(3) unfolding newest_rows_def map_of_values [OF i(1)] by (auto simp: newest_of_def)
  ultimately show ?thesis by (simp add: list_all_iff)
qed



text \<open>A tool that only a registry has is found among the skills, and not among the tools.\<close>

lemma registry_tool_under_skill:
  assumes "types = [''tool'']" shows "fst (gather_packs env k types st) = st"
  using assms by (simp add: gather_packs_def split: sum.split)

subsection \<open>What an installation leaves\<close>

lemma upsert_ok:
  assumes "no_api_faults ke" "om_Namespace (meta desired) = catalog_namespace"
    and "\<And>old. obj_key meta (update old) = obj_key meta old"
  shows "upsert ke kd meta update desired xs = (obj_put meta (case obj_get meta xs (obj_key meta desired) of None \<Rightarrow> desired
      | Some old \<Rightarrow> update old) xs, None)"
    and "obj_key meta (case obj_get meta xs (obj_key meta desired) of None \<Rightarrow> desired | Some old \<Rightarrow> update old) = obj_key meta desired"
proof -
  have k: "obj_key meta desired = (catalog_namespace, om_Name (meta desired))" using assms(2) by (simp add: obj_key_def)
  show "upsert ke kd meta update desired xs = (obj_put meta (case obj_get meta xs (obj_key meta desired) of None \<Rightarrow> desired
      | Some old \<Rightarrow> update old) xs, None)"
    using assms(1) by (simp add: upsert_def api_get_def k split: option.split)
  show "obj_key meta (case obj_get meta xs (obj_key meta desired) of None \<Rightarrow> desired | Some old \<Rightarrow> update old) = obj_key meta desired"
    using assms(3) by (auto dest: obj_get_key split: option.split)
qed

text \<open>The registry serves this text for every pack of the list.\<close>

definition serves :: "'w catalog_env \<Rightarrow> (catalog_pack \<Rightarrow> string) \<Rightarrow> catalog_pack list \<Rightarrow> bool" where
  "serves env content ps \<longleftrightarrow>
     (\<forall>p \<in> set ps. trim_space (content p) \<noteq> [] \<and> (\<forall>w. \<exists>w1. http_get_text (ca_http env) w (cp_ContentURL p) = (w1, Inr (content p))))"

definition skill_spec_at :: "kube \<Rightarrow> string \<Rightarrow> skill_spec option" where
  "skill_spec_at k n = map_option skl_Spec (obj_get skl_meta (ku_skills k) (catalog_namespace, n))"

lemma install_skill_ok:
  assumes "no_api_faults (ca_kube env)" "serves env content [p]"
  shows "\<exists>w1 k1. install_skill env p (w, k) = ((w1, k1), None)
    \<and> skill_spec_at k1 = (skill_spec_at k)(cp_Name p \<mapsto> skl_Spec (installed_skill p (content p)))"
proof -
  obtain w1 where w1: "http_get_text (ca_http env) w (cp_ContentURL p) = (w1, Inr (content p))" "trim_space (content p) \<noteq> []"
    using assms(2) by (auto simp: serves_def)
  let ?d = "installed_skill p (content p)"
  let ?u = "\<lambda>old. old\<lparr>skl_meta := merge_meta (skl_meta ?d) (skl_meta old), skl_Spec := skl_Spec ?d\<rparr>"
  let ?x = "case obj_get skl_meta (ku_skills k) (obj_key skl_meta ?d) of None \<Rightarrow> ?d | Some old \<Rightarrow> ?u old"
  have key: "obj_key skl_meta ?d = (catalog_namespace, cp_Name p)" by (simp add: obj_key_def installed_skill_def fresh_meta_def)
  then have ns: "om_Namespace (skl_meta ?d) = catalog_namespace" by (simp add: obj_key_def)
  have uk: "obj_key skl_meta (?u old) = obj_key skl_meta old" for old by (simp add: obj_key_def merge_meta_def)
  note up = upsert_ok [where update = ?u and xs = "ku_skills k", OF assms(1) ns uk]
  have "install_skill env p (w, k) = ((w1, k\<lparr>ku_skills := obj_put skl_meta ?x (ku_skills k)\<rparr>), None)"
    using w1 up(1) by (simp add: install_skill_def Let_def)
  moreover have "skl_Spec ?x = skl_Spec ?d" by (simp split: option.split)
  then have "skill_spec_at (k\<lparr>ku_skills := obj_put skl_meta ?x (ku_skills k)\<rparr>) = (skill_spec_at k)(cp_Name p \<mapsto> skl_Spec ?d)"
    using up(2) key by (auto simp: skill_spec_at_def obj_get_put fun_eq_iff)
  ultimately show ?thesis by blast
qed

lemma install_all_ok:
  assumes "no_api_faults (ca_kube env)" "serves env content target" "\<forall>p \<in> set target. cp_ArtifactKind p \<noteq> ''tool''"
  shows "\<exists>w1 k1. install_all env target (w, k) = ((w1, k1), map cp_Name target, [])
    \<and> (\<forall>n. skill_spec_at k1 n = (case find (\<lambda>p. cp_Name p = n) (rev target) of
          None \<Rightarrow> skill_spec_at k n | Some p \<Rightarrow> Some (skl_Spec (installed_skill p (content p)))))"
  using assms(2,3)
proof (induction target rule: rev_induct)
  case (snoc p target)
  then obtain w1 k1 where a: "install_all env target (w, k) = ((w1, k1), map cp_Name target, [])"
    "\<And>n. skill_spec_at k1 n = (case find (\<lambda>p. cp_Name p = n) (rev target) of
          None \<Rightarrow> skill_spec_at k n | Some p \<Rightarrow> Some (skl_Spec (installed_skill p (content p))))"
    by (auto simp: serves_def)
  have "serves env content [p]" using snoc.prems(1) by (simp add: serves_def)
  from install_skill_ok [OF assms(1) this, of w1 k1] obtain w2 k2 where
    b: "install_skill env p (w1, k1) = ((w2, k2), None)"
    "skill_spec_at k2 = (skill_spec_at k1)(cp_Name p \<mapsto> skl_Spec (installed_skill p (content p)))" by blast
  have "install_all env (target @ [p]) (w, k) = ((w2, k2), map cp_Name (target @ [p]), [])"
    using a(1) b(1) snoc.prems(2) by (simp add: install_all_def install_step_def install_pack_def)
  with a(2) b(2) show ?case by auto
qed (simp add: install_all_def)

text \<open>
  C38: An installation of skills that the registry serves skips none, leaves every other skill as it was,
  and of several rows of one name the last one listed decides what is on the cluster, whatever their
  versions and whatever was there before, a skill written by hand included.
\<close>

theorem installation_leaves_last:
  assumes "no_api_faults (ca_kube env)" "serves env content target" "\<forall>p \<in> set target. cp_ArtifactKind p \<noteq> ''tool''"
  shows "\<exists>w1 k1. install_all env target (w, k) = ((w1, k1), map cp_Name target, [])
    \<and> (\<forall>n. skill_spec_at k1 n = (case find (\<lambda>p. cp_Name p = n) (rev target) of
          None \<Rightarrow> skill_spec_at k n | Some p \<Rightarrow> Some (skl_Spec (installed_skill p (content p)))))"
  by (rule install_all_ok [OF assms])

subsection \<open>A concrete registry\<close>

definition demo_row :: "string \<Rightarrow> string \<Rightarrow> catalog_pack" where
  "demo_row name version = (demo_pack ''skill'' name ''news'' [] [])\<lparr>cp_Type := ''skill'', cp_Version := version,
     cp_ContentURL := ''http://r/'' @ version\<rparr>"

definition demo_catalog_env :: "unit catalog_env" where
  "demo_catalog_env = \<lparr>ca_kube = demo_kube_env, ca_http = demo_transport ''# text'', ca_getenv = (\<lambda>_. [])\<rparr>"

text \<open>The catalogue shows version 1.10 of this skill, and installing its pack leaves version 1.9.\<close>

definition demo_rows :: "catalog_pack list" where
  "demo_rows = [demo_row ''brief'' ''1.10'', demo_row ''brief'' ''1.9'', demo_pack ''pack'' ''news'' [] [] []]"

lemma demo_rows_shown: "map cp_Version (newest_rows {} demo_rows) = [''1.10'', []]"
  by (simp add: newest_rows_def demo_rows_def newest_row_def demo_row_def demo_pack_def version_less_def demo_versions) code_simp

lemma demo_rows_installed: "map cp_Version (resolve_install_set demo_rows ''news'') = [''1.10'', ''1.9'']"
  by code_simp

text \<open>Asked for by name, the skill is installed at the version that is listed first.\<close>

lemma named_install_takes_first:
  "map cp_Version (resolve_install_set [demo_row ''brief'' ''1.9'', demo_row ''brief'' ''1.10''] ''brief'') = [''1.9'']"
  by code_simp

text \<open>A pack takes members from every registry: only a meta-pack looks at where they come from.\<close>

lemma pack_crosses_registries:
  "map cp_Registry (resolve_install_set
     [(demo_pack ''pack'' ''news'' [] [] [])\<lparr>cp_Registry := ''ours''\<rparr>, (demo_row ''brief'' ''9'')\<lparr>cp_Registry := ''theirs''\<rparr>] ''news'') = [''theirs'']"
  by code_simp


lemma demo_serves: "serves demo_catalog_env (\<lambda>_. ''# text'') [demo_row ''brief'' ''1.10'', demo_row ''brief'' ''1.9'']"
proof -
  have "list_all plain_char ''#'' \<and> list_all plain_char ''t''" by (simp add: plain_char_def)
  then have t: "trim_space ''# text'' = ''# text''" using trim_space_plain(1) [of "CHR ''#''" "CHR ''t''" "'' tex''"] by simp
  have "\<not> has_suffix (''http://r/'' @ v) ''.json''" if "v = ''1.10'' \<or> v = ''1.9''" for v using that by (auto simp: has_suffix_def)
  with t show ?thesis
    by (auto simp: serves_def demo_row_def demo_catalog_env_def http_get_text_def demo_transport_def)
qed

lemma installation_leaves_last_witness:
  "\<exists>w1 k1. install_all demo_catalog_env [demo_row ''brief'' ''1.10'', demo_row ''brief'' ''1.9''] ((), empty_kube)
       = ((w1, k1), [''brief'', ''brief''], [])
     \<and> map_option sk_Version (skill_spec_at k1 ''brief'') = Some ''1.9''"
proof -
  have "no_api_faults (ca_kube demo_catalog_env)" by (simp add: demo_catalog_env_def demo_kube_env_def no_api_faults_def)
  moreover have "\<forall>p \<in> set [demo_row ''brief'' ''1.10'', demo_row ''brief'' ''1.9'']. cp_ArtifactKind p \<noteq> ''tool''"
    by (simp add: demo_row_def demo_pack_def)
  ultimately obtain w1 k1 where i:
    "install_all demo_catalog_env [demo_row ''brief'' ''1.10'', demo_row ''brief'' ''1.9''] ((), empty_kube)
       = ((w1, k1), map cp_Name [demo_row ''brief'' ''1.10'', demo_row ''brief'' ''1.9''], [])"
    "\<And>n. skill_spec_at k1 n = (case find (\<lambda>p. cp_Name p = n) (rev [demo_row ''brief'' ''1.10'', demo_row ''brief'' ''1.9'']) of
          None \<Rightarrow> skill_spec_at empty_kube n | Some p \<Rightarrow> Some (skl_Spec (installed_skill p ''# text'')))"
    using installation_leaves_last [OF _ demo_serves, of "()" empty_kube] by blast
  have n: "cp_Name (demo_row ''brief'' v) = ''brief''" "cp_Version (demo_row ''brief'' v) = v" for v
    by (simp_all add: demo_row_def demo_pack_def)
  have "map_option sk_Version (skill_spec_at k1 ''brief'') = Some ''1.9''" unfolding i(2) by (simp add: n installed_skill_def)
  with i(1) show ?thesis by (simp add: n)
qed

text \<open>A cluster without skills, and no registries.\<close>

lemma demo_local: "local_packs (ca_kube demo_catalog_env) empty_kube [] = Inr []"
  by (simp add: local_packs_def api_list_def demo_catalog_env_def demo_kube_env_def empty_kube_def in_namespace_def)

lemma demo_gather: "gather_packs demo_catalog_env empty_kube [] st = (st, Inr [])"
proof -
  have "registry_packs demo_catalog_env st = (st, [])"
    by (cases st) (simp add: registry_packs_def demo_catalog_env_def)
  then show ?thesis using demo_local by (simp add: gather_packs_def newest_rows_def sort_packs_def)
qed


end
