(* ===== verification/Recommend.thy ===== *)
theory Recommend
  imports Catalog
begin

text \<open>
  \<open>catalog_recommend.go\<close>, \<open>catalog_recommend_gateway.go\<close> and the listing of teams in \<open>catalog_teams.go\<close>: an
  agent composed from a description, by a model turn in a gateway pod, by a chat completions endpoint, or
  by scoring words. The model is a parameter, and so is what carries its answer: HTTP, the exec stream,
  \<open>math.Log\<close> and \<open>time.ParseDuration\<close>. Of an error of the JSON decoder only the fact is kept.
\<close>

text \<open>A pod as the catalogue sees it: whether it is being deleted, besides its phase and conditions.\<close>

record gateway_pod =
  gp_pod :: pod
  gp_deleted :: bool

record 'w recommend_env =
  re_catalog :: "'w catalog_env"
  re_pods :: "'w \<Rightarrow> string \<Rightarrow> string gomap \<Rightarrow> gateway_pod list result"
  re_client :: "unit result"
  re_executor :: "unit result"
  re_exec :: "pod \<Rightarrow> string \<Rightarrow> string list \<Rightarrow> 'w \<Rightarrow> 'w \<times> string \<times> string \<times> string option"
  re_duration :: "string \<Rightarrow> int option"
  re_log :: "gofloat \<Rightarrow> gofloat"

abbreviation re_getenv :: "'w recommend_env \<Rightarrow> string \<Rightarrow> string" where
  "re_getenv env \<equiv> ca_getenv (re_catalog env)"

record recommend_response =
  rsp_Source :: string
  rsp_Identity :: recommend_identity
  rsp_Packs :: "recommend_pack list"
  rsp_Team :: "recommend_team option"

subsection \<open>What a model selects\<close>

text \<open>The text from the first bracket on.\<close>

definition extract_json :: "string \<Rightarrow> string" where
  "extract_json s =
     (let t = dropWhile (\<lambda>c. c \<noteq> CHR ''['' \<and> c \<noteq> CHR 0x7B) s in if t = [] then ''[]'' else t)"

record model_selection =
  msl_Identity :: recommend_identity
  msl_Packs :: "(string \<times> string) list"
  msl_Gateway :: string
  msl_Reason :: string

definition decode_choice :: "json \<Rightarrow> (string \<times> string) option" where
  "decode_choice v =
     do { kvs \<leftarrow> object_members v;
          n \<leftarrow> field_str ''name'' [''name'', ''reason''] kvs;
          r \<leftarrow> field_str ''reason'' [''name'', ''reason''] kvs;
          Some (n, r) }"

definition decode_selection :: "string list \<Rightarrow> json \<Rightarrow> model_selection option" where
  "decode_selection extra v =
     (let names = [''name'', ''displayName'', ''emoji'', ''role'', ''systemPrompt'', ''packs''] @ extra in
      do { kvs \<leftarrow> object_members v;
           n \<leftarrow> field_str ''name'' names kvs;
           d \<leftarrow> field_str ''displayName'' names kvs;
           e \<leftarrow> field_str ''emoji'' names kvs;
           r \<leftarrow> field_str ''role'' names kvs;
           s \<leftarrow> field_str ''systemPrompt'' names kvs;
           ps \<leftarrow> field_list decode_choice ''packs'' names kvs;
           t \<leftarrow> (if ''team'' \<in> set extra then field_members ''team'' names kvs else Some []);
           g \<leftarrow> field_str ''gateway'' [''gateway'', ''reason''] t;
           why \<leftarrow> field_str ''reason'' [''gateway'', ''reason''] t;
           Some \<lparr>msl_Identity = \<lparr>ri_Name = n, ri_DisplayName = d, ri_Emoji = e, ri_Role = r, ri_SystemPrompt = s\<rparr>,
                 msl_Packs = ps, msl_Gateway = g, msl_Reason = why\<rparr> })"

text \<open>Names that are not in the catalogue are dropped.\<close>

definition chosen_packs :: "catalog_pack list \<Rightarrow> (string \<times> string) list \<Rightarrow> recommend_pack list" where
  "chosen_packs packs sel =
     List.map_filter (\<lambda>(n, r). map_option (\<lambda>p. \<lparr>rp_Pack = p, rp_Reason = r\<rparr>) (gm_get (by_pack_name packs) n)) sel"

text \<open>An identity is complete when it has a name that sanitises to something and a prompt.\<close>

definition usable_identity :: "recommend_identity \<Rightarrow> recommend_identity option" where
  "usable_identity i =
     (let n = sanitize_agent_name (ri_Name i) in
      if n = [] \<or> ri_SystemPrompt i = [] then None
      else Some (i\<lparr>ri_Name := n, ri_Role := default_if_empty (ri_Role i) ''assistant''\<rparr>))"

subsection \<open>A chat completions endpoint\<close>

definition completion_content :: "json \<Rightarrow> string option" where
  "completion_content v =
     (let content = (\<lambda>c. do { kvs \<leftarrow> object_members c; m \<leftarrow> field_members ''message'' [''message''] kvs;
                             field_str ''content'' [''content''] m }) in
      do { kvs \<leftarrow> object_members v;
           cs \<leftarrow> field_list content ''choices'' [''choices''] kvs;
           (case cs of [] \<Rightarrow> None | c # _ \<Rightarrow> Some c) })"

definition chat_message :: "string \<Rightarrow> string \<Rightarrow> json" where
  "chat_message role content = JObj [(''content'', JStr content), (''role'', JStr role)]"

definition chat_payload :: "string \<Rightarrow> json list \<Rightarrow> json" where
  "chat_payload model messages = JObj [(''messages'', JArr messages), (''model'', JStr model), (''temperature'', JNum ''0.2'')]"

text \<open>One request; \<open>who\<close> is the word that its errors begin with.\<close>

definition chat_request :: "'w recommend_env \<Rightarrow> string \<Rightarrow> string \<Rightarrow> json list \<Rightarrow> 'w \<Rightarrow> 'w \<times> string result" where
  "chat_request env who url messages w =
     (let he = ca_http (re_catalog env); tok = re_getenv env ''AGENT_RECOMMENDER_TOKEN'' in
      case he_url_err he url of
        Some e \<Rightarrow> (w, Inl e)
      | None \<Rightarrow>
          and_then (he_do he \<lparr>hr_Method = ''POST'', hr_URL = url,
              hr_Header = (''Content-Type'', ''application/json'') # (if tok = [] then [] else [(''Authorization'', ''Bearer '' @ tok)]),
              hr_Body = BodyBytes (json_print (chat_payload (re_getenv env ''AGENT_RECOMMENDER_MODEL'') messages))\<rparr> w)
            (\<lambda>w resp.
              let rb = (case hs_Body resp of Inl _ \<Rightarrow> [] | Inr b \<Rightarrow> take (256 * 1024) b) in
              if hs_Status resp \<noteq> 200 then (w, Inl (who @ '' '' @ itoa (hs_Status resp) @ '': '' @ take 120 rb))
              else case unmarshal completion_content rb of
                None \<Rightarrow> (w, Inl (who @ '': unparseable completion''))
              | Some c \<Rightarrow> (w, Inr c)))"

definition recommender_system_prompt :: string where
  "recommender_system_prompt =
     ''You compose governed AI agents from a fixed catalog. Given a job description, ''
     @ ''choose ONLY from the catalog below (never invent entries) and draft an identity. ''
     @ ''Respond with a single JSON object, no prose:'' @ [CHR 0x0A] @ ''{'' @ [CHR 0x22] @ ''name''
     @ [CHR 0x22] @ '':'' @ [CHR 0x22] @ ''<dns-safe-short-name>'' @ [CHR 0x22] @ '','' @ [CHR 0x22]
     @ ''displayName'' @ [CHR 0x22] @ '':'' @ [CHR 0x22] @ ''...'' @ [CHR 0x22] @ '','' @ [CHR 0x22]
     @ ''emoji'' @ [CHR 0x22] @ '':'' @ [CHR 0x22] @ ''<one emoji>'' @ [CHR 0x22] @ '',''
     @ [CHR 0x22] @ ''role'' @ [CHR 0x22] @ '':'' @ [CHR 0x22] @ ''<one word>'' @ [CHR 0x22] @ '',''
     @ [CHR 0x22] @ ''systemPrompt'' @ [CHR 0x22] @ '':'' @ [CHR 0x22]
     @ ''<2-4 sentences: the job, which governed tools/skills to lean on, and: never ''
     @ ''fabricate data '' @ [CHR 0xE2, CHR 0x80, CHR 0x94] @ '' if a tool cannot answer, say so>''
     @ [CHR 0x22] @ '','' @ [CHR 0x22] @ ''packs'' @ [CHR 0x22] @ '':[{'' @ [CHR 0x22] @ ''name''
     @ [CHR 0x22] @ '':'' @ [CHR 0x22] @ ''<catalog name>'' @ [CHR 0x22] @ '','' @ [CHR 0x22]
     @ ''reason'' @ [CHR 0x22] @ '':'' @ [CHR 0x22] @ ''<why, one clause>'' @ [CHR 0x22] @ ''}]}''
     @ [CHR 0x0A, CHR 0x0A] @ ''CATALOG:'' @ [CHR 0x0A]"

text \<open>What becomes of a selection of this engine.\<close>

definition model_answer :: "catalog_pack list \<Rightarrow> model_selection \<Rightarrow> recommend_response result" where
  "model_answer packs sel =
     (let chosen = chosen_packs packs (msl_Packs sel) in
      if chosen = [] then Inl ''recommender: no valid packs selected''
      else case usable_identity (msl_Identity sel) of
        None \<Rightarrow> Inl ''recommender: incomplete identity''
      | Some i \<Rightarrow> Inr \<lparr>rsp_Source = ''model'', rsp_Identity = i, rsp_Packs = chosen, rsp_Team = None\<rparr>)"

definition recommend_via_model ::
    "'w recommend_env \<Rightarrow> string \<Rightarrow> string \<Rightarrow> catalog_pack list \<Rightarrow> 'w \<Rightarrow> 'w \<times> recommend_response result" where
  "recommend_via_model env url desc packs w =
     (let lines = map (\<lambda>p. ''- '' @ cp_Type p @ '' '' @ go_quote (cp_Name p) @ '': '' @ cp_Description p) packs in
      and_then (chat_request env ''recommender'' url
          [chat_message ''system'' (recommender_system_prompt @ join [CHR 0x0A] lines), chat_message ''user'' desc] w)
        (\<lambda>w content. (w, case unmarshal (decode_selection []) (extract_json content) of
            None \<Rightarrow> Inl ''recommender: bad selection JSON'' | Some sel \<Rightarrow> model_answer packs sel)))"

subsection \<open>A turn in a gateway pod\<close>

definition catalog_exec :: "'w recommend_env \<Rightarrow> 'w \<Rightarrow> pod \<Rightarrow> string \<Rightarrow> string list \<Rightarrow> 'w \<times> string result" where
  "catalog_exec env w p container cmd =
     (case re_client env of
        Inl e \<Rightarrow> (w, Inl e)
      | Inr _ \<Rightarrow>
     (case re_executor env of
        Inl e \<Rightarrow> (w, Inl e)
      | Inr _ \<Rightarrow>
     (case re_exec env p container cmd w of
        (w1, out, err, Some e) \<Rightarrow> (w1, Inl (e @ '' (stderr='' @ truncate_text (trim_space err) 200 @ '')''))
      | (w1, out, err, None) \<Rightarrow> (w1, Inr out))))"

definition gateway_labels :: "string \<Rightarrow> string gomap" where
  "gateway_labels n = [(''app.kubernetes.io/managed-by'', ''agent-office-operator''), (''app.kubernetes.io/name'', n),
     (''app.kubernetes.io/component'', ''agent-gateway''), (''agentoffice.ai/gateway'', n)]"

definition ready_pod :: "gateway_pod \<Rightarrow> bool" where
  "ready_pod g \<longleftrightarrow> \<not> gp_deleted g \<and> pod_Phase (gp_pod g) = ''Running'' \<and> (''Ready'', ''True'') \<in> set (pod_Conditions (gp_pod g))"

definition ready_gateway_pod :: "'w recommend_env \<Rightarrow> 'w \<Rightarrow> string \<Rightarrow> pod result" where
  "ready_gateway_pod env w gw =
     (case re_pods env w catalog_namespace (gateway_labels gw) of
        Inl e \<Rightarrow> Inl e
      | Inr ps \<Rightarrow> (case find ready_pod ps of None \<Rightarrow> Inl (''no Ready pod for gateway '' @ go_quote gw) | Some g \<Rightarrow> Inr (gp_pod g)))"

text \<open>The line of a pack, with what contains it and what it contains.\<close>

definition catalog_line :: "catalog_pack list \<Rightarrow> catalog_pack \<Rightarrow> string" where
  "catalog_line packs p =
     (let kind = default_if_empty (cp_ArtifactKind p) (cp_Type p);
          state = (if cp_Installed p then ''installed'' else ''available from '' @ cp_Registry p);
          kids = map cp_Name (filter (\<lambda>c. cp_Member c = cp_Name p) packs);
          item = (\<lambda>s. CHR 0x0A # ''    '' @ s)
      in ''- '' @ kind @ '' '' @ go_quote (cp_Name p) @ '' ('' @ state @ ''): '' @ cp_Description p
         @ (if cp_Members p \<noteq> [] then item (''CONTAINS packs: '' @ join '', '' (cp_Members p))
            else if kind = ''pack'' \<and> kids \<noteq> [] then item (''CONTAINS skills: '' @ join '', '' kids) else [])
         @ (if cp_Member p = [] then [] else item (''INSIDE pack: '' @ cp_Member p))
         @ (if cp_Provides p = [] then [] else item (''PROVIDES: '' @ join '', '' (cp_Provides p)))
         @ (if cp_PackRequires p = [] then []
            else item (''REQUIRES packs: '' @ join '', '' (map (\<lambda>r. cr_Name r @ '' '' @ cr_Range r @ '' (''
                   @ (if cr_Satisfied r then ''present'' else ''missing'') @ '')'') (cp_PackRequires p)))))"

definition render_catalog_lines :: "catalog_pack list \<Rightarrow> string" where
  "render_catalog_lines packs = join [CHR 0x0A] (map (catalog_line packs) packs)"

definition turn_seconds :: "'w recommend_env \<Rightarrow> int" where
  "turn_seconds env =
     (let v = trim_space (re_getenv env ''AGENT_RECOMMENDER_TIMEOUT'');
          budget = (case (if v = [] then None else re_duration env v) of None \<Rightarrow> 20 * 10 ^ 9 | Some d \<Rightarrow> (if 0 < d then d else 20 * 10 ^ 9));
          cli = budget div 10 ^ 9 - 2
      in if cli < 5 then 5 else cli)"

definition turn_script :: "string \<Rightarrow> string \<Rightarrow> string \<Rightarrow> int \<Rightarrow> string" where
  "turn_script prompt agent model secs =
     ''cd /home/node && F=/tmp/rec-prompt.$$.txt && printf %s '' @ [CHR 0x27] @ base64_encode prompt @ [CHR 0x27]
     @ '' | base64 -d > '' @ [CHR 0x22] @ ''$F'' @ [CHR 0x22] @ '' && openclaw agent --agent '' @ agent @ '' ''
     @ (if model = [] then [] else ''--model '' @ model @ '' '') @ ''-m '' @ [CHR 0x22] @ ''$(cat '' @ [CHR 0x22] @ ''$F'' @ [CHR 0x22] @ '')''
     @ [CHR 0x22] @ '' --timeout '' @ itoa secs @ '' 2>/dev/null; S=$?; rm -f '' @ [CHR 0x22] @ ''$F'' @ [CHR 0x22] @ ''; exit $S''"

text \<open>The output of the turn and the model it ran on.\<close>

definition run_gateway_turn :: "'w recommend_env \<Rightarrow> string \<Rightarrow> 'w \<Rightarrow> 'w \<times> (string \<times> string) result" where
  "run_gateway_turn env prompt w =
     (let var = (\<lambda>n. trim_space (re_getenv env n));
          gw = var ''AGENT_RECOMMENDER_GATEWAY''; agent = var ''AGENT_RECOMMENDER_AGENT''; model = var ''AGENT_RECOMMENDER_MODEL''
      in if gw = [] \<or> agent = [] then (w, Inl ''gateway recommender not configured'')
         else case ready_gateway_pod env w gw of
           Inl e \<Rightarrow> (w, Inl e)
         | Inr p \<Rightarrow>
             and_then (wrap_err ''gateway turn: '' (catalog_exec env w p ''openclaw'' [''sh'', ''-c'', turn_script prompt agent model (turn_seconds env)]))
               (\<lambda>w out. (w, Inr (out, model))))"

definition gateway_prompt :: string where
  "gateway_prompt =
     ''You compose governed AI agents from a fixed catalog.'' @ [CHR 0x0A]
     @ ''Choose ONLY entries from the catalog below '' @ [CHR 0xE2, CHR 0x80, CHR 0x94]
     @ '' never invent names '' @ [CHR 0xE2, CHR 0x80, CHR 0x94] @ '' and draft an identity.''
     @ [CHR 0x0A] @ ''COVER THE WHOLE JOB. Break the description into the distinct capabilities it ''
     @ ''calls for and select an artifact for each one '' @ [CHR 0xE2, CHR 0x80, CHR 0x94]
     @ '' an agent missing a capability the user asked for is a failure, and so is a ''
     @ ''half-equipped agent. Do not pad with entries the description does not call for; ''
     @ ''an artifact's PROVIDES list is the evidence that it covers a capability.'' @ [CHR 0x0A]
     @ ''An agent also carries the KNOWLEDGE that grounds its domain: a kb-type pack ''
     @ ''whose description matches the agent's workplace or subject matter belongs in ''
     @ ''the selection even when no task verb names it '' @ [CHR 0xE2, CHR 0x80, CHR 0x94]
     @ '' a platform assistant without the platform's kb is half-equipped.'' @ [CHR 0x0A]
     @ ''Capabilities come with COMPANIONS: work that writes into a knowledge base also ''
     @ ''searches it first; investigating OpenShift usually means reading Kubernetes ''
     @ ''documentation too. Select the companion packs the work will obviously hit in ''
     @ ''practice.'' @ [CHR 0x0A, CHR 0x0A]
     @ ''The catalog is a HIERARCHY. Selecting a pack installs every skill it contains; ''
     @ ''selecting a meta-pack installs every skill in all of its packs. Therefore:'' @ [CHR 0x0A]
     @ ''  * NEVER select both a container and something already inside it ''
     @ [CHR 0xE2, CHR 0x80, CHR 0x94] @ '' pick one.'' @ [CHR 0x0A]
     @ ''  * A selection must be DEPENDENCY-COMPLETE. If a pack you would pick has a ''
     @ ''REQUIRES entry marked missing, that pick is broken on its own ''
     @ [CHR 0xE2, CHR 0x80, CHR 0x94]
     @ '' take the self-contained parent (a meta-pack with no REQUIRES carries all of ''
     @ ''its members' content) instead of the member pack.'' @ [CHR 0x0A]
     @ ''  * Otherwise pick the smallest container that covers the job: a single skill ''
     @ ''if one does it; its pack if the job spans several skills in that pack.'' @ [CHR 0x0A]
     @ ''  * A container is worth picking for breadth, not because its name matches ''
     @ [CHR 0xE2, CHR 0x80, CHR 0x94]
     @ '' a job about one narrow task takes the one skill, even when a whole family shares ''
     @ ''its vocabulary.'' @ [CHR 0x0A]
     @ ''  * REQUIRES is a separate graph from CONTAINS: a pack that requires another ''
     @ ''needs that one present to function at all. Prefer a selection with nothing missing.''
     @ [CHR 0x0A] @ ''Reply with ONE JSON object and no prose, no code fence:'' @ [CHR 0x0A] @ ''{''
     @ [CHR 0x22] @ ''name'' @ [CHR 0x22] @ '':'' @ [CHR 0x22] @ ''<dns-safe-short-name>''
     @ [CHR 0x22] @ '','' @ [CHR 0x22] @ ''displayName'' @ [CHR 0x22] @ '':'' @ [CHR 0x22] @ ''...''
     @ [CHR 0x22] @ '','' @ [CHR 0x22] @ ''emoji'' @ [CHR 0x22] @ '':'' @ [CHR 0x22]
     @ ''<one emoji>'' @ [CHR 0x22] @ '','' @ [CHR 0x22] @ ''role'' @ [CHR 0x22] @ '':'' @ [CHR 0x22]
     @ ''<one word>'' @ [CHR 0x22] @ '','' @ [CHR 0x22] @ ''systemPrompt'' @ [CHR 0x22] @ '':''
     @ [CHR 0x22] @ ''<2-4 sentences: the job, which governed tools/skills to lean on, and: never ''
     @ ''fabricate data '' @ [CHR 0xE2, CHR 0x80, CHR 0x94] @ '' if a tool cannot answer, say so>''
     @ [CHR 0x22] @ '','' @ [CHR 0x22] @ ''packs'' @ [CHR 0x22] @ '':[{'' @ [CHR 0x22] @ ''name''
     @ [CHR 0x22] @ '':'' @ [CHR 0x22] @ ''<exact catalog name>'' @ [CHR 0x22] @ '','' @ [CHR 0x22]
     @ ''reason'' @ [CHR 0x22] @ '':'' @ [CHR 0x22] @ ''<why, one clause>'' @ [CHR 0x22] @ ''}]}''"

definition gateway_answer ::
    "string \<Rightarrow> catalog_pack list \<Rightarrow> gateway_candidate list \<Rightarrow> string \<Rightarrow> model_selection \<Rightarrow> recommend_response result" where
  "gateway_answer desc packs teams model sel =
     (let chosen = drop_contained (complete_selection (chosen_packs packs (msl_Packs sel)) packs) packs;
          team = (case resolve_team (msl_Gateway sel) (msl_Reason sel) teams of
                    None \<Rightarrow> pick_team_fallback desc teams | Some t \<Rightarrow> Some t)
      in if chosen = [] then Inl ''gateway selected no valid packs''
         else case usable_identity (msl_Identity sel) of
           None \<Rightarrow> Inl ''gateway returned incomplete identity''
         | Some i \<Rightarrow> Inr \<lparr>rsp_Source = ''model:'' @ model, rsp_Identity = i, rsp_Packs = chosen, rsp_Team = team\<rparr>)"

definition recommend_via_gateway ::
    "'w recommend_env \<Rightarrow> string \<Rightarrow> catalog_pack list \<Rightarrow> gateway_candidate list \<Rightarrow> 'w \<Rightarrow> 'w \<times> recommend_response result" where
  "recommend_via_gateway env desc packs teams w =
     (let nl = [CHR 0x0A];
          prompt = gateway_prompt @ nl @ nl @ ''CATALOG:'' @ nl @ render_catalog_lines packs
            @ nl @ nl @ ''JOB DESCRIPTION:'' @ nl @ desc @ nl
      in and_then (run_gateway_turn env prompt w) (\<lambda>w (out, model).
           (w, case unmarshal (decode_selection [''team'']) (extract_json out) of
             None \<Rightarrow> Inl ''gateway returned unparseable selection''
           | Some sel \<Rightarrow> gateway_answer desc packs teams model sel)))"

subsection \<open>Scoring words\<close>

text \<open>Arithmetic on the finite values that occur, rounded as the code rounds.\<close>

definition float_op :: "(rat \<Rightarrow> rat \<Rightarrow> rat) \<Rightarrow> gofloat \<Rightarrow> gofloat \<Rightarrow> gofloat" where
  "float_op f x y = (case (x, y) of (Fin a, Fin b) \<Rightarrow> f64_of_rat (f a b) | _ \<Rightarrow> FNaN)"

definition pack_words :: "catalog_pack \<Rightarrow> string" where
  "pack_words p = to_lower (cp_Name p @ '' '' @ cp_DisplayName p @ '' '' @ cp_Description p)"

definition term_weight :: "(gofloat \<Rightarrow> gofloat) \<Rightarrow> catalog_pack list \<Rightarrow> string \<Rightarrow> gofloat" where
  "term_weight lg packs t =
     (let d = length (filter (\<lambda>p. str_contains (pack_words p) t) packs) in
      if d = 0 then Fin 0
      else lg (float_op (+) (Fin 1) (float_op (/) (int_to_float (int (length packs))) (int_to_float (int d)))))"

definition score_term ::
    "(string \<Rightarrow> gofloat) \<Rightarrow> catalog_pack \<Rightarrow> gofloat \<times> string list \<Rightarrow> string \<Rightarrow> gofloat \<times> string list" where
  "score_term weight p acc t =
     (let (sc, hits) = acc; w = weight t in
      if w = Fin 0 then acc
      else if str_contains (to_lower (cp_Name p @ '' '' @ cp_DisplayName p)) t then
        (float_op (+) sc (float_op (*) w (Fin 3)), hits @ [t])
      else if str_contains (to_lower (cp_Description p)) t then (float_op (+) sc w, hits @ [t])
      else acc)"

definition score_pack :: "(string \<Rightarrow> gofloat) \<Rightarrow> string list \<Rightarrow> catalog_pack \<Rightarrow> gofloat \<times> string list" where
  "score_pack weight terms p = foldl (score_term weight p) (Fin 0, []) terms"

text \<open>The packs with a positive score, the best first; the order on floats is that of \<open>less_gofloat_flt\<close>.\<close>

definition scored_packs :: "(gofloat \<Rightarrow> gofloat) \<Rightarrow> string list \<Rightarrow> catalog_pack list \<Rightarrow> (catalog_pack \<times> gofloat \<times> string list) list" where
  "scored_packs lg terms packs =
     rev (sort_key (\<lambda>(p, s, h). s) (rev (filter (\<lambda>(p, s, h). flt (Fin 0) s)
       (map (\<lambda>p. (p, score_pack (term_weight lg packs) terms p)) packs))))"

definition type_limit :: "string \<Rightarrow> nat" where
  "type_limit t = (if t = ''skill'' then 6 else if t = ''tool'' then 3 else if t = ''kb'' then 2 else 0)"

text \<open>The loop over the scored packs: it ends at the first score under the cutoff and skips full types.\<close>

fun pick_scored :: "gofloat \<Rightarrow> (catalog_pack \<times> gofloat \<times> string list) list \<Rightarrow> recommend_pack list \<Rightarrow> recommend_pack list" where
  "pick_scored cutoff [] out = out"
| "pick_scored cutoff ((p, s, hits) # rest) out =
     (if flt s cutoff then out
      else if type_limit (cp_Type p) \<le> length (filter (\<lambda>c. cp_Type (rp_Pack c) = cp_Type p) out) then pick_scored cutoff rest out
      else pick_scored cutoff rest (out @ [\<lparr>rp_Pack = p, rp_Reason = ''matched: '' @ join '', '' hits\<rparr>]))"

definition fallback_choice :: "(gofloat \<Rightarrow> gofloat) \<Rightarrow> string list \<Rightarrow> catalog_pack list \<Rightarrow> recommend_pack list" where
  "fallback_choice lg terms packs =
     (let all = scored_packs lg terms packs;
          cutoff = (case all of [] \<Rightarrow> Fin 0 | (p, s, h) # _ \<Rightarrow> float_op (/) s (Fin 3))
      in drop_contained (complete_selection (pick_scored cutoff all []) packs) packs)"

text \<open>The matches of \<open>declaredNameRe\<close>: the word after \<open>You are\<close> at the head of a description.\<close>

definition regex_space :: "char \<Rightarrow> bool" where
  "regex_space c \<longleftrightarrow> c \<in> {CHR 0x09, CHR 0x0A, CHR 0x0C, CHR 0x0D, CHR 0x20}"

definition skip_word :: "string \<Rightarrow> string \<Rightarrow> string option" where
  "skip_word w s =
     (if has_prefix (to_lower s) w then
        (case drop (length w) s of
           c # r \<Rightarrow> (if regex_space c then Some (dropWhile regex_space r) else None) | [] \<Rightarrow> None)
      else None)"

definition declared_name :: "string \<Rightarrow> string option" where
  "declared_name desc =
     do { s \<leftarrow> skip_word ''you'' (dropWhile regex_space desc);
          t \<leftarrow> skip_word ''are'' s;
          (case t of
             c # r \<Rightarrow> (if letter c \<or> is_digit c
               then Some (c # takeWhile (\<lambda>c. letter c \<or> is_digit c \<or> c = CHR ''_'' \<or> c = CHR ''-'') r) else None)
           | [] \<Rightarrow> None) }"

text \<open>\<open>strings.Title\<close> on ASCII: a letter that follows no letter, digit or underscore is raised.\<close>

fun title_from :: "char option \<Rightarrow> string \<Rightarrow> string" where
  "title_from prev [] = []"
| "title_from prev (c # r) =
     (let start = (case prev of None \<Rightarrow> True | Some q \<Rightarrow> \<not> (letter q \<or> is_digit q \<or> q = CHR ''_''));
          n = (of_char c :: nat)
      in (if start \<and> 97 \<le> n \<and> n \<le> 122 then char_of (n - 32) else c) # title_from (Some c) r)"

definition fallback_slug :: "string \<Rightarrow> string list \<Rightarrow> string" where
  "fallback_slug desc terms =
     (let declared = (case declared_name desc of
            None \<Rightarrow> []
          | Some w \<Rightarrow> (let c = to_lower w in if 3 \<le> length c \<and> c \<notin> set stopwords then sanitize_agent_name c else []));
          slug = (if declared \<noteq> [] then declared else sanitize_agent_name (join ''-'' (take 3 terms)))
      in default_if_empty slug ''custom-agent'')"

definition fallback_role :: "string \<Rightarrow> string" where
  "fallback_role desc =
     (if contains_any desc [''report'', ''summary'', ''metrics'', ''ops''] then ''reporter''
      else if contains_any desc [''build'', ''code'', ''develop'', ''service'', ''deploy''] then ''developer''
      else if contains_any desc [''research'', ''investigate'', ''find'', ''browse''] then ''researcher''
      else ''assistant'')"

definition robot :: string where
  "robot = [CHR 0xF0, CHR 0x9F, CHR 0xA4, CHR 0x96]"

definition recommend_fallback :: "(gofloat \<Rightarrow> gofloat) \<Rightarrow> string \<Rightarrow> catalog_pack list \<Rightarrow> recommend_response" where
  "recommend_fallback lg desc packs =
     (let terms = tokenize desc;
          chosen = fallback_choice lg terms packs;
          slug = fallback_slug desc terms;
          display = title_from None (replace_all slug ''-'' '' '');
          names = map rp_name chosen;
          prompt = ''You are '' @ display @ ''. Your job: '' @ desc @ ''. Work through the platform's governed tools and skills''
            @ (if names = [] then [] else dash_text @ ''start with: '' @ join '', '' names) @ ''. Never fabricate figures or results: if a tool cannot answer, say exactly that.''
      in \<lparr>rsp_Source = ''fallback'',
          rsp_Identity = \<lparr>ri_Name = slug, ri_DisplayName = display, ri_Emoji = robot, ri_Role = fallback_role desc, ri_SystemPrompt = prompt\<rparr>,
          rsp_Packs = chosen, rsp_Team = Some (own_team_for slug)\<rparr>)"

subsection \<open>The handler\<close>

definition crew_label :: "workstation \<Rightarrow> string" where
  "crew_label a = om_Name (aw_meta a) @ (if aws_Role (aw_Spec a) = [] then [] else '' ('' @ aws_Role (aw_Spec a) @ '')'')"

definition gather_gateways :: "kube_env \<Rightarrow> kube \<Rightarrow> gateway_candidate list" where
  "gather_gateways ke k =
     (case api_list ke Gateways gw_meta (ku_gateways k) catalog_namespace of
        Inl _ \<Rightarrow> []
      | Inr gws \<Rightarrow>
         (let aws = (case api_list ke Workstations aw_meta (ku_workstations k) catalog_namespace of Inl _ \<Rightarrow> [] | Inr xs \<Rightarrow> xs);
              crew = (\<lambda>g. filter (\<lambda>a. effective_gateway_ref a \<noteq> [] \<and> effective_gateway_ref a = om_Name (gw_meta g)) aws);
              team = (\<lambda>g. case filter (\<lambda>t. t \<noteq> []) (map (\<lambda>a. trim_space (aws_Team (aw_Spec a))) (crew g)) of [] \<Rightarrow> [] | t # _ \<Rightarrow> t)
          in sort_key gc_Name (map (\<lambda>g. \<lparr>gc_Name = om_Name (gw_meta g), gc_Description = trim_space (gws_Description (gw_Spec g)),
               gc_Team = team g, gc_Ready = (gwst_Phase (gw_Status g) = gateway_phase_ready), gc_Members = sort (map crew_label (crew g))\<rparr>) gws)))"

definition with_own_team :: "recommend_response \<Rightarrow> recommend_response" where
  "with_own_team r = r\<lparr>rsp_Team := Some (own_team_for (ri_Name (rsp_Identity r)))\<rparr>"

text \<open>The second engine, then the third.\<close>

definition recommend_without_gateway ::
    "'w recommend_env \<Rightarrow> string \<Rightarrow> catalog_pack list \<Rightarrow> 'w \<Rightarrow> 'w \<times> recommend_response" where
  "recommend_without_gateway env desc packs w =
     (let url = re_getenv env ''AGENT_RECOMMENDER_URL''; fallback = recommend_fallback (re_log env) desc packs in
      if url = [] then (w, fallback)
      else case recommend_via_model env url desc packs w of
        (w1, Inr r) \<Rightarrow> (w1, with_own_team r)
      | (w1, Inl _) \<Rightarrow> (w1, fallback))"

definition recommend ::
    "'w recommend_env \<Rightarrow> kube \<Rightarrow> string \<Rightarrow> 'w \<times> registry_cache \<Rightarrow> ('w \<times> registry_cache) \<times> ((int \<times> string) + recommend_response)" where
  "recommend env k description st =
     (let desc = trim_space description in
      if desc = [] then (st, Inl (400, ''body must be '' @ [CHR 0x7B, CHR 0x22] @ ''description'' @ [CHR 0x22] @ '': '' @ [CHR 0x22] @ ''...'' @ [CHR 0x22, CHR 0x7D]))
      else case gather_packs (re_catalog env) k [] st of
        (st1, Inl e) \<Rightarrow> (st1, Inl (500, e))
      | ((w, cache), Inr packs) \<Rightarrow>
         (case recommend_via_gateway env desc packs (gather_gateways (ca_kube (re_catalog env)) k) w of
            (w1, Inr r) \<Rightarrow> ((w1, cache), Inr (with_own_team r))
          | (w1, Inl _) \<Rightarrow> (case recommend_without_gateway env desc packs w1 of (w2, r) \<Rightarrow> ((w2, cache), Inr r))))"

subsection \<open>What a recommendation is made of\<close>

definition from_catalogue :: "catalog_pack list \<Rightarrow> recommend_pack list \<Rightarrow> bool" where
  "from_catalogue packs cs \<longleftrightarrow> rp_Pack ` set cs \<subseteq> set packs"

lemma complete_from_catalogue:
  assumes "from_catalogue packs cs" shows "from_catalogue packs (complete_selection cs packs)"
proof -
  have "grows packs cs (complete_selection cs packs)"
    using complete_passes_grows by (simp add: complete_selection_def grows_refl)
  then obtain ex where "complete_selection cs packs = cs @ ex" "\<forall>e \<in> set ex. rp_Pack e \<in> set packs \<and> \<not> picked cs (rp_name e)"
    unfolding grows_def by blast
  with assms show ?thesis by (auto simp: from_catalogue_def)
qed

lemma drop_from_catalogue: "from_catalogue packs cs \<Longrightarrow> from_catalogue packs (drop_contained cs packs)"
  by (auto simp: from_catalogue_def drop_contained_def)

lemma chosen_from_catalogue: "from_catalogue packs (chosen_packs packs sel)"
proof -
  have "rp_Pack c \<in> set packs" if "c \<in> set (chosen_packs packs sel)" for c
    using that by (auto simp: chosen_packs_def List.map_filter_def dest: by_pack_name_get)
  then show ?thesis by (auto simp: from_catalogue_def)
qed

lemma pick_scored_from_catalogue:
  "fst ` set all \<subseteq> set packs \<Longrightarrow> from_catalogue packs out \<Longrightarrow> from_catalogue packs (pick_scored cutoff all out)"
  by (induction cutoff all out rule: pick_scored.induct) (auto simp: from_catalogue_def)

lemma fallback_from_catalogue: "from_catalogue packs (fallback_choice lg terms packs)"
proof -
  have "fst ` set (scored_packs lg terms packs) \<subseteq> set packs" by (auto simp: scored_packs_def)
  moreover have "from_catalogue packs []" by (simp add: from_catalogue_def)
  ultimately show ?thesis
    unfolding fallback_choice_def Let_def
    by (intro drop_from_catalogue complete_from_catalogue pick_scored_from_catalogue)
qed

lemma usable_identity_label:
  assumes "usable_identity i = Some j" shows "agent_label (ri_Name j)" "ri_Name j \<noteq> []"
  using assms sanitize_label [of "ri_Name i"] by (auto simp: usable_identity_def Let_def split: if_splits)

lemma fallback_slug_label: "agent_label (fallback_slug desc terms) \<and> fallback_slug desc terms \<noteq> []"
proof -
  have "agent_label ''custom-agent''" by code_simp
  moreover have "agent_label (if P then s else sanitize_agent_name t)" if "P \<longrightarrow> agent_label s" for P s t
    using that sanitize_label by simp
  ultimately show ?thesis
    using sanitize_label by (auto simp: fallback_slug_def Let_def default_if_empty_def split: option.split)
qed

text \<open>What holds of every answer: packs of the catalogue, a name that is a label, and a gateway of its own.\<close>

definition sound_response :: "catalog_pack list \<Rightarrow> recommend_response \<Rightarrow> bool" where
  "sound_response packs r \<longleftrightarrow> from_catalogue packs (rsp_Packs r)
     \<and> agent_label (ri_Name (rsp_Identity r)) \<and> ri_Name (rsp_Identity r) \<noteq> []"

lemma recommend_fallback_sound:
  "sound_response packs (recommend_fallback lg desc packs)
   \<and> rsp_Team (recommend_fallback lg desc packs) = Some (own_team_for (ri_Name (rsp_Identity (recommend_fallback lg desc packs))))"
  using fallback_from_catalogue [of packs lg "tokenize desc"] fallback_slug_label [of desc "tokenize desc"]
  by (simp add: sound_response_def recommend_fallback_def Let_def)

lemma model_answer_sound:
  assumes "model_answer packs sel = Inr r" shows "sound_response packs r"
proof -
  from assms obtain i where "usable_identity (msl_Identity sel) = Some i" "rsp_Identity r = i"
    "rsp_Packs r = chosen_packs packs (msl_Packs sel)"
    by (auto simp: model_answer_def Let_def split: if_splits option.splits)
  with chosen_from_catalogue usable_identity_label show ?thesis by (simp add: sound_response_def)
qed

lemma gateway_answer_sound:
  assumes "gateway_answer desc packs teams model sel = Inr r" shows "sound_response packs r"
proof -
  let ?c = "drop_contained (complete_selection (chosen_packs packs (msl_Packs sel)) packs) packs"
  have c: "from_catalogue packs ?c" by (intro drop_from_catalogue complete_from_catalogue chosen_from_catalogue)
  have ne: "?c \<noteq> []" using assms by (rule contrapos_pn) (simp add: gateway_answer_def Let_def)
  then obtain i where i: "usable_identity (msl_Identity sel) = Some i"
    using assms by (cases "usable_identity (msl_Identity sel)") (simp_all add: gateway_answer_def Let_def)
  then have "rsp_Identity r = i" "rsp_Packs r = ?c" using assms ne by (auto simp: gateway_answer_def Let_def)
  with c i usable_identity_label show ?thesis by (simp add: sound_response_def)
qed

lemma recommend_via_model_sound: "recommend_via_model env url desc packs w = (w1, Inr r) \<Longrightarrow> sound_response packs r"
  using model_answer_sound by (auto simp: recommend_via_model_def Let_def and_then_Inr_iff split: option.splits)

lemma recommend_via_gateway_sound: "recommend_via_gateway env desc packs teams w = (w1, Inr r) \<Longrightarrow> sound_response packs r"
  using gateway_answer_sound by (auto simp: recommend_via_gateway_def Let_def and_then_Inr_iff split: option.splits)


definition demo_recommend_env :: "unit recommend_env" where
  "demo_recommend_env = \<lparr>re_catalog = demo_catalog_env, re_pods = (\<lambda>_ _ _. Inl ''no pods''), re_client = Inr (), re_executor = Inr (),
     re_exec = (\<lambda>_ _ _ w. (w, [], [], Some ''down'')), re_duration = (\<lambda>_. None), re_log = (\<lambda>x. x)\<rparr>"


text \<open>
  The two engines treat one selection differently: the chat endpoint keeps a pack without what it requires,
  and a pack that is named twice.
\<close>

definition demo_selection :: model_selection where
  "demo_selection = \<lparr>msl_Identity = \<lparr>ri_Name = ''forge'', ri_DisplayName = [], ri_Emoji = [], ri_Role = [], ri_SystemPrompt = ''build''\<rparr>,
     msl_Packs = [(''terrain'', []), (''terrain'', [])], msl_Gateway = [], msl_Reason = []\<rparr>"

lemma engines_differ:
  "map_sum id (\<lambda>r. map rp_name (rsp_Packs r)) (model_answer demo_forge demo_selection) = Inr [''terrain'', ''terrain'']
   \<and> map_sum id (\<lambda>r. map rp_name (rsp_Packs r)) (gateway_answer [] demo_forge [] [] demo_selection) = Inr [''brain'']"
proof -
  have n: "sanitize_agent_name ''forge'' = ''forge''" by (rule sanitize_id) code_simp
  have c: "map rp_name (chosen_packs demo_forge [(''terrain'', []), (''terrain'', [])]) = [''terrain'', ''terrain'']" by code_simp
  have d: "map rp_name (drop_contained (complete_selection (chosen_packs demo_forge [(''terrain'', []), (''terrain'', [])]) demo_forge) demo_forge)
      = [''brain'']" by code_simp
  then have "chosen_packs demo_forge [(''terrain'', []), (''terrain'', [])] \<noteq> []"
    "drop_contained (complete_selection (chosen_packs demo_forge [(''terrain'', []), (''terrain'', [])]) demo_forge) demo_forge \<noteq> []"
    using c by auto
  with n c d show ?thesis
    by (simp add: model_answer_def gateway_answer_def usable_identity_def demo_selection_def)
qed

end
