(* ===== verification/Refine.thy ===== *)
theory Refine
  imports Recommend
begin

text \<open>
  \<open>catalog_refine.go\<close>: a conversation about a composed agent. A turn of the model gives operations, and
  these are all it can do to the composition; without a model the words of the user are matched against
  the names of the packs.
\<close>

record refine_op =
  rop_Op :: string
  rop_Name :: string
  rop_Reason :: string
  rop_Field :: string
  rop_Value :: string

text \<open>What \<open>applyRefineOps\<close> builds up.\<close>

record refine_state =
  rst_id :: recommend_identity
  rst_next :: "recommend_pack list"
  rst_notes :: "string list"
  rst_changed :: bool

definition refine_note :: "string \<Rightarrow> refine_state \<Rightarrow> refine_state" where
  "refine_note n st = st\<lparr>rst_notes := rst_notes st @ [n]\<rparr>"

definition refine_identity :: "recommend_identity \<Rightarrow> refine_state \<Rightarrow> refine_state" where
  "refine_identity i st = st\<lparr>rst_id := i, rst_changed := True\<rparr>"

definition refine_select :: "recommend_pack list \<Rightarrow> refine_state \<Rightarrow> refine_state" where
  "refine_select ps st = st\<lparr>rst_next := ps, rst_changed := True\<rparr>"

fun remove_named :: "string \<Rightarrow> recommend_pack list \<Rightarrow> recommend_pack list" where
  "remove_named n [] = []"
| "remove_named n (p # ps) = (if rp_name p = n then ps else p # remove_named n ps)"

definition apply_set :: "refine_op \<Rightarrow> refine_state \<Rightarrow> refine_state" where
  "apply_set op st =
     (let v = trim_space (rop_Value op); i = rst_id st; f = rop_Field op; s = sanitize_agent_name v in
      if f = ''name'' then
        (if s \<noteq> [] \<and> s \<noteq> ri_Name i then refine_identity (i\<lparr>ri_Name := s\<rparr>) st
         else if s = [] then refine_note (go_quote (rop_Value op) @ '' doesn't sanitize to a usable name'') st
         else st)
      else if f = ''displayName'' then
        (if v \<noteq> [] \<and> v \<noteq> ri_DisplayName i then refine_identity (i\<lparr>ri_DisplayName := v\<rparr>) st else st)
      else if f = ''emoji'' then
        (if v \<noteq> [] \<and> v \<noteq> ri_Emoji i then refine_identity (i\<lparr>ri_Emoji := v\<rparr>) st else st)
      else if f = ''role'' then
        (if v \<noteq> [] \<and> v \<noteq> ri_Role i then refine_identity (i\<lparr>ri_Role := v\<rparr>) st else st)
      else if f = ''systemPrompt'' then
        (if v \<noteq> [] \<and> v \<noteq> ri_SystemPrompt i then refine_identity (i\<lparr>ri_SystemPrompt := v\<rparr>) st else st)
      else refine_note (''unknown field '' @ go_quote f) st)"

definition apply_refine_op :: "catalog_pack gomap \<Rightarrow> refine_state \<Rightarrow> refine_op \<Rightarrow> refine_state" where
  "apply_refine_op by_name st op =
     (let n = rop_Name op; k = rop_Op op in
      if k = ''add'' then
        (if picked (rst_next st) n then refine_note (n @ '' was already selected'') st
         else case gm_get by_name n of
           None \<Rightarrow> refine_note (''no catalog entry named '' @ n) st
         | Some p \<Rightarrow>
             refine_select (rst_next st @ [\<lparr>rp_Pack = p, rp_Reason = default_if_empty (rop_Reason op) ''added in refinement''\<rparr>]) st)
      else if k = ''remove'' then
        (if picked (rst_next st) n then refine_select (remove_named n (rst_next st)) st
         else refine_note (n @ '' wasn't in the selection'') st)
      else if k = ''set'' then apply_set op st
      else refine_note (''unknown op '' @ go_quote k) st)"

definition apply_refine_ops ::
    "recommend_identity \<Rightarrow> recommend_pack list \<Rightarrow> refine_op list \<Rightarrow> catalog_pack gomap \<Rightarrow> refine_state" where
  "apply_refine_ops i cur ops by_name =
     foldl (apply_refine_op by_name) \<lparr>rst_id = i, rst_next = cur, rst_notes = [], rst_changed = False\<rparr> ops"

text \<open>The closure that runs when the operations changed something: what it adds and drops is noted.\<close>

definition close_selection ::
    "(string list \<Rightarrow> string list) \<Rightarrow> catalog_pack list \<Rightarrow> refine_state \<Rightarrow> recommend_pack list \<times> string list" where
  "close_selection order packs st =
     (if \<not> rst_changed st then (rst_next st, rst_notes st)
      else let closed = drop_contained (complete_selection (rst_next st) packs) packs;
               (pre, notes) = foldl (\<lambda>(pre, notes) p. (filter (\<lambda>n. n \<noteq> rp_name p) pre,
                   if rp_name p \<in> set pre then notes else notes @ [''also pulled in '' @ rp_name p @ '' (required)'']))
                 (remdups (map rp_name (rst_next st)), rst_notes st) closed
           in (closed, notes @ map (\<lambda>n. ''dropped '' @ n @ dash_text @ ''already inside a selected container'') (order pre)))"

subsection \<open>Without a model\<close>

definition remove_verbs :: "string list" where
  "remove_verbs = [''remove '', ''drop '', ''delete '', ''take out '', ''get rid of '', ''without '']"

definition add_verbs :: "string list" where
  "add_verbs = [''add '', ''include '', ''install '', ''put in '', ''give it '', ''attach '']"

definition term_hits :: "string list \<Rightarrow> string \<Rightarrow> nat" where
  "term_hits terms hay = length (filter (str_contains hay) terms)"

text \<open>The first name with the most hits, the empty one when none has any.\<close>

definition best_match :: "string list \<Rightarrow> string list \<Rightarrow> string" where
  "best_match terms names =
     fst (foldl (\<lambda>(best, h) n. let k = term_hits terms (to_lower (replace_all n ''-'' '' '')) in if h < k then (n, k) else (best, h))
       ([], 0) names)"

definition plain_op :: "string \<Rightarrow> string \<Rightarrow> string \<Rightarrow> refine_op" where
  "plain_op k n r = \<lparr>rop_Op = k, rop_Name = n, rop_Reason = r, rop_Field = [], rop_Value = []\<rparr>"

definition match_line :: "catalog_pack \<Rightarrow> string" where
  "match_line p =
     (let d = cp_Description p in cp_Name p @ dash_text @ (if 90 < length d then take 90 d @ ellipsis else d))"

definition middle_dot :: string where
  "middle_dot = [CHR 0x20, CHR 0xC2, CHR 0xB7, CHR 0x20]"

definition refine_fallback :: "string \<Rightarrow> recommend_pack list \<Rightarrow> catalog_pack list \<Rightarrow> string \<times> refine_op list" where
  "refine_fallback last_user cur packs =
     (let msg = to_lower last_user; terms = tokenize last_user in
      if contains_any msg remove_verbs then
        (let hit = best_match terms (map rp_name cur) in
         if hit \<noteq> [] then (''Removed '' @ hit @ ''. Anything else?'', [plain_op ''remove'' hit []])
         else (''I couldn't match that to the current selection'' @ '' ('' @ join '', '' (map rp_name cur) @ ''). Name one of those to remove it.'', []))
      else if contains_any msg add_verbs then
        (let hit = best_match terms (map cp_Name packs) in
         if hit \<noteq> [] then (''Added '' @ hit @ ''. Anything else?'', [plain_op ''add'' hit ''you asked for it''])
         else (''I couldn't match that to anything in the catalog. Ask me what's available for ''
               @ ''a topic and I'll list the closest entries.'', []))
      else
        (let scored = filter (\<lambda>(p, h). 0 < h) (map (\<lambda>p. (p, term_hits terms (pack_words p))) packs);
             best = take 3 (rev (sort_key snd (rev scored)))
         in if scored = [] then (''Nothing in the catalog matches that. The selection is unchanged'' @ dash_text @ ''anything else?'', [])
            else (''Closest catalog matches: '' @ join middle_dot (map (match_line \<circ> fst) best)
                  @ ''. Say '' @ [CHR 0x22] @ ''add <name>'' @ [CHR 0x22] @ '' to include one.'', [])))"

subsection \<open>The handler\<close>

record refine_request =
  rrq_Description :: string
  rrq_Identity :: recommend_identity
  rrq_Packs :: "string list"
  rrq_Brain :: string
  rrq_Messages :: "(string \<times> string) list"

record refine_response =
  rfr_Source :: string
  rfr_Reply :: string
  rfr_Identity :: recommend_identity
  rfr_Packs :: "recommend_pack list"
  rfr_Team :: recommend_team
  rfr_Changed :: bool

text \<open>The last twelve messages, each cut after 4000 bytes.\<close>

definition trim_messages :: "(string \<times> string) list \<Rightarrow> (string \<times> string) list" where
  "trim_messages ms = map (\<lambda>(r, c). (r, take 4000 c)) (drop (length ms - 12) ms)"

definition last_user_turn :: "(string \<times> string) list \<Rightarrow> string" where
  "last_user_turn ms = (case rev ms of [] \<Rightarrow> [] | (r, c) # _ \<Rightarrow> (if r = ''user'' then trim_space c else []))"

definition refine_rules :: string where
  "refine_rules =
     ''You are the composer behind a governed agent-hiring form, now in REFINEMENT '' @ ''mode.''
     @ [CHR 0x0A]
     @ ''The user already has a composed agent (CURRENT COMPOSITION below). You adjust '' @ ''it''
     @ [CHR 0x0A] @ ''through conversation '' @ [CHR 0xE2, CHR 0x80, CHR 0x94]
     @ '' targeted edits, never a rebuild.'' @ [CHR 0x0A, CHR 0x0A]
     @ ''Reply with ONE JSON object, no prose, no code fence:'' @ [CHR 0x0A] @ ''{'' @ [CHR 0x22]
     @ ''reply'' @ [CHR 0x22] @ '':'' @ [CHR 0x22] @ ''<1-3 short sentences to the user>''
     @ [CHR 0x22] @ '','' @ [CHR 0x22] @ ''ops'' @ [CHR 0x22] @ '':[...]}'' @ [CHR 0x0A]
     @ ''where each op is one of:'' @ [CHR 0x0A] @ ''  {'' @ [CHR 0x22] @ ''op'' @ [CHR 0x22] @ '':''
     @ [CHR 0x22] @ ''add'' @ [CHR 0x22] @ '','' @ [CHR 0x22] @ ''name'' @ [CHR 0x22] @ '':''
     @ [CHR 0x22] @ ''<exact catalog name>'' @ [CHR 0x22] @ '','' @ [CHR 0x22] @ ''reason''
     @ [CHR 0x22] @ '':'' @ [CHR 0x22] @ ''<one clause>'' @ [CHR 0x22] @ ''}'' @ [CHR 0x0A] @ ''  {''
     @ [CHR 0x22] @ ''op'' @ [CHR 0x22] @ '':'' @ [CHR 0x22] @ ''remove'' @ [CHR 0x22] @ '',''
     @ [CHR 0x22] @ ''name'' @ [CHR 0x22] @ '':'' @ [CHR 0x22] @ ''<a currently selected name>''
     @ [CHR 0x22] @ ''}'' @ [CHR 0x0A] @ ''  {'' @ [CHR 0x22] @ ''op'' @ [CHR 0x22] @ '':''
     @ [CHR 0x22] @ ''set'' @ [CHR 0x22] @ '','' @ [CHR 0x22] @ ''field'' @ [CHR 0x22] @ '':''
     @ [CHR 0x22] @ ''name|displayName|emoji|role|systemPrompt'' @ [CHR 0x22] @ '','' @ [CHR 0x22]
     @ ''value'' @ [CHR 0x22] @ '':'' @ [CHR 0x22] @ ''...'' @ [CHR 0x22] @ ''}''
     @ [CHR 0x0A, CHR 0x0A] @ ''RULES:'' @ [CHR 0x0A]
     @ ''- Edit ONLY what the user's latest message asks for; everything else stays exactly ''
     @ ''as it is. '' @ [CHR 0x22] @ ''ops'' @ [CHR 0x22]
     @ '':[] is the correct answer to a pure question.'' @ [CHR 0x0A]
     @ ''- Questions about capabilities ('' @ [CHR 0x22] @ ''is there a skill for X?'' @ [CHR 0x22]
     @ '') are answered from the CATALOG in reply: name the real entries and what they ''
     @ ''do, and offer to add them '' @ [CHR 0xE2, CHR 0x80, CHR 0x94]
     @ '' but do not add until asked. If the catalog has nothing for it, say so plainly; ''
     @ ''never invent an entry.'' @ [CHR 0x0A]
     @ ''- add may only name CATALOG entries; remove may only name CURRENT selections.'' @ [CHR 0x0A]
     @ ''- The catalog is a HIERARCHY: a pack installs everything it CONTAINS, so never ''
     @ ''add something already inside a current selection, and prefer the smallest entry ''
     @ ''that covers the request. REQUIRES is a separate graph; the platform auto-completes ''
     @ ''missing requirements after your ops.'' @ [CHR 0x0A]
     @ ''- The brain is chosen in the form's own picker, not here '' @ [CHR 0xE2, CHR 0x80, CHR 0x94]
     @ '' if asked to change the model, say to pick it in the Brain section below the ''
     @ ''constellation.'' @ [CHR 0x0A]
     @ ''- systemPrompt edits preserve the existing prompt's voice and its never-fabricate ''
     @ ''rule; change only what was asked.'' @ [CHR 0x0A]
     @ ''- When you change something, reply confirms it in one sentence and asks if anything ''
     @ ''else needs adjusting.'' @ [CHR 0x0A, CHR 0x0A]"

definition refine_prompt :: "refine_request \<Rightarrow> recommend_pack list \<Rightarrow> catalog_pack list \<Rightarrow> string" where
  "refine_prompt req cur packs =
     (let nl = [CHR 0x0A]; i = rrq_Identity req in
      refine_rules @ ''CURRENT COMPOSITION:'' @ nl
      @ ''identity: name='' @ ri_Name i @ middle_dot @ ''displayName='' @ ri_DisplayName i @ middle_dot @ ''emoji='' @ ri_Emoji i
      @ middle_dot @ ''role='' @ ri_Role i @ nl
      @ ''systemPrompt: '' @ ri_SystemPrompt i @ nl
      @ (if rrq_Brain req = [] then [] else ''brain: '' @ rrq_Brain req @ nl)
      @ ''selected:'' @ nl
      @ (if cur = [] then ''  (nothing selected)'' @ nl else [])
      @ concat (map (\<lambda>p. ''  - '' @ rp_name p @ '' ('' @ default_if_empty (cp_ArtifactKind (rp_Pack p)) (cp_Type (rp_Pack p)) @ '')'' @ nl) cur)
      @ nl @ ''CATALOG:'' @ nl @ render_catalog_lines packs
      @ nl @ nl @ ''ORIGINAL JOB DESCRIPTION:'' @ nl @ rrq_Description req
      @ nl @ nl @ ''CONVERSATION (latest last):'' @ nl
      @ concat (map (\<lambda>(r, c). (if r = ''assistant'' then ''assistant'' else ''user'') @ '': '' @ c @ nl) (rrq_Messages req)))"

definition decode_refine_op :: "json \<Rightarrow> refine_op option" where
  "decode_refine_op v =
     (let names = [''op'', ''name'', ''reason'', ''field'', ''value''] in
      do { kvs \<leftarrow> object_members v;
           k \<leftarrow> field_str ''op'' names kvs;
           n \<leftarrow> field_str ''name'' names kvs;
           r \<leftarrow> field_str ''reason'' names kvs;
           f \<leftarrow> field_str ''field'' names kvs;
           x \<leftarrow> field_str ''value'' names kvs;
           Some \<lparr>rop_Op = k, rop_Name = n, rop_Reason = r, rop_Field = f, rop_Value = x\<rparr> })"

text \<open>What a model answers: the words to the user and the operations.\<close>

definition decode_refine_out :: "json \<Rightarrow> (string \<times> refine_op list) option" where
  "decode_refine_out v =
     do { kvs \<leftarrow> object_members v;
          r \<leftarrow> field_str ''reply'' [''reply'', ''ops''] kvs;
          ops \<leftarrow> field_list decode_refine_op ''ops'' [''reply'', ''ops''] kvs;
          Some (r, ops) }"

definition refine_via_model :: "'w recommend_env \<Rightarrow> string \<Rightarrow> string \<Rightarrow> 'w \<Rightarrow> 'w \<times> (string \<times> refine_op list) result" where
  "refine_via_model env url prompt w =
     and_then (chat_request env ''refiner'' url [chat_message ''user'' prompt] w) (\<lambda>w content.
       (w, case unmarshal decode_refine_out (extract_json content) of
          None \<Rightarrow> Inl ''refiner: bad ops JSON''
        | Some (r, ops) \<Rightarrow> (if r = [] then Inl ''refiner: empty reply'' else Inr (r, ops))))"

text \<open>The source of the answer, its words and its operations: the gateway, the endpoint, or the fallback.\<close>

definition refine_engine ::
    "'w recommend_env \<Rightarrow> string \<Rightarrow> string \<Rightarrow> recommend_pack list \<Rightarrow> catalog_pack list \<Rightarrow> 'w \<Rightarrow> 'w \<times> string \<times> string \<times> refine_op list" where
  "refine_engine env prompt last_user cur packs w =
     (let (w1, turn) = run_gateway_turn env prompt w;
          answer = (case turn of Inl _ \<Rightarrow> None
            | Inr (raw, model) \<Rightarrow>
                (case unmarshal decode_refine_out (extract_json raw) of
                   None \<Rightarrow> None | Some (r, ops) \<Rightarrow> (if r = [] then None else Some (''model:'' @ model, r, ops))));
          url = re_getenv env ''AGENT_RECOMMENDER_URL'';
          fallback = (case refine_fallback last_user cur packs of (r, ops) \<Rightarrow> (''fallback'', r, ops))
      in case answer of
           Some a \<Rightarrow> (w1, a)
         | None \<Rightarrow>
             (if url = [] then (w1, fallback)
              else case refine_via_model env url prompt w1 of
                (w2, Inr (r, ops)) \<Rightarrow> (w2, ''model'', r, ops)
              | (w2, Inl _) \<Rightarrow> (w2, fallback)))"

definition refine_reply :: "string \<Rightarrow> bool \<Rightarrow> string list \<Rightarrow> string" where
  "refine_reply text changed notes =
     default_if_empty (trim_space text)
       (if changed then ''Done. Anything else to adjust?'' else ''Nothing changed. Anything else?'')
     @ (if notes = [] then [] else '' ('' @ join ''; '' notes @ '')'')"

definition refine ::
    "'w recommend_env \<Rightarrow> kube \<Rightarrow> refine_request \<Rightarrow> 'w \<times> registry_cache \<Rightarrow> ('w \<times> registry_cache) \<times> ((int \<times> string) + refine_response)" where
  "refine env k req0 st =
     (let req = req0\<lparr>rrq_Messages := trim_messages (rrq_Messages req0)\<rparr>; last_user = last_user_turn (rrq_Messages req) in
      if last_user = [] then (st, Inl (400, ''messages must end with a non-empty user turn''))
      else case gather_packs (re_catalog env) k [] st of
        (st1, Inl e) \<Rightarrow> (st1, Inl (500, e))
      | ((w, cache), Inr packs) \<Rightarrow>
          (let by_name = by_pack_name packs;
               cur = List.map_filter (\<lambda>n. map_option (\<lambda>p. \<lparr>rp_Pack = p, rp_Reason = []\<rparr>) (gm_get by_name n)) (rrq_Packs req);
               (w1, source, text, ops) = refine_engine env (refine_prompt req cur packs) last_user cur packs w;
               st2 = apply_refine_ops (rrq_Identity req) cur ops by_name;
               (closed, notes) = close_selection (ke_range (ca_kube (re_catalog env))) packs st2
           in ((w1, cache), Inr \<lparr>rfr_Source = source, rfr_Reply = refine_reply text (rst_changed st2) notes, rfr_Identity = rst_id st2,
                rfr_Packs = closed, rfr_Team = own_team_for (ri_Name (rst_id st2)), rfr_Changed = rst_changed st2\<rparr>)))"

subsection \<open>What the operations reach\<close>

text \<open>The packs that the operations name, and the fields that they set.\<close>

definition named_packs :: "refine_op list \<Rightarrow> string set" where
  "named_packs ops = rop_Name ` {op \<in> set ops. rop_Op op = ''add'' \<or> rop_Op op = ''remove''}"

definition sets_field :: "refine_op list \<Rightarrow> string \<Rightarrow> bool" where
  "sets_field ops f \<longleftrightarrow> (\<exists>op \<in> set ops. rop_Op op = ''set'' \<and> rop_Field op = f)"

text \<open>Two states that differ only as these operations allow.\<close>

definition touched :: "catalog_pack gomap \<Rightarrow> refine_op list \<Rightarrow> refine_state \<Rightarrow> refine_state \<Rightarrow> bool" where
  "touched by_name ops a b \<longleftrightarrow>
     filter (\<lambda>p. rp_name p \<notin> named_packs ops) (rst_next b) = filter (\<lambda>p. rp_name p \<notin> named_packs ops) (rst_next a)
     \<and> (\<forall>p \<in> set (rst_next b). p \<in> set (rst_next a) \<or> (\<exists>op \<in> set ops. rop_Op op = ''add'' \<and> gm_get by_name (rop_Name op) = Some (rp_Pack p)))
     \<and> (rst_changed b \<or> rst_id b = rst_id a \<and> rst_next b = rst_next a \<and> \<not> rst_changed a)
     \<and> (ri_Name (rst_id b) = ri_Name (rst_id a) \<or> sets_field ops ''name'' \<and> agent_label (ri_Name (rst_id b)) \<and> ri_Name (rst_id b) \<noteq> [])
     \<and> (ri_DisplayName (rst_id b) = ri_DisplayName (rst_id a) \<or> sets_field ops ''displayName'')
     \<and> (ri_Emoji (rst_id b) = ri_Emoji (rst_id a) \<or> sets_field ops ''emoji'')
     \<and> (ri_Role (rst_id b) = ri_Role (rst_id a) \<or> sets_field ops ''role'')
     \<and> (ri_SystemPrompt (rst_id b) = ri_SystemPrompt (rst_id a) \<or> sets_field ops ''systemPrompt'')"

lemma filter_remove_named: "\<not> P n \<Longrightarrow> filter (\<lambda>p. P (rp_name p)) (remove_named n ps) = filter (\<lambda>p. P (rp_name p)) ps"
  by (induction ps) auto

lemma set_remove_named: "set (remove_named n ps) \<subseteq> set ps"
  by (induction ps) auto

lemma named_packs_append: "named_packs (xs @ ys) = named_packs xs \<union> named_packs ys"
  by (auto simp: named_packs_def)

lemma sets_field_append: "sets_field (xs @ ys) f \<longleftrightarrow> sets_field xs f \<or> sets_field ys f"
  by (auto simp: sets_field_def)

lemma touched_refl: "touched bn [] a a"
  by (simp add: touched_def)

lemma touched_trans:
  assumes "touched bn xs a b" "touched bn ys b c" shows "touched bn (xs @ ys) a c"
proof -
  have f: "filter (\<lambda>p. rp_name p \<notin> named_packs (xs @ ys)) ps
      = filter (\<lambda>p. rp_name p \<notin> named_packs xs) (filter (\<lambda>p. rp_name p \<notin> named_packs ys) ps)"
    "filter (\<lambda>p. rp_name p \<notin> named_packs (xs @ ys)) ps
      = filter (\<lambda>p. rp_name p \<notin> named_packs ys) (filter (\<lambda>p. rp_name p \<notin> named_packs xs) ps)" for ps
    by (simp_all add: named_packs_append conj_commute)
  have "filter (\<lambda>p. rp_name p \<notin> named_packs (xs @ ys)) (rst_next c) = filter (\<lambda>p. rp_name p \<notin> named_packs (xs @ ys)) (rst_next b)"
    unfolding f(1) using assms(2) by (simp only: touched_def)
  also have "\<dots> = filter (\<lambda>p. rp_name p \<notin> named_packs (xs @ ys)) (rst_next a)"
    unfolding f(2) using assms(1) by (simp only: touched_def)
  finally have 1: "filter (\<lambda>p. rp_name p \<notin> named_packs (xs @ ys)) (rst_next c) = filter (\<lambda>p. rp_name p \<notin> named_packs (xs @ ys)) (rst_next a)" .
  have 2: "p \<in> set (rst_next a) \<or> (\<exists>op \<in> set (xs @ ys). rop_Op op = ''add'' \<and> gm_get bn (rop_Name op) = Some (rp_Pack p))"
    if "p \<in> set (rst_next c)" for p
  proof (cases "p \<in> set (rst_next b)")
    case True
    with assms(1) show ?thesis by (auto simp: touched_def)
  next
    case False
    with assms(2) that show ?thesis by (auto simp: touched_def)
  qed
  note ab = assms(1) [unfolded touched_def] and bc = assms(2) [unfolded touched_def]
  have 3: "rst_changed c \<or> rst_id c = rst_id a \<and> rst_next c = rst_next a \<and> \<not> rst_changed a" using ab bc by metis
  have 4: "ri_Name (rst_id c) = ri_Name (rst_id a) \<or> sets_field (xs @ ys) ''name'' \<and> agent_label (ri_Name (rst_id c)) \<and> ri_Name (rst_id c) \<noteq> []"
    unfolding sets_field_append using ab bc by metis
  have 5: "ri_DisplayName (rst_id c) = ri_DisplayName (rst_id a) \<or> sets_field (xs @ ys) ''displayName''"
    "ri_Emoji (rst_id c) = ri_Emoji (rst_id a) \<or> sets_field (xs @ ys) ''emoji''"
    "ri_Role (rst_id c) = ri_Role (rst_id a) \<or> sets_field (xs @ ys) ''role''"
    "ri_SystemPrompt (rst_id c) = ri_SystemPrompt (rst_id a) \<or> sets_field (xs @ ys) ''systemPrompt''"
    unfolding sets_field_append using ab bc by metis+
  from 1 2 3 4 5 show ?thesis unfolding touched_def by blast
qed

lemma touched_same: "touched bn ops st st" "touched bn ops st (refine_note x st)"
  by (simp_all add: touched_def refine_note_def)

lemma touched_identity:
  assumes "ri_Name j = ri_Name (rst_id st) \<or> sets_field ops ''name'' \<and> agent_label (ri_Name j) \<and> ri_Name j \<noteq> []"
    and "ri_DisplayName j = ri_DisplayName (rst_id st) \<or> sets_field ops ''displayName''"
    and "ri_Emoji j = ri_Emoji (rst_id st) \<or> sets_field ops ''emoji''"
    and "ri_Role j = ri_Role (rst_id st) \<or> sets_field ops ''role''"
    and "ri_SystemPrompt j = ri_SystemPrompt (rst_id st) \<or> sets_field ops ''systemPrompt''"
  shows "touched bn ops st (refine_identity j st)"
  using assms by (simp add: touched_def refine_identity_def)

lemma touched_step:
  assumes keyed: "\<And>n p. gm_get bn n = Some p \<Longrightarrow> cp_Name p = n"
  shows "touched bn [op] st (apply_refine_op bn st op)"
proof -
  have n: "named_packs [op] = (if rop_Op op = ''add'' \<or> rop_Op op = ''remove'' then {rop_Name op} else {})"
    by (auto simp: named_packs_def)
  have f: "sets_field [op] g \<longleftrightarrow> rop_Op op = ''set'' \<and> rop_Field op = g" for g by (simp add: sets_field_def)
  consider (add) "rop_Op op = ''add''" | (remove) "rop_Op op = ''remove''" | (set) "rop_Op op = ''set''"
    | (other) "rop_Op op \<notin> {''add'', ''remove'', ''set''}" by blast
  then show ?thesis
  proof cases
    case add
    show ?thesis
    proof (cases "picked (rst_next st) (rop_Name op)")
      case True
      with add show ?thesis by (simp add: touched_def apply_refine_op_def Let_def refine_note_def)
    next
      case False
      show ?thesis
      proof (cases "gm_get bn (rop_Name op)")
        case None
        with add False show ?thesis by (simp add: touched_def apply_refine_op_def Let_def refine_note_def)
      next
        case (Some p)
        with add False keyed [OF Some] show ?thesis
          by (simp add: touched_def apply_refine_op_def Let_def refine_select_def n rp_name_def)
      qed
    qed
  next
    case remove
    have "filter (\<lambda>p. rp_name p \<notin> {rop_Name op}) (remove_named (rop_Name op) ps) = filter (\<lambda>p. rp_name p \<notin> {rop_Name op}) ps" for ps
      by (rule filter_remove_named) simp
    with remove show ?thesis
      using set_remove_named [of "rop_Name op" "rst_next st"]
      by (auto simp: touched_def apply_refine_op_def Let_def refine_select_def refine_note_def n)
  next
    case set
    then have e: "apply_refine_op bn st op = apply_set op st" by (simp add: apply_refine_op_def Let_def)
    consider "rop_Field op = ''name''" | "rop_Field op = ''displayName''" | "rop_Field op = ''emoji''" | "rop_Field op = ''role''"
      | "rop_Field op = ''systemPrompt''"
      | "rop_Field op \<notin> {''name'', ''displayName'', ''emoji'', ''role'', ''systemPrompt''}" by blast
    then show ?thesis
      using sanitize_label [of "trim_space (rop_Value op)"] unfolding e
      by cases (auto simp: set apply_set_def Let_def f touched_same intro!: touched_identity)
  next
    case other
    then show ?thesis by (simp add: touched_def apply_refine_op_def Let_def refine_note_def)
  qed
qed

lemma refine_touched: "touched (by_pack_name packs) ops st (foldl (apply_refine_op (by_pack_name packs)) st ops)"
proof (induction ops rule: rev_induct)
  case (snoc op ops)
  let ?st = "foldl (apply_refine_op (by_pack_name packs)) st ops"
  have "touched (by_pack_name packs) [op] ?st (apply_refine_op (by_pack_name packs) ?st op)"
    by (rule touched_step) (auto dest: by_pack_name_get)
  from touched_trans [OF snoc this] show ?case by simp
qed (simp add: touched_refl)


definition demo_identity :: recommend_identity where
  "demo_identity = \<lparr>ri_Name = ''ops'', ri_DisplayName = ''Ops'', ri_Emoji = [], ri_Role = ''reporter'', ri_SystemPrompt = ''report''\<rparr>"

definition demo_ops :: "refine_op list" where
  "demo_ops = [\<lparr>rop_Op = ''add'', rop_Name = ''terrain'', rop_Reason = [], rop_Field = [], rop_Value = []\<rparr>,
     \<lparr>rop_Op = ''remove'', rop_Name = ''core'', rop_Reason = [], rop_Field = [], rop_Value = []\<rparr>,
     \<lparr>rop_Op = ''frobnicate'', rop_Name = [], rop_Reason = [], rop_Field = [], rop_Value = []\<rparr>]"


subsection \<open>The whole turn\<close>

text \<open>The current selection as the server sees it: the names that the catalogue still has.\<close>

definition current_packs :: "catalog_pack list \<Rightarrow> string list \<Rightarrow> recommend_pack list" where
  "current_packs packs names = List.map_filter (\<lambda>n. map_option (\<lambda>p. \<lparr>rp_Pack = p, rp_Reason = []\<rparr>) (gm_get (by_pack_name packs) n)) names"

lemma current_from_catalogue: "from_catalogue packs (current_packs packs names)"
proof -
  have "rp_Pack c \<in> set packs" if "c \<in> set (current_packs packs names)" for c
    using that by (auto simp: current_packs_def List.map_filter_def dest: by_pack_name_get)
  then show ?thesis by (auto simp: from_catalogue_def)
qed

lemma close_selection_fst:
  "fst (close_selection order packs st) = (if rst_changed st then drop_contained (complete_selection (rst_next st) packs) packs else rst_next st)"
  by (simp add: close_selection_def Let_def split: prod.split)


definition demo_turn :: refine_request where
  "demo_turn = \<lparr>rrq_Description = [], rrq_Identity = demo_identity, rrq_Packs = [''gone''], rrq_Brain = [], rrq_Messages = [(''user'', ''x'')]\<rparr>"


end
