(* ===== verification/CatalogRoutes.thy ===== *)
theory CatalogRoutes
  imports Refine
begin

text \<open>
  How a request reaches the catalogue (\<open>ServeHTTP\<close> of \<open>catalog_skills.go\<close>), and the menu of model
  connections with the probe of an endpoint (\<open>catalog_modelconnections.go\<close>).
\<close>

subsection \<open>Routes\<close>

datatype route =
    Recommend | Refine | Install | ListConnections | ProbeEndpoint | ListPacks | ListSkills | GetSkill string
  | WrongMethod | UnknownPath

definition path_parts :: "string \<Rightarrow> string list" where
  "path_parts path = split_byte (CHR ''/'') (trim_right (CHR ''/'') (dropWhile (\<lambda>c. c = CHR ''/'') path))"

definition route_of :: "string \<Rightarrow> string \<Rightarrow> route" where
  "route_of meth path =
     (let parts = path_parts path; get = (meth = ''GET'') in
      if parts = [''catalog'', ''recommend''] then Recommend
      else if parts = [''catalog'', ''refine''] then Refine
      else if parts = [''catalog'', ''install''] then Install
      else if parts = [''catalog'', ''model-connections''] \<and> get then ListConnections
      else if parts = [''catalog'', ''model-connections'', ''probe''] then ProbeEndpoint
      else if \<not> get then WrongMethod
      else case parts of
        [a, b] \<Rightarrow> (if a \<noteq> ''catalog'' then UnknownPath
                   else if b = ''packs'' then ListPacks else if b = ''skills'' then ListSkills else UnknownPath)
      | [a, b, c] \<Rightarrow> (if a = ''catalog'' \<and> b = ''skills'' then GetSkill c else UnknownPath)
      | _ \<Rightarrow> UnknownPath)"

subsection \<open>Model connections\<close>

record connection_entry =
  mce_conn_Name :: string
  mce_conn_DisplayName :: string
  mce_conn_Description :: string
  mce_conn_Kind :: string
  mce_conn_Provider :: string
  mce_conn_Models :: "(string \<times> string) list"
  mce_conn_KeyStrategy :: string
  mce_conn_Access :: "connection_access option"
  mce_conn_Default :: bool

definition connection_entry_of :: "model_connection \<Rightarrow> connection_entry" where
  "connection_entry_of c =
     (let sp = mc_Spec c in
      \<lparr>mce_conn_Name = om_Name (mc_meta c), mce_conn_DisplayName = cns_DisplayName sp, mce_conn_Description = cns_Description sp,
       mce_conn_Kind = cns_Kind sp, mce_conn_Provider = cns_Provider sp,
       mce_conn_Models = map (\<lambda>m. (mce_ID m, mce_Name m)) (cns_Models sp), mce_conn_KeyStrategy = cns_KeyStrategy sp,
       mce_conn_Access = cns_Access sp,
       mce_conn_Default = (annotation_value (mc_meta c) ''agentoffice.ai/default-brain'' = ''true'')\<rparr>)"

definition list_model_connections :: "kube_env \<Rightarrow> kube \<Rightarrow> (int \<times> string) + connection_entry list" where
  "list_model_connections ke k =
     (case api_list_all ke Connections (ku_connections k) of
        Inl e \<Rightarrow> Inl (500, e) | Inr cs \<Rightarrow> Inr (sort_key mce_conn_Name (map connection_entry_of cs)))"

subsection \<open>Probing an endpoint\<close>

record probe_request =
  prq_BaseURL :: string
  prq_APIKey :: string
  prq_SecretRef :: "connection_secret_ref option"

text \<open>The key that goes with the request: the one given, or the one in the secret that the request names.\<close>

definition probe_key :: "kube_env \<Rightarrow> kube \<Rightarrow> probe_request \<Rightarrow> string" where
  "probe_key ke k req =
     (if prq_APIKey req \<noteq> [] then prq_APIKey req
      else case prq_SecretRef req of
        None \<Rightarrow> []
      | Some ref \<Rightarrow>
         (if csr_Name ref = [] then []
          else case api_read ke Secrets sec_meta (ku_secrets k) (default_if_empty (csr_Namespace ref) ''agent-office'') (csr_Name ref) of
            Inl _ \<Rightarrow> [] | Inr sec \<Rightarrow> name_at (sec_Data sec) (default_if_empty (csr_Key ref) ''api-key'')))"

definition decode_models :: "json \<Rightarrow> string list option" where
  "decode_models v =
     (let entry = (\<lambda>m. do { kvs \<leftarrow> object_members m; field_str ''id'' [''id''] kvs }) in
      do { kvs \<leftarrow> object_members v; field_list entry ''data'' [''data''] kvs })"

definition probe_url :: "probe_request \<Rightarrow> string" where
  "probe_url req = trim_right (CHR ''/'') (trim_space (prq_BaseURL req))"

definition probe_call :: "kube_env \<Rightarrow> kube \<Rightarrow> probe_request \<Rightarrow> http_request" where
  "probe_call ke k req =
     (let key = probe_key ke k req in
      \<lparr>hr_Method = ''GET'', hr_URL = probe_url req @ ''/models'',
       hr_Header = (if key = [] then [] else [(''Authorization'', ''Bearer '' @ key)]), hr_Body = NoBody\<rparr>)"

definition probe_model_endpoint ::
    "'w catalog_env \<Rightarrow> kube \<Rightarrow> probe_request \<Rightarrow> 'w \<Rightarrow> 'w \<times> ((int \<times> string) + string list)" where
  "probe_model_endpoint env k req w =
     (let base = probe_url req; he = ca_http env; call = probe_call (ca_kube env) k req in
      if \<not> has_prefix base ''http://'' \<and> \<not> has_prefix base ''https://'' then (w, Inl (400, ''baseUrl must be http(s)''))
      else case he_url_err he (hr_URL call) of
        Some e \<Rightarrow> (w, Inl (400, e))
      | None \<Rightarrow>
         (case he_do he call w of
            (w1, Inl e) \<Rightarrow> (w1, Inl (502, ''endpoint unreachable: '' @ e))
          | (w1, Inr resp) \<Rightarrow>
             (let body = (case hs_Body resp of Inl _ \<Rightarrow> [] | Inr b \<Rightarrow> take (2 ^ 20) b) in
              if hs_Status resp \<noteq> 200 then
                (w1, Inl (502, ''endpoint answered '' @ itoa (hs_Status resp) @ '': '' @ trim_space (take 200 body)))
              else case unmarshal decode_models body of
                None \<Rightarrow> (w1, Inl (502, ''endpoint returned non-OpenAI models payload''))
              | Some ms \<Rightarrow> (w1, Inr (sort (filter (\<lambda>m. m \<noteq> []) ms))))))"

subsection \<open>Where the key goes\<close>

text \<open>A transport whose world is the list of the requests that were sent.\<close>

definition records_requests :: "http_request list http_env \<Rightarrow> bool" where
  "records_requests he \<longleftrightarrow> (\<forall>r w. fst (he_do he r w) = w @ [r])"

text \<open>
  C40: The probe sends the value of any secret that the operator can read to any address, both chosen by
  whoever sends the request; the handler does not ask who that is. The key does not come back in the
  answer, but the address that receives it is the caller's.
\<close>

theorem probe_discloses_secret:
  assumes "records_requests (ca_http env)" "he_url_err (ca_http env) (probe_url req @ ''/models'') = None"
    and "has_prefix (probe_url req) ''http://'' \<or> has_prefix (probe_url req) ''https://''"
    and "prq_APIKey req = []" "prq_SecretRef req = Some ref" "csr_Name ref \<noteq> []" "csr_Namespace ref \<noteq> []" "csr_Key ref \<noteq> []"
    and "api_read (ca_kube env) Secrets sec_meta (ku_secrets k) (csr_Namespace ref) (csr_Name ref) = Inr sec"
    and "gm_get (sec_Data sec) (csr_Key ref) = Some v" "v \<noteq> []"
  shows "fst (probe_model_endpoint env k req w)
    = w @ [\<lparr>hr_Method = ''GET'', hr_URL = probe_url req @ ''/models'', hr_Header = [(''Authorization'', ''Bearer '' @ v)], hr_Body = NoBody\<rparr>]"
proof -
  have "probe_key (ca_kube env) k req = v" using assms by (simp add: probe_key_def default_if_empty_def name_at_def)
  then have c: "probe_call (ca_kube env) k req
      = \<lparr>hr_Method = ''GET'', hr_URL = probe_url req @ ''/models'', hr_Header = [(''Authorization'', ''Bearer '' @ v)], hr_Body = NoBody\<rparr>"
    using assms(11) by (simp add: probe_call_def Let_def)
  obtain w1 x where d: "he_do (ca_http env) (probe_call (ca_kube env) k req) w = (w1, x)" by fastforce
  have u: "hr_URL (probe_call (ca_kube env) k req) = probe_url req @ ''/models''" by (simp add: c)
  have h: "\<not> (\<not> has_prefix (probe_url req) ''http://'' \<and> \<not> has_prefix (probe_url req) ''https://'')" using assms(3) by blast
  have "fst (probe_model_endpoint env k req w) = w1"
    unfolding probe_model_endpoint_def Let_def if_not_P [OF h] using d u assms(2) by (cases x) (simp_all split: option.split)
  moreover have "w1 = w @ [probe_call (ca_kube env) k req]" using assms(1) d unfolding records_requests_def by (metis fst_conv)
  ultimately show ?thesis by (simp add: c)
qed

definition recording_env :: "http_request list catalog_env" where
  "recording_env = \<lparr>ca_kube = demo_kube_env,
     ca_http = \<lparr>he_url_err = (\<lambda>_. None), he_do = (\<lambda>r w. (w @ [r], Inl ''closed''))\<rparr>, ca_getenv = (\<lambda>_. [])\<rparr>"

definition demo_probe :: probe_request where
  "demo_probe = \<lparr>prq_BaseURL = ''http://elsewhere'', prq_APIKey = [],
     prq_SecretRef = Some \<lparr>csr_Name = ''admin'', csr_Namespace = ''kube-system'', csr_Key = ''token''\<rparr>\<rparr>"

definition demo_secret_kube :: kube where
  "demo_secret_kube = empty_kube\<lparr>ku_secrets := [\<lparr>sec_meta = demo_meta ''kube-system'' ''admin'', sec_Data = [(''token'', ''s3'')]\<rparr>]\<rparr>"

lemma probe_discloses_secret_witness:
  "fst (probe_model_endpoint recording_env demo_secret_kube demo_probe [])
    = [\<lparr>hr_Method = ''GET'', hr_URL = ''http://elsewhere/models'', hr_Header = [(''Authorization'', ''Bearer s3'')], hr_Body = NoBody\<rparr>]"
proof -
  have u: "probe_url demo_probe = ''http://elsewhere''"
    using trim_space_plain(1) [of "CHR ''h''" "CHR ''e''" "''ttp://elsewher''"]
    by (simp add: probe_url_def demo_probe_def plain_char_def trim_right_def)
  have "api_read (ca_kube recording_env) Secrets sec_meta (ku_secrets demo_secret_kube) ''kube-system'' ''admin''
      = Inr \<lparr>sec_meta = demo_meta ''kube-system'' ''admin'', sec_Data = [(''token'', ''s3'')]\<rparr>"
    by (simp add: recording_env_def demo_kube_env_def api_read_def api_get_def got_result_def demo_secret_kube_def obj_get_def obj_key_def demo_meta_def)
  then show ?thesis
    using probe_discloses_secret [of recording_env demo_probe
        "\<lparr>csr_Name = ''admin'', csr_Namespace = ''kube-system'', csr_Key = ''token''\<rparr>" demo_secret_kube _ "''s3''" "[]"]
    by (simp add: u) (simp add: recording_env_def records_requests_def demo_probe_def)
qed

end
