(* ===== verification/Offers.thy ===== *)
theory Offers
  imports Kube
begin

text \<open>
  \<open>modelconnection_access.go\<close> and \<open>modelconnectionoffer_controller.go\<close>: to whom a published connection
  is offered, and the controller that keeps one offer per connection and admitted workspace.
\<close>

subsection \<open>The access rule\<close>

record tenant_principal =
  tp_User :: string
  tp_Groups :: "string list"

definition tenant_of :: "namespace \<Rightarrow> tenant_principal option" where
  "tenant_of ns =
     (let ann = om_Annotations (ns_meta ns);
          user = gm_get ann tenant_user_annotation;
          groups = gm_get ann tenant_groups_annotation;
          text = (\<lambda>v. case v of None \<Rightarrow> [] | Some s \<Rightarrow> s)
      in if user = None \<and> groups = None then None
         else Some \<lparr>tp_User = trim_space (text user),
                    tp_Groups = filter (\<lambda>g. g \<noteq> []) (map trim_space (split_byte CHR '','' (text groups)))\<rparr>)"

definition fold_name :: "string \<Rightarrow> string" where
  "fold_name s = to_lower (trim_space s)"

text \<open>The last segment of a group reference such as \<open>group:default/attendees\<close>.\<close>

definition short_name :: "string \<Rightarrow> string" where
  "short_name s = (case last_index_byte s CHR ''/'' of None \<Rightarrow> s | Some i \<Rightarrow> drop (Suc i) s)"

definition my_groups :: "tenant_principal \<Rightarrow> string set" where
  "my_groups p =
     (let gs = filter (\<lambda>g. g \<noteq> []) (map fold_name (tp_Groups p))
      in set gs \<union> set (map short_name (filter (\<lambda>g. last_index_byte g CHR ''/'' \<noteq> None) gs)))"

definition user_admitted :: "tenant_principal \<Rightarrow> string \<Rightarrow> bool" where
  "user_admitted p u \<longleftrightarrow> fold_name (tp_User p) \<noteq> [] \<and> fold_name u = fold_name (tp_User p)"

definition group_admitted :: "tenant_principal \<Rightarrow> string \<Rightarrow> bool" where
  "group_admitted p g \<longleftrightarrow>
     fold_name g \<noteq> [] \<and> (fold_name g \<in> my_groups p \<or> short_name (fold_name g) \<in> my_groups p)"

text \<open>What matched, if the connection is offered.\<close>

definition connection_offered_to :: "model_connection \<Rightarrow> tenant_principal \<Rightarrow> string option" where
  "connection_offered_to conn p =
     (case cns_Access (mc_Spec conn) of
        None \<Rightarrow> None
      | Some a \<Rightarrow>
         (if acc_Groups a = [] \<and> acc_Users a = [] then None
          else case find (user_admitted p) (acc_Users a) of
            Some u \<Rightarrow> Some (''user:'' @ trim_space u)
          | None \<Rightarrow> map_option (\<lambda>g. ''group:'' @ trim_space g) (find (group_admitted p) (acc_Groups a))))"

definition offer_spec_for :: "model_connection \<Rightarrow> string \<Rightarrow> offer_spec" where
  "offer_spec_for conn offered_to =
     (let s = mc_Spec conn in
      \<lparr>ofs_ConnectionRef = om_Name (mc_meta conn), ofs_DisplayName = cns_DisplayName s,
       ofs_Description = cns_Description s, ofs_Kind = cns_Kind s, ofs_Provider = cns_Provider s,
       ofs_Models = cns_Models s, ofs_Access = cns_Access s, ofs_OfferedTo = offered_to\<rparr>)"

subsection \<open>One pass of the offer controller\<close>

text \<open>The tenant workspaces that a connection is offered to, with what matched.\<close>

definition offer_targets :: "model_connection \<Rightarrow> namespace list \<Rightarrow> string gomap" where
  "offer_targets conn nss =
     foldl (\<lambda>wanted ns.
        if om_DeletionTimestamp (ns_meta ns) \<noteq> None then wanted
        else case tenant_of ns of
          None \<Rightarrow> wanted
        | Some p \<Rightarrow>
            (case connection_offered_to conn p of
               None \<Rightarrow> wanted | Some by \<Rightarrow> gm_set wanted (om_Name (ns_meta ns)) by))
       [] nss"

definition withdraw_offers ::
    "kube_env \<Rightarrow> string gomap \<Rightarrow> model_offer list \<Rightarrow> model_offer list \<Rightarrow> model_offer list \<times> string option" where
  "withdraw_offers env wanted existing offers =
     foldl (\<lambda>(offers, err) o1.
        let ns = om_Namespace (mo_meta o1); n = om_Name (mo_meta o1) in
        if err \<noteq> None \<or> gm_get wanted ns \<noteq> None then (offers, err)
        else case api_delete env Offers mo_meta ns n offers of
          (offers1, None) \<Rightarrow> (offers1, None)
        | (offers1, Some e) \<Rightarrow> (offers1, Some (''withdrawing offer '' @ ns @ ''/'' @ n @ '': '' @ e)))
       (offers, None) existing"

definition fresh_offer :: "model_connection \<Rightarrow> string \<Rightarrow> model_offer" where
  "fresh_offer conn ns =
     \<lparr>mo_meta = \<lparr>om_Name = om_Name (mc_meta conn), om_Namespace = ns, om_UID = [], om_Generation = 1,
        om_Labels = [], om_Annotations = [], om_DeletionTimestamp = None, om_Finalizers = [], om_Controller = None\<rparr>,
      mo_Spec = \<lparr>ofs_ConnectionRef = [], ofs_DisplayName = [], ofs_Description = [], ofs_Kind = [],
        ofs_Provider = [], ofs_Models = [], ofs_Access = None, ofs_OfferedTo = []\<rparr>,
      mo_Status = \<lparr>ofst_ConnectionGeneration = 0\<rparr>\<rparr>"

definition mutate_offer :: "model_connection \<Rightarrow> string \<Rightarrow> model_offer \<Rightarrow> model_offer result" where
  "mutate_offer conn by o1 =
     (let m = mo_meta o1;
          ls = gm_set (gm_set (om_Labels m) offer_connection_label (om_Name (mc_meta conn)))
                 ''app.kubernetes.io/managed-by'' ''agent-office-operator''
      in case set_controller (mc_meta conn) (m\<lparr>om_Labels := ls\<rparr>) of
           Inl e \<Rightarrow> Inl e
         | Inr m1 \<Rightarrow> Inr (o1\<lparr>mo_meta := m1, mo_Spec := offer_spec_for conn by\<rparr>))"

text \<open>The status of the offer follows the generation of the connection; a failure is only logged.\<close>

definition stamp_generation :: "kube_env \<Rightarrow> model_connection \<Rightarrow> model_offer \<Rightarrow> model_offer list \<Rightarrow> model_offer list" where
  "stamp_generation env conn o1 offers =
     (if ofst_ConnectionGeneration (mo_Status o1) = om_Generation (mc_meta conn) then offers
      else case ke_fault env (call UpdateStatus Offers (om_Namespace (mo_meta o1)) (om_Name (mo_meta o1))) of
        Some e \<Rightarrow> offers
      | None \<Rightarrow> obj_put mo_meta (o1\<lparr>mo_Status := \<lparr>ofst_ConnectionGeneration = om_Generation (mc_meta conn)\<rparr>\<rparr>) offers)"

definition project_offer ::
    "kube_env \<Rightarrow> model_connection \<Rightarrow> string gomap \<Rightarrow> model_offer list \<times> string option \<Rightarrow> string
       \<Rightarrow> model_offer list \<times> string option" where
  "project_offer env conn wanted acc ns =
     (case acc of
        (offers, Some e) \<Rightarrow> (offers, Some e)
      | (offers, None) \<Rightarrow>
         (case create_or_update env Offers mo_meta (mutate_offer conn (the (gm_get wanted ns))) (fresh_offer conn ns) offers of
            (offers1, Inl e) \<Rightarrow> (offers1, Some (''projecting offer into '' @ ns @ '': '' @ e))
          | (offers1, Inr o1) \<Rightarrow> (stamp_generation env conn o1 offers1, None)))"

definition reconcile_offers :: "kube_env \<Rightarrow> kube \<Rightarrow> string \<Rightarrow> kube \<times> string option" where
  "reconcile_offers env k name =
     (case (case api_get env Connections mc_meta (ku_connections k) [] name of
              Failed e \<Rightarrow> Inl e
            | NotFound _ \<Rightarrow> Inr None
            | Found c \<Rightarrow> Inr (if om_DeletionTimestamp (mc_meta c) = None then Some c else None)) of
        Inl e \<Rightarrow> (k, Some e)
      | Inr live \<Rightarrow>
     (case (case live of
              None \<Rightarrow> Inr []
            | Some c \<Rightarrow>
                (case api_list_all env Namespaces (ku_namespaces k) of
                   Inl e \<Rightarrow> Inl (''listing namespaces: '' @ e) | Inr nss \<Rightarrow> Inr (offer_targets c nss))) of
        Inl e \<Rightarrow> (k, Some e)
      | Inr wanted \<Rightarrow>
     (case api_list_all env Offers (ku_offers k) of
        Inl e \<Rightarrow> (k, Some (''listing offers: '' @ e))
      | Inr all_offers \<Rightarrow>
     (case withdraw_offers env wanted (with_label mo_meta offer_connection_label name all_offers) (ku_offers k) of
        (offers, Some e) \<Rightarrow> (k\<lparr>ku_offers := offers\<rparr>, Some e)
      | (offers, None) \<Rightarrow>
     (case live of
        None \<Rightarrow> (k\<lparr>ku_offers := offers\<rparr>, None)
      | Some c \<Rightarrow>
          (case foldl (project_offer env c wanted) (offers, None) (ke_range env (map fst wanted)) of
             (offers1, err) \<Rightarrow> (k\<lparr>ku_offers := offers1\<rparr>, err)))))))"

subsection \<open>The offers converge\<close>

definition offered_by :: "model_connection \<Rightarrow> namespace \<Rightarrow> string option" where
  "offered_by conn ns =
     (if om_DeletionTimestamp (ns_meta ns) \<noteq> None then None
      else case tenant_of ns of None \<Rightarrow> None | Some p \<Rightarrow> connection_offered_to conn p)"

lemma offer_targets_get:
  assumes "distinct (map (\<lambda>ns. om_Name (ns_meta ns)) nss)"
  shows "gm_get (offer_targets conn nss) n
    = (case find (\<lambda>ns. om_Name (ns_meta ns) = n) nss of None \<Rightarrow> None | Some ns \<Rightarrow> offered_by conn ns)"
  using assms
proof (induction nss rule: rev_induct)
  case (snoc ns nss)
  have find_snoc: "find P (xs @ [x]) = (case find P xs of None \<Rightarrow> if P x then Some x else None | Some y \<Rightarrow> Some y)"
    for P and x :: namespace and xs by (induction xs) auto
  have "find (\<lambda>m. om_Name (ns_meta m) = om_Name (ns_meta ns)) nss = None"
    using snoc.prems by (auto simp: find_None_iff image_iff)
  moreover have "gm_get (offer_targets conn (nss @ [ns])) n
      = (case offered_by conn ns of None \<Rightarrow> gm_get (offer_targets conn nss) n
         | Some by \<Rightarrow> if n = om_Name (ns_meta ns) then Some by else gm_get (offer_targets conn nss) n)"
    by (auto simp: offer_targets_def offered_by_def split: option.splits)
  ultimately show ?case using snoc by (auto simp: find_snoc split: option.splits)
qed (simp add: offer_targets_def)

lemma find_distinct: "distinct (map f xs) \<Longrightarrow> x \<in> set xs \<Longrightarrow> find (\<lambda>y. f y = f x) xs = Some x"
  by (induction xs) (auto simp: image_iff)

lemma withdraw_offers_ok:
  assumes "no_api_faults env"
  shows "withdraw_offers env wanted existing offers =
    (foldl (\<lambda>s k. obj_del mo_meta k s) offers
       (map (obj_key mo_meta) (filter (\<lambda>o1. gm_get wanted (om_Namespace (mo_meta o1)) = None) existing)), None)"
  unfolding withdraw_offers_def
  by (induction existing arbitrary: offers) (auto simp: assms api_delete_def obj_key_def Let_def)

lemma obj_keys_ok_del_all: "obj_keys_ok m xs \<Longrightarrow> obj_keys_ok m (foldl (\<lambda>s k. obj_del m k s) xs ks)"
  by (induction ks arbitrary: xs) (auto simp: obj_keys_ok_del)

text \<open>An offer as it should be, and the offers that this connection may take over.\<close>

definition offer_done :: "model_connection \<Rightarrow> string \<Rightarrow> model_offer \<Rightarrow> bool" where
  "offer_done conn by o1 \<longleftrightarrow> mo_Spec o1 = offer_spec_for conn by
     \<and> gm_get (om_Labels (mo_meta o1)) offer_connection_label = Some (om_Name (mc_meta conn))
     \<and> om_Controller (mo_meta o1) = Some (om_UID (mc_meta conn))
     \<and> ofst_ConnectionGeneration (mo_Status o1) = om_Generation (mc_meta conn)"

definition takeable :: "model_connection \<Rightarrow> model_offer list \<Rightarrow> bool" where
  "takeable conn offers \<longleftrightarrow> (\<forall>ns o1. obj_get mo_meta offers (ns, om_Name (mc_meta conn)) = Some o1
     \<longrightarrow> om_Controller (mo_meta o1) \<in> {None, Some (om_UID (mc_meta conn))})"

lemma mutate_offer_ok:
  assumes "om_Controller (mo_meta o1) \<in> {None, Some (om_UID (mc_meta conn))}"
  obtains o2 where "mutate_offer conn by o1 = Inr o2" "obj_key mo_meta o2 = obj_key mo_meta o1"
    "mo_Spec o2 = offer_spec_for conn by" "om_Controller (mo_meta o2) = Some (om_UID (mc_meta conn))"
    "gm_get (om_Labels (mo_meta o2)) offer_connection_label = Some (om_Name (mc_meta conn))"
  using assms that
  by (auto simp: mutate_offer_def set_controller_def Let_def obj_key_def offer_connection_label_def)

lemma fresh_offer_key [simp]: "obj_key mo_meta (fresh_offer conn ns) = (ns, om_Name (mc_meta conn))"
  "om_Controller (mo_meta (fresh_offer conn ns)) = None"
  by (simp_all add: fresh_offer_def obj_key_def)

lemma project_offer_ok:
  assumes "no_api_faults env" "takeable conn offers" "obj_keys_ok mo_meta offers"
  shows "\<exists>offers' o1. project_offer env conn wanted (offers, None) ns = (offers', None)
    \<and> obj_get mo_meta offers' = (obj_get mo_meta offers)((ns, om_Name (mc_meta conn)) \<mapsto> o1)
    \<and> offer_done conn (the (gm_get wanted ns)) o1 \<and> obj_keys_ok mo_meta offers'"
proof -
  let ?key = "(ns, om_Name (mc_meta conn))" and ?by = "the (gm_get wanted ns)"
  let ?old = "case obj_get mo_meta offers ?key of None \<Rightarrow> fresh_offer conn ns | Some old \<Rightarrow> old"
  have old: "om_Controller (mo_meta ?old) \<in> {None, Some (om_UID (mc_meta conn))}" "obj_key mo_meta ?old = ?key"
    using assms(2) by (auto simp: takeable_def split: option.split dest: obj_get_key)
  obtain o2 where o2: "mutate_offer conn ?by ?old = Inr o2" "obj_key mo_meta o2 = ?key"
    "mo_Spec o2 = offer_spec_for conn ?by" "om_Controller (mo_meta o2) = Some (om_UID (mc_meta conn))"
    "gm_get (om_Labels (mo_meta o2)) offer_connection_label = Some (om_Name (mc_meta conn))"
    using mutate_offer_ok [OF old(1)] old(2) by metis
  obtain ys where ys: "create_or_update env Offers mo_meta (mutate_offer conn ?by) (fresh_offer conn ns) offers = (ys, Inr o2)"
    "obj_get mo_meta ys = (obj_get mo_meta offers)(?key \<mapsto> o2)" "obj_keys_ok mo_meta ys"
    using create_or_update_ok [OF assms(1), where mutate = "mutate_offer conn ?by" and meta = mo_meta and xs = offers
        and fresh = "fresh_offer conn ns" and x = o2 and k = Offers] o2(1,2) assms(3) by auto
  let ?o3 = "o2\<lparr>mo_Status := \<lparr>ofst_ConnectionGeneration = om_Generation (mc_meta conn)\<rparr>\<rparr>"
  have "offer_done conn ?by ?o3" "obj_key mo_meta ?o3 = ?key" using o2 by (simp_all add: offer_done_def obj_key_def)
  then show ?thesis
    using ys o2 by (cases "ofst_ConnectionGeneration (mo_Status o2) = om_Generation (mc_meta conn)")
      (auto simp: project_offer_def stamp_generation_def assms(1) obj_keys_ok_put fun_eq_iff obj_get_put offer_done_def)
qed

lemma project_loop:
  assumes "no_api_faults env" "takeable conn offers" "obj_keys_ok mo_meta offers"
  shows "\<exists>offers'. foldl (project_offer env conn wanted) (offers, None) nss = (offers', None)
    \<and> (\<forall>ns \<in> set nss. \<exists>o1. obj_get mo_meta offers' (ns, om_Name (mc_meta conn)) = Some o1
         \<and> offer_done conn (the (gm_get wanted ns)) o1)
    \<and> (\<forall>key. snd key \<noteq> om_Name (mc_meta conn) \<or> fst key \<notin> set nss \<longrightarrow> obj_get mo_meta offers' key = obj_get mo_meta offers key)
    \<and> takeable conn offers' \<and> obj_keys_ok mo_meta offers'"
proof (induction nss rule: rev_induct)
  case (snoc ns nss)
  then obtain mid where mid: "foldl (project_offer env conn wanted) (offers, None) nss = (mid, None)"
    "\<forall>ns \<in> set nss. \<exists>o1. obj_get mo_meta mid (ns, om_Name (mc_meta conn)) = Some o1
         \<and> offer_done conn (the (gm_get wanted ns)) o1"
    "\<forall>key. snd key \<noteq> om_Name (mc_meta conn) \<or> fst key \<notin> set nss \<longrightarrow> obj_get mo_meta mid key = obj_get mo_meta offers key"
    "takeable conn mid" "obj_keys_ok mo_meta mid" by blast
  from project_offer_ok [OF assms(1) mid(4,5), of wanted ns] obtain offers' o1 where
    st: "project_offer env conn wanted (mid, None) ns = (offers', None)"
    "obj_get mo_meta offers' = (obj_get mo_meta mid)((ns, om_Name (mc_meta conn)) \<mapsto> o1)"
    "offer_done conn (the (gm_get wanted ns)) o1" "obj_keys_ok mo_meta offers'" by blast
  have "takeable conn offers'"
    using mid(4) st(2,3) by (auto simp: takeable_def offer_done_def)
  then show ?case using mid st by (intro exI [of _ offers']) auto
qed (use assms in simp)

definition stale_offers :: "string gomap \<Rightarrow> string \<Rightarrow> model_offer list \<Rightarrow> (string \<times> string) list" where
  "stale_offers wanted name offers =
     map (obj_key mo_meta) (filter (\<lambda>o1. gm_get wanted (om_Namespace (mo_meta o1)) = None)
       (with_label mo_meta offer_connection_label name offers))"

lemma reconcile_offers_ok:
  assumes env: "no_api_faults env" "range_ok env" and wf: "obj_keys_ok mo_meta (ku_offers k)"
    and live: "obj_get mc_meta (ku_connections k) ([], name) = Some c" "om_DeletionTimestamp (mc_meta c) = None"
    and take: "takeable c (ku_offers k)"
  defines "wanted \<equiv> offer_targets c (ku_namespaces k)"
  shows "\<exists>offers'. reconcile_offers env k name = (k\<lparr>ku_offers := offers'\<rparr>, None)
    \<and> (\<forall>ns by. gm_get wanted ns = Some by \<longrightarrow> (\<exists>o1. obj_get mo_meta offers' (ns, name) = Some o1 \<and> offer_done c by o1))
    \<and> (\<forall>ns n. n \<noteq> name \<or> gm_get wanted ns = None \<longrightarrow> obj_get mo_meta offers' (ns, n)
         = (if (ns, n) \<in> set (stale_offers wanted name (ku_offers k)) then None else obj_get mo_meta (ku_offers k) (ns, n)))
    \<and> obj_keys_ok mo_meta offers'"
proof -
  have name: "om_Name (mc_meta c) = name" using live(1) by (auto dest!: obj_get_key simp: obj_key_def)
  define mid where "mid = foldl (\<lambda>s k. obj_del mo_meta k s) (ku_offers k) (stale_offers wanted name (ku_offers k))"
  have get_mid: "obj_get mo_meta mid key = (if key \<in> set (stale_offers wanted name (ku_offers k)) then None
      else obj_get mo_meta (ku_offers k) key)" for key
    unfolding mid_def by (rule objs.del_all)
  have mid: "takeable c mid" "obj_keys_ok mo_meta mid"
    using take wf by (auto simp: takeable_def get_mid split: if_splits) (simp add: mid_def obj_keys_ok_del_all)
  have w: "withdraw_offers env wanted (with_label mo_meta offer_connection_label name (ku_offers k)) (ku_offers k) = (mid, None)"
    by (simp add: withdraw_offers_ok [OF env(1)] mid_def stale_offers_def)
  obtain offers' where p: "foldl (project_offer env c wanted) (mid, None) (ke_range env (map fst wanted)) = (offers', None)"
    "\<forall>ns \<in> set (ke_range env (map fst wanted)). \<exists>o1. obj_get mo_meta offers' (ns, name) = Some o1
         \<and> offer_done c (the (gm_get wanted ns)) o1"
    "\<forall>key. snd key \<noteq> name \<or> fst key \<notin> set (ke_range env (map fst wanted)) \<longrightarrow> obj_get mo_meta offers' key = obj_get mo_meta mid key"
    "obj_keys_ok mo_meta offers'"
    using project_loop [OF env(1) mid] unfolding name by blast
  have r: "reconcile_offers env k name = (k\<lparr>ku_offers := offers'\<rparr>, None)"
    using live w p(1) by (simp add: reconcile_offers_def api_get_def api_list_all_def env(1) wanted_def [symmetric])
  have keys: "set (ke_range env (map fst wanted)) = fst ` set wanted" using range_okD(1) [OF env(2)] by simp
  show ?thesis
  proof (intro exI [of _ offers'] conjI allI impI)
    fix ns by' assume by': "gm_get wanted ns = Some by'"
    then have "ns \<in> fst ` set wanted" by (metis gm_get_None_iff option.distinct(1))
    with p(2) by' show "\<exists>o1. obj_get mo_meta offers' (ns, name) = Some o1 \<and> offer_done c by' o1"
      unfolding keys by fastforce
  next
    fix ns n assume "n \<noteq> name \<or> gm_get wanted ns = None"
    then show "obj_get mo_meta offers' (ns, n) = (if (ns, n) \<in> set (stale_offers wanted name (ku_offers k)) then None
        else obj_get mo_meta (ku_offers k) (ns, n))"
      using p(3) unfolding keys by (auto simp: get_mid gm_get_None_iff)
  qed (use r p(4) in auto)
qed

text \<open>
  C23: after a pass without API faults the offers of a connection are what its access list says. In
  every namespace of the cluster: if the namespace is a live tenant workspace whose principal the list
  admits, the offer is there, with the specification, the label, the owner and the generation of the
  connection; otherwise no offer labelled with the connection is left there. Offers that neither bear
  its name nor its label stay as they were.
\<close>

theorem offers_converge:
  assumes "no_api_faults env" "range_ok env" "obj_keys_ok mo_meta (ku_offers k)"
    and "distinct (map (\<lambda>ns. om_Name (ns_meta ns)) (ku_namespaces k))"
    and "obj_get mc_meta (ku_connections k) ([], name) = Some c" "om_DeletionTimestamp (mc_meta c) = None"
    and "takeable c (ku_offers k)" and "reconcile_offers env k name = (k', err)"
    and "ns \<in> set (ku_namespaces k)"
  shows "err = None
    \<and> (case offered_by c ns of
         Some by \<Rightarrow> (\<exists>o1. obj_get mo_meta (ku_offers k') (om_Name (ns_meta ns), name) = Some o1 \<and> offer_done c by o1)
       | None \<Rightarrow> (\<forall>o1 \<in> set (ku_offers k'). om_Namespace (mo_meta o1) = om_Name (ns_meta ns)
                    \<longrightarrow> gm_get (om_Labels (mo_meta o1)) offer_connection_label \<noteq> Some name))
    \<and> (\<forall>o1. om_Name (mo_meta o1) \<noteq> name \<and> gm_get (om_Labels (mo_meta o1)) offer_connection_label \<noteq> Some name
         \<longrightarrow> o1 \<in> set (ku_offers k) \<longrightarrow> o1 \<in> set (ku_offers k'))"
proof -
  let ?wanted = "offer_targets c (ku_namespaces k)" and ?n = "om_Name (ns_meta ns)"
  let ?stale = "set (stale_offers ?wanted name (ku_offers k))"
  obtain offers' where r: "reconcile_offers env k name = (k\<lparr>ku_offers := offers'\<rparr>, None)"
    and yes: "\<And>ns by. gm_get ?wanted ns = Some by \<Longrightarrow> \<exists>o1. obj_get mo_meta offers' (ns, name) = Some o1 \<and> offer_done c by o1"
    and no: "\<And>ns n. n \<noteq> name \<or> gm_get ?wanted ns = None \<Longrightarrow> obj_get mo_meta offers' (ns, n)
         = (if (ns, n) \<in> ?stale then None else obj_get mo_meta (ku_offers k) (ns, n))"
    and wf: "obj_keys_ok mo_meta offers'"
    using reconcile_offers_ok [OF assms(1-3,5-7)] by blast
  have k': "ku_offers k' = offers'" "err = None" using r assms(8) by auto
  have get_ns: "gm_get ?wanted ?n = offered_by c ns"
  proof -
    have "find (\<lambda>m. om_Name (ns_meta m) = ?n) (ku_namespaces k) = Some ns"
      by (rule find_distinct [OF assms(4,9)])
    then show ?thesis by (simp add: offer_targets_get [OF assms(4)])
  qed
  have gone: "gm_get (om_Labels (mo_meta o1)) offer_connection_label \<noteq> Some name"
    if "offered_by c ns = None" "o1 \<in> set offers'" "om_Namespace (mo_meta o1) = ?n" for o1
  proof -
    have key: "obj_key mo_meta o1 = (?n, om_Name (mo_meta o1))" using that(3) by (simp add: obj_key_def)
    then have "obj_get mo_meta offers' (?n, om_Name (mo_meta o1)) = Some o1"
      using that(2) wf by (simp add: obj_get_iff)
    then have "obj_get mo_meta (ku_offers k) (?n, om_Name (mo_meta o1)) = Some o1" "(?n, om_Name (mo_meta o1)) \<notin> ?stale"
      using no [of "om_Name (mo_meta o1)" ?n] that(1) get_ns by (auto split: if_splits)
    then show ?thesis
      using key that(1,3) get_ns obj_get_key by (fastforce simp: stale_offers_def with_label_def image_iff)
  qed
  have kept: "o1 \<in> set offers'" if "om_Name (mo_meta o1) \<noteq> name"
    "gm_get (om_Labels (mo_meta o1)) offer_connection_label \<noteq> Some name" "o1 \<in> set (ku_offers k)" for o1
  proof -
    have "obj_key mo_meta o1 \<notin> ?stale"
      using that assms(3) by (auto simp: stale_offers_def with_label_def obj_keys_ok_def inj_on_def distinct_map)
    then have "obj_get mo_meta offers' (obj_key mo_meta o1) = obj_get mo_meta (ku_offers k) (obj_key mo_meta o1)"
      using no [of "om_Name (mo_meta o1)" "om_Namespace (mo_meta o1)"] that(1) by (simp add: obj_key_def)
    also have "\<dots> = Some o1" using that(3) by (simp add: obj_get_iff [OF assms(3)])
    finally show ?thesis using obj_get_key by fast
  qed
  show ?thesis
  proof (intro conjI)
    show "case offered_by c ns of
        Some by \<Rightarrow> \<exists>o1. obj_get mo_meta (ku_offers k') (?n, name) = Some o1 \<and> offer_done c by o1
      | None \<Rightarrow> \<forall>o1 \<in> set (ku_offers k'). om_Namespace (mo_meta o1) = ?n
          \<longrightarrow> gm_get (om_Labels (mo_meta o1)) offer_connection_label \<noteq> Some name"
    proof (cases "offered_by c ns")
      case None
      then show ?thesis unfolding k' using gone by (simp only: option.case) blast
    next
      case (Some by')
      then have "gm_get ?wanted ?n = Some by'" using get_ns by simp
      from yes [OF this] Some show ?thesis unfolding k' by simp
    qed
  qed (use k' kept in blast)+
qed

subsection \<open>A concrete workspace\<close>

definition demo_seat :: namespace where
  "demo_seat = \<lparr>ns_meta = (demo_meta [] ''seat'')\<lparr>om_Annotations :=
     [(tenant_user_annotation, ''ana'')]\<rparr>\<rparr>"

definition demo_platform :: namespace where
  "demo_platform = \<lparr>ns_meta = demo_meta [] ''tools''\<rparr>"

definition demo_connection :: "string \<Rightarrow> model_connection" where
  "demo_connection n = \<lparr>mc_meta = demo_meta [] n,
     mc_Spec = \<lparr>cns_DisplayName = n, cns_Description = [], cns_Kind = kind_endpoint, cns_Provider = [],
       cns_BaseURL = ''https://'' @ n, cns_API = [], cns_APIKeySecretRef = Some \<lparr>csr_Name = n, csr_Namespace = [], csr_Key = []\<rparr>,
       cns_Models = [], cns_KeyStrategy = [],
       cns_Access = Some \<lparr>acc_Groups = [], acc_Users = [''Ana'']\<rparr>\<rparr>,
     mc_Status = \<lparr>cnst_Conditions = []\<rparr>\<rparr>"

definition demo_offer :: "string \<Rightarrow> model_offer" where
  "demo_offer ns = (fresh_offer (demo_connection ''desk'') ns)
     \<lparr>mo_meta := (demo_meta ns ''desk'')\<lparr>om_Labels := [(offer_connection_label, ''desk'')]\<rparr>\<rparr>"

definition demo_offers_kube :: kube where
  "demo_offers_kube = empty_kube\<lparr>ku_namespaces := [demo_seat, demo_platform],
     ku_connections := [demo_connection ''desk''], ku_offers := [demo_offer ''tools'']\<rparr>"

lemma demo_offered:
  "offered_by (demo_connection n) demo_seat = Some ''user:Ana''"
  "offered_by (demo_connection n) demo_platform = None"
proof -
  have "to_lower ''ana'' = ''ana''" "to_lower ''Ana'' = ''ana''" by code_simp+
  then have n: "trim_space ''ana'' = ''ana''" "trim_space ''Ana'' = ''Ana''" "fold_name ''ana'' = ''ana''" "fold_name ''Ana'' = ''ana''"
    using trim_space_plain(1) [of "CHR ''a''" "CHR ''a''" "''n''"] trim_space_plain(1) [of "CHR ''A''" "CHR ''a''" "''n''"]
    by (simp_all add: plain_char_def fold_name_def)
  show "offered_by (demo_connection n) demo_seat = Some ''user:Ana''"
    by (simp add: offered_by_def tenant_of_def demo_seat_def demo_meta_def n connection_offered_to_def demo_connection_def
        user_admitted_def tenant_user_annotation_def tenant_groups_annotation_def)
  show "offered_by (demo_connection n) demo_platform = None"
    by (simp add: offered_by_def tenant_of_def demo_platform_def demo_meta_def)
qed

lemma offers_converge_witness:
  "\<exists>k' o1. reconcile_offers demo_kube_env demo_offers_kube ''desk'' = (k', None)
    \<and> obj_get mo_meta (ku_offers k') (''seat'', ''desk'') = Some o1
    \<and> offer_done (demo_connection ''desk'') ''user:Ana'' o1
    \<and> gm_get (om_Labels (mo_meta (demo_offer ''tools''))) offer_connection_label = Some ''desk''"
proof -
  obtain k' err where r: "reconcile_offers demo_kube_env demo_offers_kube ''desk'' = (k', err)" by fastforce
  have names: "om_Name (ns_meta demo_seat) = ''seat''" "om_Name (ns_meta demo_platform) = ''tools''"
    by (simp_all add: demo_seat_def demo_platform_def demo_meta_def)
  have hyps: "obj_keys_ok mo_meta (ku_offers demo_offers_kube)" "takeable (demo_connection ''desk'') (ku_offers demo_offers_kube)"
    "distinct (map (\<lambda>ns. om_Name (ns_meta ns)) (ku_namespaces demo_offers_kube))"
    "obj_get mc_meta (ku_connections demo_offers_kube) ([], ''desk'') = Some (demo_connection ''desk'')"
    "om_DeletionTimestamp (mc_meta (demo_connection ''desk'')) = None"
    "demo_seat \<in> set (ku_namespaces demo_offers_kube)"
    by (auto simp: demo_offers_kube_def obj_keys_ok_def takeable_def obj_get_def obj_key_def names
        demo_connection_def demo_offer_def demo_meta_def)
  from offers_converge [OF demo_kube_env_ok hyps(1,3,4,5,2) r hyps(6)] r show ?thesis
    by (auto simp: names demo_offered demo_offer_def)
qed

end
