(* ===== verification/GatewayConnections.thy ===== *)
theory GatewayConnections
  imports Offers Schedules
begin

text \<open>
  \<open>agentgateway_modelconnections.go\<close>: which connections a gateway renders into the configuration of its
  runtime and which keys it copies into its own secret; and the condition that tells a workstation
  whether its connection is offered (\<open>noteModelConnectionOffer\<close>).
\<close>

definition upper_char :: "char \<Rightarrow> char" where
  "upper_char c = (let n = (of_char c :: nat) in if 97 \<le> n \<and> n \<le> 122 then char_of (n - 32) else c)"

definition env_char :: "char \<Rightarrow> char" where
  "env_char c = (let n = (of_char c :: nat) in if 65 \<le> n \<and> n \<le> 90 \<or> 48 \<le> n \<and> n \<le> 57 then c else CHR ''_'')"

text \<open>The variable that carries the key of a connection; names of connections are ASCII.\<close>

definition conn_env_var_name :: "string \<Rightarrow> string" where
  "conn_env_var_name n = ''MODELCONN_'' @ map (env_char \<circ> upper_char) n @ ''_API_KEY''"

definition model_connections_secret_name :: "string \<Rightarrow> string" where
  "model_connections_secret_name gw = gw @ ''-model-connections''"

text \<open>A reference to a variable in the configuration, \<open>${NAME}\<close>.\<close>

definition env_ref :: "string \<Rightarrow> string" where
  "env_ref v = [CHR ''$'', CHR 0x7B] @ v @ [CHR 0x7D]"

type_synonym provider = "json gomap"

definition model_json :: "model_catalog_entry \<Rightarrow> json" where
  "model_json m = JObj [(''id'', JStr (mce_ID m)), (''name'', JStr (default_if_empty (mce_Name m) (mce_ID m)))]"

text \<open>The key of a connection, if its secret can be read and has it.\<close>

definition connection_key :: "kube_env \<Rightarrow> kube \<Rightarrow> model_connection \<Rightarrow> string option" where
  "connection_key env k conn =
     (case cns_APIKeySecretRef (mc_Spec conn) of
        None \<Rightarrow> None
      | Some ref \<Rightarrow>
         (if csr_Name ref = [] then None
          else case api_read env Secrets sec_meta (ku_secrets k)
                      (default_if_empty (csr_Namespace ref) ''agent-office'') (csr_Name ref) of
            Inl _ \<Rightarrow> None
          | Inr sec \<Rightarrow> gm_get (sec_Data sec) (default_if_empty (csr_Key ref) ''api-key'')))"

definition provider_block :: "model_connection \<Rightarrow> bool \<Rightarrow> provider" where
  "provider_block conn has_key =
     [(''baseUrl'', JStr (cns_BaseURL (mc_Spec conn))),
      (''api'', JStr (default_if_empty (cns_API (mc_Spec conn)) ''openai-completions'')),
      (''models'', JArr (map model_json (cns_Models (mc_Spec conn))))]
     @ (if has_key then [(''apiKey'', JStr (env_ref (conn_env_var_name (om_Name (mc_meta conn)))))] else [])"

text \<open>The references of the workstations of this gateway.\<close>

definition connection_refs :: "string \<Rightarrow> workstation list \<Rightarrow> string set" where
  "connection_refs gw aws =
     set (filter (\<lambda>r. r \<noteq> []) (map (\<lambda>aw. ms_ConnectionRef (aws_Model (aw_Spec aw)))
       (filter (\<lambda>aw. effective_gateway_ref aw = gw) aws)))"

text \<open>The connections whose key was projected by an earlier pass.\<close>

definition carried_refs :: "kube_env \<Rightarrow> kube \<Rightarrow> string \<Rightarrow> string \<Rightarrow> string set" where
  "carried_refs env k ns gw =
     (case api_read env Secrets sec_meta (ku_secrets k) ns (model_connections_secret_name gw) of
        Inl _ \<Rightarrow> {}
      | Inr sec \<Rightarrow>
         (if sec_Data sec = [] then {}
          else case api_list_all env Connections (ku_connections k) of
            Inl _ \<Rightarrow> {}
          | Inr cs \<Rightarrow> set (map (\<lambda>c. om_Name (mc_meta c))
               (filter (\<lambda>c. gm_get (sec_Data sec) (conn_env_var_name (om_Name (mc_meta c))) \<noteq> None) cs))))"

text \<open>The connection under a name, if the gateway renders it.\<close>

definition renderable :: "kube_env \<Rightarrow> kube \<Rightarrow> tenant_principal option \<Rightarrow> string \<Rightarrow> model_connection option" where
  "renderable env k tenant name =
     (case api_read env Connections mc_meta (ku_connections k) [] name of
        Inl _ \<Rightarrow> None
      | Inr conn \<Rightarrow>
         (if (case tenant of None \<Rightarrow> False | Some p \<Rightarrow> connection_offered_to conn p = None) then None
          else if cns_Kind (mc_Spec conn) \<noteq> kind_endpoint then None
          else if cns_BaseURL (mc_Spec conn) = [] then None
          else Some conn))"

definition render_connection ::
    "kube_env \<Rightarrow> kube \<Rightarrow> tenant_principal option \<Rightarrow> provider gomap \<times> string gomap \<Rightarrow> string
       \<Rightarrow> provider gomap \<times> string gomap" where
  "render_connection env k tenant acc name =
     (case acc of (providers, data) \<Rightarrow>
       (case renderable env k tenant name of
          None \<Rightarrow> (providers, data)
        | Some conn \<Rightarrow>
           (case connection_key env k conn of
              None \<Rightarrow> (gm_set providers (om_Name (mc_meta conn)) (provider_block conn False), data)
            | Some v \<Rightarrow> (gm_set providers (om_Name (mc_meta conn)) (provider_block conn True),
                         gm_set data (conn_env_var_name (om_Name (mc_meta conn))) v))))"

definition collect_model_connections ::
    "kube_env \<Rightarrow> kube \<Rightarrow> object_meta \<Rightarrow> (provider gomap \<times> string gomap) result" where
  "collect_model_connections env k gw =
     (let ns = om_Namespace gw in
      case api_list env Workstations aw_meta (ku_workstations k) ns of
        Inl e \<Rightarrow> Inl (''listing AgentWorkstations: '' @ e)
      | Inr aws \<Rightarrow>
     (case api_read env Namespaces ns_meta (ku_namespaces k) [] ns of
        Inl e \<Rightarrow> Inl (''reading namespace '' @ ns @ '' for the model connection gate: '' @ e)
      | Inr nsobj \<Rightarrow>
          Inr (foldl (render_connection env k (tenant_of nsobj)) ([], [])
                 (sorted_list_of_set (connection_refs (om_Name gw) aws \<union> carried_refs env k ns (om_Name gw))))))"

definition empty_secret :: "string \<Rightarrow> string \<Rightarrow> secret" where
  "empty_secret ns name =
     \<lparr>sec_meta = \<lparr>om_Name = name, om_Namespace = ns, om_UID = [], om_Generation = 1, om_Labels = [],
        om_Annotations = [], om_DeletionTimestamp = None, om_Finalizers = [], om_Controller = None\<rparr>,
      sec_Data = []\<rparr>"

definition own_secret :: "object_meta \<Rightarrow> string gomap \<Rightarrow> secret \<Rightarrow> secret result" where
  "own_secret gw data s =
     (case set_controller gw (sec_meta s) of Inl e \<Rightarrow> Inl e | Inr m \<Rightarrow> Inr (s\<lparr>sec_meta := m, sec_Data := data\<rparr>))"

definition ensure_model_connections_secret ::
    "kube_env \<Rightarrow> kube \<Rightarrow> object_meta \<Rightarrow> string gomap \<Rightarrow> kube \<times> string result" where
  "ensure_model_connections_secret env k gw data =
     (let name = model_connections_secret_name (om_Name gw); ns = om_Namespace gw in
      if data = [] then
        (case api_delete env Secrets sec_meta ns name (ku_secrets k) of
           (secs, Some e) \<Rightarrow> (k\<lparr>ku_secrets := secs\<rparr>, Inl (''deleting stale model-connections secret: '' @ e))
         | (secs, None) \<Rightarrow> (k\<lparr>ku_secrets := secs\<rparr>, Inr []))
      else
        (case create_or_update env Secrets sec_meta (own_secret gw data) (empty_secret ns name) (ku_secrets k) of
           (secs, Inl e) \<Rightarrow> (k\<lparr>ku_secrets := secs\<rparr>, Inl (''ensuring model-connections secret: '' @ e))
         | (secs, Inr _) \<Rightarrow> (k\<lparr>ku_secrets := secs\<rparr>, Inr name)))"

subsection \<open>The condition of a workstation\<close>

definition offered_condition :: string where
  "offered_condition = ''ModelConnectionOffered''"

text \<open>\<open>%v\<close> of a list of strings.\<close>

definition go_strings :: "string list \<Rightarrow> string" where
  "go_strings xs = ''['' @ join '' '' xs @ '']''"

definition note_model_connection_offer :: "'w ws_env \<Rightarrow> kube_env \<Rightarrow> kube \<Rightarrow> workstation \<Rightarrow> workstation" where
  "note_model_connection_offer wenv env k aw =
     (let ref = ms_ConnectionRef (aws_Model (aw_Spec aw));
          clear = upd_ws_status (\<lambda>s. s\<lparr>awst_Conditions := ws_remove_condition wenv (awst_Conditions s) offered_condition\<rparr>) in
      if ref = [] then clear aw
      else case api_read env Namespaces ns_meta (ku_namespaces k) [] (om_Namespace (aw_meta aw)) of
        Inl _ \<Rightarrow> aw
      | Inr ns \<Rightarrow>
     (case tenant_of ns of
        None \<Rightarrow> clear aw
      | Some p \<Rightarrow>
     (case api_read env Connections mc_meta (ku_connections k) [] ref of
        Inl _ \<Rightarrow> ws_condition wenv offered_condition ''False'' ''ConnectionNotFound''
                   (''ModelConnection '' @ go_quote ref @ '' does not exist'') aw
      | Inr conn \<Rightarrow>
     (case connection_offered_to conn p of
        Some by \<Rightarrow> ws_condition wenv offered_condition ''True'' ''Offered''
                     (ref @ '' is offered to this workspace ('' @ by @ '')'') aw
      | None \<Rightarrow> ws_condition wenv offered_condition ''False'' ''NotOffered''
                     (''ModelConnection '' @ go_quote ref @ '' is not offered to this workspace (user ''
                      @ go_quote (tp_User p) @ '', groups '' @ go_strings (tp_Groups p)
                      @ ''); the gateway does not render it'') aw))))"

subsection \<open>What a gateway renders\<close>

text \<open>The key that the connection of a name contributes.\<close>

definition rendered_key :: "kube_env \<Rightarrow> kube \<Rightarrow> tenant_principal option \<Rightarrow> string \<Rightarrow> string option" where
  "rendered_key env k tenant name =
     (case renderable env k tenant name of None \<Rightarrow> None | Some conn \<Rightarrow> connection_key env k conn)"

lemma renderable_name: "renderable env k tenant name = Some conn \<Longrightarrow> om_Name (mc_meta conn) = name"
  by (auto simp: renderable_def api_read_def got_result_def api_get_def obj_key_def
      split: sum.splits got.splits option.splits if_splits dest!: obj_get_key)

lemma provider_block_key:
  "om_Name (mc_meta c) = n \<Longrightarrow> gm_get (provider_block c True) ''apiKey'' = Some (JStr (env_ref (conn_env_var_name n)))"
  by (auto simp: provider_block_def)

lemma rendered_key_Some:
  "rendered_key env k tenant name = Some v \<longleftrightarrow> (\<exists>c. renderable env k tenant name = Some c \<and> connection_key env k c = Some v)"
  by (simp add: rendered_key_def split: option.split)

lemma find_snoc_rev: "find P (rev (xs @ [x])) = (if P x then Some x else find P (rev xs))"
  by simp

lemma render_fold:
  "gm_get (fst (foldl (render_connection env k t) ([], []) names)) n
     = (if n \<in> set names then map_option (\<lambda>c. provider_block c (connection_key env k c \<noteq> None)) (renderable env k t n) else None)"
  "gm_get (snd (foldl (render_connection env k t) ([], []) names)) v
     = (case find (\<lambda>n. rendered_key env k t n \<noteq> None \<and> conn_env_var_name n = v) (rev names) of
          None \<Rightarrow> None | Some n \<Rightarrow> rendered_key env k t n)"
proof (induction names rule: rev_induct)
  case (snoc m names)
  {
    case 1
    with snoc(1) show ?case
      by (auto simp: render_connection_def renderable_name split: prod.split option.split)
  next
    case 2
    with snoc(2) show ?case
      by (auto simp: render_connection_def rendered_key_def renderable_name split: prod.split option.split)
  }
qed simp_all

lemma find_rev_sorted:
  assumes "sorted (xs :: string list)" "find P (rev xs) = Some b" "a \<in> set xs" "P a"
  shows "a \<le> b"
  using assms
proof (induction xs rule: rev_induct)
  case (snoc x xs)
  then show ?case by (auto simp: sorted_append split: if_splits)
qed simp

lemma finite_refs [simp]: "finite (connection_refs gw aws)" "finite (carried_refs env k ns gw)"
  by (auto simp: connection_refs_def carried_refs_def split: sum.split)

text \<open>The names that a pass goes through, and the gate it applies.\<close>

definition pass_names :: "kube_env \<Rightarrow> kube \<Rightarrow> object_meta \<Rightarrow> string set" where
  "pass_names env k gw =
     connection_refs (om_Name gw) (in_namespace aw_meta (om_Namespace gw) (ku_workstations k))
     \<union> carried_refs env k (om_Namespace gw) (om_Name gw)"

lemma api_read_Inr:
  "api_read env kd meta xs ns n = Inr x \<longleftrightarrow> ke_fault env (call Get kd ns n) = None \<and> obj_get meta xs (ns, n) = Some x"
  by (auto simp: api_read_def got_result_def api_get_def split: option.splits)

lemma collect_pass:
  assumes "collect_model_connections env k gw = Inr (providers, data)"
    and "obj_get ns_meta (ku_namespaces k) ([], om_Namespace gw) = Some ns"
  shows "gm_get providers n = (if n \<in> pass_names env k gw
        then map_option (\<lambda>c. provider_block c (connection_key env k c \<noteq> None)) (renderable env k (tenant_of ns) n) else None)"
    and "gm_get data v = (case find (\<lambda>n. rendered_key env k (tenant_of ns) n \<noteq> None \<and> conn_env_var_name n = v)
        (rev (sorted_list_of_set (pass_names env k gw))) of None \<Rightarrow> None | Some n \<Rightarrow> rendered_key env k (tenant_of ns) n)"
proof -
  obtain aws ns' where a: "api_list env Workstations aw_meta (ku_workstations k) (om_Namespace gw) = Inr aws"
    and n: "api_read env Namespaces ns_meta (ku_namespaces k) [] (om_Namespace gw) = Inr ns'"
    and f: "foldl (render_connection env k (tenant_of ns')) ([], [])
      (sorted_list_of_set (connection_refs (om_Name gw) aws \<union> carried_refs env k (om_Namespace gw) (om_Name gw))) = (providers, data)"
    using assms(1) by (auto simp: collect_model_connections_def Let_def split: sum.splits)
  have [simp]: "ns' = ns" using n assms(2) by (simp add: api_read_Inr)
  have aws: "aws = in_namespace aw_meta (om_Namespace gw) (ku_workstations k)"
    using a by (simp add: api_list_def split: option.splits)
  have f': "foldl (render_connection env k (tenant_of ns)) ([], []) (sorted_list_of_set (pass_names env k gw)) = (providers, data)"
    using f by (simp add: pass_names_def aws)
  have fin: "finite (pass_names env k gw)" by (simp add: pass_names_def)
  show "gm_get providers n = (if n \<in> pass_names env k gw
        then map_option (\<lambda>c. provider_block c (connection_key env k c \<noteq> None)) (renderable env k (tenant_of ns) n) else None)"
    using render_fold(1) [of env k "tenant_of ns" "sorted_list_of_set (pass_names env k gw)" n] fin unfolding f' by simp
  show "gm_get data v = (case find (\<lambda>n. rendered_key env k (tenant_of ns) n \<noteq> None \<and> conn_env_var_name n = v)
        (rev (sorted_list_of_set (pass_names env k gw))) of None \<Rightarrow> None | Some n \<Rightarrow> rendered_key env k (tenant_of ns) n)"
    using render_fold(2) [of env k "tenant_of ns" "sorted_list_of_set (pass_names env k gw)" v] unfolding f' by simp
qed

lemma key_variable_filled:
  assumes "collect_model_connections env k gw = Inr (providers, data)"
    and "obj_get ns_meta (ku_namespaces k) ([], om_Namespace gw) = Some ns"
    and "n \<in> pass_names env k gw" "rendered_key env k (tenant_of ns) n \<noteq> None"
  shows "gm_get data (conn_env_var_name n) \<noteq> None"
proof -
  let ?P = "\<lambda>m. rendered_key env k (tenant_of ns) m \<noteq> None \<and> conn_env_var_name m = conn_env_var_name n"
  have "find ?P (rev (sorted_list_of_set (pass_names env k gw))) \<noteq> None"
    using assms(3,4) by (auto simp: find_None_iff pass_names_def)
  then obtain b where "find ?P (rev (sorted_list_of_set (pass_names env k gw))) = Some b" by blast
  with find_SomeD [OF this] collect_pass(2) [OF assms(1,2)] show ?thesis by simp
qed

lemma own_secret_Inr:
  "own_secret gw data s = Inr x \<Longrightarrow> obj_key sec_meta x = obj_key sec_meta s \<and> sec_Data x = data"
  by (auto simp: own_secret_def obj_key_def split: sum.splits dest: set_controller_key)

lemma empty_secret_key [simp]: "obj_key sec_meta (empty_secret ns n) = (ns, n)"
  by (simp add: empty_secret_def obj_key_def)

lemma ensure_writes:
  assumes "ensure_model_connections_secret env k gw data = (k', Inr s)" "data \<noteq> []"
  shows "\<exists>new. obj_get sec_meta (ku_secrets k') (om_Namespace gw, model_connections_secret_name (om_Name gw)) = Some new
    \<and> sec_Data new = data"
proof -
  let ?fresh = "empty_secret (om_Namespace gw) (model_connections_secret_name (om_Name gw))"
  obtain ys x where c: "create_or_update env Secrets sec_meta (own_secret gw data) ?fresh (ku_secrets k) = (ys, Inr x)"
    "k' = k\<lparr>ku_secrets := ys\<rparr>"
    using assms by (auto simp: ensure_model_connections_secret_def Let_def split: prod.splits sum.splits)
  then show ?thesis using create_or_update_Inr [OF c(1)] own_secret_Inr by fastforce
qed

lemma ensure_ok:
  assumes "no_api_faults env" "data \<noteq> []"
    and "obj_get sec_meta (ku_secrets k) (om_Namespace gw, model_connections_secret_name (om_Name gw)) = Some old"
    and "om_Controller (sec_meta old) \<in> {None, Some (om_UID gw)}"
  shows "\<exists>k' s. ensure_model_connections_secret env k gw data = (k', Inr s)"
proof -
  let ?fresh = "empty_secret (om_Namespace gw) (model_connections_secret_name (om_Name gw))"
  obtain x where x: "own_secret gw data old = Inr x"
    using assms(4) by (auto simp: own_secret_def set_controller_def split: option.split)
  obtain ys where "create_or_update env Secrets sec_meta (own_secret gw data) ?fresh (ku_secrets k) = (ys, Inr x)"
    using create_or_update_ok [OF assms(1), where mutate = "own_secret gw data" and meta = sec_meta and fresh = ?fresh
        and xs = "ku_secrets k" and k = Secrets and x = x] x assms(3) own_secret_Inr [OF x] obj_get_key [OF assms(3)] by auto
  with assms(2) show ?thesis by (simp add: ensure_model_connections_secret_def Let_def)
qed

definition namespaces_ok :: "namespace list \<Rightarrow> bool" where
  "namespaces_ok nss \<longleftrightarrow> distinct (map (\<lambda>ns. om_Name (ns_meta ns)) nss)"

text \<open>
  C32: what a gateway renders in a tenant workspace is on the menu of that workspace. If a pass over a
  gateway renders a connection and the namespace of the gateway is a live tenant workspace, then the
  next pass of the offer controller over this connection leaves an offer of it in that namespace.
\<close>

theorem rendered_connection_has_offer:
  assumes "collect_model_connections env k gw = Inr (providers, data)" "gm_get providers name \<noteq> None"
    and "no_api_faults env" "range_ok env" "obj_keys_ok mo_meta (ku_offers k)" "namespaces_ok (ku_namespaces k)"
    and "obj_get ns_meta (ku_namespaces k) ([], om_Namespace gw) = Some ns"
    and "om_DeletionTimestamp (ns_meta ns) = None" "tenant_of ns \<noteq> None"
    and "obj_get mc_meta (ku_connections k) ([], name) = Some c" "om_DeletionTimestamp (mc_meta c) = None"
    and "takeable c (ku_offers k)" and "reconcile_offers env k name = (k', err)"
  shows "\<exists>by o1. connection_offered_to c (the (tenant_of ns)) = Some by
    \<and> obj_get mo_meta (ku_offers k') (om_Namespace gw, name) = Some o1 \<and> offer_done c by o1"
proof -
  note pass = collect_pass [OF assms(1,7)]
  from pass(1) [of name] assms(2) obtain c' where "renderable env k (tenant_of ns) name = Some c'"
    by (auto split: if_splits)
  then obtain by' where by': "connection_offered_to c (the (tenant_of ns)) = Some by'"
    using assms(9,10) by (auto simp: renderable_def api_read_Inr split: sum.splits if_splits option.splits)
  have n: "om_Name (ns_meta ns) = om_Namespace gw" "ns \<in> set (ku_namespaces k)"
    using assms(7) by (auto dest!: obj_get_key simp: obj_key_def)
  have "find (\<lambda>m. om_Name (ns_meta m) = om_Namespace gw) (ku_namespaces k) = Some ns"
    using find_distinct [of "\<lambda>ns. om_Name (ns_meta ns)" "ku_namespaces k" ns] assms(6) n by (simp add: namespaces_ok_def)
  then have "gm_get (offer_targets c (ku_namespaces k)) (om_Namespace gw) = Some by'"
    using assms(6,8,9) by' by (auto simp: namespaces_ok_def offer_targets_get offered_by_def)
  with reconcile_offers_ok [OF assms(3-5,10-12)] assms(13) by' show ?thesis by fastforce
qed

text \<open>
  A key is passed under the name of its variable, and different connections can have the same
  variable (\<open>a-b\<close> and \<open>a.b\<close>). If a pass renders a connection with its key, its block refers to the
  variable, and the variable holds the key of the last rendered connection, in the order of the names,
  that has the same variable: not necessarily its own.
\<close>

theorem key_variable_holds_last:
  assumes "collect_model_connections env k gw = Inr (providers, data)"
    and "obj_get ns_meta (ku_namespaces k) ([], om_Namespace gw) = Some ns"
    and "a \<in> pass_names env k gw" "rendered_key env k (tenant_of ns) a \<noteq> None"
  shows "(\<exists>block. gm_get providers a = Some block \<and> gm_get block ''apiKey'' = Some (JStr (env_ref (conn_env_var_name a))))
    \<and> (\<exists>b \<in> pass_names env k gw. conn_env_var_name b = conn_env_var_name a
        \<and> rendered_key env k (tenant_of ns) b \<noteq> None
        \<and> gm_get data (conn_env_var_name a) = rendered_key env k (tenant_of ns) b
        \<and> (\<forall>c \<in> pass_names env k gw. conn_env_var_name c = conn_env_var_name a
              \<and> rendered_key env k (tenant_of ns) c \<noteq> None \<longrightarrow> c \<le> b))"
proof -
  note pass = collect_pass [OF assms(1,2)]
  let ?P = "\<lambda>n. rendered_key env k (tenant_of ns) n \<noteq> None \<and> conn_env_var_name n = conn_env_var_name a"
  have set_names: "set (sorted_list_of_set (pass_names env k gw)) = pass_names env k gw" by (simp add: pass_names_def)
  have "find ?P (rev (sorted_list_of_set (pass_names env k gw))) \<noteq> None"
    using assms(3,4) set_names by (auto simp: find_None_iff)
  then obtain b where b: "find ?P (rev (sorted_list_of_set (pass_names env k gw))) = Some b" by blast
  then have "b \<in> pass_names env k gw" "?P b" using find_SomeD [OF b] set_names by simp_all
  moreover have "c \<le> b" if "c \<in> pass_names env k gw" "?P c" for c
    using find_rev_sorted [OF _ b] that set_names by simp
  moreover obtain c where "renderable env k (tenant_of ns) a = Some c" "connection_key env k c \<noteq> None"
    using assms(4) by (auto simp: rendered_key_def split: option.splits)
  then have "gm_get providers a = Some (provider_block c True)" "om_Name (mc_meta c) = a"
    using pass(1) [of a] assms(3) renderable_name by simp_all
  moreover have "gm_get data (conn_env_var_name a) = rendered_key env k (tenant_of ns) b"
    using pass(2) [of "conn_env_var_name a"] b by simp
  ultimately show ?thesis using provider_block_key by blast
qed

text \<open>
  A key that was projected stays, across a change of every reference to it, as long as the
  connection can still be rendered and its key read: the next pass renders the connection again, and the
  secret that it writes still has a key in the variable.
\<close>

theorem projected_key_stays:
  assumes "collect_model_connections env k gw = Inr (providers, data)"
    and "ensure_model_connections_secret env k gw data = (k', Inr s)"
    and "no_api_faults env" "obj_keys_ok sec_meta (ku_secrets k)"
    and "obj_get sec_meta (ku_secrets k) (om_Namespace gw, model_connections_secret_name (om_Name gw)) = Some old"
    and "gm_get (sec_Data old) (conn_env_var_name name) \<noteq> None"
    and "obj_get ns_meta (ku_namespaces k) ([], om_Namespace gw) = Some ns"
    and "rendered_key env k (tenant_of ns) name \<noteq> None"
  shows "gm_get providers name \<noteq> None
    \<and> (\<exists>new. obj_get sec_meta (ku_secrets k') (om_Namespace gw, model_connections_secret_name (om_Name gw)) = Some new
         \<and> sec_Data new = data \<and> gm_get (sec_Data new) (conn_env_var_name name) \<noteq> None)"
proof -
  note pass = collect_pass [OF assms(1,7)]
  obtain c where c: "renderable env k (tenant_of ns) name = Some c" using assms(8) by (auto simp: rendered_key_def split: option.splits)
  have "obj_get mc_meta (ku_connections k) ([], name) = Some c"
    using c by (auto simp: renderable_def api_read_Inr split: sum.splits if_splits option.splits)
  then have "c \<in> set (ku_connections k)" "om_Name (mc_meta c) = name" by (auto dest!: obj_get_key simp: obj_key_def)
  moreover have "sec_Data old \<noteq> []" using assms(6) by auto
  ultimately have mem: "name \<in> carried_refs env k (om_Namespace gw) (om_Name gw)"
    using assms(3,5,6) by (force simp: carried_refs_def api_read_def got_result_def api_get_def api_list_all_def)
  then have on: "name \<in> pass_names env k gw" by (simp add: pass_names_def)
  have "gm_get providers name \<noteq> None" using pass(1) [of name] on c by simp
  have has: "gm_get data (conn_env_var_name name) \<noteq> None"
    using key_variable_filled [OF assms(1,7) on assms(8)] .
  then have "data \<noteq> []" by auto
  with ensure_writes [OF assms(2)] have "\<exists>new. obj_get sec_meta (ku_secrets k')
      (om_Namespace gw, model_connections_secret_name (om_Name gw)) = Some new \<and> sec_Data new = data" .
  with has \<open>gm_get providers name \<noteq> None\<close> show ?thesis by auto
qed

subsection \<open>Two connections with one variable\<close>

definition demo_secret :: "string \<Rightarrow> string \<Rightarrow> string gomap \<Rightarrow> secret" where
  "demo_secret ns n d = \<lparr>sec_meta = demo_meta ns n, sec_Data = d\<rparr>"

definition demo_brains_kube :: kube where
  "demo_brains_kube = empty_kube\<lparr>ku_namespaces := [demo_seat],
     ku_connections := [demo_connection ''a-b'', demo_connection ''a.b''],
     ku_secrets := [demo_secret ''agent-office'' ''a-b'' [(''api-key'', ''key of a-b'')],
       demo_secret ''agent-office'' ''a.b'' [(''api-key'', ''key of a.b'')],
       demo_secret ''seat'' ''gw-model-connections'' [(''MODELCONN_A_B_API_KEY'', ''old'')]]\<rparr>"

abbreviation "demo_gateway \<equiv> demo_meta ''seat'' ''gw''"

lemma demo_vars: "conn_env_var_name ''a-b'' = ''MODELCONN_A_B_API_KEY''" "conn_env_var_name ''a.b'' = ''MODELCONN_A_B_API_KEY''"
  by (simp_all add: conn_env_var_name_def env_char_def upper_char_def) code_simp+

lemma demo_seat_get: "obj_get ns_meta (ku_namespaces demo_brains_kube) ([], om_Namespace demo_gateway) = Some demo_seat"
  by (simp add: demo_brains_kube_def obj_get_def obj_key_def demo_seat_def demo_meta_def)

lemma demo_tenant: "connection_offered_to (demo_connection n) (the (tenant_of demo_seat)) = Some ''user:Ana''"
  "tenant_of demo_seat \<noteq> None" "om_DeletionTimestamp (ns_meta demo_seat) = None"
proof -
  obtain p where p: "tenant_of demo_seat = Some p" by (simp add: tenant_of_def demo_seat_def demo_meta_def)
  show "om_DeletionTimestamp (ns_meta demo_seat) = None" by (simp add: demo_seat_def demo_meta_def)
  then show "connection_offered_to (demo_connection n) (the (tenant_of demo_seat)) = Some ''user:Ana''"
    using demo_offered(1) [of n] by (simp add: offered_by_def p)
  show "tenant_of demo_seat \<noteq> None" using p by simp
qed

lemma demo_connection_get:
  "n = ''a-b'' \<or> n = ''a.b'' \<Longrightarrow> obj_get mc_meta (ku_connections demo_brains_kube) ([], n) = Some (demo_connection n)"
  by (auto simp: demo_brains_kube_def obj_get_def obj_key_def demo_connection_def demo_meta_def)

lemma demo_rendered:
  "rendered_key demo_kube_env demo_brains_kube (tenant_of demo_seat) ''a-b'' = Some ''key of a-b''"
  "rendered_key demo_kube_env demo_brains_kube (tenant_of demo_seat) ''a.b'' = Some ''key of a.b''"
proof -
  have r: "renderable demo_kube_env demo_brains_kube (tenant_of demo_seat) n = Some (demo_connection n)"
    if "n = ''a-b'' \<or> n = ''a.b''" for n
  proof -
    have "api_read demo_kube_env Connections mc_meta (ku_connections demo_brains_kube) [] n = Inr (demo_connection n)"
      using demo_connection_get [OF that] by (simp add: api_read_Inr)
    moreover have "cns_Kind (mc_Spec (demo_connection n)) = kind_endpoint" "cns_BaseURL (mc_Spec (demo_connection n)) \<noteq> []"
      by (simp_all add: demo_connection_def)
    moreover have "(case tenant_of demo_seat of None \<Rightarrow> False | Some p \<Rightarrow> connection_offered_to (demo_connection n) p = None) = False"
      using demo_tenant(1) [of n] by (cases "tenant_of demo_seat") simp_all
    ultimately show ?thesis by (simp add: renderable_def)
  qed
  have key: "connection_key demo_kube_env demo_brains_kube (demo_connection n) = Some (''key of '' @ n)"
    if "n = ''a-b'' \<or> n = ''a.b''" for n
    using that by (auto simp: connection_key_def demo_connection_def default_if_empty_def api_read_def got_result_def
        api_get_def obj_get_def obj_key_def demo_brains_kube_def demo_secret_def demo_meta_def)
  show "rendered_key demo_kube_env demo_brains_kube (tenant_of demo_seat) ''a-b'' = Some ''key of a-b''"
    "rendered_key demo_kube_env demo_brains_kube (tenant_of demo_seat) ''a.b'' = Some ''key of a.b''"
    using r key by (simp_all add: rendered_key_def)
qed

lemma demo_pass: "pass_names demo_kube_env demo_brains_kube demo_gateway = {''a-b'', ''a.b''}"
  by (simp add: pass_names_def connection_refs_def carried_refs_def in_namespace_def demo_brains_kube_def empty_kube_def
      api_read_def got_result_def api_get_def obj_get_def obj_key_def demo_secret_def demo_meta_def
      model_connections_secret_name_def api_list_all_def demo_connection_def demo_vars)

lemma demo_collects: "\<exists>providers data. collect_model_connections demo_kube_env demo_brains_kube demo_gateway = Inr (providers, data)"
  using demo_seat_get by (simp add: collect_model_connections_def api_list_def api_read_def got_result_def api_get_def
      demo_meta_def prod_eq_iff split: prod.split) (metis surj_pair)

lemma rendered_connection_has_offer_witness:
  "\<exists>k' o1. reconcile_offers demo_kube_env demo_brains_kube ''a-b'' = (k', None)
    \<and> obj_get mo_meta (ku_offers k') (''seat'', ''a-b'') = Some o1 \<and> offer_done (demo_connection ''a-b'') ''user:Ana'' o1"
proof -
  obtain providers data where c: "collect_model_connections demo_kube_env demo_brains_kube demo_gateway = Inr (providers, data)"
    using demo_collects by blast
  have p: "gm_get providers ''a-b'' \<noteq> None"
    using collect_pass(1) [OF c demo_seat_get, of "''a-b''"] demo_pass demo_rendered(1)
    by (auto simp: rendered_key_def split: option.splits)
  have h: "obj_keys_ok mo_meta (ku_offers demo_brains_kube)" "namespaces_ok (ku_namespaces demo_brains_kube)"
    "takeable (demo_connection ''a-b'') (ku_offers demo_brains_kube)" "om_DeletionTimestamp (mc_meta (demo_connection ''a-b'')) = None"
    by (simp_all add: demo_brains_kube_def empty_kube_def obj_keys_ok_def namespaces_ok_def takeable_def obj_get_def
        demo_connection_def demo_meta_def)
  have get: "obj_get mc_meta (ku_connections demo_brains_kube) ([], ''a-b'') = Some (demo_connection ''a-b'')"
    by (simp add: demo_connection_get)
  obtain k' err where r: "reconcile_offers demo_kube_env demo_brains_kube ''a-b'' = (k', err)" by fastforce
  have "err = None" using reconcile_offers_ok [OF demo_kube_env_ok h(1) get h(4,3)] r by auto
  with rendered_connection_has_offer [OF c p demo_kube_env_ok h(1,2) demo_seat_get demo_tenant(3,2) get h(4,3) r] r demo_tenant(1)
  show ?thesis by (simp add: demo_meta_def)
qed

lemma key_variable_holds_last_witness:
  "\<exists>providers data block. collect_model_connections demo_kube_env demo_brains_kube demo_gateway = Inr (providers, data)
    \<and> gm_get providers ''a-b'' = Some block \<and> gm_get block ''apiKey'' = Some (JStr (env_ref ''MODELCONN_A_B_API_KEY''))
    \<and> gm_get data ''MODELCONN_A_B_API_KEY'' = Some ''key of a.b''"
proof -
  obtain providers data where c: "collect_model_connections demo_kube_env demo_brains_kube demo_gateway = Inr (providers, data)"
    using demo_collects by blast
  have "''a-b'' < (''a.b'' :: string)" by code_simp
  then show ?thesis
    using key_variable_holds_last [OF c demo_seat_get, of "''a-b''"] c demo_pass demo_rendered demo_vars by auto
qed

lemma projected_key_stays_witness:
  "\<exists>k' s new. ensure_model_connections_secret demo_kube_env demo_brains_kube demo_gateway
        (snd (projr (collect_model_connections demo_kube_env demo_brains_kube demo_gateway))) = (k', Inr s)
    \<and> obj_get sec_meta (ku_secrets k') (''seat'', ''gw-model-connections'') = Some new
    \<and> gm_get (sec_Data new) ''MODELCONN_A_B_API_KEY'' \<noteq> None"
proof -
  obtain providers data where c: "collect_model_connections demo_kube_env demo_brains_kube demo_gateway = Inr (providers, data)"
    using demo_collects by blast
  let ?old = "demo_secret ''seat'' ''gw-model-connections'' [(''MODELCONN_A_B_API_KEY'', ''old'')]"
  have old: "obj_get sec_meta (ku_secrets demo_brains_kube) (om_Namespace demo_gateway, model_connections_secret_name (om_Name demo_gateway))
      = Some ?old" and wf: "obj_keys_ok sec_meta (ku_secrets demo_brains_kube)"
    by (simp_all add: demo_brains_kube_def obj_get_def obj_key_def obj_keys_ok_def demo_secret_def demo_meta_def model_connections_secret_name_def)
  have has: "gm_get (sec_Data ?old) (conn_env_var_name ''a-b'') \<noteq> None" by (simp add: demo_secret_def demo_vars)
  have pass: "''a-b'' \<in> pass_names demo_kube_env demo_brains_kube demo_gateway" by (simp add: demo_pass)
  have key: "rendered_key demo_kube_env demo_brains_kube (tenant_of demo_seat) ''a-b'' \<noteq> None" by (simp add: demo_rendered)
  have "data \<noteq> []" using key_variable_filled [OF c demo_seat_get pass key] by (cases data) simp_all
  have "om_Controller (sec_meta ?old) = None" by (simp add: demo_secret_def demo_meta_def)
  with ensure_ok [OF demo_kube_env_ok(1) \<open>data \<noteq> []\<close> old] obtain k' s where
    e: "ensure_model_connections_secret demo_kube_env demo_brains_kube demo_gateway data = (k', Inr s)" by auto
  from projected_key_stays [OF c e demo_kube_env_ok(1) wf old has demo_seat_get key] e c
  show ?thesis by (auto simp: demo_vars demo_meta_def model_connections_secret_name_def)
qed

end
