(* ===== verification/Backfill.thy ===== *)
theory Backfill
  imports Strategist
begin

text \<open>
  \<open>autoresearchproject_backfill.go\<close>: the wiki pages of rounds that the status still remembers are
  rebuilt from the status and the parameters of the pipeline run. \<open>yaml.Marshal\<close> is a parameter.
\<close>

record backfill_stats =
  bs_written :: nat
  bs_skipped :: nat
  bs_rounds :: "int list"
  bs_notices :: "string list"

definition no_stats :: backfill_stats where
  "no_stats = \<lparr>bs_written = 0, bs_skipped = 0, bs_rounds = [], bs_notices = []\<rparr>"

definition parse_round_filename :: "string \<Rightarrow> string \<Rightarrow> int option" where
  "parse_round_filename name suffix =
     (if \<not> has_suffix name suffix then None
      else let stem = trim_suffix name suffix in
        if \<not> has_prefix stem ''round-'' then None else atoi (drop 6 stem))"

definition param_keys :: "(string \<times> json) list \<Rightarrow> string list" where
  "param_keys m = sort (remdups (map fst m))"

definition summarize_round_range :: "int list \<Rightarrow> string" where
  "summarize_round_range rounds =
     (case rounds of
        [] \<Rightarrow> []
      | [n] \<Rightarrow> ''round '' @ itoa n
      | _ \<Rightarrow>
          (if \<forall>i \<in> set [1..<length rounds]. rounds ! i = rounds ! (i - 1) + 1
           then ''rounds '' @ itoa (hd rounds) @ ''-'' @ itoa (last rounds)
           else ''rounds '' @ join '', '' (map itoa rounds)))"

subsection \<open>The configuration of a run\<close>

text \<open>A JSON number for a Go \<open>int\<close>: an integer literal of 64 bits.\<close>

definition field_int :: "string \<Rightarrow> string list \<Rightarrow> (string \<times> json) list \<Rightarrow> int option" where
  "field_int name names kvs =
     foldl (\<lambda>acc v. case (acc, v) of (Some _, JNum n) \<Rightarrow> atoi n | _ \<Rightarrow> None)
       (Some 0) (members_of name names kvs)"

definition decode_string :: "json \<Rightarrow> string option" where
  "decode_string v = (case v of JStr s \<Rightarrow> Some (valid_utf8 s) | JNull \<Rightarrow> Some [] | _ \<Rightarrow> None)"

definition decode_qlora :: "json \<Rightarrow> qlora option" where
  "decode_qlora v =
     (let names = [''round'', ''lora_rank'', ''lora_alpha'', ''lora_dropout'', ''target_modules'', ''learning_rate'',
                   ''num_training_steps'', ''per_device_batch_size'', ''gradient_accumulation_steps'',
                   ''max_seq_length'', ''warmup_steps'', ''weight_decay'', ''offload_strategy'', ''notes''] in
      do { kvs \<leftarrow> object_members v;
           rnd \<leftarrow> field_int ''round'' names kvs;
           rank \<leftarrow> field_int ''lora_rank'' names kvs;
           alpha \<leftarrow> field_int ''lora_alpha'' names kvs;
           dropout \<leftarrow> field_float ''lora_dropout'' names kvs;
           mods \<leftarrow> field_list decode_string ''target_modules'' names kvs;
           lr \<leftarrow> field_float ''learning_rate'' names kvs;
           steps \<leftarrow> field_int ''num_training_steps'' names kvs;
           batch \<leftarrow> field_int ''per_device_batch_size'' names kvs;
           accum \<leftarrow> field_int ''gradient_accumulation_steps'' names kvs;
           seq \<leftarrow> field_int ''max_seq_length'' names kvs;
           warm \<leftarrow> field_int ''warmup_steps'' names kvs;
           wd \<leftarrow> field_float ''weight_decay'' names kvs;
           off \<leftarrow> field_str ''offload_strategy'' names kvs;
           notes \<leftarrow> field_str ''notes'' names kvs;
           Some \<lparr>q_Round = rnd, q_LoraRank = rank, q_LoraAlpha = alpha, q_LoraDropout = dropout,
                 q_TargetModules = mods, q_LearningRate = lr, q_NumTrainingSteps = steps,
                 q_PerDeviceBatch = batch, q_GradAccum = accum, q_MaxSeqLen = seq, q_WarmupSteps = warm,
                 q_WeightDecay = wd, q_OffloadStrategy = off, q_Notes = notes\<rparr> })"

text \<open>The verb \<open>%T\<close> on a decoded value.\<close>

definition go_type :: "json \<Rightarrow> string" where
  "go_type v =
     (case v of
        JNull \<Rightarrow> ''<nil>'' | JBool _ \<Rightarrow> ''bool'' | JNum _ \<Rightarrow> ''float64'' | JStr _ \<Rightarrow> ''string''
      | JArr _ \<Rightarrow> ''[]interface {}'' | JObj _ \<Rightarrow> ''map[string]interface {}'')"

text \<open>The parameters are a Go map: the last member of a name counts.\<close>

definition run_config :: "dsp_run \<Rightarrow> qlora result" where
  "run_config run =
     (case map_of (rev (run_Parameters run)) ''qlora_config_json'' of
        None \<Rightarrow> Inl (''run has no qlora_config_json parameter (param keys: [''
                 @ join '' '' (param_keys (run_Parameters run)) @ ''])'')
      | Some (JStr s) \<Rightarrow>
         (case unmarshal decode_qlora (valid_utf8 s) of
            None \<Rightarrow> Inl ''parse qlora_config_json: invalid JSON''
          | Some c \<Rightarrow> Inr c)
      | Some v \<Rightarrow> Inl (''qlora_config_json is '' @ go_type v @ '', want string''))"

subsection \<open>Pages\<close>

definition backfilled_proposal_md :: "int \<Rightarrow> string \<Rightarrow> experiment_record \<Rightarrow> string" where
  "backfilled_proposal_md rnd cfg_yaml rec =
     (let started = (case er_StartedAt rec of None \<Rightarrow> ''(unknown)'' | Some t \<Rightarrow> utc_stamp t) in
      ln (''# Round '' @ itoa rnd @ '' '' @ em_dash @ '' proposal (backfilled)'') @ ln []
      @ ln ''| Field | Value |'' @ ln ''|-------|-------|''
      @ ln ''| Source | reconstructed from DSP RuntimeConfig.Parameters |''
      @ ln (''| Run ID | `'' @ er_RunID rec @ ''` |'')
      @ ln (''| Started | '' @ started @ '' |'')
      @ ln (''| Experimenter (at submit time) | '' @ er_Experimenter rec @ '' |'') @ ln []
      @ ln (''**Config (machine-readable in `round-'' @ itoa rnd @ ''.yaml`):**'') @ ln []
      @ ln ''```yaml'' @ cfg_yaml @ ln ''```'')"

definition backfilled_result_md :: "experiment_record \<Rightarrow> gofloat \<Rightarrow> string" where
  "backfilled_result_md rec loss =
     ln (''# Round '' @ itoa (er_Round rec) @ '' '' @ em_dash @ '' result (backfilled)'') @ ln []
     @ ln ''| Field | Value |'' @ ln ''|-------|-------|''
     @ ln (''| eval_loss | '' @ fmt_fixed 6 loss @ '' |'')
     @ ln (''| Decision | **'' @ kept_str (er_Kept rec = Some True) @ ''** |'')
     @ ln (''| Adapter URI | `'' @ er_AdapterArtifactURI rec @ ''` |'')
     @ ln (''| Source | backfilled from Status.RecentRuns + DSP run '' @ er_RunID rec @ '' |'') @ ln []
     @ ln ''_Reconstructed by the operator's backfill path. The original''
     @ ln ''push of this round's result was lost to the pre-v0.0.71 refspec''
     @ ln ''bug; the data was recovered from operator-side bookkeeping +''
     @ ln ''DSP RuntimeConfig._''"

subsection \<open>One round\<close>

definition backfilled_config :: "experiment_record \<Rightarrow> qlora \<Rightarrow> qlora" where
  "backfilled_config rec cfg =
     cfg\<lparr>q_Round := er_Round rec,
         q_Notes := (if q_Notes cfg = [] then ''backfilled from DSP run '' @ er_RunID rec else q_Notes cfg)\<rparr>"

definition stage_backfill ::
    "wiki_env \<Rightarrow> wiki_tx \<Rightarrow> experiment_record \<Rightarrow> string \<Rightarrow> wiki_tx \<times> string option" where
  "stage_backfill env tx rec cfg_yaml =
     (let path = (\<lambda>dir ext. dir @ ''/round-'' @ itoa (er_Round rec) @ ext) in
      case tx_write env tx (path ''proposals'' ''.yaml'') cfg_yaml of
        (tx1, Some e) \<Rightarrow> (tx1, Some e)
      | (tx1, None) \<Rightarrow>
     (case tx_write env tx1 (path ''proposals'' ''.md'') (backfilled_proposal_md (er_Round rec) cfg_yaml rec) of
        (tx2, Some e) \<Rightarrow> (tx2, Some e)
      | (tx2, None) \<Rightarrow>
     (case parse_float (er_EvalLoss rec) of
        None \<Rightarrow> (tx2, Some (''parse eval_loss '' @ go_quote (er_EvalLoss rec) @ '': invalid syntax''))
      | Some loss \<Rightarrow> tx_write env tx2 (path ''results'' ''.md'') (backfilled_result_md rec loss))))"

text \<open>The transaction keeps what was staged before an error.\<close>

definition backfill_one_round ::
    "(qlora \<Rightarrow> string result) \<Rightarrow> 'w op_env \<Rightarrow> dsp_client \<Rightarrow> 'w \<Rightarrow> wiki_tx \<Rightarrow> experiment_record
     \<Rightarrow> 'w \<times> wiki_tx \<times> string option" where
  "backfill_one_round marshal env c w tx rec =
     (case get_run (oe_http env) c w (er_RunID rec) of
        (w, Inl e) \<Rightarrow> (w, tx, Some (''get DSP run: '' @ e))
      | (w, Inr run) \<Rightarrow>
     (case run_config run of
        Inl e \<Rightarrow> (w, tx, Some e)
      | Inr cfg \<Rightarrow>
     (case marshal (backfilled_config rec cfg) of
        Inl e \<Rightarrow> (w, tx, Some (''marshal config: '' @ e))
      | Inr cfg_yaml \<Rightarrow> (w, stage_backfill (oe_wiki env) tx rec cfg_yaml))))"

subsection \<open>The backfill\<close>

definition backfill_step ::
    "(qlora \<Rightarrow> string result) \<Rightarrow> 'w op_env \<Rightarrow> dsp_client \<Rightarrow> 'w \<times> wiki_tx \<times> backfill_stats \<Rightarrow> experiment_record
     \<Rightarrow> 'w \<times> wiki_tx \<times> backfill_stats" where
  "backfill_step marshal env c acc rec =
     (case acc of (w, tx, stats) \<Rightarrow>
       (case backfill_one_round marshal env c w tx rec of
          (w, tx, Some e) \<Rightarrow>
            (w, tx, stats\<lparr>bs_notices := bs_notices stats @ [''round '' @ itoa (er_Round rec) @ '': '' @ e],
                          bs_skipped := Suc (bs_skipped stats)\<rparr>)
        | (w, tx, None) \<Rightarrow>
            (w, tx, stats\<lparr>bs_written := Suc (bs_written stats),
                          bs_rounds := bs_rounds stats @ [er_Round rec]\<rparr>)))"

definition wiki_rounds :: "wiki_env \<Rightarrow> wiki_tx \<Rightarrow> int set" where
  "wiki_rounds env tx =
     (case tx_list env tx ''proposals'' of
        Inl _ \<Rightarrow> {}
      | Inr names \<Rightarrow> set (List.map_filter (\<lambda>n. parse_round_filename n ''.yaml'') names))"

definition rounds_to_backfill :: "wiki_env \<Rightarrow> wiki_tx \<Rightarrow> project \<Rightarrow> experiment_record list" where
  "rounds_to_backfill env tx p =
     filter (\<lambda>rec. er_EvalLoss rec \<noteq> [] \<and> er_Round rec \<notin> wiki_rounds env tx) (st_RecentRuns (p_Status p))"

definition backfill_wiki_history ::
    "(qlora \<Rightarrow> string result) \<Rightarrow> 'w op_env \<Rightarrow> 'w op_state \<Rightarrow> project
     \<Rightarrow> 'w op_state \<times> backfill_stats \<times> string option" where
  "backfill_wiki_history marshal env st p =
     (if filter (\<lambda>rec. er_EvalLoss rec \<noteq> []) (st_RecentRuns (p_Status p)) = [] then (st, no_stats, None)
      else case begin_wiki_tx (oe_cluster env) (oe_wiki env) (op_remote st) p of
        Inl e \<Rightarrow> (st, no_stats, Some (''open wiki for backfill: '' @ e))
      | Inr tx \<Rightarrow>
     (let todo = rounds_to_backfill (oe_wiki env) tx p
      in if todo = [] then (st, no_stats, None)
         else case dsp_client_for env st (om_Namespace (p_meta p)) of
           (st, Inl e) \<Rightarrow> (st, no_stats, Some (''dsp client: '' @ e))
         | (st, Inr c) \<Rightarrow>
        (case foldl (backfill_step marshal env c) (op_world st, tx, no_stats) todo of
           (w, tx, stats) \<Rightarrow>
             (let st1 = st\<lparr>op_world := w\<rparr> in
              if bs_written stats = 0 then (st1, stats, None)
              else
                let stats1 = stats\<lparr>bs_rounds := sort (bs_rounds stats)\<rparr>;
                    msg = ''backfill: restore '' @ itoa (int (bs_written stats1)) @ '' historical rounds from DSP (''
                          @ summarize_round_range (bs_rounds stats1) @ '')''
                in case finish_push (commit_and_push (oe_wiki env) (op_remote st1) tx msg) of
                     (remote, Some e) \<Rightarrow> (st1\<lparr>op_remote := remote\<rparr>, stats1, Some (''commit backfill: '' @ e))
                   | (remote, None) \<Rightarrow> (st1\<lparr>op_remote := remote\<rparr>, stats1, None)))))"

subsection \<open>What a backfill leaves alone\<close>

definition round_files :: "int \<Rightarrow> string list" where
  "round_files n = [''proposals/round-'' @ itoa n @ ''.yaml'', ''proposals/round-'' @ itoa n @ ''.md'',
     ''results/round-'' @ itoa n @ ''.md'']"

text \<open>Two states of a transaction on the same commit whose stages agree on a file.\<close>

definition stage_agrees :: "string \<Rightarrow> wiki_tx \<Rightarrow> wiki_tx \<Rightarrow> bool" where
  "stage_agrees f tx tx' \<longleftrightarrow>
     tx_head tx' = tx_head tx \<and> tx_head_ref tx' = tx_head_ref tx \<and> gm_get (tx_index tx') f = gm_get (tx_index tx) f"

interpretation staging: frame "stage_agrees f"
  by unfold_locales (auto simp: stage_agrees_def)

lemma tx_write_agrees: "f \<noteq> path \<Longrightarrow> stage_agrees f tx (fst (tx_write env tx path c))"
  by (auto simp: tx_write_def stage_agrees_def Let_def split: option.splits)

lemma stage_backfill_agrees:
  assumes "f \<notin> set (round_files (er_Round rec))"
  shows "stage_agrees f tx (fst (stage_backfill env tx rec y))"
proof -
  define path where "path = (\<lambda>dir ext. dir @ ''/round-'' @ itoa (er_Round rec) @ ext)"
  have f: "f \<noteq> path ''proposals'' ''.yaml''" "f \<noteq> path ''proposals'' ''.md''" "f \<noteq> path ''results'' ''.md''"
    using assms by (simp_all add: round_files_def path_def)
  obtain tx1 e1 where w1: "tx_write env tx (path ''proposals'' ''.yaml'') y = (tx1, e1)" by fastforce
  obtain tx2 e2 where w2: "tx_write env tx1 (path ''proposals'' ''.md'')
      (backfilled_proposal_md (er_Round rec) y rec) = (tx2, e2)" by fastforce
  have a1: "stage_agrees f tx tx1" using tx_write_agrees [OF f(1)] w1 by (metis fst_conv)
  also have "stage_agrees f tx1 tx2" using tx_write_agrees [OF f(2)] w2 by (metis fst_conv)
  finally (staging.frame_trans) have a2: "stage_agrees f tx tx2" .
  have "stage_agrees f tx (fst (tx_write env tx2 (path ''results'' ''.md'') c))" for c
    using staging.frame_trans [OF a2 tx_write_agrees [OF f(3)]] .
  then show ?thesis using a1 a2 w1 w2
    unfolding stage_backfill_def unfolding path_def [symmetric]
    by (auto simp: Let_def split: option.splits)
qed

lemma backfill_step_agrees:
  assumes "f \<notin> set (round_files (er_Round rec))"
  shows "stage_agrees f (fst (snd acc)) (fst (snd (backfill_step marshal env c acc rec)))"
  using stage_backfill_agrees [OF assms] staging.frame_refl
  by (auto simp: backfill_step_def backfill_one_round_def split: prod.splits sum.splits option.splits)
    (metis fst_conv)+

lemma round_files_inject:
  assumes "f \<in> set (round_files m)" "f \<in> set (round_files n)" "int64_range m" "int64_range n"
  shows "m = n"
  using assms by (auto simp: round_files_def itoa_inject)

lemma atoi_range: "atoi s = Some n \<Longrightarrow> int64_range n"
  by (auto simp: atoi_def Let_def split: if_splits option.splits list.splits)

lemma wiki_rounds_range: "n \<in> wiki_rounds env tx \<Longrightarrow> int64_range n"
  by (auto simp: wiki_rounds_def parse_round_filename_def Let_def map_filter_def atoi_range
      split: sum.splits if_splits)

interpretation steps: frame "\<lambda>a b. stage_agrees f (fst (snd a)) (fst (snd b))"
  by unfold_locales (auto intro: staging.frame_refl staging.frame_trans)

lemma dsp_client_for_remote: "dsp_client_for env st ns = (st1, r) \<Longrightarrow> op_remote st1 = op_remote st"
  by (auto simp: dsp_client_for_def Let_def split: option.splits sum.splits if_splits)

text \<open>
  A backfill never rewrites a round that the wiki already has. When \<open>proposals/\<close> holds the
  configuration of a round, the files of that round are the same before and after, whatever the
  pipeline server answers.
\<close>

theorem backfill_keeps_known_rounds:
  assumes "backfill_wiki_history marshal env st p = (st', stats, err)"
    and "begin_wiki_tx (oe_cluster env) (oe_wiki env) (op_remote st) p = Inr tx0"
    and "begin_wiki_tx (oe_cluster env) env' (op_remote st') p = Inr tx"
    and "n \<in> wiki_rounds (oe_wiki env) tx0" "f \<in> set (round_files n)"
    and "\<And>rec. rec \<in> set (st_RecentRuns (p_Status p)) \<Longrightarrow> int64_range (er_Round rec)"
  shows "gm_get (tx_tree tx) f = gm_get (tx_tree tx0) f"
proof -
  obtain kb where kb: "cl_get_kb (oe_cluster env) (om_Namespace (p_meta p)) (ps_KnowledgeBase (p_Spec p)) = Inr kb"
    "begin_tx (oe_wiki env) (op_remote st) (Some kb) (Some (cl_mint (oe_cluster env))) = Inr tx0"
    using assms(2) by (rule begin_wiki_tx_Inr)
  have kb': "begin_tx env' (op_remote st') (Some kb) (Some (cl_mint (oe_cluster env))) = Inr tx"
    using assms(3) kb(1) by (elim begin_wiki_tx_Inr) simp
  show ?thesis
  proof (cases "op_remote st' = op_remote st")
    case True
    with kb(2) kb' show ?thesis by (elim begin_tx_Inr) auto
  next
    case False
    let ?todo = "rounds_to_backfill (oe_wiki env) tx0 p"
    obtain st1 c where c: "dsp_client_for env st (om_Namespace (p_meta p)) = (st1, Inr c)"
      using assms(1,2) False
      by (auto simp: backfill_wiki_history_def Let_def dest: dsp_client_for_remote
          split: if_splits prod.splits sum.splits)
    obtain w tx1 s where fold: "foldl (backfill_step marshal env c) (op_world st1, tx0, no_stats) ?todo = (w, tx1, s)"
      by (metis prod_cases3)
    have r1: "op_remote st1 = op_remote st" using dsp_client_for_remote [OF c] .
    obtain msg e where fp: "finish_push (commit_and_push (oe_wiki env) (op_remote st) tx1 msg) = (op_remote st', e)"
    proof -
      have "\<exists>msg e. finish_push (commit_and_push (oe_wiki env) (op_remote st) tx1 msg) = (op_remote st', e)"
        using assms(1,2) False c fold r1
        by (auto simp: backfill_wiki_history_def Let_def simp del: append_Cons
            split: if_splits prod.splits option.splits; blast)
      with that show thesis by blast
    qed
    with False have "e = None" by (cases e) (auto dest: finish_push_error)
    then obtain tx2 where push: "commit_and_push (oe_wiki env) (op_remote st) tx1 msg = (op_remote st', tx2, None)"
      using fp finish_push_None by metis
    have "f \<notin> set (round_files (er_Round rec))" if "rec \<in> set ?todo" for rec
    proof
      assume "f \<in> set (round_files (er_Round rec))"
      moreover have "er_Round rec \<notin> wiki_rounds (oe_wiki env) tx0" "int64_range (er_Round rec)"
        using that assms(6) by (auto simp: rounds_to_backfill_def)
      ultimately show False
        using round_files_inject [OF _ assms(5)] wiki_rounds_range [OF assms(4)] assms(4) by metis
    qed
    then have "stage_agrees f (fst (snd (op_world st1, tx0, no_stats)))
        (fst (snd (foldl (backfill_step marshal env c) (op_world st1, tx0, no_stats) ?todo)))"
      by (intro steps.frame_foldl backfill_step_agrees)
    with fold have "stage_agrees f tx0 tx1" by simp
    then have a: "tx_head tx1 = tx_head tx0" "tx_head_ref tx1 = tx_head_ref tx0"
      "gm_get (tx_index tx1) f = gm_get (tx_index tx0) f" by (simp_all add: stage_agrees_def)
    have "gm_get (tx_tree tx) = gm_get (tx_index tx1)"
      using published_tree [OF kb(2) a(1,2) push kb'] .
    moreover have "tx_index tx0 = tx_tree tx0" using kb(2) by (elim begin_tx_Inr) simp
    ultimately show ?thesis using a(3) by simp
  qed
qed

interpretation written: frame "\<lambda>a b. bs_written (snd (snd b)) = bs_written (snd (snd a))"
  by unfold_locales simp_all

lemma backfill_unanswered:
  assumes "backfill_wiki_history marshal env st p = (st', stats, err)"
    and "\<And>rec c w. rec \<in> set (st_RecentRuns (p_Status p))
           \<Longrightarrow> \<not> is_ok (snd (get_run (oe_http env) c w (er_RunID rec)))"
  shows "op_remote st' = op_remote st \<and> bs_written stats = 0"
proof -
  have step: "bs_written (snd (snd (backfill_step marshal env c acc rec))) = bs_written (snd (snd acc))"
    if "rec \<in> set (st_RecentRuns (p_Status p))" for rec c acc
    using assms(2) [OF that]
    by (auto simp: backfill_step_def backfill_one_round_def is_ok_iff prod_eq_iff split: prod.splits sum.splits option.splits)

  have "bs_written s = 0"
    if "foldl (backfill_step marshal env c) (w, tx, no_stats) (rounds_to_backfill (oe_wiki env) tx p) = (w', tx', s)"
    for c w tx w' tx' s
  proof -
    have "set (rounds_to_backfill (oe_wiki env) tx p) \<subseteq> set (st_RecentRuns (p_Status p))"
      by (auto simp: rounds_to_backfill_def)
    then have "bs_written (snd (snd (foldl (backfill_step marshal env c) (w, tx, no_stats)
        (rounds_to_backfill (oe_wiki env) tx p)))) = bs_written (snd (snd (w, tx, no_stats)))"
      by (intro written.frame_foldl step) blast
    with that show ?thesis by (simp add: no_stats_def)
  qed
  then show ?thesis using assms(1)
    by (auto simp: backfill_wiki_history_def Let_def no_stats_def dest!: dsp_client_for_remote
        split: if_splits prod.splits sum.splits)
qed

text \<open>
  The backfill asks the pipeline server for the run under the identifier of the record, which is
  the display name that \<open>Reconcile\<close> gave the run. When the server knows no run by these names, nothing
  is restored and the wiki stays as it was.
\<close>

theorem backfill_asks_by_record_id:
  assumes "backfill_wiki_history marshal env st p = (st', stats, err)"
    and "\<And>rec c w. rec \<in> set (st_RecentRuns (p_Status p))
           \<Longrightarrow> \<not> is_ok (snd (get_run (oe_http env) c w (er_RunID rec)))"
  shows "op_remote st' = op_remote st \<and> bs_written stats = 0"
  using backfill_unanswered [OF assms] .

subsection \<open>A concrete backfill\<close>

text \<open>Round 3 is lost, and the pipeline server does not answer.\<close>

definition demo_lost :: project where
  "demo_lost = upd_status (\<lambda>s. s\<lparr>st_RecentRuns := [\<lparr>er_Round = 3, er_RunID = ''proj-round-3'', er_Experimenter = [],
     er_ProposalPath = [], er_EvalLoss = ''1.5'', er_MetricValue = [], er_Kept = None, er_AdapterArtifactURI = [],
     er_StartedAt = None, er_CompletedAt = None\<rparr>]\<rparr>) demo_project"

definition demo_dead_env :: "unit op_env" where
  "demo_dead_env = (demo_env [])\<lparr>oe_http := \<lparr>he_url_err = (\<lambda>_. None), he_do = (\<lambda>_ w. (w, Inl ''EOF''))\<rparr>\<rparr>"

lemma demo_dead: "snd (get_run (oe_http demo_dead_env) c w i) = Inl ''http: EOF''"
  by (simp add: get_run_def do_get_def send_def do_request_def demo_dead_env_def wrap_err_def and_then_def)

lemma demo_dead_env_simps [simp]: "oe_cluster demo_dead_env = demo_cluster" "oe_wiki demo_dead_env = no_faults"
  by (simp_all add: demo_dead_env_def demo_env_def)

lemma backfill_asks_by_record_id_witness:
  "op_remote (fst (backfill_wiki_history (\<lambda>_. Inr []) demo_dead_env demo_state demo_lost)) = demo_remote"
  using backfill_asks_by_record_id [of "\<lambda>_. Inr []" demo_dead_env demo_state demo_lost] demo_dead
  by (cases "backfill_wiki_history (\<lambda>_. Inr []) demo_dead_env demo_state demo_lost") (auto simp: demo_state_def)

text \<open>The server answers with a run whose configuration is empty, and round 3 is restored.\<close>

definition lost_body :: string where
  "lost_body = CHR 0x7B # go_quote ''run_id'' @ '':'' @ go_quote ''r3'' @ '','' @ go_quote ''runtime_config'' @ '':''
     @ CHR 0x7B # go_quote ''parameters'' @ '':'' @ CHR 0x7B # go_quote ''qlora_config_json'' @ '':''
     @ go_quote [CHR 0x7B, CHR 0x7D] @ [CHR 0x7D, CHR 0x7D, CHR 0x7D]"

lemma backfill_keeps_ref:
  assumes "backfill_wiki_history marshal env st p = (st', stats, err)" "gm_get (op_remote st) r \<noteq> None"
  shows "gm_get (op_remote st') r \<noteq> None"
  using assms finish_push_keeps_ref [where r = r]
  by (auto simp: backfill_wiki_history_def Let_def dest: dsp_client_for_remote
      split: if_splits prod.splits sum.splits option.splits)

lemma backfill_keeps_known_rounds_witness:
  "\<exists>tx. begin_wiki_tx demo_cluster no_faults
       (op_remote (fst (backfill_wiki_history (\<lambda>_. Inr ''y'') (demo_env lost_body) demo_state demo_lost))) demo_lost = Inr tx
     \<and> gm_get (tx_tree tx) ''proposals/round-1.yaml'' = Some (ln ''rank: 8'')"
proof -
  obtain st' stats err where b: "backfill_wiki_history (\<lambda>_. Inr ''y'') (demo_env lost_body) demo_state demo_lost = (st', stats, err)"
    by (metis prod_cases3)
  have "gm_get (op_remote demo_state) ''refs/heads/main'' \<noteq> None" by (simp add: demo_state_def demo_remote_def)
  from backfill_keeps_ref [OF b this] have r: "gm_get (op_remote st') ''refs/heads/main'' \<noteq> None" .
  have m: "p_meta demo_lost = p_meta demo_project" "p_Spec demo_lost = p_Spec demo_project"
    by (simp_all add: demo_lost_def)
  have t: "begin_wiki_tx demo_cluster no_faults demo_remote demo_lost = Inr (demo_begin demo_remote)"
    using begin_wiki_tx_frame [OF m] demo_begin_wiki(1) by simp
  then obtain tx where tx: "begin_wiki_tx demo_cluster no_faults (op_remote st') demo_lost = Inr tx"
    using begin_wiki_tx_again [OF t] r by (auto simp: demo_begin_wiki elim: is_okE)
  have n: "1 \<in> wiki_rounds no_faults (demo_begin demo_remote)" by code_simp
  have f: "''proposals/round-1.yaml'' \<in> set (round_files 1)" by code_simp
  have e: "oe_cluster (demo_env lost_body) = demo_cluster" "oe_wiki (demo_env lost_body) = no_faults"
    "op_remote demo_state = demo_remote" by (simp_all add: demo_env_def demo_state_def)
  have "gm_get (tx_tree tx) ''proposals/round-1.yaml''
      = gm_get (tx_tree (demo_begin demo_remote)) ''proposals/round-1.yaml''"
    by (rule backfill_keeps_known_rounds [OF b, unfolded e, OF t tx n f]) (simp add: demo_lost_def int64_range_def)
  also have "\<dots> = Some (ln ''rank: 8'')" by code_simp
  finally show ?thesis using b tx by auto
qed

end
