(* ===== verification/Janitor.thy ===== *)
theory Janitor
  imports Drain
begin

text \<open>
  \<open>autoresearchproject_mlmd_cleanup.go\<close>: executions that the metadata database still holds as running
  although their pipeline run has ended become failed, and old failed executions are deleted.
\<close>

subsection \<open>The session\<close>

definition mlmd_cleanup_cooldown :: int where
  "mlmd_cleanup_cooldown = minutes 10"

definition should_run_cleanup :: "gotime \<Rightarrow> gotime gomap \<Rightarrow> string \<Rightarrow> gotime gomap \<times> bool" where
  "should_run_cleanup now last_run ns =
     (case gm_get last_run ns of
        Some t \<Rightarrow> (if now - t < mlmd_cleanup_cooldown then (last_run, False) else (gm_set last_run ns now, True))
      | None \<Rightarrow> (gm_set last_run ns now, True))"

definition mlmd_dsn :: "'w op_env \<Rightarrow> 'w \<Rightarrow> string \<Rightarrow> string result" where
  "mlmd_dsn env w ns =
     (case oe_get_secret env w ns ''ds-pipeline-db-dspa'' of
        Inl e \<Rightarrow> Inl (''get ds-pipeline-db-dspa secret: '' @ e)
      | Inr data \<Rightarrow>
         (let val = (\<lambda>k. trim_space (case gm_get data k of None \<Rightarrow> [] | Some v \<Rightarrow> v));
              user = default_if_empty (val ''username'') ''mlpipeline''; pass = val ''password'';
              dbname = default_if_empty (val ''database'') ''mlpipeline'';
              host = ''mariadb-dspa.'' @ ns @ ''.svc.cluster.local:3306''
          in if pass = [] then Inl ''ds-pipeline-db-dspa secret has empty password''
             else Inr (user @ '':'' @ pass @ ''@tcp('' @ host @ '')/'' @ dbname @ ''?parseTime=true&timeout=5s'')))"

text \<open>A statement on the database of a source: an absent database refuses it.\<close>

definition sql_on :: "'w op_env \<Rightarrow> 'w op_state \<Rightarrow> string \<Rightarrow> sql_step \<Rightarrow> mlmd_db result" where
  "sql_on env st dsn step =
     (case oe_sql_fault env step (op_world st) of
        Some e \<Rightarrow> Inl e
      | None \<Rightarrow> (case gm_get (op_mlmd st) dsn of None \<Rightarrow> Inl ''connection refused'' | Some db \<Rightarrow> Inr db))"

definition put_mlmd :: "'w op_state \<Rightarrow> string \<Rightarrow> mlmd_db \<Rightarrow> 'w op_state" where
  "put_mlmd st dsn db = st\<lparr>op_mlmd := gm_set (op_mlmd st) dsn db\<rparr>"

subsection \<open>Orphans\<close>

text \<open>
  What the answer for a run says: it is gone or has ended, it lives, or nothing is known this time.
\<close>

definition run_orphaned :: "dsp_run result \<Rightarrow> bool option" where
  "run_orphaned answer =
     (case answer of
        Inl e \<Rightarrow> (if str_contains e ''404'' then Some True else None)
      | Inr run \<Rightarrow> Some (is_run_terminal (run_State run)))"

text \<open>One candidate; the verdict on a run is remembered for the rest of the pass.\<close>

definition confirm_orphan ::
    "'w op_env \<Rightarrow> dsp_client \<Rightarrow> 'w \<times> bool gomap \<times> int list \<Rightarrow> int \<times> string \<Rightarrow> 'w \<times> bool gomap \<times> int list" where
  "confirm_orphan env c acc cand =
     (case (acc, cand) of ((w, known, ids), (exec_id, run_id)) \<Rightarrow>
       (case gm_get known run_id of
          Some t \<Rightarrow> (w, known, if t then ids @ [exec_id] else ids)
        | None \<Rightarrow>
           (case get_run (oe_http env) c w run_id of
              (w, answer) \<Rightarrow>
                (case run_orphaned answer of
                   None \<Rightarrow> (w, known, ids)
                 | Some t \<Rightarrow> (w, gm_set known run_id t, if t then ids @ [exec_id] else ids)))))"

subsection \<open>Pruning\<close>

text \<open>The transaction that deletes: the first fault rolls everything back.\<close>

fun prune_tx ::
    "(string \<Rightarrow> string option) \<Rightarrow> int list \<Rightarrow> (string \<times> (int list \<Rightarrow> mlmd_db \<Rightarrow> mlmd_db)) list \<Rightarrow> mlmd_db
     \<Rightarrow> (string \<times> string) + mlmd_db" where
  "prune_tx fault ids [] db = Inr db"
| "prune_tx fault ids ((table, del) # ds) db =
     (case fault table of
        Some e \<Rightarrow> Inl (table, e)
      | None \<Rightarrow> prune_tx fault ids ds (del ids db))"

text \<open>One type: the database after it, the rows deleted, and the error that ends the pruning.\<close>

definition prune_type ::
    "'w op_env \<Rightarrow> 'w \<Rightarrow> string \<Rightarrow> mlmd_db \<Rightarrow> mlmd_db \<times> int \<times> string option" where
  "prune_type env w ty db =
     (let fault = (\<lambda>s. oe_sql_fault env s w); ids = prune_ids db ty in
      case fault (SelectPrune ty) of
        Some e \<Rightarrow> (db, 0, Some (''select prune candidates ('' @ ty @ ''): '' @ e))
      | None \<Rightarrow>
     (case fault (ScanPrune ty) of
        Some e \<Rightarrow> (db, 0, Some (''scan prune id: '' @ e))
      | None \<Rightarrow>
     (if ids = [] then (db, 0, None)
      else case fault (BeginPrune ty) of
        Some e \<Rightarrow> (db, 0, Some (''begin tx ('' @ ty @ ''): '' @ e))
      | None \<Rightarrow>
     (case prune_tx (\<lambda>table. fault (DeleteFrom ty table)) ids prune_deletes db of
        Inl (table, e) \<Rightarrow> (db, 0, Some (''prune '' @ table @ '' ('' @ ty @ ''): '' @ e))
      | Inr db1 \<Rightarrow>
     (case fault (CommitPrune ty) of
        Some e \<Rightarrow> (db, 0, Some (''commit prune tx ('' @ ty @ ''): '' @ e))
      | None \<Rightarrow> (db1, int (length (db_Execution db)) - int (length (db_Execution db1)), None))))))"

fun prune_types :: "'w op_env \<Rightarrow> 'w \<Rightarrow> string list \<Rightarrow> mlmd_db \<Rightarrow> int \<Rightarrow> mlmd_db \<times> int \<times> string option" where
  "prune_types env w [] db n = (db, n, None)"
| "prune_types env w (ty # tys) db n =
     (case prune_type env w ty db of
        (db1, k, Some e) \<Rightarrow> (db1, n, Some e)
      | (db1, k, None) \<Rightarrow> prune_types env w tys db1 (n + k))"

definition prune_old_failed :: "'w op_env \<Rightarrow> 'w \<Rightarrow> mlmd_db \<Rightarrow> mlmd_db \<times> int \<times> string option" where
  "prune_old_failed env w db = prune_types env w mlmd_prunable_types db 0"

subsection \<open>The pass\<close>

definition transition_orphans ::
    "'w op_env \<Rightarrow> 'w op_state \<Rightarrow> string \<Rightarrow> int list \<Rightarrow> 'w op_state \<times> int result" where
  "transition_orphans env st dsn ids =
     (case sql_on env st dsn UpdateOrphans of
        Inl e \<Rightarrow> (st, Inl (''UPDATE Execution orphans: '' @ e))
      | Inr db \<Rightarrow>
         (case mark_failed ids db of (db1, n) \<Rightarrow>
           (case prune_old_failed env (op_world st) db1 of
              (db2, pruned, err) \<Rightarrow>
                (put_mlmd st dsn db2, Inr (if err = None \<and> pruned > 0 then n + pruned else n)))))"

definition cleanup_candidates ::
    "'w op_env \<Rightarrow> 'w op_state \<Rightarrow> string \<Rightarrow> (int \<times> string) list result" where
  "cleanup_candidates env st dsn =
     (case oe_sql_fault env (SqlOpen dsn) (op_world st) of
        Some e \<Rightarrow> Inl (''open mysql: '' @ e)
      | None \<Rightarrow>
     (case sql_on env st dsn SelectStuck of
        Inl e \<Rightarrow> Inl (''query stuck executions: '' @ e)
      | Inr db \<Rightarrow>
     (case oe_sql_fault env IterateStuck (op_world st) of
        Some e \<Rightarrow> Inl (''iterate candidates: '' @ e)
      | None \<Rightarrow> Inr (stuck_executions db))))"

definition cleanup_stale_mlmd :: "'w op_env \<Rightarrow> 'w op_state \<Rightarrow> project \<Rightarrow> 'w op_state \<times> int result" where
  "cleanup_stale_mlmd env st p =
     (let ns = om_Namespace (p_meta p) in
      case should_run_cleanup (oe_now env) (op_cleanups st) ns of
        (_, False) \<Rightarrow> (st, Inr 0)
      | (runs, True) \<Rightarrow>
     (let st = st\<lparr>op_cleanups := runs\<rparr> in
      case mlmd_dsn env (op_world st) ns of
        Inl e \<Rightarrow> (st, Inl (''build MariaDB DSN: '' @ e))
      | Inr dsn \<Rightarrow>
     (case cleanup_candidates env st dsn of
        Inl e \<Rightarrow> (st, Inl e)
      | Inr cands \<Rightarrow>
     (if cands = [] then (st, Inr 0)
      else case dsp_client_for env st ns of
        (st, Inl e) \<Rightarrow> (st, Inl (''dsp client: '' @ e))
      | (st, Inr c) \<Rightarrow>
     (case foldl (confirm_orphan env c) (op_world st, [], []) cands of
        (w, _, ids) \<Rightarrow>
          (let st = st\<lparr>op_world := w\<rparr>
           in if ids = [] then (st, Inr 0) else transition_orphans env st dsn ids))))))"

subsection \<open>Pruning deletes whole executions, the oldest failed ones\<close>

lemma prune_tx_Inr: "prune_tx fault ids ds db = Inr db' \<Longrightarrow> db' = fold (\<lambda>(_, del). del ids) ds db"
  by (induction fault ids ds db rule: prune_tx.induct) (auto split: option.splits)

lemma prune_type_cases:
  assumes "prune_type env w ty db = (db', k, err)"
  shows "err \<noteq> None \<and> db' = db
    \<or> err = None \<and> db' = cascade (prune_ids db ty) db
       \<and> k = int (length (db_Execution db)) - int (length (db_Execution db'))"
  using assms
  by (auto simp: prune_type_def Let_def cascade_def [symmetric] dest!: prune_tx_Inr
      split: option.splits if_splits sum.splits prod.splits)

lemma prune_types_invariant:
  assumes "prune_types env w tys db n = (db', m, err)" "P db" "\<And>db ty. P db \<Longrightarrow> P (cascade (prune_ids db ty) db)"
  shows "P db'"
  using assms
proof (induction tys arbitrary: db n)
  case (Cons ty tys)
  obtain db1 k e where t: "prune_type env w ty db = (db1, k, e)" by (metis prod_cases3)
  have "P db1" using prune_type_cases [OF t] Cons.prems by auto
  with t Cons show ?case by (cases e) auto
qed simp

text \<open>
  Pruning keeps the newest failed executions. When it ends without an error, each prunable type
  keeps ten of its failed executions (all of them if there were fewer), none of the deleted ones is
  newer than a kept one, no execution in another state is touched, and the count is the number of
  deleted rows.
\<close>

theorem prune_keeps_newest:
  assumes "prune_old_failed env w db = (db', n, None)" "keys_ok db" "ty \<in> set mlmd_prunable_types"
  shows "length (failed_of_type db' ty) = min 10 (length (failed_of_type db ty))
    \<and> (\<forall>x k. x \<in> set (failed_of_type db ty) \<and> x \<notin> set (failed_of_type db' ty) \<and> k \<in> set (failed_of_type db' ty)
          \<longrightarrow> mx_create_time x \<le> mx_create_time k)
    \<and> filter (\<lambda>e. mx_last_known_state e \<noteq> mlmd_failed) (db_Execution db')
        = filter (\<lambda>e. mx_last_known_state e \<noteq> mlmd_failed) (db_Execution db)
    \<and> n = int (length (db_Execution db)) - int (length (db_Execution db'))"
proof -
  let ?a = "''system.DAGExecution''" and ?b = "''system.ContainerExecution''"
  obtain db1 k1 e1 where s1: "prune_type env w ?a db = (db1, k1, e1)" by (metis prod_cases3)
  with assms(1) have "e1 = None" by (cases e1) (auto simp: prune_old_failed_def mlmd_prunable_types_def)
  with prune_type_cases [OF s1] have d1: "db1 = cascade (prune_ids db ?a) db"
    and n1: "k1 = int (length (db_Execution db)) - int (length (db_Execution db1))" by simp_all
  obtain k2 where s2: "prune_type env w ?b db1 = (db', k2, None)" and n: "n = k1 + k2"
    using assms(1) s1 \<open>e1 = None\<close>
    by (auto simp: prune_old_failed_def mlmd_prunable_types_def split: prod.splits option.splits)
  from prune_type_cases [OF s2] have d2: "db' = cascade (prune_ids db1 ?b) db1"
    and n2: "k2 = int (length (db_Execution db1)) - int (length (db_Execution db'))" by simp_all
  have keys: "keys_ok db1" using assms(2) by (simp add: d1 cascade_keys)
  note c1 = cascade_type [OF assms(2), where ty = ?a, folded d1] and c2 = cascade_type [OF keys, where ty = ?b, folded d2]
  have a: "failed_of_type db' ?a = failed_of_type db1 ?a" and b: "failed_of_type db1 ?b = failed_of_type db ?b"
    using c2(4) [of ?a] c1(4) [of ?b] by simp_all
  have "ty = ?a \<or> ty = ?b" using assms(3) by (auto simp: mlmd_prunable_types_def)
  then have "length (failed_of_type db' ty) = min 10 (length (failed_of_type db ty))"
    "x \<in> set (failed_of_type db ty) \<Longrightarrow> x \<notin> set (failed_of_type db' ty) \<Longrightarrow> k \<in> set (failed_of_type db' ty)
       \<Longrightarrow> mx_create_time x \<le> mx_create_time k" for x k
    using c1(1,3) c2(1,3) by (auto simp: a b mlmd_failed_retention_def)
  with c1(5) c2(5) n n1 n2 show ?thesis by auto
qed

subsection \<open>What a pass does to a database\<close>

definition orphan_answer :: "'w op_env \<Rightarrow> string \<Rightarrow> bool" where
  "orphan_answer env run_id \<longleftrightarrow> (\<exists>c w. run_orphaned (snd (get_run (oe_http env) c w run_id)) = Some True)"

lemma confirm_fold:
  assumes "foldl (confirm_orphan env c) (w, known, ids) cands = (w', known', ids')"
    and "\<And>r. gm_get known r = Some True \<Longrightarrow> orphan_answer env r"
    and "\<And>i. i \<in> set ids \<Longrightarrow> \<exists>r. (i, r) \<in> A \<and> orphan_answer env r" "set cands \<subseteq> A" "i \<in> set ids'"
  shows "\<exists>r. (i, r) \<in> A \<and> orphan_answer env r"
  using assms
proof (induction cands arbitrary: w known ids)
  case (Cons cand cands)
  obtain x r where cand: "cand = (x, r)" by fastforce
  obtain w1 answer where g: "get_run (oe_http env) c w r = (w1, answer)" by fastforce
  obtain w2 known2 ids2 where step: "confirm_orphan env c (w, known, ids) (x, r) = (w2, known2, ids2)"
    by (metis prod_cases3)
  have o: "run_orphaned answer = Some True \<Longrightarrow> orphan_answer env r"
    using g unfolding orphan_answer_def by (metis snd_conv)
  have k: "orphan_answer env q" if "gm_get known2 q = Some True" for q
    using that step g o Cons.prems(2) by (auto simp: confirm_orphan_def split: option.splits if_splits)
  have i: "\<exists>q. (j, q) \<in> A \<and> orphan_answer env q" if "j \<in> set ids2" for j
  proof (cases "j \<in> set ids")
    case False
    with that step g have "j = x" "gm_get known r = Some True \<or> run_orphaned answer = Some True"
      by (auto simp: confirm_orphan_def split: option.splits if_splits)
    with o Cons.prems(2,4) cand show ?thesis by auto
  qed (use Cons.prems(3) in blast)
  have "foldl (confirm_orphan env c) (w2, known2, ids2) cands = (w', known', ids')"
    using Cons.prems(1) cand step by simp
  from Cons.IH [OF this k i _ Cons.prems(5)] Cons.prems(4) show ?case by simp
qed simp

lemma cleanup_cases:
  assumes "cleanup_stale_mlmd env st p = (st', r)"
  obtains (same) "op_mlmd st' = op_mlmd st"
    | (marked) dsn db ids w db2 n e where "gm_get (op_mlmd st) dsn = Some db"
        "\<And>i. i \<in> set ids \<Longrightarrow> \<exists>run. (i, run) \<in> set (stuck_executions db) \<and> orphan_answer env run"
        "prune_old_failed env w (fst (mark_failed ids db)) = (db2, n, e)"
        "op_mlmd st' = gm_set (op_mlmd st) dsn db2"
proof -
  have client: "op_mlmd s' = op_mlmd s" if "dsp_client_for env s ns = (s', x)" for s s' ns x
    using that by (auto simp: dsp_client_for_def Let_def split: option.splits sum.splits if_splits)
  have trans: "op_mlmd st' = op_mlmd s
      \<or> (\<exists>db w db2 n e. gm_get (op_mlmd s) dsn = Some db
          \<and> prune_old_failed env w (fst (mark_failed ids db)) = (db2, n, e)
          \<and> op_mlmd st' = gm_set (op_mlmd s) dsn db2)"
    if "transition_orphans env s dsn ids = (st', r)" for s dsn ids
    using that
    by (fastforce simp: transition_orphans_def sql_on_def put_mlmd_def split: prod.splits option.splits sum.splits if_splits)
  show thesis
  proof (cases "op_mlmd st' = op_mlmd st")
    case False
    let ?ns = "om_Namespace (p_meta p)"
    obtain runs where runs: "should_run_cleanup (oe_now env) (op_cleanups st) ?ns = (runs, True)"
      using assms False by (auto simp: cleanup_stale_mlmd_def Let_def split: prod.splits bool.splits)
    let ?st = "st\<lparr>op_cleanups := runs\<rparr>"
    obtain dsn cands st1 c w k ids where
      cands: "cleanup_candidates env ?st dsn = Inr cands" and c: "dsp_client_for env ?st ?ns = (st1, Inr c)"
      and f: "foldl (confirm_orphan env c) (op_world st1, [], []) cands = (w, k, ids)"
      and t: "transition_orphans env (st1\<lparr>op_world := w\<rparr>) dsn ids = (st', r)"
      using assms False client [of ?st ?ns]
      by (auto simp: cleanup_stale_mlmd_def Let_def runs split: prod.splits sum.splits if_splits)
    have m: "op_mlmd (st1\<lparr>op_world := w\<rparr>) = op_mlmd st" using client [OF c] by simp
    obtain db where db: "gm_get (op_mlmd st) dsn = Some db" "cands = stuck_executions db"
      using cands by (auto simp: cleanup_candidates_def sql_on_def split: option.splits sum.splits)
    have ids: "\<exists>run. (i, run) \<in> set (stuck_executions db) \<and> orphan_answer env run" if "i \<in> set ids" for i
      by (rule confirm_fold [OF f _ _ _ that]) (simp_all add: db)
    from trans [OF t] False m db(1) obtain w db2 n e where
      "prune_old_failed env w (fst (mark_failed ids db)) = (db2, n, e)" "op_mlmd st' = gm_set (op_mlmd st) dsn db2"
      by auto
    with marked [OF db(1) ids] show thesis by blast
  qed (rule same)
qed

text \<open>
  C12: the clean-up keeps the database consistent. Identifiers stay unique, and every event,
  association, property and event path still has its parent row, whatever step of the session fails.
\<close>

theorem janitor_keeps_keys:
  assumes "cleanup_stale_mlmd env st p = (st', r)"
    and "\<And>dsn db. gm_get (op_mlmd st) dsn = Some db \<Longrightarrow> keys_ok db"
    and "gm_get (op_mlmd st') dsn = Some db'"
  shows "keys_ok db'"
  using assms(1)
proof (cases rule: cleanup_cases)
  case same
  with assms(2,3) show ?thesis by simp
next
  case (marked dsn0 db ids w db2 n e)
  have "keys_ok db2"
    using prune_types_invariant [OF marked(3) [unfolded prune_old_failed_def], of keys_ok] assms(2) [OF marked(1)]
    by (simp add: mark_failed_keys cascade_keys)
  with marked(4) assms(2,3) show ?thesis by (auto split: if_splits)
qed


subsection \<open>A concrete database\<close>

text \<open>Twelve failed steps and a running one, whose run lives.\<close>

definition demo_live :: mlmd_execution where
  "demo_live = \<lparr>mx_id = 0, mx_type_id = 1, mx_last_known_state = mlmd_running, mx_create_time = 99\<rparr>"

definition demo_mlmd :: mlmd_db where
  "demo_mlmd = \<lparr>db_Execution = demo_live # map (\<lambda>i. \<lparr>mx_id = i, mx_type_id = 1, mx_last_known_state = mlmd_failed,
       mx_create_time = i\<rparr>) [1..12],
     db_Association = [\<lparr>ma_execution_id = 0, ma_context_id = 5\<rparr>],
     db_Context = [\<lparr>mc_id = 5, mc_name = ''r1'', mc_type_id = 2\<rparr>],
     db_Type = [(1, ''system.DAGExecution''), (2, ''system.PipelineRun'')],
     db_Event = [\<lparr>mv_id = 7, mv_execution_id = 1\<rparr>], db_EventPath = [7], db_ExecutionProperty = [2]\<rparr>"

lemma demo_mlmd_keys: "keys_ok demo_mlmd"
  by code_simp

definition demo_sql_env :: "unit op_env" where
  "demo_sql_env = (demo_env running_body)\<lparr>oe_get_secret := (\<lambda>_ _ _. Inr [(''password'', ''pw'')])\<rparr>"

definition demo_dsn :: string where
  "demo_dsn = ''mlpipeline:pw@tcp(mariadb-dspa.lab.svc.cluster.local:3306)/mlpipeline?parseTime=true&timeout=5s''"

lemma demo_dsn_built: "mlmd_dsn demo_sql_env () ''lab'' = Inr demo_dsn"
proof -
  have "trim_space ''pw'' = ''pw''" "trim_space [] = []" by code_simp+
  then show ?thesis by (simp add: demo_sql_env_def mlmd_dsn_def demo_dsn_def default_if_empty_def)
qed

lemma demo_sql_no_fault: "oe_sql_fault demo_sql_env s w = None"
  by (simp add: demo_sql_env_def demo_env_def)

definition demo_sql_state :: "unit op_state" where
  "demo_sql_state = demo_state\<lparr>op_mlmd := [(demo_dsn, demo_mlmd)]\<rparr>"

lemma prune_keeps_newest_witness:
  "\<exists>db'. prune_old_failed demo_sql_env () demo_mlmd = (db', 2, None)
     \<and> length (failed_of_type db' ''system.DAGExecution'') = 10"
proof -
  let ?a = "''system.DAGExecution''" and ?b = "''system.ContainerExecution''"
  let ?db1 = "cascade (prune_ids demo_mlmd ?a) demo_mlmd"
  let ?db2 = "cascade (prune_ids ?db1 ?b) ?db1"
  have "prune_ids demo_mlmd ?a \<noteq> []" "prune_ids ?db1 ?b = []" by code_simp+
  moreover have "prune_tx (\<lambda>_. None) ids prune_deletes db = Inr (cascade ids db)" for ids db
    by (simp add: cascade_def prune_deletes_def)
  ultimately have "prune_old_failed demo_sql_env () demo_mlmd
      = (?db2, int (length (db_Execution demo_mlmd)) - int (length (db_Execution ?db2)), None)"
    by (simp add: prune_old_failed_def prune_type_def mlmd_prunable_types_def demo_sql_no_fault Let_def
        del: cascade_simps)
  moreover have "int (length (db_Execution demo_mlmd)) - int (length (db_Execution ?db2)) = 2" by code_simp
  ultimately obtain db' n where p: "prune_old_failed demo_sql_env () demo_mlmd = (db', n, None)" and n: "n = 2"
    by auto
  have "length (failed_of_type demo_mlmd ''system.DAGExecution'') = 12" by code_simp
  then show ?thesis
    using prune_keeps_newest [OF p demo_mlmd_keys, of "''system.DAGExecution''"] p n
    by (simp add: mlmd_prunable_types_def)
qed

lemma janitor_keeps_keys_witness:
  "\<exists>db'. gm_get (op_mlmd (fst (cleanup_stale_mlmd demo_sql_env demo_sql_state demo_project))) demo_dsn = Some db'
     \<and> keys_ok db'"
proof -
  obtain st' r where c: "cleanup_stale_mlmd demo_sql_env demo_sql_state demo_project = (st', r)" by fastforce
  have g: "gm_get (op_mlmd demo_sql_state) dsn = Some db \<Longrightarrow> keys_ok db" for dsn db
    using demo_mlmd_keys by (auto simp: demo_sql_state_def split: if_splits)
  have "gm_get (op_mlmd st') demo_dsn \<noteq> None"
    using c by (cases rule: cleanup_cases) (auto simp: demo_sql_state_def split: if_splits)
  then obtain db' where "gm_get (op_mlmd st') demo_dsn = Some db'" by blast
  with janitor_keeps_keys [OF c g this] c show ?thesis by simp
qed


subsection \<open>An error that is not 404\<close>

text \<open>
  The test for a deleted run looks for the digits 404 anywhere in the error. When the path of the
  request contains them, say in the identifier of the run, any failure of the server, such as status
  503, counts as proof that the run is gone.
\<close>

theorem server_error_orphans_live_run:
  assumes "he_url_err he (dc_BaseURL c @ ''/apis/v2beta1/runs/'' @ rid) = None"
    and "snd (he_do he \<lparr>hr_Method = ''GET'', hr_URL = dc_BaseURL c @ ''/apis/v2beta1/runs/'' @ rid,
           hr_Header = auth_headers c, hr_Body = NoBody\<rparr> w)
         = Inr \<lparr>hs_Status = status, hs_Header = hdr, hs_Body = Inr body\<rparr>"
    and "500 \<le> status"
    and "str_contains (url_path (dc_BaseURL c @ ''/apis/v2beta1/runs/'' @ rid)) ''404''"
  shows "run_orphaned (snd (get_run he c w rid)) = Some True"
proof -
  let ?path = "url_path (dc_BaseURL c @ ''/apis/v2beta1/runs/'' @ rid)"
  let ?e = "''DSP '' @ ''GET'' @ '' '' @ ?path @ '': HTTP '' @ itoa status @ '' '' @ truncate_bytes body 400"
  have "snd (get_run he c w rid) = Inl ?e"
    using assms(1-3) by (auto simp: get_run_def do_get_def send_def do_request_def query_string_def and_then_def
        wrap_err_def prod_eq_iff split: prod.splits)
  moreover have "str_contains ?e ''404''"
    using str_contains_infix [OF assms(4), of "''DSP '' @ ''GET'' @ '' ''" "'': HTTP '' @ itoa status @ '' '' @ truncate_bytes body 400"]
    by simp
  ultimately show ?thesis by (simp add: run_orphaned_def del: append.simps)
qed

definition demo_busy :: "unit http_env" where
  "demo_busy = \<lparr>he_url_err = (\<lambda>_. None),
     he_do = (\<lambda>req w. (w, Inr \<lparr>hs_Status = 503, hs_Header = [], hs_Body = Inr ''busy''\<rparr>))\<rparr>"

lemma server_error_orphans_live_run_witness:
  "run_orphaned (snd (get_run demo_busy demo_client () ''9d404a1e'')) = Some True"
proof (rule server_error_orphans_live_run [where status = 503 and hdr = "[]" and body = "''busy''"])
  show "str_contains (url_path (dc_BaseURL demo_client @ ''/apis/v2beta1/runs/'' @ ''9d404a1e'')) ''404''"
    by code_simp
qed (simp_all add: demo_busy_def)

end
