(* ===== verification/Reconcile.thy ===== *)
theory Reconcile
  imports Backfill Janitor
begin

text \<open>
  \<open>Reconcile\<close> of \<open>autoresearchproject_controller.go\<close>: one tick of the loop of a project. The tick reads
  the stored project, polls its runs, passes the gates and submits at most one round; the stored
  project changes only where the code calls \<open>Status().Update\<close>.
\<close>

subsection \<open>Loop settings with their defaults\<close>

definition cadence :: "project \<Rightarrow> int" where
  "cadence p = (let d = minutes (lc_CadenceMinutes (ps_LoopConfig (p_Spec p))) in if d = 0 then minutes 30 else d)"

definition max_concurrent :: "project \<Rightarrow> int" where
  "max_concurrent p = (let n = lc_MaxConcurrentRuns (ps_LoopConfig (p_Spec p)) in if n = 0 then 1 else n)"

definition max_total :: "project \<Rightarrow> int" where
  "max_total p = (let n = lc_MaxTotalExperiments (ps_LoopConfig (p_Spec p)) in if n = 0 then 100 else n)"

definition max_drain_failures :: "project \<Rightarrow> int" where
  "max_drain_failures p =
     (let n = lc_MaxConsecutiveDrainFailures (ps_LoopConfig (p_Spec p)) in if n \<le> 0 then 3 else n)"

subsection \<open>Polling\<close>

definition registration_condition :: "gotime \<Rightarrow> (string \<times> string \<times> string) result \<Rightarrow> project_condition" where
  "registration_condition now r =
     (case r of
        Inl e \<Rightarrow> condition now ''PipelineUploadOK'' ''False'' ''DSPRejected'' (truncate_msg e 256)
      | Inr (_, version, _) \<Rightarrow> condition now ''PipelineUploadOK'' ''True'' ''Uploaded''
          (''embedded pipeline.yaml accepted by DSP (version '' @ version @ '')''))"

text \<open>Steps 1 to 1c: drain, registration, culling, clean-up. Errors are logged or become a condition.\<close>

definition observe_runs :: "'w op_env \<Rightarrow> 'w op_state \<Rightarrow> project \<Rightarrow> 'w op_state \<times> project \<times> bool" where
  "observe_runs env st p =
     (case drain_open_jobs env st p of (st1, p1, dr) \<Rightarrow>
       (let completed = (dr = Inr True) in
        case ensure_dsp_registration env st1 p1 of (st2, reg) \<Rightarrow>
          (let p2 = set_cond (registration_condition (oe_now env) reg) p1;
               version = (case reg of Inl _ \<Rightarrow> [] | Inr (_, v, _) \<Rightarrow> v)
           in case (if version = [] then (st2, p2, Inr 0) else cull_stale_open_runs env st2 p2 version) of
                (st3, p3, culled) \<Rightarrow>
                  (fst (cleanup_stale_mlmd env st3 p3), p3,
                   completed \<or> (case culled of Inl _ \<Rightarrow> False | Inr n \<Rightarrow> n > 0)))))"

subsection \<open>Gates\<close>

datatype gate = AllDone | NotDue int | AtCapacity | BreakerOpen | Proceed

definition gates :: "gotime \<Rightarrow> bool \<Rightarrow> project \<Rightarrow> gate" where
  "gates now completed p =
     (let s = p_Status p;
          next_due = (case st_LastCycleTime s of
                        Some t \<Rightarrow> (if \<not> completed \<and> now < t + cadence p then Some (t + cadence p) else None)
                      | None \<Rightarrow> None)
      in if st_ExperimentsRun s \<ge> to_int32 (max_total p) then AllDone
         else case next_due of
           Some t \<Rightarrow> NotDue (t - now)
         | None \<Rightarrow>
            (if int (length (st_OpenRuns s)) \<ge> max_concurrent p then AtCapacity
             else if st_ConsecutiveDrainFailures s \<ge> max_drain_failures p then BreakerOpen
             else Proceed))"

definition breaker_message :: "project \<Rightarrow> string" where
  "breaker_message p =
     itoa (st_ConsecutiveDrainFailures (p_Status p))
     @ '' consecutive rounds completed without parseable eval_loss ''
     @ ''(trainer hangs / HF unreachable / image broken). New rounds are HALTED. ''
     @ ''Inspect a recent trainer pod for the root cause, then reset with: ''
     @ ''oc patch autoresearchproject -n '' @ om_Namespace (p_meta p) @ '' '' @ om_Name (p_meta p)
     @ '' --type=merge --subresource=status -p '' @ [CHR 0x27, CHR 0x7B] @ go_quote ''status'' @ '':'' @ [CHR 0x7B]
     @ go_quote ''consecutiveDrainFailures'' @ '':0'' @ [CHR 0x7D, CHR 0x7D, CHR 0x27]"

definition open_breaker :: "gotime \<Rightarrow> project \<Rightarrow> project" where
  "open_breaker now p =
     set_cond (condition now ''Ready'' ''False'' ''DrainStuck''
         ''circuit breaker open; see DrainStuck condition for the reset command'')
       (set_cond (condition now ''DrainStuck'' ''True'' ''ConsecutiveDrainFailures'' (breaker_message p)) p)"

definition close_breaker :: "gotime \<Rightarrow> project \<Rightarrow> project" where
  "close_breaker now p =
     set_cond (condition now ''DrainStuck'' ''False'' ''Healthy''
       (itoa (st_ConsecutiveDrainFailures (p_Status p)) @ '' consecutive drain failures (threshold: ''
        @ itoa (max_drain_failures p) @ '')'')) p"

subsection \<open>Submitting a round\<close>

record reconcile_result =
  rr_requeue_after :: int
  rr_err :: "string option"

definition mark_phase_and_save ::
    "'w op_env \<Rightarrow> 'w op_state \<Rightarrow> project \<Rightarrow> string \<Rightarrow> string \<Rightarrow> 'w op_state \<times> reconcile_result" where
  "mark_phase_and_save env st p phase msg =
     (case update_status env st (mark_phase (oe_now env) phase msg p) of
        (st, Some e) \<Rightarrow> (st, \<lparr>rr_requeue_after = 0, rr_err = Some e\<rparr>)
      | (st, None) \<Rightarrow> (st, \<lparr>rr_requeue_after = minutes 1, rr_err = None\<rparr>))"

definition validate_refs :: "'w op_env \<Rightarrow> 'w \<Rightarrow> project \<Rightarrow> string option" where
  "validate_refs env w p =
     (let ns = om_Namespace (p_meta p); kb = ps_KnowledgeBase (p_Spec p);
          agent = exp_Workstation (ps_Experimenter (p_Spec p));
          kb_err = (if kb = [] then None
                    else case cl_get_kb (oe_cluster env) ns kb of
                      Inl e \<Rightarrow> Some (''KnowledgeBase '' @ ns @ ''/'' @ kb @ '' not found: '' @ e)
                    | Inr _ \<Rightarrow> None)
      in case kb_err of
           Some e \<Rightarrow> Some e
         | None \<Rightarrow>
            (if agent = [] then None
             else case oe_get_workstation env w ns agent of
               Inl e \<Rightarrow> Some (''Experimenter AgentWorkstation '' @ ns @ ''/'' @ agent @ '' not found: '' @ e)
             | Inr _ \<Rightarrow> None))"

definition round_run_id :: "project \<Rightarrow> int \<Rightarrow> string" where
  "round_run_id p rnd = om_Name (p_meta p) @ ''-round-'' @ itoa rnd"

text \<open>Step 8: the status of a submitted round.\<close>

definition book_submission :: "gotime \<Rightarrow> int \<Rightarrow> dsp_run \<Rightarrow> project \<Rightarrow> project" where
  "book_submission now rnd run p =
     (let run_id = round_run_id p rnd;
          rec = \<lparr>er_Round = rnd, er_RunID = run_id, er_Experimenter = exp_Workstation (ps_Experimenter (p_Spec p)),
                 er_ProposalPath = ''proposals/round-'' @ itoa rnd @ ''.yaml'', er_EvalLoss = [], er_MetricValue = [],
                 er_Kept = None, er_AdapterArtifactURI = [], er_StartedAt = Some now, er_CompletedAt = None\<rparr>;
          p1 = upd_status (\<lambda>s. s\<lparr>st_OpenRuns := gm_set (st_OpenRuns s) run_id (run_RunID run),
                 st_OpenRunStartedAt := gm_set (st_OpenRunStartedAt s) run_id now,
                 st_LastCycleTime := Some now, st_Round := rnd, st_Phase := ''Running''\<rparr>) p;
          p2 = set_cond (condition now ''Ready'' ''True'' ''Running''
                 (''submitted round '' @ itoa rnd @ '' (runID='' @ run_id @ '', dspRunID='' @ run_RunID run @ '')'')) p1
      in upd_status (\<lambda>s. s\<lparr>st_RecentRuns := prepend_record (st_RecentRuns s) rec\<rparr>) p2)"

text \<open>Steps 6 and 7: the history of the wiki is completed and the strategist asked; neither stops the round.\<close>

definition prepare_round :: "'st search_env \<Rightarrow> 'w op_env \<Rightarrow> 'w op_state \<Rightarrow> project \<Rightarrow> 'w op_state \<times> project" where
  "prepare_round se env st p =
     (case backfill_wiki_history (se_marshal se) env st p of (st1, _, berr) \<Rightarrow>
       (let p1 = (case berr of
                    Some e \<Rightarrow> set_cond (condition (oe_now env) ''WikiSyncOK'' ''False'' ''BackfillFailed''
                               (truncate_msg e 256)) p
                  | None \<Rightarrow> p)
        in case maybe_run_strategist (se_unmarshal se) env st1 p1 of (st2, p2, _) \<Rightarrow> (st2, p2)))"

definition submit_round ::
    "'st search_env \<Rightarrow> 'w op_env \<Rightarrow> 'w op_state \<Rightarrow> project \<Rightarrow> 'w op_state \<times> reconcile_result" where
  "submit_round se env st p =
     (case validate_refs env (op_world st) p of
        Some e \<Rightarrow>
          (fst (mark_phase_and_save env st p ''Pending'' e), \<lparr>rr_requeue_after = minutes 1, rr_err = None\<rparr>)
      | None \<Rightarrow>
     (case prepare_round se env st p of (st1, p1) \<Rightarrow>
     (let rnd = to_int32 (st_Round (p_Status p1) + 1); retry = (\<lambda>st e. (st, \<lparr>rr_requeue_after = minutes 1, rr_err = Some e\<rparr>))
      in case request_proposal se (oe_cluster env) (oe_wiki env) (oe_now env) (op_remote st1) p1 rnd of
        (remote, p2, Inl e) \<Rightarrow>
          retry (fst (mark_phase_and_save env (st1\<lparr>op_remote := remote\<rparr>) p2 ''Running''
                  (''proposal failed (will retry): '' @ e))) e
      | (remote, p2, Inr (cfg, _)) \<Rightarrow>
     (case submit_dsp_run env (st1\<lparr>op_remote := remote\<rparr>) p2 (round_run_id p2 rnd) rnd cfg of
        (st3, p3, Inl e) \<Rightarrow>
          retry (fst (mark_phase_and_save env st3 p3 ''Running'' (''submit DSP run failed: '' @ e))) e
      | (st3, p3, Inr run) \<Rightarrow>
         (case update_status env st3 (book_submission (oe_now env) rnd run p3) of
            (st4, Some e) \<Rightarrow> (st4, \<lparr>rr_requeue_after = 0, rr_err = Some e\<rparr>)
          | (st4, None) \<Rightarrow> (st4, \<lparr>rr_requeue_after = cadence p3, rr_err = None\<rparr>))))))"

subsection \<open>The tick\<close>

definition reconcile ::
    "'st search_env \<Rightarrow> 'w op_env \<Rightarrow> 'w op_state \<Rightarrow> 'w op_state \<times> reconcile_result" where
  "reconcile se env st =
     (case oe_get_project_err env (op_world st) of
        Some e \<Rightarrow> (st, \<lparr>rr_requeue_after = 0, rr_err = Some e\<rparr>)
      | None \<Rightarrow>
     (case op_saved st of
        None \<Rightarrow> (st, \<lparr>rr_requeue_after = 0, rr_err = None\<rparr>)
      | Some p \<Rightarrow>
     (case observe_runs env st p of (st1, p1, completed) \<Rightarrow>
       (case gates (oe_now env) completed p1 of
          AllDone \<Rightarrow> mark_phase_and_save env st1 p1 ''Completed'' (''hit MaxTotalExperiments='' @ itoa (max_total p1))
        | NotDue d \<Rightarrow> (st1, \<lparr>rr_requeue_after = d, rr_err = None\<rparr>)
        | AtCapacity \<Rightarrow> (st1, \<lparr>rr_requeue_after = cadence p1, rr_err = None\<rparr>)
        | BreakerOpen \<Rightarrow>
            (case mark_phase_and_save env st1 (open_breaker (oe_now env) p1) ''Failed''
                    (''drain stuck: '' @ itoa (st_ConsecutiveDrainFailures (p_Status p1)) @ '' consecutive failures'') of
               (st2, res) \<Rightarrow> (st2, res\<lparr>rr_requeue_after := minutes 5\<rparr>))
        | Proceed \<Rightarrow> submit_round se env st1 (close_breaker (oe_now env) p1)))))"

subsection \<open>The stored project changes only where it is saved\<close>

named_theorems saved_frame

lemma dsp_client_for_saved [saved_frame]: "dsp_client_for env st ns = (st', r) \<Longrightarrow> op_saved st' = op_saved st"
  by (auto simp: dsp_client_for_def Let_def split: option.splits sum.splits if_splits)

lemma at_world_saved [saved_frame]: "at_world st r = (st', x) \<Longrightarrow> op_saved st' = op_saved st"
  by (auto simp: at_world_def)

lemma wrap_err_saved [saved_frame]:
  "wrap_err e (at_world st r) = (st', x) \<Longrightarrow> op_saved st' = op_saved st"
  by (auto simp: wrap_err_def at_world_def split: prod.splits sum.splits)

lemma ensure_registration_saved [saved_frame]:
  "ensure_dsp_registration env st p = (st', r) \<Longrightarrow> op_saved st' = op_saved st"
  unfolding ensure_dsp_registration_def and_then_def Let_def
  by (auto split: prod.splits sum.splits dest!: saved_frame)

lemma check_adapter_saved [saved_frame]: "check_adapter env st p uri = (st', p') \<Longrightarrow> op_saved st' = op_saved st"
  by (auto simp: check_adapter_def split: prod.splits if_splits)

lemma push_result_saved [saved_frame]:
  "push_result env st p k loss uri kept = (st', p') \<Longrightarrow> op_saved st' = op_saved st"
  by (auto simp: push_result_def Let_def split: prod.splits option.splits)

lemma finish_run_saved [saved_frame]: "finish_run env st p k run = (st', p') \<Longrightarrow> op_saved st' = op_saved st"
  by (auto simp: finish_run_def Let_def split: prod.splits if_splits dest!: saved_frame)

lemma drain_run_saved: "op_saved (fst (drain_run env c acc e)) = op_saved (fst acc)"
  by (auto simp: drain_run_def split: prod.splits sum.splits fate.splits dest!: saved_frame)

lemma cull_run_saved: "op_saved (fst (cull_run env c v acc e)) = op_saved (fst acc)"
  by (auto simp: cull_run_def Let_def split: prod.splits sum.splits)

interpretation saved: frame "\<lambda>a b. op_saved (fst b) = op_saved (fst a)"
  by unfold_locales simp_all

lemma drain_saved [saved_frame]: "drain_open_jobs env st p = (st', p', r) \<Longrightarrow> op_saved st' = op_saved st"
  by (auto simp: drain_open_jobs_def Let_def split: prod.splits sum.splits if_splits dest!: saved_frame)
    (metis saved.frame_foldl drain_run_saved fst_conv)

lemma cull_saved [saved_frame]: "cull_stale_open_runs env st p v = (st', p', r) \<Longrightarrow> op_saved st' = op_saved st"
  by (auto simp: cull_stale_open_runs_def Let_def split: prod.splits sum.splits if_splits dest!: saved_frame)
    (metis saved.frame_foldl cull_run_saved fst_conv)

lemma cleanup_saved [simp]: "op_saved (fst (cleanup_stale_mlmd env st p)) = op_saved st"
  by (auto simp: cleanup_stale_mlmd_def transition_orphans_def put_mlmd_def Let_def
      split: prod.splits sum.splits bool.splits dest!: saved_frame)

lemma observe_runs_saved [saved_frame]: "observe_runs env st p = (st', p', b) \<Longrightarrow> op_saved st' = op_saved st"
  by (auto simp: observe_runs_def Let_def split: prod.splits sum.splits if_splits dest!: saved_frame)

lemma submit_dsp_run_saved [saved_frame]:
  "submit_dsp_run env st p k n cfg = (st', p', r) \<Longrightarrow> op_saved st' = op_saved st"
  by (auto simp: submit_dsp_run_def Let_def split: prod.splits sum.splits dest!: saved_frame)

lemma backfill_saved [saved_frame]:
  "backfill_wiki_history m env st p = (st', x, r) \<Longrightarrow> op_saved st' = op_saved st"
  by (auto simp: backfill_wiki_history_def Let_def split: prod.splits sum.splits if_splits option.splits
      dest!: saved_frame)

lemma commit_hypotheses_saved [saved_frame]:
  "commit_hypotheses env st p n reason body = (st', r) \<Longrightarrow> op_saved st' = op_saved st"
  by (auto simp: commit_hypotheses_def split: prod.splits sum.splits option.splits)

lemma strategist_turn_saved [saved_frame]:
  "strategist_turn um env st p h cur reason agent pod = (st', r) \<Longrightarrow> op_saved st' = op_saved st"
  by (auto simp: strategist_turn_def Let_def split: prod.splits sum.splits option.splits if_splits
      dest!: saved_frame)

lemma run_strategist_saved [saved_frame]:
  "run_strategist_if_due um env st p h cur = (st', p', r) \<Longrightarrow> op_saved st' = op_saved st"
  by (auto simp: run_strategist_if_due_def Let_def split: prod.splits sum.splits option.splits if_splits
      dest!: saved_frame)

lemma maybe_run_strategist_saved [saved_frame]:
  "maybe_run_strategist um env st p = (st', p', r) \<Longrightarrow> op_saved st' = op_saved st"
  by (auto simp: maybe_run_strategist_def Let_def split: prod.splits sum.splits dest!: saved_frame)

lemma prepare_round_saved [saved_frame]:
  "prepare_round se env st p = (st', p') \<Longrightarrow> op_saved st' = op_saved st"
  by (auto simp: prepare_round_def Let_def split: prod.splits dest!: saved_frame)

subsection \<open>The steps before the booking change only conditions\<close>

lemma same_but_conditions_trans:
  "same_but_conditions p q \<Longrightarrow> same_but_conditions q r \<Longrightarrow> same_but_conditions p r"
  by (simp add: same_but_conditions_def)

lemma layer_hypotheses_project:
  "layer_hypotheses um now rd p = (p', sp, b) \<Longrightarrow> same_but_conditions p p'"
  by (auto simp: layer_hypotheses_def Let_def split: sum.splits if_splits prod.splits)

lemma proposal_conditions_project [simp]:
  "same_but_conditions p (proposal_conditions now rnd h q) = same_but_conditions p q"
  by (simp add: proposal_conditions_def Let_def)

lemma search_proposal_project:
  "search_proposal se env now remote p rnd tx = (remote', p', r) \<Longrightarrow> same_but_conditions p p'"
  by (auto simp: search_proposal_def Let_def split: sum.splits prod.splits option.splits
      dest!: layer_hypotheses_project)

lemma request_proposal_project:
  "request_proposal se cl env now remote p rnd = (remote', p', r) \<Longrightarrow> same_but_conditions p p'"
  by (auto simp: request_proposal_def split: if_splits sum.splits dest!: search_proposal_project)

lemma submit_dsp_run_project:
  "submit_dsp_run env st p k n cfg = (st', p', r) \<Longrightarrow> same_but_conditions p p'"
  by (auto simp: submit_dsp_run_def Let_def split: prod.splits sum.splits)

lemma run_strategist_project:
  "run_strategist_if_due um env st p h cur = (st', p', r) \<Longrightarrow> same_but_conditions p p'"
  by (auto simp: run_strategist_if_due_def Let_def record_strategist_failure_def
      split: prod.splits sum.splits option.splits if_splits)

lemma maybe_run_strategist_project:
  "maybe_run_strategist um env st p = (st', p', r) \<Longrightarrow> same_but_conditions p p'"
  by (auto simp: maybe_run_strategist_def Let_def split: prod.splits sum.splits dest!: run_strategist_project)

lemma prepare_round_project:
  "prepare_round se env st p = (st', p') \<Longrightarrow> same_but_conditions p p'"
  by (auto simp: prepare_round_def Let_def split: prod.splits option.splits dest!: maybe_run_strategist_project
      elim: same_but_conditions_trans [rotated])

text \<open>The status that a marked phase saves differs in phase and conditions only.\<close>

lemma mark_phase_simps [simp]:
  "p_Spec (mark_phase now ph m p) = p_Spec p" "p_meta (mark_phase now ph m p) = p_meta p"
  "st_OpenRuns (p_Status (mark_phase now ph m p)) = st_OpenRuns (p_Status p)"
  "st_OpenRunStartedAt (p_Status (mark_phase now ph m p)) = st_OpenRunStartedAt (p_Status p)"
  "st_ExperimentsRun (p_Status (mark_phase now ph m p)) = st_ExperimentsRun (p_Status p)"
  "st_ConsecutiveDrainFailures (p_Status (mark_phase now ph m p)) = st_ConsecutiveDrainFailures (p_Status p)"
  "st_Round (p_Status (mark_phase now ph m p)) = st_Round (p_Status p)"
  "st_Phase (p_Status (mark_phase now ph m p)) = ph"
  by (simp_all add: mark_phase_def)

lemma book_submission_simps [simp]:
  "p_Spec (book_submission now n run p) = p_Spec p" "p_meta (book_submission now n run p) = p_meta p"
  "st_OpenRuns (p_Status (book_submission now n run p))
     = gm_set (st_OpenRuns (p_Status p)) (round_run_id p n) (run_RunID run)"
  "st_ExperimentsRun (p_Status (book_submission now n run p)) = st_ExperimentsRun (p_Status p)"
  "st_ConsecutiveDrainFailures (p_Status (book_submission now n run p)) = st_ConsecutiveDrainFailures (p_Status p)"
  "st_Round (p_Status (book_submission now n run p)) = n"
  "st_LastCycleTime (p_Status (book_submission now n run p)) = Some now"
  by (simp_all add: book_submission_def Let_def)

subsection \<open>What a tick can store\<close>

text \<open>The three outcomes of a tick: nothing is stored, a phase is stored, a submitted round is stored.\<close>

definition stores_phase :: "gotime \<Rightarrow> project \<Rightarrow> project \<Rightarrow> project \<Rightarrow> bool" where
  "stores_phase now p p1 p' \<longleftrightarrow>
     (\<exists>q ph m. same_but_conditions p1 q \<and> p' = p\<lparr>p_Status := p_Status (mark_phase now ph m q)\<rparr>)"

definition stores_round :: "gotime \<Rightarrow> project \<Rightarrow> project \<Rightarrow> project \<Rightarrow> bool" where
  "stores_round now p p1 p' \<longleftrightarrow>
     (\<exists>q run. same_but_conditions p1 q
        \<and> p' = p\<lparr>p_Status := p_Status (book_submission now (to_int32 (st_Round (p_Status p1) + 1)) run q)\<rparr>)"

text \<open>The API server accepts every update of the status.\<close>

definition accepts_updates :: "'w op_env \<Rightarrow> bool" where
  "accepts_updates env \<longleftrightarrow> (\<forall>q w. oe_update_err env q w = None)"

lemma update_stored:
  assumes "update_status env st q = (st', e)" "op_saved st = Some p"
  shows "\<exists>p'. op_saved st' = Some p' \<and> (\<not> accepts_updates env \<and> p' = p \<or> p' = p\<lparr>p_Status := p_Status q\<rparr>)"
proof (cases "oe_update_err env q (op_world st)")
  case (Some x)
  then have "\<not> accepts_updates env" unfolding accepts_updates_def by (metis option.distinct(1))
  with Some assms show ?thesis by (simp add: update_status_def)
qed (use assms in \<open>auto simp: update_status_def\<close>)

lemma mark_stored:
  assumes "mark_phase_and_save env st q ph m = (st', res)" "op_saved st = Some p" "same_but_conditions p1 q"
  shows "\<exists>p'. op_saved st' = Some p'
    \<and> (\<not> accepts_updates env \<and> p' = p \<or> stores_phase (oe_now env) p p1 p')"
proof -
  obtain e where "update_status env st (mark_phase (oe_now env) ph m q) = (st', e)"
    using assms(1) by (auto simp: mark_phase_and_save_def split: prod.splits option.splits)
  from update_stored [OF this assms(2)] assms(3) show ?thesis by (auto simp: stores_phase_def)
qed

lemma submit_round_stored:
  assumes "submit_round se env st p1 = (st', res)" "op_saved st = Some p"
  shows "\<exists>p'. op_saved st' = Some p'
    \<and> (\<not> accepts_updates env \<and> p' = p
        \<or> stores_phase (oe_now env) p p1 p' \<or> stores_round (oe_now env) p p1 p')"
proof (cases "validate_refs env (op_world st) p1")
  case (Some e)
  then have "mark_phase_and_save env st p1 ''Pending'' e = (st', snd (mark_phase_and_save env st p1 ''Pending'' e))"
    using assms(1) by (auto simp: submit_round_def prod_eq_iff)
  from mark_stored [OF this assms(2) same_but_conditions_refl] show ?thesis by blast
next
  case None
  obtain st1 q1 where pr: "prepare_round se env st p1 = (st1, q1)" by fastforce
  note q1 = prepare_round_project [OF pr]
  have s1: "op_saved st1 = Some p" using prepare_round_saved [OF pr] assms(2) by simp
  let ?n = "to_int32 (st_Round (p_Status p1) + 1)"
  have n: "to_int32 (st_Round (p_Status q1) + 1) = ?n" using same_but_conditionsD [OF q1] by simp
  obtain remote q2 r where rp: "request_proposal se (oe_cluster env) (oe_wiki env) (oe_now env) (op_remote st1) q1 ?n
      = (remote, q2, r)" by (metis prod_cases3)
  have q2: "same_but_conditions p1 q2"
    using same_but_conditions_trans [OF q1 request_proposal_project [OF rp]] .
  let ?st2 = "st1\<lparr>op_remote := remote\<rparr>"
  have s2: "op_saved ?st2 = Some p" using s1 by simp
  show ?thesis
  proof (cases r)
    case (Inl e)
    let ?m = "mark_phase_and_save env ?st2 q2 ''Running'' (''proposal failed (will retry): '' @ e)"
    have "?m = (st', snd ?m)"
      using assms(1) None pr rp n Inl by (auto simp: submit_round_def prod_eq_iff Let_def)
    from mark_stored [OF this s2 q2] show ?thesis by blast
  next
    case (Inr x)
    obtain cfg src where x: "x = (cfg, src)" by fastforce
    obtain st3 q3 r3 where sb: "submit_dsp_run env ?st2 q2 (round_run_id q2 ?n) ?n cfg = (st3, q3, r3)"
      by (metis prod_cases3)
    have q3: "same_but_conditions p1 q3"
      using same_but_conditions_trans [OF q2 submit_dsp_run_project [OF sb]] .
    have s3: "op_saved st3 = Some p" using submit_dsp_run_saved [OF sb] s2 by simp
    show ?thesis
    proof (cases r3)
      case (Inl e)
      let ?m = "mark_phase_and_save env st3 q3 ''Running'' (''submit DSP run failed: '' @ e)"
      have "?m = (st', snd ?m)"
        using assms(1) None pr rp n Inr x sb Inl by (auto simp: submit_round_def prod_eq_iff Let_def)
      from mark_stored [OF this s3 q3] show ?thesis by blast
    next
      case (Inr run)
      let ?u = "update_status env st3 (book_submission (oe_now env) ?n run q3)"
      have "?u = (st', snd ?u)"
        using assms(1) None pr rp n \<open>r = Inr x\<close> x sb Inr
        by (auto simp: submit_round_def Let_def split: prod.splits option.splits)
      from update_stored [OF this s3] q3 show ?thesis by (auto simp: stores_round_def)
    qed
  qed
qed

lemma reconcile_stored:
  assumes "reconcile se env st = (st', res)" "op_saved st = Some p"
    "observe_runs env st p = (st1, p1, completed)"
  shows "\<exists>p'. op_saved st' = Some p'
    \<and> (p' = p \<and> (accepts_updates env \<longrightarrow> oe_get_project_err env (op_world st) \<noteq> None
              \<or> gates (oe_now env) completed p1 \<in> insert AtCapacity (range NotDue))
        \<or> stores_phase (oe_now env) p p1 p'
        \<or> gates (oe_now env) completed p1 = Proceed \<and> stores_round (oe_now env) p p1 p')"
proof (cases "oe_get_project_err env (op_world st)")
  case (Some e)
  with assms show ?thesis by (simp add: reconcile_def)
next
  case None
  note r = assms(1) [unfolded reconcile_def None assms(2) option.case assms(3) prod.case]
  have s1: "op_saved st1 = Some p" using observe_runs_saved [OF assms(3)] assms(2) by simp
  have marked: ?thesis
    if m: "mark_phase_and_save env st1 q ph msg = (st', res')" and q: "same_but_conditions p1 q" for q ph msg res'
  proof -
    obtain p' where "op_saved st' = Some p'"
      "\<not> accepts_updates env \<and> p' = p \<or> stores_phase (oe_now env) p p1 p'"
      using mark_stored [OF m s1 q] by blast
    then show ?thesis by (intro exI [of _ p']) blast
  qed
  show ?thesis
  proof (cases "gates (oe_now env) completed p1")
    case AllDone
    with r have "mark_phase_and_save env st1 p1 ''Completed'' (''hit MaxTotalExperiments='' @ itoa (max_total p1))
        = (st', res)" by simp
    then show ?thesis using same_but_conditions_refl by (rule marked)
  next
    case (NotDue d)
    with r s1 show ?thesis by auto
  next
    case AtCapacity
    with r s1 show ?thesis by auto
  next
    case BreakerOpen
    let ?m = "mark_phase_and_save env st1 (open_breaker (oe_now env) p1) ''Failed''
        (''drain stuck: '' @ itoa (st_ConsecutiveDrainFailures (p_Status p1)) @ '' consecutive failures'')"
    have "?m = (st', snd ?m)" using r BreakerOpen by (auto split: prod.splits)
    moreover have "same_but_conditions p1 (open_breaker (oe_now env) p1)" by (simp add: open_breaker_def)
    ultimately show ?thesis by (rule marked)
  next
    case Proceed
    let ?q = "close_breaker (oe_now env) p1"
    have q: "same_but_conditions p1 ?q" by (simp add: close_breaker_def)
    have "submit_round se env st1 ?q = (st', res)" using r Proceed by simp
    from submit_round_stored [OF this s1] obtain p' where p': "op_saved st' = Some p'"
      "\<not> accepts_updates env \<and> p' = p \<or> stores_phase (oe_now env) p ?q p'
       \<or> stores_round (oe_now env) p ?q p'" by blast
    have "stores_phase (oe_now env) p ?q p' \<Longrightarrow> stores_phase (oe_now env) p p1 p'"
      unfolding stores_phase_def using same_but_conditions_trans [OF q] by blast
    moreover have "stores_round (oe_now env) p ?q p' \<Longrightarrow> stores_round (oe_now env) p p1 p'"
      unfolding stores_round_def using same_but_conditions_trans [OF q] same_but_conditionsD(8) [OF q]
      by metis
    ultimately show ?thesis using p' Proceed by (intro exI [of _ p']) auto
  qed
qed

end
