(* ===== verification/LoopBudget.thy ===== *)
theory LoopBudget
  imports Reconcile
begin

text \<open>
  Invariants of the loop of a project over any number of ticks: the budget of experiments, the gates
  of a submission, and that what a tick books is stored.
\<close>

subsection \<open>The budget of experiments\<close>

text \<open>Booked experiments and open runs together stay within a bound that fits 32 bits.\<close>

definition budget :: "int \<Rightarrow> int \<Rightarrow> project \<Rightarrow> bool" where
  "budget t slots p \<longleftrightarrow>
     (let s = p_Status p; n = int (length (st_OpenRuns s)) in
      gm_wf (st_OpenRuns s) \<and> 0 \<le> st_ExperimentsRun s \<and> n \<le> slots \<and> st_ExperimentsRun s + n \<le> t)"

lemma gm_del_length:
  assumes "distinct (map fst m)" "k \<in> set (map fst m)"
  shows "int (length (gm_del m k)) = int (length m) - 1" "0 < length m"
proof -
  have "Suc (length (gm_del m k)) = length m" using assms
  proof (induction m)
    case (Cons x m)
    then show ?case by (cases "k = fst x") (auto simp: AList.delete_eq filter_id_conv split_beta image_iff)
  qed simp
  then show "int (length (gm_del m k)) = int (length m) - 1" "0 < length m" by linarith+
qed

lemma gm_del_keys: "fst ` set (gm_del m k) = fst ` set m - {k}"
  by (auto simp: AList.delete_eq)

lemma gm_set_length: "int (length (gm_set m k v)) \<le> int (length m) + 1"
  by (induction m) auto

lemma same_but_conditions_budget: "same_but_conditions p q \<Longrightarrow> budget t n q = budget t n p"
  using same_but_conditionsD [of p q] by (simp add: budget_def Let_def)

lemma budget_frame:
  "st_OpenRuns (p_Status q) = st_OpenRuns (p_Status p) \<Longrightarrow> st_ExperimentsRun (p_Status q) = st_ExperimentsRun (p_Status p)
     \<Longrightarrow> budget t n q = budget t n p"
  by (simp add: budget_def Let_def)

lemma book_run_budget:
  assumes "budget t n p" "t < 2 ^ 31" "k \<in> set (map fst (st_OpenRuns (p_Status p)))"
  shows "budget t n (upd_status (book_run now k d) p)"
proof -
  let ?m = "st_OpenRuns (p_Status p)"
  have d: "distinct (map fst ?m)" using assms(1) by (simp add: budget_def gm_wf_def Let_def)
  note l = gm_del_length [OF d assms(3)]
  have "to_int32 (st_ExperimentsRun (p_Status p) + 1) = st_ExperimentsRun (p_Status p) + 1"
  proof (rule to_int32_id)
    have "0 \<le> st_ExperimentsRun (p_Status p)"
      "st_ExperimentsRun (p_Status p) + int (length ?m) \<le> t"
      using assms(1) by (simp_all add: budget_def Let_def)
    moreover have "1 \<le> int (length ?m)" using l(2) by linarith
    ultimately show "- (2 ^ 31) \<le> st_ExperimentsRun (p_Status p) + 1"
      "st_ExperimentsRun (p_Status p) + 1 < 2 ^ 31" using assms(2) by linarith+
  qed
  with assms(1) l show ?thesis by (simp add: budget_def Let_def gm_wf_del)
qed

subsection \<open>Polling keeps specification, name and round\<close>

definition keeps :: "project \<Rightarrow> project \<Rightarrow> bool" where
  "keeps p q \<longleftrightarrow> p_Spec q = p_Spec p \<and> p_meta q = p_meta p \<and> st_Round (p_Status q) = st_Round (p_Status p)"

lemma keeps_refl [simp]: "keeps p p"
  by (simp add: keeps_def)

lemma keeps_trans: "keeps p q \<Longrightarrow> keeps q r \<Longrightarrow> keeps p r"
  by (simp add: keeps_def)

lemma drain_run_keeps: "keeps (fst (snd acc)) (fst (snd (drain_run env c acc e)))"
proof -
  obtain st p b k i st' p' b' where "acc = (st, p, b)" "e = (k, i)"
    "drain_run env c (st, p, b) (k, i) = (st', p', b')" by (metis prod.exhaust)
  with drain_run_project [OF refl this(3)] show ?thesis
    by (auto simp: keeps_def dest: same_but_conditionsD split: if_splits)
qed

lemma cull_run_keeps: "keeps (fst (snd acc)) (fst (snd (cull_run env c v acc e)))"
  by (auto simp: cull_run_def Let_def keeps_def split: prod.splits sum.splits)

interpretation polled: frame "\<lambda>a b. keeps (fst (snd a)) (fst (snd b))"
  by unfold_locales (auto elim: keeps_trans)

lemma drain_keeps: "drain_open_jobs env st p = (st', p', r) \<Longrightarrow> keeps p p'"
  by (auto simp: drain_open_jobs_def Let_def split: if_splits prod.splits sum.splits)
    (metis polled.frame_foldl drain_run_keeps fst_conv snd_conv)

lemma cull_keeps: "cull_stale_open_runs env st p v = (st', p', r) \<Longrightarrow> keeps p p'"
  by (auto simp: cull_stale_open_runs_def Let_def split: if_splits prod.splits sum.splits)
    (metis polled.frame_foldl cull_run_keeps fst_conv snd_conv)

text \<open>The three steps of a poll that touch the project.\<close>

lemma observe_runs_steps:
  assumes "observe_runs env st p = (st', p', b)"
  obtains st1 p1 dr st2 reg v st3 culled where
    "drain_open_jobs env st p = (st1, p1, dr)"
    "(if v = [] then (st2, set_cond (registration_condition (oe_now env) reg) p1, Inr 0)
      else cull_stale_open_runs env st2 (set_cond (registration_condition (oe_now env) reg) p1) v) = (st3, p', culled)"
    "b = (dr = Inr True \<or> (case culled of Inl _ \<Rightarrow> False | Inr n \<Rightarrow> n > 0))"
proof -
  obtain st1 p1 dr where d: "drain_open_jobs env st p = (st1, p1, dr)" by (metis prod_cases3)
  obtain st2 reg where g: "ensure_dsp_registration env st1 p1 = (st2, reg)" by fastforce
  let ?p2 = "set_cond (registration_condition (oe_now env) reg) p1"
  let ?v = "case reg of Inl _ \<Rightarrow> [] | Inr (_, v, _) \<Rightarrow> v"
  let ?c = "if ?v = [] then (st2, ?p2, Inr 0) else cull_stale_open_runs env st2 ?p2 ?v"
  obtain st3 p3 culled where c: "?c = (st3, p3, culled)" by (metis prod_cases3)
  then have "p' = p3" "b = (dr = Inr True \<or> (case culled of Inl _ \<Rightarrow> False | Inr n \<Rightarrow> n > 0))"
    using assms d g by (simp_all add: observe_runs_def Let_def)
  with that d c show thesis by blast
qed

lemma observe_keeps: "observe_runs env st p = (st', p', b) \<Longrightarrow> keeps p p'"
proof (erule observe_runs_steps)
  fix st1 p1 dr st2 reg v st3 culled
  assume d: "drain_open_jobs env st p = (st1, p1, dr)"
    and c: "(if v = [] then (st2, set_cond (registration_condition (oe_now env) reg) p1, Inr 0)
      else cull_stale_open_runs env st2 (set_cond (registration_condition (oe_now env) reg) p1) v) = (st3, p', culled)"
  have "keeps p1 (set_cond (registration_condition (oe_now env) reg) p1)" by (simp add: keeps_def)
  moreover have "keeps (set_cond (registration_condition (oe_now env) reg) p1) p'"
    using c cull_keeps by (auto split: if_splits)
  ultimately show "keeps p p'" using drain_keeps [OF d] keeps_trans by blast
qed

subsection \<open>Polling keeps the budget, and frees a slot when it reports a completed run\<close>

definition open_count :: "project \<Rightarrow> int" where
  "open_count p = int (length (st_OpenRuns (p_Status p)))"

lemma drain_run_budget:
  assumes "drain_run env c (st, p, b) (k, i) = (st', p', b')" "budget t n p" "t < 2 ^ 31"
    "k \<in> set (map fst (st_OpenRuns (p_Status p)))"
  shows "budget t n p' \<and> open_count p' + (if b' \<and> \<not> b then 1 else 0) \<le> open_count p
    \<and> set (map fst (st_OpenRuns (p_Status p))) - {k} \<subseteq> set (map fst (st_OpenRuns (p_Status p')))"
proof (cases "finished (oe_now env) p k (snd (get_run (oe_http env) c (op_world st) i))")
  case False
  with drain_run_project [OF refl assms(1)] assms(2) show ?thesis by auto
next
  case True
  with drain_run_project [OF refl assms(1)] obtain q d where
    q: "same_but_conditions p q" "p' = upd_status (book_run (oe_now env) k d) q" by auto
  note f = same_but_conditionsD [OF q(1)]
  have "distinct (map fst (st_OpenRuns (p_Status p)))" using assms(2) by (simp add: budget_def gm_wf_def Let_def)
  note l = gm_del_length [OF this assms(4)]
  have "budget t n p'" unfolding q(2)
    by (rule book_run_budget [OF _ assms(3)]) (use q(1) same_but_conditions_budget assms(2,4) f in simp_all)
  then show ?thesis using f q(2) l(1) by (auto simp: AList.delete_eq open_count_def)
qed

lemma drain_fold_budget:
  assumes "foldl (drain_run env c) (st, p, b) runs = (st', p', b')" "budget t n p" "t < 2 ^ 31"
    "distinct (map fst runs)" "set (map fst runs) \<subseteq> set (map fst (st_OpenRuns (p_Status p)))"
  shows "budget t n p' \<and> open_count p' + (if b' \<and> \<not> b then 1 else 0) \<le> open_count p"
  using assms(1,2,4,5)
proof (induction runs arbitrary: st p b)
  case (Cons e runs)
  obtain st1 p1 b1 where s: "drain_run env c (st, p, b) (fst e, snd e) = (st1, p1, b1)" by (metis prod_cases3)
  with Cons.prems have f: "foldl (drain_run env c) (st1, p1, b1) runs = (st', p', b')" by simp
  note step = drain_run_budget [OF s Cons.prems(2) assms(3)]
  with Cons.prems have st: "budget t n p1" "open_count p1 + (if b1 \<and> \<not> b then 1 else 0) \<le> open_count p"
    "set (map fst runs) \<subseteq> set (map fst (st_OpenRuns (p_Status p1)))"
    by (auto simp del: set_map)
  from Cons.IH [OF f st(1) _ st(3)] Cons.prems(3) st(2) show ?case by (auto split: if_splits)
qed simp

lemma drain_budget:
  assumes "drain_open_jobs env st p = (st', p', r)" "budget t n p" "t < 2 ^ 31"
  shows "budget t n p' \<and> open_count p' + (if r = Inr True then 1 else 0) \<le> open_count p"
proof -
  have "distinct (map fst (st_OpenRuns (p_Status p)))" using assms(2) by (simp add: budget_def gm_wf_def Let_def)
  with assms show ?thesis
    by (auto simp: drain_open_jobs_def Let_def split: if_splits prod.splits sum.splits dest: drain_fold_budget)
qed

lemma cull_run_budget:
  assumes "cull_run env c v (st, p, m) (k, i) = (st', p', m')" "budget t n p"
    "k \<in> set (map fst (st_OpenRuns (p_Status p)))"
  shows "budget t n p' \<and> open_count p' + int m' \<le> open_count p + int m
    \<and> set (map fst (st_OpenRuns (p_Status p))) - {k} \<subseteq> set (map fst (st_OpenRuns (p_Status p')))"
proof -
  have d: "distinct (map fst (st_OpenRuns (p_Status p)))" using assms(2) by (simp add: budget_def gm_wf_def Let_def)
  note l = gm_del_length [OF d assms(3)]
  have "(p' = p \<and> m' = m) \<or> (m' = Suc m \<and> st_OpenRuns (p_Status p') = gm_del (st_OpenRuns (p_Status p)) k
      \<and> st_ExperimentsRun (p_Status p') = st_ExperimentsRun (p_Status p))"
    using assms(1) by (auto simp: cull_run_def Let_def split: prod.splits sum.splits if_splits)
  then show ?thesis using assms(2) l
    by (elim disjE conjE) (auto simp: budget_def Let_def gm_wf_del open_count_def gm_del_keys simp del: image_iff, blast?)
qed

lemma cull_fold_budget:
  assumes "foldl (cull_run env c v) (st, p, m) runs = (st', p', m')" "budget t n p"
    "distinct (map fst runs)" "set (map fst runs) \<subseteq> set (map fst (st_OpenRuns (p_Status p)))"
  shows "budget t n p' \<and> open_count p' + int m' \<le> open_count p + int m"
  using assms
proof (induction runs arbitrary: st p m)
  case (Cons e runs)
  obtain st1 p1 m1 where s: "cull_run env c v (st, p, m) (fst e, snd e) = (st1, p1, m1)" by (metis prod_cases3)
  with Cons.prems have f: "foldl (cull_run env c v) (st1, p1, m1) runs = (st', p', m')" by simp
  note step = cull_run_budget [OF s Cons.prems(2)]
  with Cons.prems have st: "budget t n p1" "open_count p1 + int m1 \<le> open_count p + int m"
    "set (map fst runs) \<subseteq> set (map fst (st_OpenRuns (p_Status p1)))"
    by (auto simp del: set_map)
  from Cons.IH [OF f st(1) _ st(3)] Cons.prems(3) st(2) show ?case by auto
qed simp

lemma cull_budget:
  assumes "cull_stale_open_runs env st p v = (st', p', r)" "budget t n p"
  shows "budget t n p'
    \<and> open_count p' + (case r of Inl _ \<Rightarrow> 0 | Inr m \<Rightarrow> int m) \<le> open_count p"
proof -
  have "distinct (map fst (st_OpenRuns (p_Status p)))" using assms(2) by (simp add: budget_def gm_wf_def Let_def)
  with assms show ?thesis
    by (auto simp: cull_stale_open_runs_def Let_def split: if_splits prod.splits sum.splits dest: cull_fold_budget)
qed

lemma observe_budget:
  assumes "observe_runs env st p = (st', p', b)" "budget t n p" "t < 2 ^ 31"
  shows "budget t n p' \<and> open_count p' + (if b then 1 else 0) \<le> open_count p"
proof -
  from assms(1) obtain st1 p1 dr st2 reg v st3 culled where d: "drain_open_jobs env st p = (st1, p1, dr)"
    and c: "(if v = [] then (st2, set_cond (registration_condition (oe_now env) reg) p1, Inr 0)
      else cull_stale_open_runs env st2 (set_cond (registration_condition (oe_now env) reg) p1) v) = (st3, p', culled)"
    and b: "b = (dr = Inr True \<or> (case culled of Inl _ \<Rightarrow> False | Inr n \<Rightarrow> n > 0))"
    by (rule observe_runs_steps)
  let ?p2 = "set_cond (registration_condition (oe_now env) reg) p1"
  note b1 = drain_budget [OF d assms(2,3)]
  have b2: "budget t n ?p2" "open_count ?p2 = open_count p1"
    using b1 budget_frame [of ?p2 p1] by (simp_all add: open_count_def)
  have "budget t n p' \<and> open_count p' + (case culled of Inl _ \<Rightarrow> 0 | Inr m \<Rightarrow> int m) \<le> open_count ?p2"
  proof (cases "v = []")
    case True
    with c b2 show ?thesis by auto
  next
    case False
    then show ?thesis using cull_budget [OF _ b2(1), of env st2 v st3 p' culled] c by simp
  qed
  with b1 b2 b show ?thesis by (auto split: if_splits sum.splits)
qed

subsection \<open>One tick\<close>

lemma settings_keeps:
  assumes "p_Spec q = p_Spec p"
  shows "max_total q = max_total p" "max_concurrent q = max_concurrent p" "max_drain_failures q = max_drain_failures p"
  using assms by (simp_all add: max_total_def max_concurrent_def max_drain_failures_def)

text \<open>Limits as the API admits them: positive, and their sum fits 32 bits.\<close>

definition limits_ok :: "project \<Rightarrow> bool" where
  "limits_ok p \<longleftrightarrow> 0 < max_total p \<and> 0 < max_concurrent p \<and> max_total p + max_concurrent p < 2 ^ 31"

abbreviation run_budget :: "project \<Rightarrow> project \<Rightarrow> bool" where
  "run_budget p0 \<equiv> budget (max_total p0 - 1 + max_concurrent p0) (max_concurrent p0)"

lemma gates_Proceed:
  assumes "gates now completed p = Proceed"
  shows "st_ExperimentsRun (p_Status p) < to_int32 (max_total p)" "open_count p < max_concurrent p"
    "st_ConsecutiveDrainFailures (p_Status p) < max_drain_failures p"
  using assms by (auto simp: gates_def Let_def open_count_def split: if_splits option.splits)

lemma stores_phase_fields:
  assumes "stores_phase now p p1 p'"
  shows "p_Spec p' = p_Spec p" "p_meta p' = p_meta p"
    "st_OpenRuns (p_Status p') = st_OpenRuns (p_Status p1)"
    "st_ExperimentsRun (p_Status p') = st_ExperimentsRun (p_Status p1)"
    "st_ConsecutiveDrainFailures (p_Status p') = st_ConsecutiveDrainFailures (p_Status p1)"
    "st_Round (p_Status p') = st_Round (p_Status p1)"
  using assms by (auto simp: stores_phase_def dest: same_but_conditionsD)

lemma stores_round_fields:
  assumes "stores_round now p p1 p'"
  defines "n \<equiv> to_int32 (st_Round (p_Status p1) + 1)"
  shows "p_Spec p' = p_Spec p" "p_meta p' = p_meta p"
    "\<exists>i. st_OpenRuns (p_Status p') = gm_set (st_OpenRuns (p_Status p1)) (round_run_id p1 n) i"
    "st_ExperimentsRun (p_Status p') = st_ExperimentsRun (p_Status p1)"
    "st_ConsecutiveDrainFailures (p_Status p') = st_ConsecutiveDrainFailures (p_Status p1)"
    "st_Round (p_Status p') = n" "st_LastCycleTime (p_Status p') = Some now"
proof -
  obtain q run where q: "same_but_conditions p1 q"
    and p': "p' = p\<lparr>p_Status := p_Status (book_submission now n run q)\<rparr>"
    using assms by (auto simp: stores_round_def)
  note f = same_but_conditionsD [OF q]
  have "round_run_id q n = round_run_id p1 n" by (simp add: round_run_id_def f)
  then show "\<exists>i. st_OpenRuns (p_Status p') = gm_set (st_OpenRuns (p_Status p1)) (round_run_id p1 n) i"
    using f by (auto simp: p')
qed (use assms in \<open>auto simp: stores_round_def dest: same_but_conditionsD\<close>)

lemma reconcile_budget:
  assumes "reconcile se env st = (st', res)" "op_saved st = Some p" "limits_ok p" "run_budget p p"
  shows "\<exists>p'. op_saved st' = Some p' \<and> p_Spec p' = p_Spec p \<and> run_budget p p'"
proof -
  obtain st1 p1 b where o: "observe_runs env st p = (st1, p1, b)" by (metis prod_cases3)
  have t: "max_total p - 1 + max_concurrent p < 2 ^ 31" using assms(3) by (simp add: limits_ok_def)
  note ob = observe_budget [OF o assms(4) t] and k = observe_keeps [OF o]
  from reconcile_stored [OF assms(1,2) o] obtain p' where p': "op_saved st' = Some p'"
    and c: "p' = p \<or> stores_phase (oe_now env) p p1 p'
      \<or> gates (oe_now env) b p1 = Proceed \<and> stores_round (oe_now env) p p1 p'" by blast
  have "p_Spec p' = p_Spec p \<and> run_budget p p'"
    using c
  proof (elim disjE conjE)
    assume "stores_phase (oe_now env) p p1 p'"
    note f = stores_phase_fields [OF this]
    then show ?thesis using ob budget_frame [of p' p1] by simp
  next
    assume g: "gates (oe_now env) b p1 = Proceed" and "stores_round (oe_now env) p p1 p'"
    note f = stores_round_fields [OF this(2)]
    have s: "p_Spec p1 = p_Spec p" using k by (simp add: keeps_def)
    have "to_int32 (max_total p) = max_total p"
      using assms(3) by (intro to_int32_id) (auto simp: limits_ok_def)
    with gates_Proceed(1,2) [OF g] settings_keeps [OF s]
    have lt: "st_ExperimentsRun (p_Status p1) < max_total p" "open_count p1 < max_concurrent p" by simp_all
    from f(3) obtain i where i: "st_OpenRuns (p_Status p')
        = gm_set (st_OpenRuns (p_Status p1)) (round_run_id p1 (to_int32 (st_Round (p_Status p1) + 1))) i" ..
    have "int (length (st_OpenRuns (p_Status p'))) \<le> open_count p1 + 1"
      unfolding i open_count_def by (rule gm_set_length)
    moreover have "gm_wf (st_OpenRuns (p_Status p'))"
      using ob i by (simp add: budget_def Let_def gm_wf_set)
    ultimately show ?thesis using f(1,4) lt ob by (simp add: budget_def Let_def)
  qed (use assms(4) in simp)
  with p' show ?thesis by blast
qed

subsection \<open>Any number of ticks\<close>

text \<open>
  The states that a project can reach: it is stored once; then ticks run, with any answers of the
  cluster, the pipeline server, the optimiser (one of \<open>S\<close>) and the clock, and between two ticks
  everything but the stored project may change.
\<close>

inductive reachable :: "'st search_env set \<Rightarrow> project \<Rightarrow> 'w op_state \<Rightarrow> bool"
  for S :: "'st search_env set" and p0 :: project where
  created: "op_saved st = Some p0 \<Longrightarrow> reachable S p0 st"
| tick: "reachable S p0 st \<Longrightarrow> se \<in> S \<Longrightarrow> reconcile se env st = (st', res) \<Longrightarrow> reachable S p0 st'"
| outside: "reachable S p0 st \<Longrightarrow> reachable S p0 (st\<lparr>op_world := w, op_remote := r, op_dsp := c, op_mlmd := d, op_cleanups := l\<rparr>)"

lemma reachable_budget:
  assumes "reachable S p0 st" "limits_ok p0" "run_budget p0 p0"
  shows "\<exists>p. op_saved st = Some p \<and> p_Spec p = p_Spec p0 \<and> run_budget p0 p"
  using assms(1)
proof (induction rule: reachable.induct)
  case (tick st se env st' res)
  from tick.IH obtain p where p: "op_saved st = Some p" "p_Spec p = p_Spec p0" "run_budget p0 p" by blast
  note s = settings_keeps [OF p(2)]
  have "limits_ok p" "run_budget p p" using assms(2) p(3) s by (simp_all add: limits_ok_def)
  from reconcile_budget [OF tick.hyps(3) p(1) this] p(2) s show ?case by auto
qed (use assms(3) in auto)


text \<open>
  C2: a round is submitted only through the gates. When a tick changes the stored round, the new
  round is the next one, its run is open, the cycle time is now, the experiments booked are below
  the limit, the failures in a row are below the threshold of the circuit breaker, and before the
  submission there was a free slot.
\<close>

theorem submission_passes_gates:
  assumes "reconcile se env st = (st', res)" "op_saved st = Some p" "op_saved st' = Some p'"
    and "st_Round (p_Status p') \<noteq> st_Round (p_Status p)"
  shows "st_Round (p_Status p') = to_int32 (st_Round (p_Status p) + 1)
    \<and> gm_get (st_OpenRuns (p_Status p')) (round_run_id p (st_Round (p_Status p'))) \<noteq> None
    \<and> int (length (st_OpenRuns (p_Status p'))) \<le> max_concurrent p
    \<and> st_ExperimentsRun (p_Status p') < to_int32 (max_total p)
    \<and> st_ConsecutiveDrainFailures (p_Status p') < max_drain_failures p
    \<and> st_LastCycleTime (p_Status p') = Some (oe_now env)"
proof -
  obtain st1 p1 b where o: "observe_runs env st p = (st1, p1, b)" by (metis prod_cases3)
  have k: "p_Spec p1 = p_Spec p" "p_meta p1 = p_meta p" "st_Round (p_Status p1) = st_Round (p_Status p)"
    using observe_keeps [OF o] by (simp_all add: keeps_def)
  from reconcile_stored [OF assms(1,2) o] assms(3,4) k(3)
  have g: "gates (oe_now env) b p1 = Proceed" and r: "stores_round (oe_now env) p p1 p'"
    by (auto dest: stores_phase_fields(6))
  note f = stores_round_fields [OF r] and s = settings_keeps [OF k(1)] and gt = gates_Proceed [OF g]
  from f(3) obtain i where i: "st_OpenRuns (p_Status p')
      = gm_set (st_OpenRuns (p_Status p1)) (round_run_id p1 (to_int32 (st_Round (p_Status p1) + 1))) i" ..
  have "int (length (st_OpenRuns (p_Status p'))) \<le> open_count p1 + 1"
    unfolding i open_count_def by (rule gm_set_length)
  moreover have "round_run_id p1 n = round_run_id p n" for n by (simp add: round_run_id_def k)
  ultimately show ?thesis using f i gt s k by simp
qed

text \<open>
  C3: what a tick books is stored. If the stored project is within its limits, the API server
  accepts updates, and polling took a run off the open runs, then the tick stores the counters and
  the open runs as polling left them (with the run of a new round added, if one was submitted).
\<close>

theorem bookings_are_stored:
  assumes "reconcile se env st = (st', res)" "op_saved st = Some p"
    and "observe_runs env st p = (st1, p1, True)"
    and "oe_get_project_err env (op_world st) = None" "\<And>q w. oe_update_err env q w = None"
    and "limits_ok p" "run_budget p p"
  shows "\<exists>p'. op_saved st' = Some p'
    \<and> st_ExperimentsRun (p_Status p') = st_ExperimentsRun (p_Status p1)
    \<and> st_ConsecutiveDrainFailures (p_Status p') = st_ConsecutiveDrainFailures (p_Status p1)
    \<and> (st_OpenRuns (p_Status p') = st_OpenRuns (p_Status p1)
       \<or> (\<exists>i. st_OpenRuns (p_Status p')
              = gm_set (st_OpenRuns (p_Status p1)) (round_run_id p (st_Round (p_Status p'))) i))"
proof -
  have t: "max_total p - 1 + max_concurrent p < 2 ^ 31" using assms(6) by (simp add: limits_ok_def)
  have k: "p_Spec p1 = p_Spec p" "p_meta p1 = p_meta p" using observe_keeps [OF assms(3)] by (simp_all add: keeps_def)
  have "open_count p1 < max_concurrent p1"
    using observe_budget [OF assms(3,7) t] assms(7) settings_keeps [OF k(1)]
    by (simp add: budget_def Let_def open_count_def)
  then have "gates (oe_now env) True p1 \<notin> insert AtCapacity (range NotDue)"
    by (auto simp: gates_def Let_def open_count_def split: option.splits if_splits)
  moreover have "accepts_updates env" using assms(5) by (simp add: accepts_updates_def)
  ultimately obtain p' where p': "op_saved st' = Some p'"
    "stores_phase (oe_now env) p p1 p' \<or> stores_round (oe_now env) p p1 p'"
    using reconcile_stored [OF assms(1,2,3)] assms(4) by blast
  have run_id: "round_run_id p1 n = round_run_id p n" for n by (simp add: round_run_id_def k)
  from p'(2) show ?thesis
  proof
    assume "stores_phase (oe_now env) p p1 p'"
    from stores_phase_fields [OF this] p'(1) show ?thesis by simp
  next
    assume "stores_round (oe_now env) p p1 p'"
    note f = stores_round_fields [OF this]
    from f(3) have "\<exists>i. st_OpenRuns (p_Status p')
        = gm_set (st_OpenRuns (p_Status p1)) (round_run_id p (st_Round (p_Status p'))) i"
      by (simp add: run_id f(6))
    with f(4,5) p'(1) show ?thesis by simp
  qed
qed

subsection \<open>Concrete ticks\<close>

text \<open>A project in validation mode without an experimenter: a tick submits its first round.\<close>

definition demo_validation :: project where
  "demo_validation = demo_project\<lparr>p_Spec := demo_spec\<lparr>ps_ValidationMode := True,
     ps_Experimenter := \<lparr>exp_Workstation = [], exp_PromptOverride = []\<rparr>\<rparr>\<rparr>"

lemma demo_http_body:
  "do_get (demo_answer body) c w path q = (w, Inr body)"
  "do_post (demo_answer body) c w path j = (w, Inr body)"
  "upload_file (demo_answer body) c w path y = (w, Inr body)"
  by (simp_all add: do_get_def do_post_def upload_file_def send_def do_request_def demo_answer_def)

lemma demo_client_any: "\<exists>st' c. dsp_client_for (demo_env b) st ns = (st', Inr c)"
  by (auto simp: dsp_client_for_def Let_def demo_env_def split: option.splits)

lemma running_decoded_as:
  "decode_body what (decode_list ''pipelines'' decode_pipeline) True running_body = Inr []"
  "decode_body what (decode_list ''pipeline_versions'' decode_version) True running_body = Inr []"
  "decode_body what (decode_list ''experiments'' decode_experiment) False running_body = Inr []"
  "is_ok (decode_body what decode_pipeline True running_body)"
  "is_ok (decode_body what decode_experiment False running_body)"
  "decode_body what decode_run sh running_body = Inr running_run"
  by (unfold decode_body_def) code_simp+

lemma demo_render:
  assumes "p_Spec p = p_Spec demo_validation"
  shows "is_ok (render_pipeline_yaml (demo_env b) w p)"
proof -
  have "resolve_trainer_image (demo_env b) w p = ''quay.io/dpeterso/autoresearch-trainer:v0.0.13''"
    using assms by (simp add: resolve_trainer_image_def default_trainer_image_def env_or_def demo_env_def
        demo_validation_def demo_spec_def default_if_empty_def)
  then have "render_pipeline_yaml (demo_env b) w p
      = (let y = replace_all trainer_image_placeholder trainer_image_placeholder
              ''quay.io/dpeterso/autoresearch-trainer:v0.0.13''
         in if \<not> str_contains trainer_image_placeholder trainer_image_placeholder then Inl []
            else if str_contains y trainer_image_placeholder then Inl [] else Inr y)"
    by (simp add: render_pipeline_yaml_def demo_env_def Let_def) code_simp
  also have "is_ok \<dots>" by code_simp
  finally show ?thesis .
qed

lemma validation_config_json: "is_ok (qlora_json (validation_qlora n))"
proof -
  have "f64_of_rat (5 / 100) = Fin (rat_of_int (round_half_even (36028797018963968 / 5)) / 144115188075855872)"
    "f64_of_rat (2 / 10000) = Fin (rat_of_int (round_half_even (4611686018427387904 / 625)) / 36893488147419103232)"
    using f64_of_rat_eq [of "-5" "5/100"] f64_of_rat_eq [of "-13" "2/10000"]
    by (simp_all add: pow2_powi power_int_def power_divide)
  then show ?thesis by (simp add: qlora_json_def validation_qlora_def json_float_def)
qed

lemma demo_http [simp]: "oe_http (demo_env b) = demo_answer b"
  by (simp add: demo_env_def)

lemma demo_registered:
  assumes "p_Spec p = p_Spec demo_validation"
  obtains st' x where "ensure_dsp_registration (demo_env running_body) st p = (st', Inr x)"
proof -
  obtain st1 c where c: "dsp_client_for (demo_env running_body) st (om_Namespace (p_meta p)) = (st1, Inr c)"
    using demo_client_any by blast
  obtain y where y: "render_pipeline_yaml (demo_env running_body) () p = Inr y"
    using demo_render [OF assms] by (rule is_okE)
  obtain pipe where pipe: "decode_body ''upload response'' decode_pipeline True running_body = Inr pipe"
    using running_decoded_as(4) by (rule is_okE)
  obtain x where x: "decode_body ''created experiment'' decode_experiment False running_body = Inr x"
    using running_decoded_as(5) by (rule is_okE)
  have "find_or_create_pipeline (demo_answer running_body) c w n d y = (w, Inr (pipe, []))" for w n d
    by (simp add: find_or_create_pipeline_def find_pipeline_def upload_pipeline_def list_pipeline_versions_def
        demo_http_body running_decoded_as and_then_def pipe Let_def)
  moreover have "find_or_create_experiment (demo_answer running_body) c w n d = (w, Inr x)" for w n d
    by (simp add: find_or_create_experiment_def demo_http_body running_decoded_as and_then_def x)
  ultimately have "\<exists>st' z. ensure_dsp_registration (demo_env running_body) st p = (st', Inr z)"
    by (simp add: ensure_dsp_registration_def and_then_def c y at_world_def wrap_err_def Let_def)
  with that show thesis by blast
qed

lemma demo_submitted:
  assumes "p_Spec p = p_Spec demo_validation"
  shows "\<exists>st' p'. submit_dsp_run (demo_env running_body) st p k n (validation_qlora n) = (st', p', Inr running_run)"
proof -
  obtain st1 c where c: "dsp_client_for (demo_env running_body) st (om_Namespace (p_meta p)) = (st1, Inr c)"
    using demo_client_any by blast
  obtain st2 pipe v x where r: "ensure_dsp_registration (demo_env running_body) st1 p = (st2, Inr (pipe, v, x))"
    using demo_registered [OF assms, of st1] by (metis prod_cases3)
  obtain j where j: "qlora_json (validation_qlora n) = Inr j"
    using validation_config_json by (rule is_okE)
  show ?thesis
    by (simp add: submit_dsp_run_def c r j create_run_def demo_http_body running_decoded_as and_then_def
        at_world_def wrap_err_def Let_def split: prod.splits)
qed


lemma demo_reconciled:
  obtains st' res p' where
    "reconcile demo_search (demo_env running_body) (demo_state\<lparr>op_saved := Some demo_validation\<rparr>) = (st', res)"
    "op_saved st' = Some p'" "st_Round (p_Status p') = 1"
proof -
  let ?env = "demo_env running_body" and ?st = "demo_state\<lparr>op_saved := Some demo_validation\<rparr>"
  have st: "p_Status demo_validation = empty_status" by (simp add: demo_validation_def demo_project_def)
  obtain st1 p1 b where o: "observe_runs ?env ?st demo_validation = (st1, p1, b)" by (metis prod_cases3)
  have s1: "same_but_conditions demo_validation p1"
    using o by (auto simp: observe_runs_def drain_open_jobs_def cull_stale_open_runs_def Let_def st empty_status_def
        split: prod.splits if_splits)
  then have k1: "p_Spec p1 = p_Spec demo_validation" "st_OpenRuns (p_Status p1) = []"
      "st_ExperimentsRun (p_Status p1) = 0" "st_ConsecutiveDrainFailures (p_Status p1) = 0"
      "st_LastCycleTime (p_Status p1) = None" "st_Round (p_Status p1) = 0"
    using same_but_conditionsD [OF s1] by (simp_all add: st empty_status_def)
  have g: "gates (oe_now ?env) b p1 = Proceed"
    using k1 by (simp add: gates_def Let_def max_total_def max_concurrent_def max_drain_failures_def to_int32_def
        demo_validation_def demo_project_def demo_spec_def)
  let ?p = "close_breaker (oe_now ?env) p1"
  have k2: "p_Spec ?p = p_Spec demo_validation" "st_Round (p_Status ?p) = 0"
    using k1 by (simp_all add: close_breaker_def)
  have v: "validate_refs ?env w ?p = None" for w
    by (simp add: validate_refs_def close_breaker_def k1 demo_validation_def demo_project_def demo_spec_def demo_env_def
        demo_cluster_def Let_def)
  obtain st2 p2 where pr: "prepare_round demo_search ?env st1 ?p = (st2, p2)" by fastforce
  have k3: "p_Spec p2 = p_Spec demo_validation" "st_Round (p_Status p2) = 0"
    using same_but_conditionsD [OF prepare_round_project [OF pr]] k2 by simp_all
  have m: "ps_ValidationMode (p_Spec p2)"
    by (simp add: k3 demo_validation_def demo_project_def demo_spec_def)
  have n: "to_int32 (st_Round (p_Status p2) + 1) = 1" by (simp add: k3 to_int32_def)
  have rp: "request_proposal demo_search cl we now remote p2 1
      = (remote, p2, Inr (validation_qlora 1, ''validation (spec.validationMode=true)''))" for cl we now remote
    by (simp add: request_proposal_def m)
  obtain st3 p3 where sb: "submit_dsp_run ?env st2 p2 (round_run_id p2 1) 1
      (validation_qlora 1) = (st3, p3, Inr running_run)"
    using demo_submitted [OF k3(1)] by blast
  have s3: "op_saved st3 = Some demo_validation"
    using submit_dsp_run_saved [OF sb] prepare_round_saved [OF pr] observe_runs_saved [OF o] by simp
  have u: "oe_get_project_err ?env w = None" "oe_update_err ?env q w = None" for q w
    by (simp_all add: demo_env_def)
  obtain st' res where t: "reconcile demo_search ?env ?st = (st', res)" by fastforce
  have "op_saved st' = Some (demo_validation\<lparr>p_Status := p_Status (book_submission (oe_now ?env) 1 running_run p3)\<rparr>)"
    using t s3 by (auto simp: reconcile_def u o g submit_round_def v pr n rp sb Let_def update_status_def)
  with t that show thesis by simp
qed



lemma submission_passes_gates_witness:
  "\<exists>p'. op_saved (fst (reconcile demo_search (demo_env running_body)
        (demo_state\<lparr>op_saved := Some demo_validation\<rparr>))) = Some p'
     \<and> gm_get (st_OpenRuns (p_Status p')) (round_run_id demo_validation 1) \<noteq> None
     \<and> st_ExperimentsRun (p_Status p') < 100"
proof -
  obtain st' res p' where t:
    "reconcile demo_search (demo_env running_body) (demo_state\<lparr>op_saved := Some demo_validation\<rparr>) = (st', res)"
    "op_saved st' = Some p'" "st_Round (p_Status p') = 1" by (rule demo_reconciled)
  have "st_Round (p_Status demo_validation) = 0" "to_int32 (max_total demo_validation) = 100"
    by (simp_all add: demo_validation_def demo_project_def demo_spec_def empty_status_def max_total_def to_int32_def)
  with submission_passes_gates [OF t(1) _ t(2), of demo_validation] t show ?thesis by simp
qed

lemma bookings_are_stored_witness:
  "\<exists>p p'. p = fst (snd (observe_runs (demo_env running_body) (demo_state\<lparr>op_saved := Some demo_open\<rparr>) demo_open))
     \<and> op_saved (fst (reconcile demo_search (demo_env running_body)
        (demo_state\<lparr>op_saved := Some demo_open\<rparr>))) = Some p'
     \<and> st_ExperimentsRun (p_Status p') = st_ExperimentsRun (p_Status p)"
proof -
  let ?env = "demo_env running_body" and ?st = "demo_state\<lparr>op_saved := Some demo_open\<rparr>"
  obtain st1 p1 b where o: "observe_runs ?env ?st demo_open = (st1, p1, b)" by (metis prod_cases3)
  obtain st2 c where c: "dsp_client_for ?env ?st ''lab'' = (st2, Inr c)" using demo_client_any by blast
  have "snd (get_run (oe_http ?env) c w i) = Inr running_run" for w i
    using demo_get_run [of c w i] by simp
  note answers = this
  obtain st3 p3 r where d: "drain_open_jobs ?env ?st demo_open = (st3, p3, r)" by (metis prod_cases3)
  from drain_finished [OF _ answers _ d, unfolded demo_open_simps, OF c]
  have "r = Inr True" using demo_finished by (simp add: demo_open_simps gm_wf_def)
  then have b: "b = True"
    using o d by (auto elim!: observe_runs_steps)
  obtain st' res where t: "reconcile demo_search ?env ?st = (st', res)" by fastforce
  have u: "oe_get_project_err ?env w = None" "oe_update_err ?env q w = None" for q w
    by (simp_all add: demo_env_def)
  have l: "limits_ok demo_open" "run_budget demo_open demo_open"
    by (simp_all add: limits_ok_def max_total_def max_concurrent_def budget_def Let_def gm_wf_def
        demo_open_def demo_project_def demo_spec_def empty_status_def)
  from bookings_are_stored [OF t _ o [unfolded b] u l] t o show ?thesis by auto
qed

end
