(* ===== verification/AgentConfig.thy ===== *)
theory AgentConfig
  imports Skills
begin

text \<open>
  How an agent is registered in the configuration \<open>openclaw.json\<close> of its gateway and taken out again:
  the two Node scripts of \<open>agentworkstation_shared.go\<close>, as functions on the parsed file. \<open>None\<close> stands
  for a script that throws, and for a configuration that has another value where the scripts expect an
  object, which they would silently lose. A parameter is the collation key by which \<open>localeCompare\<close>
  orders two strings.
\<close>

subsection \<open>Values in JavaScript\<close>

definition truthy :: "json \<Rightarrow> bool" where
  "truthy v =
     (case v of JNull \<Rightarrow> False | JBool b \<Rightarrow> b | JNum n \<Rightarrow> parse_float n \<noteq> Some (Fin 0) | JStr s \<Rightarrow> s \<noteq> [] | _ \<Rightarrow> True)"

text \<open>A member of an object that is read, \<open>None\<close> when it is falsy.\<close>

definition js_get :: "json gomap \<Rightarrow> string \<Rightarrow> json option" where
  "js_get m k = (case gm_get m k of None \<Rightarrow> None | Some v \<Rightarrow> (if truthy v then Some v else None))"

text \<open>The members of \<open>m.k || {}\<close>.\<close>

definition section_of :: "string \<Rightarrow> json gomap \<Rightarrow> json gomap option" where
  "section_of k m = (case js_get m k of None \<Rightarrow> Some [] | Some (JObj s) \<Rightarrow> Some s | Some _ \<Rightarrow> None)"

text \<open>\<open>Array.isArray(m.k) ? m.k : []\<close>.\<close>

definition array_of :: "string \<Rightarrow> json gomap \<Rightarrow> json list" where
  "array_of k m = (case gm_get m k of Some (JArr xs) \<Rightarrow> xs | _ \<Rightarrow> [])"

text \<open>\<open>{...a, ...b}\<close>.\<close>

definition spread :: "json gomap \<Rightarrow> json gomap \<Rightarrow> json gomap" where
  "spread a b = foldl (\<lambda>m (k, v). gm_set m k v) a b"

definition push_new :: "json list \<Rightarrow> json \<Rightarrow> json list" where
  "push_new xs v = (if v \<in> set xs then xs else xs @ [v])"

text \<open>\<open>String(v)\<close>.\<close>

fun js_text :: "json \<Rightarrow> string" where
  "js_text JNull = ''null''"
| "js_text (JBool b) = (if b then ''true'' else ''false'')"
| "js_text (JNum n) = n"
| "js_text (JStr s) = s"
| "js_text (JArr vs) = join '','' (map (\<lambda>v. if v = JNull then [] else js_text v) vs)"
| "js_text (JObj _) = ''[object Object]''"

text \<open>The names that every object inherits; an inherited member is truthy.\<close>

definition inherited :: "string list" where
  "inherited = [''constructor'', ''toString'', ''valueOf'', ''hasOwnProperty'', ''isPrototypeOf'', ''propertyIsEnumerable'',
     ''toLocaleString'', ''__proto__'', ''__defineGetter__'', ''__defineSetter__'', ''__lookupGetter__'', ''__lookupSetter__'']"

definition member_truthy :: "json gomap \<Rightarrow> string \<Rightarrow> bool" where
  "member_truthy m k \<longleftrightarrow> (case gm_get m k of Some v \<Rightarrow> truthy v | None \<Rightarrow> k \<in> set inherited)"

subsection \<open>The entry of an agent\<close>

definition ws_id :: "workstation \<Rightarrow> string" where
  "ws_id aw = om_Name (aw_meta aw)"

definition workspace_dir :: "string \<Rightarrow> string" where
  "workspace_dir agent = ''/home/node/.openclaw/workspaces/'' @ agent"

text \<open>A Go map is encoded with its keys in order.\<close>

definition agent_entry :: "workstation \<Rightarrow> string \<Rightarrow> json gomap" where
  "agent_entry aw model =
     (let sp = aw_Spec aw; agent = ws_id aw; name = default_if_empty (aws_DisplayName sp) agent in
      [(''id'', JStr agent)]
      @ (if aws_Emoji sp \<noteq> [] \<or> aws_DisplayName sp \<noteq> [] then
           [(''identity'', JObj [(''emoji'', JStr (aws_Emoji sp)), (''name'', JStr name)])] else [])
      @ [(''model'', JObj [(''primary'', JStr model)]), (''name'', JStr name), (''workspace'', JStr (workspace_dir agent))])"

text \<open>The model string: a resolvable connection of kind endpoint comes before the provider. With the message for the status.\<close>

definition agent_model :: "kube_env \<Rightarrow> kube \<Rightarrow> workstation \<Rightarrow> string \<times> string option" where
  "agent_model env k aw =
     (let ms = aws_Model (aw_Spec aw); ref = ms_ConnectionRef ms;
          byprov = (if ms_ModelName ms \<noteq> [] then canonical_provider_id (ms_Provider ms) @ ''/'' @ ms_ModelName ms
                    else ''openai/gpt-5.4'')
      in if ref = [] then (byprov, None)
         else case api_read env Connections mc_meta (ku_connections k) [] ref of
           Inl _ \<Rightarrow> (byprov, Some (''ModelConnection '' @ go_quote ref @ '' not found; using provider '' @ ms_Provider ms))
         | Inr conn \<Rightarrow>
            (if cns_Kind (mc_Spec conn) \<noteq> kind_endpoint then (byprov, None)
             else
               let auto = (\<lambda>n. n = [] \<or> n = ''auto'');
                   name = (if auto (ms_ModelName ms) then
                             (case cns_Models (mc_Spec conn) of [] \<Rightarrow> ms_ModelName ms | m # _ \<Rightarrow> mce_ID m)
                           else ms_ModelName ms)
               in if auto name then
                    (byprov, Some (''ModelConnection '' @ go_quote ref @ '' lists no models and spec.model.modelName is empty''))
                  else (om_Name (mc_meta conn) @ ''/'' @ name, None)))"

definition parse_discord_channel :: "string \<Rightarrow> string" where
  "parse_discord_channel url =
     (let pre = ''https://discord.com/channels/'' in
      if \<not> has_prefix url pre then []
      else case split_byte CHR ''/'' (trim_prefix url pre) of
        g # c # _ \<Rightarrow> (if c = [] \<or> g = ''@me'' then [] else c)
      | _ \<Rightarrow> [])"

definition discord_url :: "workstation \<Rightarrow> string" where
  "discord_url aw =
     (case aws_Channels (aw_Spec aw) of None \<Rightarrow> []
      | Some c \<Rightarrow> (case chs_Discord c of None \<Rightarrow> [] | Some d \<Rightarrow> dch_URL d))"

definition search_provider :: "(string \<Rightarrow> string) \<Rightarrow> string" where
  "search_provider getenv = default_if_empty (trim_space (getenv ''AGENT_SEARCH_PROVIDER'')) ''duckduckgo''"

subsection \<open>The merge\<close>

record merge_input =
  mi_agent :: string
  mi_entry :: "json gomap"
  mi_profile :: string
  mi_channel :: string
  mi_tools :: "string list"
  mi_provider :: string

definition merge_input_of :: "(string \<Rightarrow> string) \<Rightarrow> workstation \<Rightarrow> string \<Rightarrow> merge_input" where
  "merge_input_of getenv aw model =
     \<lparr>mi_agent = ws_id aw, mi_entry = agent_entry aw model, mi_profile = effective_profile aw,
      mi_channel = parse_discord_channel (discord_url aw),
      mi_tools = (case aws_Tools (aw_Spec aw) of None \<Rightarrow> [] | Some t \<Rightarrow> ts_Allow t),
      mi_provider = search_provider getenv\<rparr>"

text \<open>The \<open>id\<close> of an element of \<open>agents.list\<close>, and the \<open>agentId\<close> of a binding.\<close>

definition member_of :: "string \<Rightarrow> json \<Rightarrow> json option" where
  "member_of k v = (case v of JObj m \<Rightarrow> gm_get m k | _ \<Rightarrow> None)"

definition is_agent :: "string \<Rightarrow> string \<Rightarrow> json \<Rightarrow> bool" where
  "is_agent k agent v \<longleftrightarrow> member_of k v = Some (JStr agent)"

fun merge_entry :: "string \<Rightarrow> json gomap \<Rightarrow> json list \<Rightarrow> json list" where
  "merge_entry agent entry [] = [JObj entry]"
| "merge_entry agent entry (v # vs) =
     (if is_agent ''id'' agent v then
        (case v of JObj m \<Rightarrow> JObj (spread m entry) | _ \<Rightarrow> v) # vs
      else v # merge_entry agent entry vs)"

definition merge_agents :: "merge_input \<Rightarrow> json gomap \<Rightarrow> json gomap option" where
  "merge_agents inp cfg =
     map_option (\<lambda>s. gm_set cfg ''agents''
         (JObj (gm_set s ''list'' (JArr (merge_entry (mi_agent inp) (mi_entry inp) (array_of ''list'' s))))))
       (section_of ''agents'' cfg)"

definition merge_proxy :: "merge_input \<Rightarrow> json gomap \<Rightarrow> json gomap option" where
  "merge_proxy inp cfg =
     do { host \<leftarrow> section_of ''nodeHost'' cfg;
          proxy \<leftarrow> section_of ''browserProxy'' host;
          let proxy1 = gm_set proxy ''enabled'' (JBool True);
          let proxy2 = gm_set proxy1 ''allowProfiles'' (JArr (push_new (array_of ''allowProfiles'' proxy1) (JStr (mi_profile inp))));
          Some (gm_set cfg ''nodeHost'' (JObj (gm_set host ''browserProxy'' (JObj proxy2)))) }"

definition ui_tools :: "string list" where
  "ui_tools = [''browser'', ''canvas'', ''screen'', ''terminal'']"

definition merge_ui_tools :: "merge_input \<Rightarrow> json gomap \<Rightarrow> json gomap option" where
  "merge_ui_tools inp cfg =
     (let more = filter (\<lambda>t. t \<in> set ui_tools) (mi_tools inp) in
      if more = [] then Some cfg
      else map_option (\<lambda>tools.
          let tools1 = gm_del tools ''allow''
          in gm_set cfg ''tools'' (JObj (gm_set tools1 ''alsoAllow'' (JArr (foldl push_new (array_of ''alsoAllow'' tools1) (map JStr more))))))
        (section_of ''tools'' cfg))"

definition merge_search :: "merge_input \<Rightarrow> json gomap \<Rightarrow> json gomap option" where
  "merge_search inp cfg =
     (if ''web_search'' \<notin> set (mi_tools inp) then Some cfg
      else do {
        tools \<leftarrow> section_of ''tools'' cfg;
        web \<leftarrow> section_of ''web'' tools;
        let web1 = gm_set web ''fetch'' (case js_get web ''fetch'' of None \<Rightarrow> JObj [] | Some v \<Rightarrow> v);
        search \<leftarrow> section_of ''search'' web1;
        let prov = (case js_get search ''provider'' of None \<Rightarrow> JStr (mi_provider inp) | Some p \<Rightarrow> p);
        let web2 = gm_set web1 ''search'' (JObj (gm_set search ''provider'' prov));
        let cfg1 = gm_set cfg ''tools'' (JObj (gm_set tools ''web'' (JObj web2)));
        plugins \<leftarrow> section_of ''plugins'' cfg1;
        entries \<leftarrow> section_of ''entries'' plugins;
        let name = js_text prov;
        let entries1 = (if truthy prov \<and> \<not> member_truthy entries name then gm_set entries name (JObj [(''enabled'', JBool True)])
                        else entries);
        Some (gm_set cfg1 ''plugins'' (JObj (gm_set plugins ''entries'' (JObj entries1)))) })"

definition wide_catch_all :: "json gomap \<Rightarrow> bool" where
  "wide_catch_all m \<longleftrightarrow>
     \<not> (case js_get m ''peer'' of Some (JObj p) \<Rightarrow> js_get p ''id'' \<noteq> None | _ \<Rightarrow> False)
     \<and> js_get m ''guildId'' = None \<and> js_get m ''teamId'' = None
     \<and> (js_get m ''accountId'' = None \<or> gm_get m ''accountId'' = Some (JStr ''*''))"

definition keeps_binding :: "string \<Rightarrow> json \<Rightarrow> bool" where
  "keeps_binding agent b \<longleftrightarrow>
     (case b of
        JObj kvs \<Rightarrow> (case js_get kvs ''match'' of Some (JObj m) \<Rightarrow> \<not> is_agent ''agentId'' agent b \<and> \<not> wide_catch_all m | _ \<Rightarrow> False)
      | _ \<Rightarrow> False)"

definition channel_binding :: "string \<Rightarrow> string \<Rightarrow> json" where
  "channel_binding agent channel =
     JObj [(''agentId'', JStr agent),
           (''match'', JObj [(''channel'', JStr ''discord''), (''accountId'', JStr ''default''),
              (''peer'', JObj [(''kind'', JStr ''channel''), (''id'', JStr channel)])])]"

definition text_or_empty :: "json option \<Rightarrow> string" where
  "text_or_empty v = (case v of Some w \<Rightarrow> (if truthy w then js_text w else []) | None \<Rightarrow> [])"

definition binding_key :: "json \<Rightarrow> string" where
  "binding_key b =
     text_or_empty (member_of ''agentId'' b) @ [CHR 0x09]
     @ text_or_empty (case member_of ''match'' b of None \<Rightarrow> None
         | Some m \<Rightarrow> (case member_of ''peer'' m of None \<Rightarrow> None | Some p \<Rightarrow> member_of ''id'' p))"

definition merge_bindings :: "(string \<Rightarrow> string) \<Rightarrow> merge_input \<Rightarrow> json gomap \<Rightarrow> json gomap" where
  "merge_bindings collate inp cfg =
     gm_set cfg ''bindings'' (JArr (sort_key (collate \<circ> binding_key)
       (filter (keeps_binding (mi_agent inp)) (array_of ''bindings'' cfg)
        @ (if mi_channel inp = [] then [] else [channel_binding (mi_agent inp) (mi_channel inp)]))))"

text \<open>The script: the new configuration, and whether the file is written.\<close>

definition merge_config :: "(string \<Rightarrow> string) \<Rightarrow> merge_input \<Rightarrow> json \<Rightarrow> (json \<times> bool) option" where
  "merge_config collate inp cfg =
     (case cfg of
        JObj m \<Rightarrow>
          do { m1 \<leftarrow> merge_agents inp m;
               m2 \<leftarrow> merge_proxy inp m1;
               m3 \<leftarrow> merge_ui_tools inp m2;
               m4 \<leftarrow> merge_search inp m3;
               let m5 = merge_bindings collate inp m4;
               Some (JObj m5, m5 \<noteq> m) }
      | _ \<Rightarrow> None)"

subsection \<open>The removal\<close>

definition upd_array :: "(json list \<Rightarrow> json list) \<Rightarrow> string \<Rightarrow> json gomap \<Rightarrow> json gomap" where
  "upd_array f k m = (case gm_get m k of Some (JArr xs) \<Rightarrow> gm_set m k (JArr (f xs)) | _ \<Rightarrow> m)"

definition upd_object :: "(json gomap \<Rightarrow> json gomap) \<Rightarrow> string \<Rightarrow> json gomap \<Rightarrow> json gomap" where
  "upd_object f k m = (case gm_get m k of Some (JObj x) \<Rightarrow> gm_set m k (JObj (f x)) | _ \<Rightarrow> m)"

definition deregister_config :: "string \<Rightarrow> string \<Rightarrow> json \<Rightarrow> json option" where
  "deregister_config agent profile cfg =
     (case cfg of
        JNull \<Rightarrow> None
      | JObj m \<Rightarrow> Some (JObj
          (upd_array (filter (\<lambda>b. \<not> is_agent ''agentId'' agent b)) ''bindings''
            (upd_object (upd_object (upd_array (filter (\<lambda>x. x \<noteq> JStr profile)) ''allowProfiles'') ''browserProxy'') ''nodeHost''
              (upd_object (upd_array (filter (\<lambda>a. \<not> is_agent ''id'' agent a)) ''list'') ''agents'' m))))
      | _ \<Rightarrow> Some cfg)"

subsection \<open>Merging twice is merging once\<close>

lemma gm_set_triv: "gm_get m k = Some v \<Longrightarrow> gm_set m k v = m"
  by (rule update_triv)

lemma gm_del_triv: "gm_get m k = None \<Longrightarrow> gm_del m k = m"
  by (simp add: delete_id gm_get_None_iff)

lemma spread_get: "gm_wf b \<Longrightarrow> gm_get (spread a b) k = (case gm_get b k of None \<Rightarrow> gm_get a k | Some v \<Rightarrow> Some v)"
proof (induction b arbitrary: a)
  case (Cons p b)
  obtain j v where p: "p = (j, v)" by fastforce
  have "gm_wf b" "gm_get b j = None" using Cons.prems by (auto simp: p gm_wf_def gm_get_None_iff)
  with Cons.IH [of "gm_set a j v"] show ?case by (auto simp: p spread_def split: option.split)
qed (simp add: spread_def)

lemma spread_triv: "(\<And>k v. (k, v) \<in> set b \<Longrightarrow> gm_get a k = Some v) \<Longrightarrow> spread a b = a"
  by (induction b) (auto simp: spread_def gm_set_triv)

lemma spread_idem: "gm_wf b \<Longrightarrow> spread (spread a b) b = spread a b"
  by (rule spread_triv) (auto simp: spread_get gm_get_wf)

lemma merge_entry_idem:
  assumes "gm_wf entry" "gm_get entry ''id'' = Some (JStr agent)"
  shows "merge_entry agent entry (merge_entry agent entry vs) = merge_entry agent entry vs"
proof (induction vs)
  case Nil
  have "spread entry entry = entry" using assms(1) by (intro spread_triv) (simp add: gm_get_wf)
  with assms(2) show ?case by (simp add: is_agent_def member_of_def)
next
  case (Cons v vs)
  then show ?case using assms
    by (cases v) (auto simp: is_agent_def member_of_def spread_get spread_idem)
qed

lemma section_of_JObj: "gm_get m k = Some (JObj s) \<Longrightarrow> section_of k m = Some s"
  by (simp add: section_of_def js_get_def truthy_def)

lemma array_of_JArr: "gm_get m k = Some (JArr xs) \<Longrightarrow> array_of k m = xs"
  by (simp add: array_of_def)

lemma push_new_member [simp]: "v \<in> set (push_new xs v)" "v \<in> set xs \<Longrightarrow> push_new xs v = xs"
  "set xs \<subseteq> set (push_new xs v)"
  by (auto simp: push_new_def)

lemma push_all_members: "set vs \<subseteq> set (foldl push_new xs vs) \<and> set xs \<subseteq> set (foldl push_new xs vs)"
proof (induction vs arbitrary: xs)
  case (Cons v vs)
  from Cons [of "push_new xs v"] show ?case
    using push_new_member(1) [of v xs] push_new_member(3) [of xs v] by (simp del: push_new_member) blast
qed simp

lemma push_all_triv: "set vs \<subseteq> set xs \<Longrightarrow> foldl push_new xs vs = xs"
  by (induction vs) auto

text \<open>What each step leaves behind, in which case it changes nothing.\<close>

definition agents_merged :: "merge_input \<Rightarrow> json gomap \<Rightarrow> bool" where
  "agents_merged inp cfg \<longleftrightarrow> (\<exists>s l. gm_get cfg ''agents'' = Some (JObj s) \<and> gm_get s ''list'' = Some (JArr l)
     \<and> merge_entry (mi_agent inp) (mi_entry inp) l = l)"

definition proxy_merged :: "merge_input \<Rightarrow> json gomap \<Rightarrow> bool" where
  "proxy_merged inp cfg \<longleftrightarrow> (\<exists>h p l. gm_get cfg ''nodeHost'' = Some (JObj h) \<and> gm_get h ''browserProxy'' = Some (JObj p)
     \<and> gm_get p ''enabled'' = Some (JBool True) \<and> gm_get p ''allowProfiles'' = Some (JArr l) \<and> JStr (mi_profile inp) \<in> set l)"

definition ui_tools_merged :: "merge_input \<Rightarrow> json gomap \<Rightarrow> bool" where
  "ui_tools_merged inp cfg \<longleftrightarrow> (let more = filter (\<lambda>t. t \<in> set ui_tools) (mi_tools inp) in more = [] \<or>
     (\<exists>s l. gm_get cfg ''tools'' = Some (JObj s) \<and> gm_get s ''allow'' = None \<and> gm_get s ''alsoAllow'' = Some (JArr l)
        \<and> JStr ` set more \<subseteq> set l))"

definition search_merged :: "merge_input \<Rightarrow> json gomap \<Rightarrow> bool" where
  "search_merged inp cfg \<longleftrightarrow> ''web_search'' \<notin> set (mi_tools inp) \<or>
     (\<exists>s w f h p g n. gm_get cfg ''tools'' = Some (JObj s) \<and> gm_get s ''web'' = Some (JObj w) \<and> js_get w ''fetch'' = Some f
        \<and> gm_get w ''search'' = Some (JObj h) \<and> js_get h ''provider'' = Some p \<and> gm_get cfg ''plugins'' = Some (JObj g)
        \<and> gm_get g ''entries'' = Some (JObj n) \<and> member_truthy n (js_text p))"

lemma agents_merged_same: "agents_merged inp cfg \<Longrightarrow> merge_agents inp cfg = Some cfg"
  by (auto simp: agents_merged_def merge_agents_def section_of_JObj array_of_JArr gm_set_triv)

lemma proxy_merged_same: "proxy_merged inp cfg \<Longrightarrow> merge_proxy inp cfg = Some cfg"
  by (auto simp: proxy_merged_def merge_proxy_def section_of_JObj array_of_JArr gm_set_triv)

lemma ui_tools_merged_same: "ui_tools_merged inp cfg \<Longrightarrow> merge_ui_tools inp cfg = Some cfg"
  by (auto simp: ui_tools_merged_def merge_ui_tools_def Let_def section_of_JObj gm_del_triv array_of_JArr push_all_triv
      gm_set_triv)

lemma js_getD: "js_get m k = Some v \<Longrightarrow> gm_get m k = Some v \<and> truthy v"
  by (auto simp: js_get_def split: option.splits if_splits)

lemma search_merged_same:
  assumes "search_merged inp cfg" shows "merge_search inp cfg = Some cfg"
proof (cases "''web_search'' \<in> set (mi_tools inp)")
  case True
  with assms obtain s w f h p g n where m: "gm_get cfg ''tools'' = Some (JObj s)" "gm_get s ''web'' = Some (JObj w)"
    "js_get w ''fetch'' = Some f" "gm_get w ''search'' = Some (JObj h)" "js_get h ''provider'' = Some p"
    "gm_get cfg ''plugins'' = Some (JObj g)" "gm_get g ''entries'' = Some (JObj n)" "member_truthy n (js_text p)"
    by (auto simp: search_merged_def)
  note t = js_getD [OF m(3)] js_getD [OF m(5)]
  show ?thesis
    unfolding merge_search_def Let_def using True t m
    by (simp add: section_of_JObj gm_set_triv)
qed (simp add: merge_search_def)

lemma merge_agents_merged:
  assumes "merge_agents inp cfg = Some cfg'" "gm_wf (mi_entry inp)" "gm_get (mi_entry inp) ''id'' = Some (JStr (mi_agent inp))"
  shows "agents_merged inp cfg'" "k \<noteq> ''agents'' \<Longrightarrow> gm_get cfg' k = gm_get cfg k"
  using assms by (auto simp: merge_agents_def agents_merged_def merge_entry_idem)

lemma merge_proxy_merged:
  assumes "merge_proxy inp cfg = Some cfg'"
  shows "proxy_merged inp cfg'" "k \<noteq> ''nodeHost'' \<Longrightarrow> gm_get cfg' k = gm_get cfg k"
  using assms by (auto simp: merge_proxy_def proxy_merged_def Let_def split: bind_splits)

lemma merge_ui_tools_merged:
  assumes "merge_ui_tools inp cfg = Some cfg'"
  shows "ui_tools_merged inp cfg'" "k \<noteq> ''tools'' \<Longrightarrow> gm_get cfg' k = gm_get cfg k"
  using assms push_all_members [of "map JStr (filter (\<lambda>t. t \<in> set ui_tools) (mi_tools inp))"]
  by (auto simp: merge_ui_tools_def ui_tools_merged_def Let_def split: if_splits)


lemma merge_search_merged:
  assumes "merge_search inp cfg = Some cfg'" "mi_provider inp \<noteq> []"
  shows "search_merged inp cfg'" "k \<notin> {''tools'', ''plugins''} \<Longrightarrow> gm_get cfg' k = gm_get cfg k"
    "ui_tools_merged inp cfg \<Longrightarrow> ui_tools_merged inp cfg'"
proof -
  have "search_merged inp cfg' \<and> (\<forall>k. k \<notin> {''tools'', ''plugins''} \<longrightarrow> gm_get cfg' k = gm_get cfg k)
    \<and> (ui_tools_merged inp cfg \<longrightarrow> ui_tools_merged inp cfg')"
  proof (cases "''web_search'' \<in> set (mi_tools inp)")
    case True
    define fetch where "fetch w = (case js_get w ''fetch'' of None \<Rightarrow> JObj [] | Some v \<Rightarrow> v)" for w
    define prov where "prov h = (case js_get h ''provider'' of None \<Rightarrow> JStr (mi_provider inp) | Some p \<Rightarrow> p)" for h
    have tr: "truthy (fetch w)" "truthy (prov h)" for w h
      using assms(2) by (auto simp: fetch_def prov_def js_get_def truthy_def split: option.splits if_splits)
    obtain s w h g n where m: "section_of ''tools'' cfg = Some s" "section_of ''web'' s = Some w"
      "section_of ''search'' (gm_set w ''fetch'' (fetch w)) = Some h"
      "section_of ''plugins'' (gm_set cfg ''tools'' (JObj (gm_set s ''web'' (JObj (gm_set (gm_set w ''fetch'' (fetch w)) ''search''
          (JObj (gm_set h ''provider'' (prov h)))))))) = Some g"
      "section_of ''entries'' g = Some n"
      and cfg': "cfg' = gm_set (gm_set cfg ''tools'' (JObj (gm_set s ''web'' (JObj (gm_set (gm_set w ''fetch'' (fetch w)) ''search''
          (JObj (gm_set h ''provider'' (prov h)))))))) ''plugins'' (JObj (gm_set g ''entries'' (JObj
            (if \<not> member_truthy n (js_text (prov h)) then gm_set n (js_text (prov h)) (JObj [(''enabled'', JBool True)]) else n))))"
      using assms(1) True unfolding merge_search_def Let_def fetch_def [symmetric] prov_def [symmetric]
      by (simp only: bind_eq_Some_conv tr option.inject if_True simp_thms if_not_P)
        (elim exE conjE, (rule that; (assumption | (rule sym, assumption))))
    have mt: "member_truthy (gm_set n k (JObj x)) k" for k x by (simp add: member_truthy_def truthy_def)
    have jg: "js_get (gm_set m k v) j = (if j = k then (if truthy v then Some v else None) else js_get m j)" for m k v j
      by (simp add: js_get_def)
    have "search_merged inp cfg'"
      unfolding search_merged_def cfg' using tr by (auto simp: jg mt)
    moreover have "ui_tools_merged inp cfg'" if "ui_tools_merged inp cfg"
      using that m(1) unfolding ui_tools_merged_def cfg' by (auto simp: Let_def section_of_JObj)
    ultimately show ?thesis by (simp add: cfg')
  qed (use assms(1) in \<open>simp add: merge_search_def search_merged_def\<close>)
  then show "search_merged inp cfg'" "k \<notin> {''tools'', ''plugins''} \<Longrightarrow> gm_get cfg' k = gm_get cfg k"
    "ui_tools_merged inp cfg \<Longrightarrow> ui_tools_merged inp cfg'" by blast+
qed

lemma sort_key_sorted_append: "sort_key f (sort_key f xs @ ys) = sort_key f (xs @ ys)"
proof -
  have "filter (\<lambda>x. f k = f x) (sort_key f zs) = filter (\<lambda>x. f k = f x) zs" for k zs
    using sort_key_stable [of f "f k" zs] by (simp add: eq_commute)
  then show ?thesis by (intro properties_for_sort_key) simp_all
qed

lemma merge_bindings_idem: "merge_bindings collate inp (merge_bindings collate inp cfg) = merge_bindings collate inp cfg"
proof -
  let ?K = "keeps_binding (mi_agent inp)" and ?c = "collate \<circ> binding_key"
  let ?new = "if mi_channel inp = [] then [] else [channel_binding (mi_agent inp) (mi_channel inp)]"
  have "\<not> ?K (channel_binding (mi_agent inp) ch)" for ch
    by (simp add: keeps_binding_def channel_binding_def is_agent_def member_of_def js_get_def split: option.splits json.splits)
  then have "filter ?K (sort_key ?c (filter ?K l @ ?new)) = sort_key ?c (filter ?K l)" for l
    by (simp add: filter_sort)
  then have "sort_key ?c (filter ?K (sort_key ?c (filter ?K l @ ?new)) @ ?new) = sort_key ?c (filter ?K l @ ?new)" for l
    by (simp only: sort_key_sorted_append)
  then show ?thesis
    unfolding merge_bindings_def by (simp only: array_of_JArr gm_get_set fun_upd_same) (simp add: gm_set_triv)
qed

text \<open>
  C22: the registration of an agent does not disturb a gateway that has it. Whatever the configuration
  holds, the script that has run leaves one that the same script does not change, so the file is not
  written again and the gateway is not made to reload it by every pass. The order of bindings is by any
  collation.
\<close>

theorem merge_writes_once:
  assumes "merge_config collate (merge_input_of getenv aw model) cfg = Some (cfg', written)"
  shows "merge_config collate (merge_input_of getenv aw model) cfg' = Some (cfg', False)"
proof -
  let ?inp = "merge_input_of getenv aw model"
  have e: "gm_wf (mi_entry ?inp)" "gm_get (mi_entry ?inp) ''id'' = Some (JStr (mi_agent ?inp))" "mi_provider ?inp \<noteq> []"
    by (auto simp: merge_input_of_def agent_entry_def gm_wf_def Let_def search_provider_def default_if_empty_def)
  obtain m m1 m2 m3 m4 where s: "merge_agents ?inp m = Some m1" "merge_proxy ?inp m1 = Some m2"
    "merge_ui_tools ?inp m2 = Some m3" "merge_search ?inp m3 = Some m4" and cfg': "cfg' = JObj (merge_bindings collate ?inp m4)"
    using assms by (auto simp: merge_config_def Let_def split: json.splits bind_splits)
  let ?m5 = "merge_bindings collate ?inp m4"
  have frame: "k \<noteq> ''bindings'' \<Longrightarrow> gm_get ?m5 k = gm_get m4 k" for k by (simp add: merge_bindings_def)
  note a = merge_agents_merged [OF s(1) e(1,2)] and p = merge_proxy_merged [OF s(2)]
    and u = merge_ui_tools_merged [OF s(3)] and w = merge_search_merged [OF s(4) e(3)]
  have "gm_get ?m5 ''agents'' = gm_get m1 ''agents''" "gm_get ?m5 ''nodeHost'' = gm_get m2 ''nodeHost''"
    "gm_get ?m5 ''tools'' = gm_get m4 ''tools''" "gm_get ?m5 ''plugins'' = gm_get m4 ''plugins''"
    using p(2) u(2) w(2) by (simp_all add: frame)
  with a(1) p(1) w(1) w(3) [OF u(1)]
  have "agents_merged ?inp ?m5" "proxy_merged ?inp ?m5" "ui_tools_merged ?inp ?m5" "search_merged ?inp ?m5"
    unfolding agents_merged_def proxy_merged_def ui_tools_merged_def search_merged_def by simp_all
  then show ?thesis
    by (simp add: cfg' merge_config_def agents_merged_same proxy_merged_same ui_tools_merged_same search_merged_same
        merge_bindings_idem)
qed


subsection \<open>Registering and removing\<close>

definition object_of :: "string \<Rightarrow> json gomap \<Rightarrow> json gomap" where
  "object_of k m = (case gm_get m k of Some (JObj s) \<Rightarrow> s | _ \<Rightarrow> [])"

definition root_of :: "json \<Rightarrow> json gomap" where
  "root_of cfg = (case cfg of JObj m \<Rightarrow> m | _ \<Rightarrow> [])"

text \<open>The three places of the configuration that name agents.\<close>

definition agents_of :: "json \<Rightarrow> json list" where
  "agents_of cfg = array_of ''list'' (object_of ''agents'' (root_of cfg))"

definition profiles_of :: "json \<Rightarrow> json list" where
  "profiles_of cfg = array_of ''allowProfiles'' (object_of ''browserProxy'' (object_of ''nodeHost'' (root_of cfg)))"

definition bindings_of :: "json \<Rightarrow> json list" where
  "bindings_of cfg = array_of ''bindings'' (root_of cfg)"

lemma array_of_Nil [simp]: "array_of k [] = []" "object_of k [] = []"
  by (simp_all add: array_of_def object_of_def)

lemma array_of_filter: "array_of k (upd_array (filter P) k m) = filter P (array_of k m)"
  by (auto simp: array_of_def upd_array_def split: option.split json.split)

lemma object_of_upd_object: "g [] = [] \<Longrightarrow> object_of k (upd_object g k m) = g (object_of k m)"
  by (auto simp: object_of_def upd_object_def split: option.split json.split)

lemma upd_Nil [simp]: "upd_array f k [] = []" "upd_object g k [] = []"
  by (simp_all add: upd_array_def upd_object_def)

lemma upd_other:
  "j \<noteq> k \<Longrightarrow> object_of k (upd_array f j m) = object_of k m" "j \<noteq> k \<Longrightarrow> object_of k (upd_object g j m) = object_of k m"
  "j \<noteq> k \<Longrightarrow> array_of k (upd_object g j m) = array_of k m"
  by (auto simp: object_of_def array_of_def upd_array_def upd_object_def split: option.split json.split)

lemma deregister_config_effect:
  assumes "deregister_config agent profile cfg = Some cfg'"
  shows "agents_of cfg' = filter (\<lambda>v. \<not> is_agent ''id'' agent v) (agents_of cfg)"
    "profiles_of cfg' = filter (\<lambda>v. v \<noteq> JStr profile) (profiles_of cfg)"
    "bindings_of cfg' = filter (\<lambda>v. \<not> is_agent ''agentId'' agent v) (bindings_of cfg)"
  using assms
  by (cases cfg; auto simp: deregister_config_def agents_of_def profiles_of_def bindings_of_def root_of_def array_of_filter
      object_of_upd_object upd_other)+

lemma merge_entry_new:
  assumes "\<And>v. v \<in> set l \<Longrightarrow> \<not> is_agent ''id'' agent v" shows "merge_entry agent entry l = l @ [JObj entry]"
  using assms by (induction l) auto

lemma section_of_object: "section_of k m = Some s \<Longrightarrow> s = object_of k m"
  by (auto simp: section_of_def js_get_def object_of_def truthy_def split: option.splits if_splits json.splits)

lemma merge_config_effect:
  assumes "merge_config collate inp cfg = Some (cfg', written)" "mi_provider inp \<noteq> []"
  shows "agents_of cfg' = merge_entry (mi_agent inp) (mi_entry inp) (agents_of cfg)"
    "profiles_of cfg' = push_new (profiles_of cfg) (JStr (mi_profile inp))"
    "bindings_of cfg' = sort_key (collate \<circ> binding_key) (filter (keeps_binding (mi_agent inp)) (bindings_of cfg)
        @ (if mi_channel inp = [] then [] else [channel_binding (mi_agent inp) (mi_channel inp)]))"
proof -
  obtain m m1 m2 m3 m4 where cfg: "cfg = JObj m" and s: "merge_agents inp m = Some m1" "merge_proxy inp m1 = Some m2"
    "merge_ui_tools inp m2 = Some m3" "merge_search inp m3 = Some m4" and cfg': "cfg' = JObj (merge_bindings collate inp m4)"
    using assms(1) by (auto simp: merge_config_def Let_def split: json.splits bind_splits)
  have f1: "k \<noteq> ''agents'' \<Longrightarrow> gm_get m1 k = gm_get m k" for k using s(1) by (auto simp: merge_agents_def)
  note f2 = merge_proxy_merged(2) [OF s(2)] and f3 = merge_ui_tools_merged(2) [OF s(3)] and f4 = merge_search_merged(2) [OF s(4) assms(2)]
  have f5: "k \<noteq> ''bindings'' \<Longrightarrow> gm_get (merge_bindings collate inp m4) k = gm_get m4 k" for k by (simp add: merge_bindings_def)
  have "gm_get (merge_bindings collate inp m4) ''agents'' = gm_get m1 ''agents''" by (simp add: f5 f4 f3 f2)
  then show "agents_of cfg' = merge_entry (mi_agent inp) (mi_entry inp) (agents_of cfg)"
    using s(1) by (auto simp: cfg cfg' agents_of_def root_of_def merge_agents_def object_of_def array_of_def dest!: section_of_object)
  have "gm_get (merge_bindings collate inp m4) ''nodeHost'' = gm_get m2 ''nodeHost''" by (simp add: f5 f4 f3)
  moreover have "object_of ''nodeHost'' m1 = object_of ''nodeHost'' m" by (simp add: object_of_def f1)
  ultimately show "profiles_of cfg' = push_new (profiles_of cfg) (JStr (mi_profile inp))"
    using s(2) by (auto simp: cfg cfg' profiles_of_def root_of_def merge_proxy_def Let_def object_of_def [of k "merge_bindings c i n" for k c i n]
        object_of_def [of k "gm_set h j v" for k h j v] array_of_def split: bind_splits dest!: section_of_object)
  have "gm_get m4 ''bindings'' = gm_get m ''bindings''" by (simp add: f4 f3 f2 f1)
  then show "bindings_of cfg' = sort_key (collate \<circ> binding_key) (filter (keeps_binding (mi_agent inp)) (bindings_of cfg)
        @ (if mi_channel inp = [] then [] else [channel_binding (mi_agent inp) (mi_channel inp)]))"
    by (simp add: cfg cfg' bindings_of_def root_of_def merge_bindings_def array_of_def)
qed

lemma keeps_bindingD: "keeps_binding agent b \<Longrightarrow> \<not> is_agent ''agentId'' agent b"
proof (cases b)
  case (JObj kvs)
  assume "keeps_binding agent b"
  then obtain v where "js_get kvs ''match'' = Some v" by (auto simp: keeps_binding_def JObj split: option.splits)
  with \<open>keeps_binding agent b\<close> show ?thesis by (cases v) (simp_all add: keeps_binding_def JObj)
qed (simp_all add: is_agent_def member_of_def)

text \<open>
  C35: when a workstation that a gateway did not know is registered and later removed, its entry and its
  bindings are gone and the entries of the other agents are as they were. The bindings of others that
  name no peer, guild, team or account are gone, too. So is its browser profile, and also when another
  agent had brought it: two agents that share a profile lose it with the first of them.
\<close>

theorem register_then_remove:
  assumes "merge_config collate (merge_input_of getenv aw model) cfg = Some (cfg1, written)"
    and "deregister_config (ws_id aw) (effective_profile aw) cfg1 = Some cfg2"
    and "\<And>v. v \<in> set (agents_of cfg) \<Longrightarrow> \<not> is_agent ''id'' (ws_id aw) v"
  shows "agents_of cfg2 = agents_of cfg
    \<and> profiles_of cfg2 = filter (\<lambda>v. v \<noteq> JStr (effective_profile aw)) (profiles_of cfg)
    \<and> bindings_of cfg2 = sort_key (collate \<circ> binding_key) (filter (keeps_binding (ws_id aw)) (bindings_of cfg))"
proof -
  let ?inp = "merge_input_of getenv aw model"
  have i: "mi_agent ?inp = ws_id aw" "mi_profile ?inp = effective_profile aw" "mi_provider ?inp \<noteq> []"
    "gm_get (mi_entry ?inp) ''id'' = Some (JStr (ws_id aw))"
    by (auto simp: merge_input_of_def agent_entry_def Let_def search_provider_def default_if_empty_def)
  note m = merge_config_effect [OF assms(1) i(3), unfolded i] and d = deregister_config_effect [OF assms(2)]
  have "filter (\<lambda>v. \<not> is_agent ''id'' (ws_id aw) v) (agents_of cfg) = agents_of cfg"
    using assms(3) by simp
  moreover have "is_agent ''id'' (ws_id aw) (JObj (mi_entry ?inp))" using i(4) by (simp add: is_agent_def member_of_def)
  ultimately have "agents_of cfg2 = agents_of cfg"
    using d(1) m(1) merge_entry_new [of "agents_of cfg" "ws_id aw", OF assms(3)] by simp
  moreover have "profiles_of cfg2 = filter (\<lambda>v. v \<noteq> JStr (effective_profile aw)) (profiles_of cfg)"
    by (simp add: d(2) m(2) push_new_def)
  moreover have "filter (\<lambda>b. \<not> is_agent ''agentId'' (ws_id aw) b) (filter (keeps_binding (ws_id aw)) l) = filter (keeps_binding (ws_id aw)) l" for l
    by (induction l) (auto dest: keeps_bindingD)
  moreover have "is_agent ''agentId'' (ws_id aw) (channel_binding (ws_id aw) ch)" for ch
    by (simp add: is_agent_def member_of_def channel_binding_def)
  ultimately show ?thesis by (simp add: d(3) m(3) filter_sort)
qed


subsection \<open>A concrete gateway\<close>

definition demo_gateway_config :: json where
  "demo_gateway_config = JObj [(''agents'', JObj [(''list'', JArr [JObj [(''id'', JStr ''b'')]])]),
     (''nodeHost'', JObj [(''browserProxy'', JObj [(''allowProfiles'', JArr [JStr ''ws''])])])]"

definition demo_merge :: "json \<Rightarrow> (json \<times> bool) option" where
  "demo_merge = merge_config (\<lambda>s. s) (merge_input_of (\<lambda>_. []) (demo_agent ''lab'' ''ws'' []) ''openai/m'')"

definition demo_merged :: json where
  "demo_merged = fst (the (demo_merge demo_gateway_config))"

lemma demo_merge_input: "merge_input_of (\<lambda>_. []) (demo_agent ''lab'' ''ws'' []) ''openai/m''
  = \<lparr>mi_agent = ''ws'', mi_entry = [(''id'', JStr ''ws''), (''model'', JObj [(''primary'', JStr ''openai/m'')]), (''name'', JStr ''ws''),
       (''workspace'', JStr ''/home/node/.openclaw/workspaces/ws'')], mi_profile = ''ws'', mi_channel = [], mi_tools = [],
     mi_provider = ''duckduckgo''\<rparr>"
  by (simp add: merge_input_of_def agent_entry_def demo_agent_def demo_workstation_def ws_id_def demo_meta_def effective_profile_def
      default_if_empty_def workspace_dir_def parse_discord_channel_def discord_url_def search_provider_def Let_def)

lemma demo_merge_runs: "demo_merge demo_gateway_config = Some (demo_merged, True)" "\<exists>m. demo_merged = JObj m"
proof -
  have "\<exists>m. demo_merge demo_gateway_config = Some (JObj m, True)"
    unfolding demo_merge_def demo_merge_input demo_gateway_config_def
    by (simp add: merge_config_def merge_agents_def merge_proxy_def merge_ui_tools_def merge_search_def merge_bindings_def
        section_of_def js_get_def truthy_def array_of_def is_agent_def member_of_def push_new_def Let_def)
  then show "demo_merge demo_gateway_config = Some (demo_merged, True)" "\<exists>m. demo_merged = JObj m"
    by (auto simp: demo_merged_def)
qed

lemma merge_writes_once_witness: "demo_merge demo_gateway_config = Some (demo_merged, True) \<and> demo_merge demo_merged = Some (demo_merged, False)"
  using demo_merge_runs(1) merge_writes_once [of "\<lambda>s. s" "\<lambda>_. []" "demo_agent ''lab'' ''ws'' []" "''openai/m''" demo_gateway_config demo_merged True]
  by (simp add: demo_merge_def)

lemma register_then_remove_witness:
  "\<exists>cfg2. deregister_config ''ws'' ''ws'' demo_merged = Some cfg2 \<and> agents_of cfg2 = [JObj [(''id'', JStr ''b'')]]
     \<and> profiles_of cfg2 = []"
proof -
  let ?aw = "demo_agent ''lab'' ''ws'' []"
  have aw: "ws_id ?aw = ''ws''" "effective_profile ?aw = ''ws''"
    using demo_merge_input by (simp_all add: merge_input_of_def)
  obtain m where m: "demo_merged = JObj m" using demo_merge_runs(2) by blast
  obtain cfg2 where d: "deregister_config ''ws'' ''ws'' demo_merged = Some cfg2"
    by (simp add: deregister_config_def m)
  have l: "agents_of demo_gateway_config = [JObj [(''id'', JStr ''b'')]]" "profiles_of demo_gateway_config = [JStr ''ws'']"
    by (simp_all add: agents_of_def profiles_of_def demo_gateway_config_def root_of_def object_of_def array_of_def)
  have "\<And>v. v \<in> set (agents_of demo_gateway_config) \<Longrightarrow> \<not> is_agent ''id'' (ws_id ?aw) v"
    by (simp add: l is_agent_def member_of_def aw)
  from register_then_remove [OF demo_merge_runs(1) [unfolded demo_merge_def] _ this, of cfg2] d l show ?thesis
    by (auto simp: aw)
qed

end
