(* ===== verification/McpServers.thy ===== *)
theory McpServers
  imports SkillRefs AgentConfig
begin

text \<open>
  \<open>mcp_servers_drift.go\<close>, \<open>mcp_credentials.go\<close> and \<open>reconcileMCPServers\<close> of \<open>agentworkstation_shared.go\<close>:
  the MCP servers of a workstation become entries of the configuration of its gateway, with the
  credentials of their headers, and an entry is written only when the live one differs. The command
  \<open>openclaw mcp set\<close> is a parameter, and so is what makes the comparison in the pod fail.
\<close>

subsection \<open>References to variables\<close>

definition var_start :: "char \<Rightarrow> bool" where
  "var_start c \<longleftrightarrow> word_char c \<and> \<not> is_digit c"

text \<open>The name of the reference \<open>${NAME}\<close> that a string starts with, and what follows it.\<close>

definition ref_at :: "string \<Rightarrow> (string \<times> string) option" where
  "ref_at s =
     (case s of
        a # b # c # r \<Rightarrow>
          (if a = CHR 0x24 \<and> b = CHR 0x7B \<and> var_start c then
             (case dropWhile word_char r of
                d # t \<Rightarrow> (if d = CHR 0x7D then Some (c # takeWhile word_char r, t) else None)
              | [] \<Rightarrow> None)
           else None)
      | _ \<Rightarrow> None)"

lemma ref_at_shorter: "ref_at s = Some (k, t) \<Longrightarrow> length t < length s"
proof -
  assume a: "ref_at s = Some (k, t)"
  then obtain a b c r d where "s = a # b # c # r" "dropWhile word_char r = d # t"
    by (auto simp: ref_at_def split: list.splits if_splits)
  then show ?thesis using length_dropWhile_le [of word_char r] by simp
qed

datatype piece = Plain char | Ref string

function pieces :: "string \<Rightarrow> piece list" where
  "pieces s =
     (case s of
        [] \<Rightarrow> []
      | c # r \<Rightarrow> (case ref_at s of None \<Rightarrow> Plain c # pieces r | Some (k, t) \<Rightarrow> Ref k # pieces t))"
  by pat_completeness auto
termination by (relation "measure length") (auto dest: ref_at_shorter)

declare pieces.simps [simp del]

definition ref_text :: "string \<Rightarrow> string" where
  "ref_text k = [CHR 0x24, CHR 0x7B] @ k @ [CHR 0x7D]"

definition expand :: "string gomap \<Rightarrow> string \<Rightarrow> string" where
  "expand data s =
     concat (map (\<lambda>p. case p of Plain c \<Rightarrow> [c] | Ref k \<Rightarrow> (case gm_get data k of None \<Rightarrow> ref_text k | Some v \<Rightarrow> v)) (pieces s))"

text \<open>The names that a string refers to, in order.\<close>

definition refs_in :: "string \<Rightarrow> string list" where
  "refs_in s = List.map_filter (\<lambda>p. case p of Plain _ \<Rightarrow> None | Ref k \<Rightarrow> Some k) (pieces s)"

subsection \<open>Credentials in headers\<close>

definition resolve_header_credentials :: "string gomap \<Rightarrow> string gomap \<Rightarrow> string gomap \<times> nat" where
  "resolve_header_credentials headers data =
     (if headers = [] \<or> data = [] then (headers, 0)
      else (map (\<lambda>(k, v). (k, expand data v)) headers,
            sum_list (map (\<lambda>(k, v). length (filter (\<lambda>r. gm_get data r \<noteq> None) (refs_in v))) headers)))"

definition consumes_secret_via_config :: "mcp_server \<Rightarrow> string gomap \<Rightarrow> bool" where
  "consumes_secret_via_config srv data \<longleftrightarrow>
     mcp_EnvFromSecret srv \<noteq> [] \<and> mcp_Headers srv \<noteq> [] \<and> data \<noteq> []
     \<and> list_ex (\<lambda>(k, v). list_ex (\<lambda>r. gm_get data r \<noteq> None) (refs_in v)) (mcp_Headers srv)"

definition json_of_headers :: "string gomap \<Rightarrow> json" where
  "json_of_headers hs = json_map (map (\<lambda>(k, v). (k, JStr v)) hs)"

text \<open>The entry of a server, with its keys in the order of \<open>json.Marshal\<close>.\<close>

definition render_mcp_server :: "mcp_server \<Rightarrow> string gomap \<Rightarrow> json gomap" where
  "render_mcp_server srv data =
     (let (resolved, n) = resolve_header_credentials (mcp_Headers srv) data;
          headers = (if 0 < n then resolved else mcp_Headers srv)
      in (if headers = [] then [] else [(''headers'', json_of_headers headers)])
         @ [(''transport'', JStr (if mcp_Type srv = ''sse'' then ''sse'' else ''streamable-http'')), (''url'', JStr (mcp_URL srv))])"

subsection \<open>Which entries differ\<close>

text \<open>Whether a live text stands for the wanted one: it has references, and the environment resolves them all to it.\<close>

definition resolves_to :: "string gomap \<Rightarrow> json \<Rightarrow> json \<Rightarrow> bool" where
  "resolves_to penv have want \<longleftrightarrow>
     (case (have, want) of
        (JStr h, JStr w) \<Rightarrow> str_contains h [CHR 0x24, CHR 0x7B] \<and> list_all (\<lambda>r. gm_get penv r \<noteq> None) (refs_in h) \<and> expand penv h = w
      | _ \<Rightarrow> False)"

fun json_equal :: "string gomap \<Rightarrow> json \<Rightarrow> json \<Rightarrow> bool" where
  "json_equal penv (JObj ws) have =
     (case have of
        JObj hs \<Rightarrow> length ws = length hs
          \<and> list_all (\<lambda>(k, w). case gm_get hs k of None \<Rightarrow> False | Some h \<Rightarrow> json_equal penv w h) ws
      | _ \<Rightarrow> False)"
| "json_equal penv (JArr ws) have =
     (case have of JArr hs \<Rightarrow> length ws = length hs \<and> list_all2 (\<lambda>w h. json_equal penv w h) ws hs | _ \<Rightarrow> False)"
| "json_equal penv (JNum m) have = (case have of JNum n \<Rightarrow> parse_float m = parse_float n | _ \<Rightarrow> False)"
| "json_equal penv want have = (want = have \<or> resolves_to penv have want)"

text \<open>The fields in which an entry differs: those of the wanted one, then those that only the live one has.\<close>

definition differing_fields :: "string gomap \<Rightarrow> json gomap \<Rightarrow> json option \<Rightarrow> string list" where
  "differing_fields penv want live =
     (case live of
        Some (JObj have) \<Rightarrow>
          sort (map fst (filter (\<lambda>(k, w). case gm_get have k of None \<Rightarrow> True | Some h \<Rightarrow> \<not> json_equal penv w h) want)
            @ filter (\<lambda>k. gm_get want k = None) (map fst have))
      | _ \<Rightarrow> [''missing''])"

definition mcp_servers_drift :: "string gomap \<Rightarrow> json gomap gomap \<Rightarrow> json gomap \<Rightarrow> string list gomap" where
  "mcp_servers_drift penv desired live =
     filter (\<lambda>(n, fs). fs \<noteq> []) (map (\<lambda>(n, want). (n, differing_fields penv want (gm_get live n))) desired)"

subsection \<open>The pass\<close>

text \<open>
  The gateway pod: the environment of the process and the entries under \<open>mcp.servers\<close>. The environment of
  the model says how \<open>openclaw mcp set\<close> changes them, and why the comparison fails, if it does.
\<close>

record mcp_pod =
  mp_env :: "string gomap"
  mp_live :: "json gomap"

record mcp_env =
  me_kube :: kube_env
  me_set :: "string \<Rightarrow> json \<Rightarrow> mcp_pod \<Rightarrow> mcp_pod \<times> string option"
  me_unreadable :: "string option"

text \<open>The entries that a workstation wants: of two servers of one name the last, at the place of the first.\<close>

definition secret_data :: "mcp_env \<Rightarrow> kube \<Rightarrow> string \<Rightarrow> mcp_server \<Rightarrow> string gomap" where
  "secret_data env k ns srv =
     (if mcp_EnvFromSecret srv = [] \<or> mcp_Headers srv = [] then []
      else case api_read (me_kube env) Secrets sec_meta (ku_secrets k) ns (mcp_EnvFromSecret srv) of
        Inl _ \<Rightarrow> [] | Inr sec \<Rightarrow> sec_Data sec)"

definition desired_servers :: "mcp_env \<Rightarrow> kube \<Rightarrow> string \<Rightarrow> mcp_server list \<Rightarrow> json gomap gomap" where
  "desired_servers env k ns srvs =
     foldl (\<lambda>m srv. gm_set m (mcp_Name srv) (render_mcp_server srv (secret_data env k ns srv))) [] srvs"

definition set_server ::
    "mcp_env \<Rightarrow> json gomap gomap \<Rightarrow> string list gomap \<Rightarrow> mcp_pod \<Rightarrow> string \<Rightarrow> mcp_pod \<times> string option" where
  "set_server env desired drift pod name =
     (case gm_get drift name of
        None \<Rightarrow> (pod, None)
      | Some _ \<Rightarrow>
         (case me_set env name (JObj (the (gm_get desired name))) pod of
            (pod1, None) \<Rightarrow> (pod1, None)
          | (pod1, Some e) \<Rightarrow> (pod1, Some (''openclaw mcp set '' @ go_quote name @ '': '' @ e))))"

definition declared_servers :: "workstation \<Rightarrow> mcp_server list" where
  "declared_servers aw = (case aws_Tools (aw_Spec aw) of None \<Rightarrow> [] | Some t \<Rightarrow> ts_MCPServers t)"

definition reconcile_mcp_servers ::
    "mcp_env \<Rightarrow> kube \<Rightarrow> string \<Rightarrow> workstation \<Rightarrow> mcp_pod \<Rightarrow> mcp_pod \<times> string option" where
  "reconcile_mcp_servers env k ns aw pod =
     (let desired = desired_servers env k ns (declared_servers aw) in
      case me_unreadable env of
        Some e \<Rightarrow> (pod, Some e)
      | None \<Rightarrow> run_all (set_server env desired (mcp_servers_drift (mp_env pod) desired (mp_live pod))) pod (map fst desired))"

subsection \<open>Only what differs is written\<close>

text \<open>What \<open>openclaw mcp set\<close> does: it replaces the entry of this name by one that stands for the given one.\<close>

definition current :: "string gomap \<Rightarrow> json gomap \<Rightarrow> json option \<Rightarrow> bool" where
  "current penv want live \<longleftrightarrow> differing_fields penv want live = []"

definition sets_entries :: "mcp_env \<Rightarrow> bool" where
  "sets_entries env \<longleftrightarrow> (\<forall>name srv data pod. gm_wf (mcp_Headers srv) \<longrightarrow>
     (\<exists>stored. me_set env name (JObj (render_mcp_server srv data)) pod = (pod\<lparr>mp_live := gm_set (mp_live pod) name stored\<rparr>, None)
        \<and> current (mp_env pod) (render_mcp_server srv data) (Some stored)))"

text \<open>The headers of every server are a map.\<close>

definition headers_ok :: "mcp_server list \<Rightarrow> bool" where
  "headers_ok srvs \<longleftrightarrow> (\<forall>srv \<in> set srvs. gm_wf (mcp_Headers srv))"

lemma drift_get:
  "gm_wf desired \<Longrightarrow> gm_get (mcp_servers_drift penv desired live) n
     = (case gm_get desired n of None \<Rightarrow> None
        | Some want \<Rightarrow> (if current penv want (gm_get live n) then None else Some (differing_fields penv want (gm_get live n))))"
proof (induction desired)
  case (Cons p desired)
  then show ?case
    by (cases p) (auto simp: mcp_servers_drift_def current_def gm_wf_def gm_get_None_iff [symmetric] split: option.splits)
qed (simp add: mcp_servers_drift_def)

lemma drift_Nil_iff: "mcp_servers_drift penv desired live = [] \<longleftrightarrow> (\<forall>(n, want) \<in> set desired. current penv want (gm_get live n))"
  by (auto simp: mcp_servers_drift_def filter_empty_conv current_def)

lemma desired_servers_wf: "gm_wf (desired_servers env k ns srvs)"
  unfolding desired_servers_def by (rule foldl_inv) simp_all

lemma desired_rendered:
  "headers_ok srvs \<Longrightarrow> gm_get (desired_servers env k ns srvs) n = Some w \<Longrightarrow>
     \<exists>srv data. w = render_mcp_server srv data \<and> gm_wf (mcp_Headers srv)"
  unfolding desired_servers_def by (induction srvs rule: rev_induct) (auto simp: headers_ok_def split: if_splits)

lemma run_sets:
  assumes "sets_entries env" "distinct names" "\<And>n. n \<in> set names \<Longrightarrow>
      \<exists>srv data. gm_get desired n = Some (render_mcp_server srv data) \<and> gm_wf (mcp_Headers srv)"
  shows "\<exists>pod'. run_all (set_server env desired drift) pod names = (pod', None) \<and> mp_env pod' = mp_env pod
    \<and> (\<forall>n. (n \<in> set names \<and> gm_get drift n \<noteq> None \<longrightarrow> current (mp_env pod) (the (gm_get desired n)) (gm_get (mp_live pod') n))
         \<and> (\<not> (n \<in> set names \<and> gm_get drift n \<noteq> None) \<longrightarrow> gm_get (mp_live pod') n = gm_get (mp_live pod) n))"
  using assms(2,3)
proof (induction names arbitrary: pod)
  case (Cons m names)
  obtain pod1 where s: "set_server env desired drift pod m = (pod1, None)" "mp_env pod1 = mp_env pod"
    and m: "gm_get drift m \<noteq> None \<Longrightarrow> current (mp_env pod) (the (gm_get desired m)) (gm_get (mp_live pod1) m)"
    and other: "\<And>n. n \<noteq> m \<or> gm_get drift m = None \<Longrightarrow> gm_get (mp_live pod1) n = gm_get (mp_live pod) n"
  proof (cases "gm_get drift m")
    case None
    then show ?thesis using that [of pod] by (simp add: set_server_def)
  next
    case (Some fs)
    from Cons.prems(2) [of m] obtain srv data where
      sd: "gm_get desired m = Some (render_mcp_server srv data)" "gm_wf (mcp_Headers srv)" by auto
    then obtain stored where
      st: "me_set env m (JObj (the (gm_get desired m))) pod = (pod\<lparr>mp_live := gm_set (mp_live pod) m stored\<rparr>, None)"
        "current (mp_env pod) (the (gm_get desired m)) (Some stored)"
      using assms(1) unfolding sets_entries_def by fastforce
    show ?thesis
      by (rule that [of "pod\<lparr>mp_live := gm_set (mp_live pod) m stored\<rparr>"]) (use Some st in \<open>simp_all add: set_server_def\<close>)
  qed
  from Cons.IH [of pod1] Cons.prems obtain pod' where
    p: "run_all (set_server env desired drift) pod1 names = (pod', None)" "mp_env pod' = mp_env pod1"
      "\<And>n. n \<in> set names \<and> gm_get drift n \<noteq> None \<Longrightarrow> current (mp_env pod1) (the (gm_get desired n)) (gm_get (mp_live pod') n)"
      "\<And>n. \<not> (n \<in> set names \<and> gm_get drift n \<noteq> None) \<Longrightarrow> gm_get (mp_live pod') n = gm_get (mp_live pod1) n"
    by auto
  have "run_all (set_server env desired drift) pod (m # names) = (pod', None)" using s p(1) by simp
  moreover have "current (mp_env pod) (the (gm_get desired n)) (gm_get (mp_live pod') n)"
    if "n \<in> set (m # names)" "gm_get drift n \<noteq> None" for n
    using that p(3,4) [of n] m s(2) Cons.prems(1) by (cases "n = m") auto
  moreover have "gm_get (mp_live pod') n = gm_get (mp_live pod) n"
    if "\<not> (n \<in> set (m # names) \<and> gm_get drift n \<noteq> None)" for n
    using that p(4) [of n] other [of n] by (cases "n = m") auto
  ultimately show ?case using p(2) s(2) by metis
qed simp

lemma mcp_pass_effect:
  assumes "sets_entries env" "me_unreadable env = None" "headers_ok (declared_servers aw)"
  shows "\<exists>pod'. reconcile_mcp_servers env k ns aw pod = (pod', None) \<and> reconcile_mcp_servers env k ns aw pod' = (pod', None)
    \<and> (let desired = desired_servers env k ns (declared_servers aw)
       in mcp_servers_drift (mp_env pod') desired (mp_live pod') = []
          \<and> (\<forall>n. gm_get (mcp_servers_drift (mp_env pod) desired (mp_live pod)) n = None
               \<longrightarrow> gm_get (mp_live pod') n = gm_get (mp_live pod) n))"
proof -
  let ?d = "desired_servers env k ns (declared_servers aw)"
  let ?drift = "mcp_servers_drift (mp_env pod) ?d (mp_live pod)"
  have wf: "gm_wf ?d" by (rule desired_servers_wf)
  have d: "distinct (map fst ?d)" using wf by (simp add: gm_wf_def)
  have r: "\<exists>srv data. gm_get ?d n = Some (render_mcp_server srv data) \<and> gm_wf (mcp_Headers srv)" if "n \<in> set (map fst ?d)" for n
    using that desired_rendered [OF assms(3)] gm_get_None_iff [of ?d n] by (cases "gm_get ?d n") auto
  obtain pod' where p: "run_all (set_server env ?d ?drift) pod (map fst ?d) = (pod', None)" "mp_env pod' = mp_env pod"
      "\<And>n. n \<in> set (map fst ?d) \<and> gm_get ?drift n \<noteq> None \<Longrightarrow> current (mp_env pod) (the (gm_get ?d n)) (gm_get (mp_live pod') n)"
      "\<And>n. \<not> (n \<in> set (map fst ?d) \<and> gm_get ?drift n \<noteq> None) \<Longrightarrow> gm_get (mp_live pod') n = gm_get (mp_live pod) n"
    using run_sets [OF assms(1) d r, of ?drift pod] by blast
  have "current (mp_env pod') want (gm_get (mp_live pod') n)" if "(n, want) \<in> set ?d" for n want
  proof (cases "gm_get ?drift n")
    case None
    have "gm_get ?d n = Some want" using that wf by (simp add: gm_get_wf)
    then have "current (mp_env pod) want (gm_get (mp_live pod) n)" using None by (auto simp: drift_get [OF wf] split: if_splits)
    then show ?thesis using p(2) p(4) [of n] None by simp
  next
    case (Some fs)
    have "gm_get ?d n = Some want" using that wf by (simp add: gm_get_wf)
    then show ?thesis using p(2) p(3) [of n] Some that by force
  qed
  then have none: "mcp_servers_drift (mp_env pod') ?d (mp_live pod') = []" unfolding drift_Nil_iff by blast
  have "run_all (set_server env ?d []) pod' ns = (pod', None)" for ns by (induction ns) (simp_all add: set_server_def)
  with p none show ?thesis
    unfolding reconcile_mcp_servers_def Let_def by (intro exI [of _ pod']) (simp add: assms(2))
qed



text \<open>
  The two places that decide how a credential reaches the gateway agree: the secret of a server is
  taken out of the hash that restarts the pod exactly when a reference in its headers was replaced by a
  value of this secret.
\<close>

theorem credential_delivery_agrees:
  assumes "mcp_EnvFromSecret srv \<noteq> []"
  shows "consumes_secret_via_config srv data \<longleftrightarrow> 0 < snd (resolve_header_credentials (mcp_Headers srv) data)"
proof -
  have pos: "0 < sum_list (map f xs) \<longleftrightarrow> (\<exists>x \<in> set xs. 0 < f x)" for f :: "string \<times> string \<Rightarrow> nat" and xs
    by (induction xs) auto
  have "list_ex P xs \<longleftrightarrow> 0 < length (filter P xs)" for P and xs :: "string list"
    by (induction xs) auto
  then show ?thesis
    using assms unfolding consumes_secret_via_config_def resolve_header_credentials_def
    by (simp add: pos list_ex_iff [of _ "mcp_Headers srv"] case_prod_unfold)
qed

subsection \<open>Servers of one name\<close>

definition no_refs :: "string \<Rightarrow> bool" where
  "no_refs s \<longleftrightarrow> \<not> str_contains s [CHR 0x24, CHR 0x7B]"

lemma current_url:
  assumes "current penv want (Some stored)" "gm_get want ''url'' = Some (JStr u)"
  shows "\<exists>have h. stored = JObj have \<and> gm_get have ''url'' = Some h \<and> json_equal penv (JStr u) h"
proof -
  obtain have' where st: "stored = JObj have'" using assms(1) by (cases stored) (auto simp: current_def differing_fields_def)
  have "sort xs = [] \<longleftrightarrow> xs = []" for xs :: "string list" by (metis set_sort set_empty)
  then have "filter (\<lambda>(k, w). case gm_get have' k of None \<Rightarrow> True | Some h \<Rightarrow> \<not> json_equal penv w h) want = []"
    using assms(1) by (simp add: st current_def differing_fields_def)
  moreover have "(''url'', JStr u) \<in> set want" using assms(2) by (rule map_of_SomeD)
  ultimately have "case gm_get have' ''url'' of None \<Rightarrow> False | Some h \<Rightarrow> json_equal penv (JStr u) h"
    unfolding filter_empty_conv by (fastforce split: option.splits)
  then show ?thesis using st by (auto split: option.splits)
qed

lemma current_urls_agree:
  assumes "current penv a live" "current penv b live" "gm_get a ''url'' = Some (JStr u)" "gm_get b ''url'' = Some (JStr v)"
    and "no_refs u" "no_refs v"
  shows "u = v"
proof -
  obtain stored where l: "live = Some stored" using assms(1) by (cases live) (auto simp: current_def differing_fields_def)
  obtain o1 h1 where 1: "stored = JObj o1" "gm_get o1 ''url'' = Some h1" "json_equal penv (JStr u) h1"
    using current_url [OF assms(1) [unfolded l] assms(3)] by blast
  obtain o2 h2 where 2: "stored = JObj o2" "gm_get o2 ''url'' = Some h2" "json_equal penv (JStr v) h2"
    using current_url [OF assms(2) [unfolded l] assms(4)] by blast
  have "h1 = h2" using 1(1,2) 2(1,2) by simp
  then show ?thesis using 1(3) 2(3) assms(5,6) by (auto simp: resolves_to_def no_refs_def split: json.split_asm)
qed

text \<open>
  The entries of all workstations of a gateway share one table, by the name of the server. When two
  workstations declare a server of the same name with different addresses, each pass of one makes the
  entry of the other differ again, so the two passes write the configuration in turn for ever.
\<close>

theorem same_server_name_fights:
  assumes "sets_entries env" "me_unreadable env = None" "headers_ok (declared_servers aw2)"
    and "reconcile_mcp_servers env k ns aw2 pod = (pod', None)"
    and "gm_get (desired_servers env k ns (declared_servers aw2)) n = Some b"
    and "gm_get (desired_servers env k ns srvs) n = Some a"
    and "gm_get a ''url'' = Some (JStr u)" "gm_get b ''url'' = Some (JStr v)" "no_refs u" "no_refs v" "u \<noteq> v"
  shows "gm_get (mcp_servers_drift (mp_env pod') (desired_servers env k ns srvs) (mp_live pod')) n \<noteq> None"
proof -
  have "mcp_servers_drift (mp_env pod') (desired_servers env k ns (declared_servers aw2)) (mp_live pod') = []"
    using mcp_pass_effect [OF assms(1-3), of k ns pod] assms(4) by (auto simp: Let_def)
  then have "current (mp_env pod') b (gm_get (mp_live pod') n)"
    using assms(5) by (auto simp: drift_Nil_iff dest: map_of_SomeD)
  moreover have "\<not> current (mp_env pod') a (gm_get (mp_live pod') n)" if "current (mp_env pod') b (gm_get (mp_live pod') n)"
    using current_urls_agree [OF _ that assms(7,8,9,10)] assms(11) by blast
  ultimately show ?thesis by (simp add: drift_get [OF desired_servers_wf] assms(6))
qed


subsection \<open>A concrete pod\<close>

lemma sort_key_wf: "gm_wf (sort_key fst xs) = gm_wf xs"
proof -
  have "mset (sort_key fst xs) = mset xs" by simp
  then have "image_mset fst (mset (sort_key fst xs)) = image_mset fst (mset xs)" by (rule arg_cong)
  then show ?thesis unfolding gm_wf_def using mset_eq_imp_distinct_iff [of "map fst (sort_key fst xs)" "map fst xs"] by simp
qed

lemma headers_equal:
  assumes "gm_wf hs" shows "json_equal penv (json_of_headers hs) (json_of_headers hs)"
proof -
  let ?h = "sort_key fst (map (\<lambda>(k, v). (k, JStr v)) hs)"
  have "gm_wf ?h" using assms sort_key_wf [of "map (\<lambda>(k, v). (k, JStr v)) hs"]
    by (simp add: gm_wf_map_values [of "\<lambda>k v. JStr v"])
  then have "gm_get ?h k = Some w" if "(k, w) \<in> set ?h" for k w using that by (simp only: gm_get_wf)
  moreover have "\<exists>s. w = JStr s" if "(k, w) \<in> set ?h" for k w using that by auto
  ultimately have "list_all (\<lambda>(k, w). case gm_get ?h k of None \<Rightarrow> False | Some h \<Rightarrow> json_equal penv w h) ?h"
    by (fastforce simp: list_all_iff)
  then show ?thesis by (simp add: json_of_headers_def json_map_def)
qed

lemma rendered_current:
  assumes "gm_wf (mcp_Headers srv)"
  shows "current penv (render_mcp_server srv data) (Some (JObj (render_mcp_server srv data)))"
proof -
  have e: "gm_wf (map (\<lambda>(k, v). (k, expand data v)) (mcp_Headers srv))"
    using assms by (simp add: gm_wf_map_values [of "\<lambda>k v. expand data v"])
  show ?thesis
    using headers_equal [OF assms, of penv] headers_equal [OF e, of penv]
    by (auto simp: current_def differing_fields_def render_mcp_server_def resolve_header_credentials_def Let_def)
qed

definition demo_mcp_env :: mcp_env where
  "demo_mcp_env = \<lparr>me_kube = demo_kube_env, me_set = (\<lambda>n v pod. (pod\<lparr>mp_live := gm_set (mp_live pod) n v\<rparr>, None)), me_unreadable = None\<rparr>"

lemma demo_mcp_env_ok: "sets_entries demo_mcp_env" "me_unreadable demo_mcp_env = None"
  by (auto simp: sets_entries_def demo_mcp_env_def rendered_current)

definition demo_server :: "string \<Rightarrow> mcp_server" where
  "demo_server url = \<lparr>mcp_Name = ''gh'', mcp_URL = url, mcp_Type = [], mcp_Headers = [(''Authorization'', ref_text ''TOKEN'')],
     mcp_EnvFromSecret = ''creds''\<rparr>"

definition demo_mcp_agent :: "string \<Rightarrow> workstation" where
  "demo_mcp_agent url = demo_workstation\<lparr>aw_Spec := (aw_Spec demo_workstation)\<lparr>aws_Tools :=
     Some \<lparr>ts_Allow = [], ts_MCPServers = [demo_server url]\<rparr>\<rparr>\<rparr>"

lemma demo_declared: "declared_servers (demo_mcp_agent url) = [demo_server url]" "headers_ok [demo_server url]"
  by (simp_all add: declared_servers_def demo_mcp_agent_def headers_ok_def demo_server_def gm_wf_def)


lemma credential_delivery_agrees_witness:
  "consumes_secret_via_config (demo_server ''http://a'') [(''TOKEN'', ''t'')]
   \<and> 0 < snd (resolve_header_credentials (mcp_Headers (demo_server ''http://a'')) [(''TOKEN'', ''t'')])"
proof -
  have "refs_in (ref_text ''TOKEN'') = [''TOKEN'']" by code_simp
  then have "consumes_secret_via_config (demo_server ''http://a'') [(''TOKEN'', ''t'')]"
    by (simp add: consumes_secret_via_config_def demo_server_def)
  then show ?thesis
    using credential_delivery_agrees [of "demo_server ''http://a''" "[(''TOKEN'', ''t'')]"] by (simp add: demo_server_def)
qed

lemma same_server_name_fights_witness:
  "\<exists>pod'. reconcile_mcp_servers demo_mcp_env empty_kube ''lab'' (demo_mcp_agent ''http://b'') \<lparr>mp_env = [], mp_live = []\<rparr> = (pod', None)
     \<and> gm_get (mcp_servers_drift (mp_env pod') (desired_servers demo_mcp_env empty_kube ''lab'' [demo_server ''http://a'']) (mp_live pod'))
          ''gh'' \<noteq> None"
proof -
  obtain pod' where p: "reconcile_mcp_servers demo_mcp_env empty_kube ''lab'' (demo_mcp_agent ''http://b'') \<lparr>mp_env = [], mp_live = []\<rparr> = (pod', None)"
    using mcp_pass_effect [OF demo_mcp_env_ok, of "demo_mcp_agent ''http://b''" empty_kube "''lab''" "\<lparr>mp_env = [], mp_live = []\<rparr>"]
    by (auto simp: demo_declared)
  have d: "gm_get (desired_servers demo_mcp_env empty_kube ''lab'' [demo_server u]) ''gh''
      = Some (render_mcp_server (demo_server u) (secret_data demo_mcp_env empty_kube ''lab'' (demo_server u)))" for u
    by (simp add: desired_servers_def) (simp add: demo_server_def)
  have u: "gm_get (render_mcp_server (demo_server u) data) ''url'' = Some (JStr u)" for u data
    by (simp add: render_mcp_server_def Let_def case_prod_unfold) (simp add: demo_server_def)
  have n: "no_refs ''http://a''" "no_refs ''http://b''" by (code_simp)+
  have "headers_ok (declared_servers (demo_mcp_agent ''http://b''))" by (simp add: demo_declared)
  from same_server_name_fights [OF demo_mcp_env_ok this p d [of "''http://b''", folded demo_declared(1)] d u u n] p show ?thesis by simp
qed

end
