(* ===== verification/Seeding.thy ===== *)
theory Seeding
  imports McpServers
begin

text \<open>
  How the workspace of an agent is filled: the Node script that \<open>reconcileSharedFull\<close> of
  \<open>agentworkstation_shared.go\<close> sends to the gateway pod, as a function on the directory of the agent. The
  skills that are baked into the image of the gateway are a parameter.
\<close>

record agent_dir =
  ad_files :: "string gomap"
  ad_skills :: "string gomap gomap"

text \<open>
  What the script is given: the files of the workspace, the rendered skills, and, when the workstation
  declares skills, the names it declares.
\<close>

record seed_input =
  si_writes :: "string gomap"
  si_inline :: "string gomap"
  si_restrict :: "string list option"

definition seed_input_of ::
    "workstation \<Rightarrow> string \<Rightarrow> resolved_skill list \<Rightarrow> seed_input" where
  "seed_input_of aw wiki rs =
     (let sp = aw_Spec aw; agent = om_Name (aw_meta aw); identity = default_if_empty (aws_DisplayName sp) agent;
          title = ''# '' @ identity @ paragraph_end;
          files = [(''IDENTITY.md'', title @ aws_Emoji sp @ '' '' @ identity @ [newline]),
                   (''SOUL.md'', title @ aws_SystemPrompt sp @ [newline])]
                  @ (if wiki = [] then [] else [(''WIKI.md'', wiki)])
      in \<lparr>si_writes = files,
          si_inline = foldl (\<lambda>m x. gm_set m (skill_name (rsk_Skill x)) (rsk_Rendered x)) [] rs,
          si_restrict = (if aws_SkillRefs sp = [] then None else Some (filter (\<lambda>n. n \<noteq> []) (map skr_Name (aws_SkillRefs sp))))\<rparr>)"

subsection \<open>The script\<close>

definition overlay :: "'v gomap \<Rightarrow> 'v gomap \<Rightarrow> 'v gomap" where
  "overlay a b = foldl (\<lambda>m (k, v). gm_set m k v) a b"

definition folder_of :: "string gomap gomap \<Rightarrow> string \<Rightarrow> string gomap" where
  "folder_of skills n = (case gm_get skills n of None \<Rightarrow> [] | Some f \<Rightarrow> f)"

text \<open>\<open>!restrict || restrict[n]\<close>: an inherited name is admitted by every object.\<close>

definition admits :: "string list option \<Rightarrow> string \<Rightarrow> bool" where
  "admits r n \<longleftrightarrow> (case r of None \<Rightarrow> True | Some ns \<Rightarrow> n \<in> set ns \<or> n \<in> set inherited)"

text \<open>The baked skills that are copied: whole folders over what is there.\<close>

definition from_image :: "seed_input \<Rightarrow> string gomap gomap \<Rightarrow> string gomap gomap" where
  "from_image inp catalog = filter (\<lambda>(n, files). admits (si_restrict inp) n) catalog"

definition copy_image :: "seed_input \<Rightarrow> string gomap gomap \<Rightarrow> string gomap gomap \<Rightarrow> string gomap gomap" where
  "copy_image inp catalog skills =
     foldl (\<lambda>sk (n, files). gm_set sk n (overlay (folder_of sk n) files)) skills (from_image inp catalog)"

text \<open>The rendered skills, except those whose name \<open>fromImage[n]\<close> finds.\<close>

definition additive_skills :: "seed_input \<Rightarrow> string gomap gomap \<Rightarrow> string gomap" where
  "additive_skills inp catalog =
     filter (\<lambda>(n, c). n \<notin> fst ` set (from_image inp catalog) \<and> n \<notin> set inherited) (si_inline inp)"

definition write_inline :: "seed_input \<Rightarrow> string gomap gomap \<Rightarrow> string gomap gomap \<Rightarrow> string gomap gomap" where
  "write_inline inp catalog skills =
     foldl (\<lambda>sk (n, c). gm_set sk n (gm_set (folder_of sk n) ''SKILL.md'' c)) skills (additive_skills inp catalog)"

definition kept_skills :: "seed_input \<Rightarrow> string gomap gomap \<Rightarrow> string set" where
  "kept_skills inp catalog =
     fst ` set (from_image inp catalog) \<union> fst ` set (additive_skills inp catalog)
     \<union> {n \<in> fst ` set (si_inline inp). admits (si_restrict inp) n}"

definition legacy_skill_file :: "string \<Rightarrow> bool" where
  "legacy_skill_file f \<longleftrightarrow> has_prefix f ''SKILL_'' \<and> has_suffix f ''.md''"

definition seed :: "seed_input \<Rightarrow> string gomap gomap \<Rightarrow> agent_dir \<Rightarrow> agent_dir" where
  "seed inp catalog dir =
     \<lparr>ad_files = filter (\<lambda>(f, c). \<not> legacy_skill_file f) (overlay (ad_files dir) (si_writes inp)),
      ad_skills = filter (\<lambda>(n, fs). n \<in> kept_skills inp catalog)
        (write_inline inp catalog (copy_image inp catalog (ad_skills dir)))\<rparr>"

subsection \<open>The workspace after seeding\<close>

lemma overlay_get: "gm_wf b \<Longrightarrow> gm_get (overlay a b) k = (case gm_get b k of None \<Rightarrow> gm_get a k | Some v \<Rightarrow> Some v)"
proof (induction b arbitrary: a)
  case (Cons p b)
  obtain j v where p: "p = (j, v)" by fastforce
  have "gm_wf b" "gm_get b j = None" using Cons.prems by (auto simp: p gm_wf_def gm_get_None_iff)
  with Cons.IH [of "gm_set a j v"] show ?case by (auto simp: p overlay_def split: option.split)
qed (simp add: overlay_def)

text \<open>A loop that rewrites the folder of each name.\<close>

lemma rewrite_folders:
  assumes "gm_wf xs"
  shows "gm_get (foldl (\<lambda>sk (n, c). gm_set sk n (g (folder_of sk n) c)) skills xs) k
    = (case gm_get xs k of None \<Rightarrow> gm_get skills k | Some c \<Rightarrow> Some (g (folder_of skills k) c))"
  using assms
proof (induction xs arbitrary: skills)
  case (Cons p xs)
  obtain j c where p: "p = (j, c)" by fastforce
  have "gm_wf xs" "gm_get xs j = None" using Cons.prems by (auto simp: p gm_wf_def gm_get_None_iff)
  with Cons.IH [of "gm_set skills j (g (folder_of skills j) c)"] show ?case
    by (auto simp: p folder_of_def split: option.split)
qed simp

lemma gm_wf_filter: "gm_wf m \<Longrightarrow> gm_wf (filter P m)"
  by (simp add: gm_wf_def distinct_map_filter)

lemma gm_get_filter: "gm_get (filter (\<lambda>(k, v). P k) m) k = (if P k then gm_get m k else None)"
  by (induction m) auto

lemma gm_wf_inline: "gm_wf (si_inline (seed_input_of aw wiki rs))"
  unfolding seed_input_of_def Let_def by simp (rule foldl_inv; simp)

text \<open>The folder of a name: baked, then rendered, then nothing.\<close>

definition seeded_folder :: "seed_input \<Rightarrow> string gomap gomap \<Rightarrow> agent_dir \<Rightarrow> string \<Rightarrow> string gomap option" where
  "seeded_folder inp catalog dir n =
     (case gm_get catalog n of
        Some files \<Rightarrow> (if admits (si_restrict inp) n then Some (overlay (folder_of (ad_skills dir) n) files)
                       else map_option (gm_set (folder_of (ad_skills dir) n) ''SKILL.md'') (gm_get (si_inline inp) n))
      | None \<Rightarrow> map_option (gm_set (folder_of (ad_skills dir) n) ''SKILL.md'') (gm_get (si_inline inp) n))"

lemma seed_folder:
  assumes "gm_wf catalog" "gm_wf (si_inline inp)" "n \<notin> set inherited"
  shows "gm_get (ad_skills (seed inp catalog dir)) n = seeded_folder inp catalog dir n"
proof -
  have im: "gm_get (from_image inp catalog) k = (if admits (si_restrict inp) k then gm_get catalog k else None)" for k
    by (simp add: from_image_def gm_get_filter)
  have ad: "gm_get (additive_skills inp catalog) k = (if k \<notin> fst ` set (from_image inp catalog) \<and> k \<notin> set inherited
      then gm_get (si_inline inp) k else None)" for k
    by (simp add: additive_skills_def gm_get_filter)
  have keys: "k \<in> fst ` set m \<longleftrightarrow> gm_get m k \<noteq> None" for k and m :: "'b gomap"
    by (simp add: gm_get_None_iff)
  have wf: "gm_wf (from_image inp catalog)" "gm_wf (additive_skills inp catalog)"
    using assms(1,2) by (simp_all add: from_image_def additive_skills_def gm_wf_filter)
  have copy: "gm_get (copy_image inp catalog sk) k = (case gm_get (from_image inp catalog) k of None \<Rightarrow> gm_get sk k
      | Some fs \<Rightarrow> Some (overlay (folder_of sk k) fs))" for sk k
    unfolding copy_image_def by (rule rewrite_folders [OF wf(1), of overlay])
  have wr: "gm_get (write_inline inp catalog sk) k = (case gm_get (additive_skills inp catalog) k of None \<Rightarrow> gm_get sk k
      | Some c \<Rightarrow> Some (gm_set (folder_of sk k) ''SKILL.md'' c))" for sk k
    unfolding write_inline_def by (rule rewrite_folders [OF wf(2), of "\<lambda>f c. gm_set f ''SKILL.md'' c"])
  show ?thesis
    unfolding seed_def agent_dir.simps gm_get_filter wr copy folder_of_def seeded_folder_def kept_skills_def
    using assms(3) by (auto simp: im ad keys folder_of_def copy split: option.split if_splits)
qed

subsection \<open>What an agent finds in its workspace\<close>

lemma inline_get:
  "gm_get (si_inline (seed_input_of aw wiki rs)) n
     = (case filter (\<lambda>x. skill_name (rsk_Skill x) = n) rs of [] \<Rightarrow> None | xs \<Rightarrow> Some (rsk_Rendered (last xs)))"
  unfolding seed_input_of_def Let_def seed_input.simps by (induction rs rule: rev_induct) (auto split: list.splits)

lemma inline_unique:
  assumes "distinct (map (skill_name \<circ> rsk_Skill) rs)" "x \<in> set rs"
  shows "gm_get (si_inline (seed_input_of aw wiki rs)) (skill_name (rsk_Skill x)) = Some (rsk_Rendered x)"
proof -
  obtain us vs where rs: "rs = us @ x # vs" using split_list [OF assms(2)] by blast
  let ?f = "skill_name \<circ> rsk_Skill"
  have "?f x \<notin> ?f ` set us" "?f x \<notin> ?f ` set vs" using assms(1) unfolding rs by simp_all
  then have "?f y \<noteq> ?f x" if "y \<in> set us \<or> y \<in> set vs" for y using that by (metis imageI)
  then have "filter (\<lambda>y. skill_name (rsk_Skill y) = skill_name (rsk_Skill x)) us = []"
    "filter (\<lambda>y. skill_name (rsk_Skill y) = skill_name (rsk_Skill x)) vs = []"
    unfolding filter_empty_conv comp_apply by blast+
  then have "filter (\<lambda>y. skill_name (rsk_Skill y) = skill_name (rsk_Skill x)) rs = [x]" by (simp add: rs)
  then show ?thesis by (simp add: inline_get)
qed

lemma inline_names:
  "gm_get (si_inline (seed_input_of aw wiki rs)) n \<noteq> None \<longleftrightarrow> n \<in> (skill_name \<circ> rsk_Skill) ` set rs"
proof -
  have "filter (\<lambda>x. skill_name (rsk_Skill x) = n) rs = [] \<longleftrightarrow> n \<notin> (skill_name \<circ> rsk_Skill) ` set rs"
    by (auto simp: filter_empty_conv)
  then show ?thesis by (auto simp: inline_get split: list.split)
qed

lemma restrict_declared:
  "aws_SkillRefs (aw_Spec aw) \<noteq> [] \<Longrightarrow> si_restrict (seed_input_of aw wiki rs)
     = Some (filter (\<lambda>n. n \<noteq> []) (map skr_Name (aws_SkillRefs (aw_Spec aw))))"
  by (simp add: seed_input_of_def Let_def)

text \<open>The names that a workstation declares.\<close>

definition declared_skills :: "workstation \<Rightarrow> string set" where
  "declared_skills aw = {n \<in> skr_Name ` set (aws_SkillRefs (aw_Spec aw)). n \<noteq> []}"

lemma listed_skills:
  assumes "list_ref_skills env k tpl aw st = (st', rs, un)"
  shows "distinct (map (skill_name \<circ> rsk_Skill) rs)" "(skill_name \<circ> rsk_Skill) ` set rs \<subseteq> declared_skills aw"
proof -
  obtain rs1 where r: "resolve_refs env k tpl aw {} (aws_SkillRefs (aw_Spec aw)) st = (st', rs1, un)" "rs = by_skill_name rs1"
    using assms by (auto simp: list_ref_skills_def split: prod.splits)
  show "distinct (map (skill_name \<circ> rsk_Skill) rs)" using resolve_refs_names [OF r(1)] by (simp add: r(2))
  show "(skill_name \<circ> rsk_Skill) ` set rs \<subseteq> declared_skills aw"
    using resolve_refs_names [OF r(1)] by (auto simp: r(2) open_names_def declared_skills_def image_comp)
qed

text \<open>
  C20: A workstation that declares its skills finds a folder for each declared name that is baked into the
  image or was resolved, and for no other name. The text of a folder is the baked one when the image has
  a skill of this name, and the resolved one only otherwise: a version or a digest that the reference
  pins does not decide, although the status of the workstation reports it as delivered.
\<close>

theorem declared_skills_seeded:
  assumes "list_ref_skills env k tpl aw st = (st', rs, un)" "aws_SkillRefs (aw_Spec aw) \<noteq> []"
    and "gm_wf catalog" "\<forall>(m, files) \<in> set catalog. gm_wf files" "n \<notin> set inherited"
  shows "(gm_get (ad_skills (seed (seed_input_of aw wiki rs) catalog dir)) n \<noteq> None
      \<longleftrightarrow> n \<in> declared_skills aw \<and> (gm_get catalog n \<noteq> None \<or> n \<in> (skill_name \<circ> rsk_Skill) ` set rs))
    \<and> (\<forall>x \<in> set rs. skill_name (rsk_Skill x) = n \<longrightarrow>
         gm_get (folder_of (ad_skills (seed (seed_input_of aw wiki rs) catalog dir)) n) ''SKILL.md''
           = (case gm_get catalog n of
                None \<Rightarrow> Some (rsk_Rendered x)
              | Some files \<Rightarrow> (case gm_get files ''SKILL.md'' of
                    None \<Rightarrow> gm_get (folder_of (ad_skills dir) n) ''SKILL.md'' | Some c \<Rightarrow> Some c)))"
proof -
  let ?inp = "seed_input_of aw wiki rs"
  note f = seed_folder [OF assms(3) gm_wf_inline assms(5)]
  note l = listed_skills [OF assms(1)]
  have adm: "admits (si_restrict ?inp) n \<longleftrightarrow> n \<in> declared_skills aw"
    using assms(5) by (auto simp: restrict_declared [OF assms(2)] admits_def declared_skills_def)
  have names: "gm_get (si_inline ?inp) n \<noteq> None \<longleftrightarrow> n \<in> (skill_name \<circ> rsk_Skill) ` set rs" by (rule inline_names)
  have "gm_get (ad_skills (seed ?inp catalog dir)) n \<noteq> None
      \<longleftrightarrow> n \<in> declared_skills aw \<and> (gm_get catalog n \<noteq> None \<or> n \<in> (skill_name \<circ> rsk_Skill) ` set rs)"
    using names l(2) by (auto simp: f seeded_folder_def adm split: option.split)
  moreover have "gm_get (folder_of (ad_skills (seed ?inp catalog dir)) n) ''SKILL.md''
           = (case gm_get catalog n of
                None \<Rightarrow> Some (rsk_Rendered x)
              | Some files \<Rightarrow> (case gm_get files ''SKILL.md'' of
                    None \<Rightarrow> gm_get (folder_of (ad_skills dir) n) ''SKILL.md'' | Some c \<Rightarrow> Some c))"
    if x: "x \<in> set rs" "skill_name (rsk_Skill x) = n" for x
  proof (cases "gm_get catalog n")
    case None
    then show ?thesis using inline_unique [OF l(1) x(1), of aw wiki] x(2) by (simp add: folder_of_def f seeded_folder_def)
  next
    case (Some files)
    have "n \<in> declared_skills aw" using l(2) x by auto
    moreover have "gm_wf files" using assms(4) Some by (auto dest: map_of_SomeD)
    ultimately show ?thesis using Some by (simp add: folder_of_def f seeded_folder_def adm overlay_get split: option.split)
  qed
  ultimately show ?thesis by blast
qed

text \<open>
  Seeding a workspace that was just seeded from the same skills changes no file and no folder.
\<close>

theorem seeding_idempotent:
  assumes "gm_wf catalog" "\<forall>(m, files) \<in> set catalog. gm_wf files" "n \<notin> set inherited"
    and once_def: "once = seed (seed_input_of aw wiki rs) catalog dir"
    and twice_def: "twice = seed (seed_input_of aw wiki rs) catalog once"
  shows "gm_get (ad_files twice) f = gm_get (ad_files once) f
    \<and> (gm_get (ad_skills twice) n = None \<longleftrightarrow> gm_get (ad_skills once) n = None)
    \<and> gm_get (folder_of (ad_skills twice) n) g = gm_get (folder_of (ad_skills once) n) g"
proof -
  let ?inp = "seed_input_of aw wiki rs"
  have w: "gm_wf (si_writes ?inp)" by (auto simp: seed_input_of_def Let_def gm_wf_def)
  have "gm_get (ad_files twice) f = gm_get (ad_files once) f"
    by (simp add: twice_def once_def seed_def gm_get_filter overlay_get [OF w] split: option.split)
  moreover have "gm_get (ad_skills d1) n = None \<longleftrightarrow> gm_get (ad_skills d2) n = None"
    if "d1 = seed ?inp catalog e1" "d2 = seed ?inp catalog e2" for d1 d2 e1 e2
    unfolding that seed_folder [OF assms(1) gm_wf_inline assms(3)] by (simp add: seeded_folder_def split: option.split)
  moreover have "gm_get (folder_of (ad_skills twice) n) g = gm_get (folder_of (ad_skills once) n) g"
  proof -
    have files: "gm_wf files" if "gm_get catalog n = Some files" for files using assms(2) that by (auto dest: map_of_SomeD)
    have once: "gm_get (ad_skills once) n = seeded_folder ?inp catalog dir n"
      "gm_get (ad_skills twice) n = seeded_folder ?inp catalog once n"
      unfolding twice_def once_def by (rule seed_folder [OF assms(1) gm_wf_inline assms(3)])+
    show ?thesis
      by (cases "gm_get catalog n"; cases "gm_get (si_inline ?inp) n")
        (auto simp: folder_of_def once seeded_folder_def overlay_get files split: option.split)
  qed
  ultimately show ?thesis unfolding twice_def once_def by blast
qed

subsection \<open>A concrete workspace\<close>

definition demo_baked :: "string gomap gomap" where
  "demo_baked = [(''x'', [(''SKILL.md'', ''baked'')]), (''gone'', [(''SKILL.md'', ''baked'')]), (''other'', [])]"

definition empty_dir :: agent_dir where
  "empty_dir = \<lparr>ad_files = [], ad_skills = []\<rparr>"

lemma demo_declared_skills: "declared_skills demo_skill_agent = {''x'', ''gone''}" "aws_SkillRefs (aw_Spec demo_skill_agent) \<noteq> []"
  by (auto simp: declared_skills_def demo_skill_agent_def demo_agent_def)

lemma demo_baked_ok: "gm_wf demo_baked" "\<forall>(m, files) \<in> set demo_baked. gm_wf files"
  by (simp_all add: demo_baked_def gm_wf_def)

lemma declared_skills_seeded_witness:
  "\<exists>st' x un. list_ref_skills (demo_package_env ''# hi'') demo_skill_kube no_templates demo_skill_agent ((), []) = (st', [x], [un])
     \<and> sks_PackageRef (sk_Source (skl_Spec (rsk_Skill x))) = Some (demo_pinned ''x:1'' ''# hi'')
     \<and> gm_get (folder_of (ad_skills (seed (seed_input_of demo_skill_agent [] [x]) demo_baked empty_dir)) (skill_name (rsk_Skill x)))
         ''SKILL.md'' = Some ''baked''"
proof -
  obtain st' x un where r: "list_ref_skills (demo_package_env ''# hi'') demo_skill_kube no_templates demo_skill_agent ((), [])
      = (st', [x], [un])" "sks_PackageRef (sk_Source (skl_Spec (rsk_Skill x))) = Some (demo_pinned ''x:1'' ''# hi'')"
    using demo_list_ref_skills by blast
  have n: "skill_name (rsk_Skill x) = ''x'' \<or> skill_name (rsk_Skill x) = ''gone''"
    using listed_skills(2) [OF r(1)] by (simp add: demo_declared_skills)
  then have i: "skill_name (rsk_Skill x) \<notin> set inherited" by (auto simp: inherited_def)
  have "gm_get (folder_of (ad_skills (seed (seed_input_of demo_skill_agent [] [x]) demo_baked empty_dir)) (skill_name (rsk_Skill x)))
         ''SKILL.md'' = Some ''baked''"
    using declared_skills_seeded [OF r(1) demo_declared_skills(2) demo_baked_ok i, of "[]" empty_dir] n
    by (auto simp: demo_baked_def)
  with r show ?thesis by blast
qed

lemma seeding_idempotent_witness:
  "\<forall>f. gm_get (ad_files (seed (seed_input_of demo_skill_agent [] []) demo_baked (seed (seed_input_of demo_skill_agent [] []) demo_baked empty_dir))) f
     = gm_get (ad_files (seed (seed_input_of demo_skill_agent [] []) demo_baked empty_dir)) f"
proof -
  have "''x'' \<notin> set inherited" by (simp add: inherited_def)
  with seeding_idempotent [OF demo_baked_ok this refl refl] show ?thesis by blast
qed

end
