(* ===== verification/Spec2Isabelle.thy ===== *)
theory Spec2Isabelle
  imports CatalogRoutes GatewayConnections LoopBudget Seeding
begin

text \<open>
  \<^bold>\<open>A verification development for the agent-office operator.\<close>

  The operator is a set of Kubernetes controllers written in Go. This development models the one with
  the most logic of its own, the controller of \<open>AutoResearchProject\<close>: a loop that trains a model again
  and again, each round with a configuration chosen from what the earlier rounds gave, and that keeps
  its memory in a wiki under git. Definitions follow the source function by function and keep its
  names; \<open>string + 'a\<close> is Go's \<open>('a, error)\<close>, and every early return is a branch.

  \<^bold>\<open>Parts and theories\<close>

  \<^item> \<open>Prelude\<close>, \<open>GoFloat\<close>: Go's strings, integers, maps and floats, the formatting and parsing functions
    of its library that the code calls, results, and the locale \<open>frame\<close> for loops whose every step
    keeps something. \<open>Json\<close>, \<open>Sha256\<close>: \<open>encoding/json\<close> as far as it is used, and \<open>crypto/sha256\<close>.
  \<^item> \<open>ApiTypes\<close>, \<open>AgentTypes\<close>: the resources of \<open>api/v1alpha1\<close> that the loop reads or writes.
  \<^item> \<open>SearchSpace\<close> (\<open>internal/search/search.go\<close>), \<open>Hypotheses\<close> (\<open>hypotheses.go\<close>), \<open>Stagnation\<close>
    (\<open>stagnation.go\<close>), \<open>History\<close> (\<open>history.go\<close>), \<open>SearchSeed\<close>: the search kernel. The locale
    \<open>file_lister\<close> is what the history loader asks of a wiki.
  \<^item> \<open>Wiki\<close> (\<open>internal/wiki/transaction.go\<close>): a transaction on a git remote; it interprets \<open>file_lister\<close>.
  \<^item> \<open>ProjectStatus\<close>, \<open>Qlora\<close>, \<open>Pages\<close>, \<open>Dashboard\<close>, \<open>Proposal\<close>: conditions and records of the status,
    training configurations, wiki pages, and \<open>requestProposal\<close>
    (\<open>internal/controller/autoresearchproject_controller.go\<close>, \<open>_agent.go\<close>, \<open>_dashboard.go\<close>).
  \<^item> \<open>DspClient\<close> (\<open>internal/dsp/client.go\<close>), \<open>Operator\<close>, \<open>Trainer\<close>, \<open>Dsp\<close>: the client of the pipeline server,
    the state and the surroundings of the controller, the results that a trainer pod prints, the
    verification of an adapter in a registry, registration, submission and culling
    (\<open>autoresearchproject_dsp.go\<close>).
  \<^item> \<open>Drain\<close>: \<open>drainOpenJobs\<close>. \<open>MlmdTables\<close>, \<open>Janitor\<close>: \<open>autoresearchproject_mlmd_cleanup.go\<close>.
    \<open>Strategist\<close>: \<open>autoresearchproject_strategist.go\<close>. \<open>Backfill\<close>: \<open>autoresearchproject_backfill.go\<close>.
  \<^item> \<open>Reconcile\<close>: one tick, composed of all the above in the order of the code. \<open>LoopBudget\<close>: any number
    of ticks, as an inductive set of reachable states.

  \<^bold>\<open>How a tick runs.\<close> \<open>reconcile\<close> takes the surroundings (\<open>op_env\<close>), the search library (\<open>search_env\<close>) and
  the state (\<open>op_state\<close>): the outside world, the wiki remote, the cached pipeline clients, the stored
  project, the metadata databases and the times of their last clean-up. It polls the open runs
  (\<open>observe_runs\<close>), passes \<open>gates\<close>, and if they say \<open>Proceed\<close> it completes the wiki, asks the strategist,
  takes a proposal, submits a run and stores the new status (\<open>submit_round\<close>). The stored project changes
  only through \<open>update_status\<close>; what a tick computes and does not store is lost, as in the code.

  \<^bold>\<open>What is proved\<close>

  \<^item> The loop: limits hold in every reachable state; a submission implies that the gates were passed;
    what polling books is stored. Proof by rule induction over \<open>reachable\<close>, with frame lemmas for every
    operation between two saves.
  \<^item> Proposals: bounds, success without faults, publication, and the effect of a failure; the adjusted
    search space is the pointwise adjustment and only narrows; when a suggestion exists, and two
    consequences of reseeding the random source in every round.
  \<^item> The wiki: transactions read what was published, stage only what was written, push by force; the
    history loader returns exactly the observed rounds; pages and log round-trip.
  \<^item> Runs: the drain takes off exactly the finished runs and counts failures; a run without a result
    is published with the loss 0. The strategist publishes only what parses; the backfill leaves known
    rounds alone.
  \<^item> The metadata database: live executions are spared, keys stay intact whatever step fails, pruning
    keeps the newest; one lemma shows that an error other than 404 can pass for a deleted run.

  \<^bold>\<open>Parameters.\<close> Code that is not in the repository is an argument: the optimiser and the random source
  (\<open>search_env\<close>), YAML (its decoder and encoder, also in \<open>search_env\<close>), git's faults (\<open>wiki_env\<close>), the
  HTTP transport (\<open>http_env\<close>), the API server, the exec stream, the clock and the faults of a database
  session (\<open>op_env\<close>). The token of the GitHub App is \<open>cl_mint\<close> of \<open>cluster\<close>. Hypotheses about them are
  named (\<open>goptuna_ok\<close>, \<open>gorand_ok\<close>, \<open>unmarshal_ok\<close>, \<open>accepts_updates\<close>, \<open>limits_ok\<close>).

  \<^bold>\<open>Bounds.\<close> Fields of 32 bits that the code increments wrap with \<open>to_int32\<close>; the budget theorem
  assumes that the two limits together fit 32 bits. A \<open>float64\<close> is a rational or one of three special
  values, without signed zeros; arithmetic rounds to 53 bits where the code computes. A tick reads the
  clock once, and the durations of calls are not modelled; timeouts are errors of the surroundings.
  \<open>strings.ToLower\<close> is modelled on ASCII letters. No definition uses fuel: every loop of the code
  runs over a list or shrinks its argument.

  \<^bold>\<open>Not modelled.\<close> Logging; concurrency of two controllers on one project; the earlier Job transport
  (\<open>submitTrainerJob\<close>), which the loop no longer calls; reading the metadata tables in an order other
  than that of the list; and the other controllers of the operator: gateways, workstations, knowledge
  bases, catalogue, skills, memory modules, model connections, Backstage export, start-up. Their logic
  is next in the plan: schedules, registrations and skills of workstations, resolution of catalogue
  packs and versions, git synchronisation of knowledge bases.
\<close>

end
